(* ===== verification/CCIP_Prelude.thy ===== *)
theory CCIP_Prelude
  imports Complex_Main
begin

text \<open>
  Shared vocabulary of the development.

  \<^item> Programs.  A service method of the API reads and writes the data base, may throw, and what it
    wrote before the throw stays written (only \<^verbatim>\<open>$transaction\<close> undoes it).  So a method is a
    function from the store to a pair of an outcome (\<open>Inl\<close> the exception, \<open>Inr\<close> the value) and the
    store it leaves: the type \<open>prog\<close>, with sequencing, guards, loops and exception handlers.
  \<^item> Weakest preconditions.  \<open>wp m Q E s\<close> says that \<open>m\<close>, run in \<open>s\<close>, ends in a value and store with
    \<open>Q\<close> or in an exception and store with \<open>E\<close>.  Its equations are collected in \<open>wp_simps\<close>.
  \<^item> Step relations.  The locale \<open>step_rel\<close> is the contract between the methods of a service and a
    relation between the store before and after: a reflexive, transitive relation holds across a
    whole method as soon as it holds across each of its writes.
  \<^item> Tables.  The Prisma queries the services use, on a table kept as the list of its rows.
  \<^item> Numbers of JavaScript, as exact rationals.
\<close>

named_theorems wp_simps \<open>equations that push wp through a program\<close>
named_theorems table_simps \<open>how the table queries act on updated tables\<close>

section \<open>Programs with state and exceptions\<close>

type_synonym ('s, 'e, 'a) prog = "'s \<Rightarrow> ('e + 'a) \<times> 's"

definition ret :: "'a \<Rightarrow> ('s, 'e, 'a) prog" where
  "ret x s = (Inr x, s)"

definition throw :: "'e \<Rightarrow> ('s, 'e, 'a) prog" where
  "throw e s = (Inl e, s)"

definition gets :: "('s \<Rightarrow> 'a) \<Rightarrow> ('s, 'e, 'a) prog" where
  "gets f s = (Inr (f s), s)"

definition modify :: "('s \<Rightarrow> 's) \<Rightarrow> ('s, 'e, unit) prog" where
  "modify f s = (Inr (), f s)"

definition bind :: "('s, 'e, 'a) prog \<Rightarrow> ('a \<Rightarrow> ('s, 'e, 'b) prog) \<Rightarrow> ('s, 'e, 'b) prog" where
  "bind m k s = (case m s of (Inl e, s') \<Rightarrow> (Inl e, s') | (Inr x, s') \<Rightarrow> k x s')"

definition andThen :: "('s, 'e, 'a) prog \<Rightarrow> ('s, 'e, 'b) prog \<Rightarrow> ('s, 'e, 'b) prog" where
  "andThen m k = bind m (\<lambda>_. k)"

text \<open>\<^verbatim>\<open>if (!b) throw e\<close>\<close>

definition guard :: "bool \<Rightarrow> 'e \<Rightarrow> ('s, 'e, unit) prog" where
  "guard b e = (if b then ret () else throw e)"

definition whenM :: "bool \<Rightarrow> ('s, 'e, unit) prog \<Rightarrow> ('s, 'e, unit) prog" where
  "whenM b m = (if b then m else ret ())"

text \<open>\<^verbatim>\<open>const x = \<dots>; if (!x) throw e\<close>\<close>

definition getsOr :: "('s \<Rightarrow> 'a option) \<Rightarrow> 'e \<Rightarrow> ('s, 'e, 'a) prog" where
  "getsOr f e s = (case f s of None \<Rightarrow> (Inl e, s) | Some x \<Rightarrow> (Inr x, s))"

text \<open>A guard on the store.\<close>

definition guardS :: "('s \<Rightarrow> bool) \<Rightarrow> 'e \<Rightarrow> ('s, 'e, unit) prog" where
  "guardS b e s = (if b s then (Inr (), s) else (Inl e, s))"

text \<open>\<^verbatim>\<open>try { m } catch (e) { h e }\<close>\<close>

definition tryCatch :: "('s, 'e, 'a) prog \<Rightarrow> ('e \<Rightarrow> ('s, 'e, 'a) prog) \<Rightarrow> ('s, 'e, 'a) prog" where
  "tryCatch m h s = (case m s of (Inl e, s') \<Rightarrow> h e s' | (Inr x, s') \<Rightarrow> (Inr x, s'))"

text \<open>\<^verbatim>\<open>for (const x of xs) { \<dots> }\<close>, and the same with a variable carried along.\<close>

fun forEach :: "'x list \<Rightarrow> ('x \<Rightarrow> ('s, 'e, unit) prog) \<Rightarrow> ('s, 'e, unit) prog" where
  "forEach [] f = ret ()"
| "forEach (x # xs) f = andThen (f x) (forEach xs f)"

fun foldEach :: "'x list \<Rightarrow> 'b \<Rightarrow> ('x \<Rightarrow> 'b \<Rightarrow> ('s, 'e, 'b) prog) \<Rightarrow> ('s, 'e, 'b) prog" where
  "foldEach [] acc f = ret acc"
| "foldEach (x # xs) acc f = bind (f x acc) (\<lambda>acc'. foldEach xs acc' f)"

text \<open>
  \<^verbatim>\<open>$transaction(async (tx) => m)\<close>: on an exception the store goes back to what it was, but for
  the part that \<open>keep\<close> takes over from the abandoned store (writes made on another connection).
\<close>

definition transactionally ::
  "('s \<Rightarrow> 's \<Rightarrow> 's) \<Rightarrow> ('s, 'e, 'a) prog \<Rightarrow> ('s, 'e, 'a) prog" where
  "transactionally keep m s = (case m s of (Inl e, s') \<Rightarrow> (Inl e, keep s' s) | (Inr x, s') \<Rightarrow> (Inr x, s'))"

lemmas prog_defs =
  ret_def throw_def gets_def modify_def bind_def andThen_def guard_def whenM_def getsOr_def
  guardS_def tryCatch_def transactionally_def

lemma bind_ret [simp]: "bind (ret x) k = k x"
  by (rule ext) (simp add: prog_defs)

lemma bind_throw [simp]: "bind (throw e) k = throw e"
  by (rule ext) (simp add: prog_defs)

lemma bind_assoc: "bind (bind m k) h = bind m (\<lambda>x. bind (k x) h)"
  by (rule ext) (simp add: bind_def split: prod.splits sum.splits)

lemma bind_Inr [simp]: "m s = (Inr x, s') \<Longrightarrow> bind m k s = k x s'"
  by (simp add: bind_def)

lemma bind_Inl [simp]: "m s = (Inl e, s') \<Longrightarrow> bind m k s = (Inl e, s')"
  by (simp add: bind_def)

lemma bind_eq_Inr:
  "bind m k s = (Inr y, s') \<longleftrightarrow> (\<exists>x t. m s = (Inr x, t) \<and> k x t = (Inr y, s'))"
  by (auto simp: bind_def split: prod.splits sum.splits)

lemma gets_run [simp]: "gets f s = (Inr (f s), s)"
  by (simp add: gets_def)

lemma modify_run [simp]: "modify f s = (Inr (), f s)"
  by (simp add: modify_def)

lemma ret_run: "ret x s = (Inr x, s)"
  by (simp add: ret_def)

lemma throw_run: "throw e s = (Inl e, s)"
  by (simp add: throw_def)

text \<open>Running a program on a given store: whether it returns, what, and what it leaves.\<close>

definition returns :: "('s, 'e, 'a) prog \<Rightarrow> 's \<Rightarrow> bool" where
  "returns m s = (case m s of (Inl _, _) \<Rightarrow> False | (Inr _, _) \<Rightarrow> True)"

definition result_of :: "('s, 'e, 'a) prog \<Rightarrow> 's \<Rightarrow> 'a" where
  "result_of m s = (case m s of (Inr x, _) \<Rightarrow> x)"

definition error_of :: "('s, 'e, 'a) prog \<Rightarrow> 's \<Rightarrow> 'e option" where
  "error_of m s = (case m s of (Inl e, _) \<Rightarrow> Some e | (Inr _, _) \<Rightarrow> None)"

definition final :: "('s, 'e, 'a) prog \<Rightarrow> 's \<Rightarrow> 's" where
  "final m s = snd (m s)"

lemma returns_run: "returns m s \<Longrightarrow> m s = (Inr (result_of m s), final m s)"
  by (auto simp: returns_def result_of_def final_def split: prod.splits sum.splits)

lemma error_run: "error_of m s = Some e \<Longrightarrow> m s = (Inl e, final m s)"
  by (auto simp: error_of_def final_def split: prod.splits sum.splits)

section \<open>Weakest preconditions\<close>

definition wp ::
  "('s, 'e, 'a) prog \<Rightarrow> ('a \<Rightarrow> 's \<Rightarrow> bool) \<Rightarrow> ('e \<Rightarrow> 's \<Rightarrow> bool) \<Rightarrow> 's \<Rightarrow> bool" where
  "wp m Q E s = (case m s of (Inl e, s') \<Rightarrow> E e s' | (Inr x, s') \<Rightarrow> Q x s')"

lemma wp_ret [wp_simps]: "wp (ret x) Q E = Q x"
  by (rule ext) (simp add: wp_def ret_def)

lemma wp_throw [wp_simps]: "wp (throw e) Q E = E e"
  by (rule ext) (simp add: wp_def throw_def)

lemma wp_gets [wp_simps]: "wp (gets f) Q E = (\<lambda>s. Q (f s) s)"
  by (rule ext) (simp add: wp_def)

lemma wp_modify [wp_simps]: "wp (modify f) Q E = (\<lambda>s. Q () (f s))"
  by (rule ext) (simp add: wp_def)

lemma wp_bind [wp_simps]: "wp (bind m k) Q E = wp m (\<lambda>x. wp (k x) Q E) E"
  by (rule ext) (auto simp: wp_def bind_def split: prod.splits sum.splits)

lemma wp_andThen [wp_simps]: "wp (andThen m k) Q E = wp m (\<lambda>_. wp k Q E) E"
  by (simp add: andThen_def wp_bind)

lemma wp_guard [wp_simps]: "wp (guard b e) Q E = (if b then Q () else E e)"
  by (simp add: guard_def wp_ret wp_throw)

lemma wp_whenM [wp_simps]: "wp (whenM b m) Q E = (if b then wp m Q E else Q ())"
  by (simp add: whenM_def wp_ret)

lemma wp_getsOr [wp_simps]:
  "wp (getsOr f e) Q E = (\<lambda>s. case f s of None \<Rightarrow> E e s | Some x \<Rightarrow> Q x s)"
  by (rule ext) (simp add: wp_def getsOr_def split: option.splits)

lemma wp_guardS [wp_simps]: "wp (guardS b e) Q E = (\<lambda>s. if b s then Q () s else E e s)"
  by (rule ext) (simp add: wp_def guardS_def)

lemma wp_tryCatch [wp_simps]: "wp (tryCatch m h) Q E = wp m Q (\<lambda>e. wp (h e) Q E)"
  by (rule ext) (auto simp: wp_def tryCatch_def split: prod.splits sum.splits)

lemma wp_transactionally [wp_simps]:
  "wp (transactionally keep m) Q E = (\<lambda>s. wp m Q (\<lambda>e s'. E e (keep s' s)) s)"
  by (rule ext) (auto simp: wp_def transactionally_def split: prod.splits sum.splits)

lemma wp_if [wp_simps]: "wp (if b then m else m') Q E = (if b then wp m Q E else wp m' Q E)"
  by simp

lemma wp_case_option [wp_simps]:
  "wp (case x of None \<Rightarrow> m | Some y \<Rightarrow> k y) Q E
     = (case x of None \<Rightarrow> wp m Q E | Some y \<Rightarrow> wp (k y) Q E)"
  by (simp split: option.split)

lemma wp_mono:
  "wp m Q E s \<Longrightarrow> (\<And>x t. Q x t \<Longrightarrow> Q' x t) \<Longrightarrow> (\<And>e t. E e t \<Longrightarrow> E' e t) \<Longrightarrow> wp m Q' E' s"
  by (auto simp: wp_def split: prod.splits sum.splits)

lemma wp_True [simp]: "wp m (\<lambda>_ _. True) (\<lambda>_ _. True) s"
  by (simp add: wp_def split: prod.split sum.split)

lemma wp_conj:
  "wp m Q E s \<Longrightarrow> wp m Q' E' s \<Longrightarrow> wp m (\<lambda>x t. Q x t \<and> Q' x t) (\<lambda>e t. E e t \<and> E' e t) s"
  by (auto simp: wp_def split: prod.splits sum.splits)

lemma wp_Inr: "m s = (Inr x, s') \<Longrightarrow> wp m Q E s \<Longrightarrow> Q x s'"
  by (simp add: wp_def)

lemma wp_Inl: "m s = (Inl e, s') \<Longrightarrow> wp m Q E s \<Longrightarrow> E e s'"
  by (simp add: wp_def)

text \<open>A loop keeps what each of its rounds keeps.\<close>

lemma wp_forEach:
  assumes "I s" and "\<And>x t. x \<in> set xs \<Longrightarrow> I t \<Longrightarrow> wp (f x) (\<lambda>_. I) E t"
  shows "wp (forEach xs f) (\<lambda>_. I) E s"
  using assms
proof (induction xs arbitrary: s)
  case Nil
  then show ?case by (simp add: wp_simps)
next
  case (Cons x xs)
  have "wp (f x) (\<lambda>_. I) E s" using Cons.prems by simp
  then have "wp (f x) (\<lambda>_. wp (forEach xs f) (\<lambda>_. I) E) E s"
    by (rule wp_mono) (use Cons in simp_all)
  then show ?case by (simp add: wp_simps)
qed

lemma wp_foldEach:
  assumes "I acc s" and "\<And>x a t. x \<in> set xs \<Longrightarrow> I a t \<Longrightarrow> wp (f x a) I E t"
  shows "wp (foldEach xs acc f) I E s"
  using assms
proof (induction xs arbitrary: acc s)
  case Nil
  then show ?case by (simp add: wp_simps)
next
  case (Cons x xs)
  have "wp (f x acc) I E s" using Cons.prems by simp
  then have "wp (f x acc) (\<lambda>a. wp (foldEach xs a f) I E) E s"
    by (rule wp_mono) (use Cons in simp_all)
  then show ?case by (simp add: wp_simps)
qed

section \<open>Relations between the store before and after\<close>

text \<open>
  The client of this interface is a proof that a method moves the store along \<open>R\<close>.  The provider
  promises that \<open>R\<close> is reflexive and transitive and that a rolled-back transaction, which leaves
  \<open>keep s' s\<close>, is a move along \<open>R\<close> too.
\<close>

definition moves :: "('s \<Rightarrow> 's \<Rightarrow> bool) \<Rightarrow> ('s, 'e, 'a) prog \<Rightarrow> bool" where
  "moves R m \<longleftrightarrow> (\<forall>s. R s (snd (m s)))"

lemma movesI: "(\<And>s. R s (snd (m s))) \<Longrightarrow> moves R m"
  by (simp add: moves_def)

lemma movesD: "moves R m \<Longrightarrow> m s = (r, s') \<Longrightarrow> R s s'"
  by (metis moves_def snd_conv)

text \<open>Steps over a call of which only the relation is known.\<close>

lemma wp_of_moves:
  "moves R m \<Longrightarrow> (\<And>x t. R s t \<Longrightarrow> Q x t) \<Longrightarrow> (\<And>e t. R s t \<Longrightarrow> E e t) \<Longrightarrow> wp m Q E s"
  using movesD[of R m s] by (auto simp: wp_def split: prod.splits sum.splits)

lemma moves_iff_wp: "moves R m \<longleftrightarrow> (\<forall>s. wp m (\<lambda>_. R s) (\<lambda>_. R s) s)"
  by (simp add: wp_def moves_def split_beta split: sum.split)

lemma moves_weaken: "moves R m \<Longrightarrow> (\<And>s t. R s t \<Longrightarrow> R' s t) \<Longrightarrow> moves R' m"
  by (simp add: moves_def)

locale step_rel =
  fixes R :: "'s \<Rightarrow> 's \<Rightarrow> bool" and keep :: "'s \<Rightarrow> 's \<Rightarrow> 's"
  assumes R_refl: "R s s"
    and R_trans: "R s t \<Longrightarrow> R t u \<Longrightarrow> R s u"
    and R_keep: "R s s' \<Longrightarrow> R s (keep s' s)"
begin

lemma moves_ret: "moves R (ret x)"
  by (simp add: moves_def ret_def R_refl)

lemma moves_throw: "moves R (throw e)"
  by (simp add: moves_def throw_def R_refl)

lemma moves_gets: "moves R (gets f)"
  by (simp add: moves_def R_refl)

lemma moves_getsOr: "moves R (getsOr f e)"
  by (simp add: moves_def getsOr_def R_refl split: option.split)

lemma moves_guard: "moves R (guard b e)"
  by (simp add: guard_def moves_ret moves_throw)

lemma moves_guardS: "moves R (guardS b e)"
  by (simp add: moves_def guardS_def R_refl)

lemma moves_modify: "(\<And>s. R s (f s)) \<Longrightarrow> moves R (modify f)"
  by (simp add: moves_def)

lemma moves_bind:
  assumes "moves R m" and "\<And>x. moves R (k x)"
  shows "moves R (bind m k)"
proof (rule movesI)
  fix s
  obtain r t where m: "m s = (r, t)" by (cases "m s")
  have "R s t" using movesD[OF assms(1) m] .
  moreover have "R t (snd (k x t))" for x using assms(2) by (simp add: moves_def)
  ultimately show "R s (snd (bind m k s))"
    by (cases r) (auto simp: bind_def m intro: R_trans)
qed

lemma moves_andThen: "moves R m \<Longrightarrow> moves R k \<Longrightarrow> moves R (andThen m k)"
  by (simp add: andThen_def moves_bind)

lemma moves_whenM: "moves R m \<Longrightarrow> moves R (whenM b m)"
  by (simp add: whenM_def moves_ret)

lemma moves_if: "moves R m \<Longrightarrow> moves R m' \<Longrightarrow> moves R (if b then m else m')"
  by simp

lemma moves_option:
  "moves R m \<Longrightarrow> (\<And>y. moves R (k y)) \<Longrightarrow> moves R (case x of None \<Rightarrow> m | Some y \<Rightarrow> k y)"
  by (simp split: option.split)

lemma moves_tryCatch:
  assumes "moves R m" and "\<And>e. moves R (h e)"
  shows "moves R (tryCatch m h)"
proof (rule movesI)
  fix s
  obtain r t where m: "m s = (r, t)" by (cases "m s")
  have "R s t" using movesD[OF assms(1) m] .
  moreover have "R t (snd (h e t))" for e using assms(2) by (simp add: moves_def)
  ultimately show "R s (snd (tryCatch m h s))"
    by (cases r) (auto simp: tryCatch_def m intro: R_trans)
qed

lemma moves_forEach: "(\<And>x. moves R (f x)) \<Longrightarrow> moves R (forEach xs f)"
  by (induction xs) (simp_all add: moves_ret moves_andThen)

lemma moves_foldEach: "(\<And>x a. moves R (f x a)) \<Longrightarrow> moves R (foldEach xs acc f)"
  by (induction xs arbitrary: acc) (simp_all add: moves_ret moves_bind)

lemma moves_transactionally: "moves R m \<Longrightarrow> moves R (transactionally keep m)"
  by (auto simp: transactionally_def intro!: movesI R_keep split: prod.split sum.split dest: movesD)

text \<open>The same with the store a method started from: what is known of it need not be known later.\<close>

lemma wp_tail: "R s t \<Longrightarrow> moves R m \<Longrightarrow> wp m (\<lambda>_. R s) (\<lambda>_. R s) t"
  by (rule wp_of_moves[of R]) (auto intro: R_trans)

lemma wp_transactionally_keep:
  "wp m (\<lambda>_. R s) (\<lambda>_. R s) s \<Longrightarrow> wp (transactionally keep m) (\<lambda>_. R s) (\<lambda>_. R s) s"
  unfolding wp_transactionally by (erule wp_mono) (auto intro: R_keep)

lemmas moves_rules =
  moves_ret moves_throw moves_gets moves_getsOr moves_guard moves_guardS moves_bind moves_andThen moves_whenM
  moves_if moves_option moves_tryCatch moves_forEach moves_foldEach moves_transactionally

end

section \<open>Tables\<close>

text \<open>
  A table is the list of its rows, oldest first.  \<open>List.find\<close> is \<^verbatim>\<open>findFirst\<close> and
  \<^verbatim>\<open>findUnique\<close>, \<open>filter\<close> is \<^verbatim>\<open>findMany\<close>; \<open>update_where\<close>, \<open>delete_where\<close> are \<^verbatim>\<open>updateMany\<close>
  and \<^verbatim>\<open>deleteMany\<close>; the \<open>desc\<close> and \<open>asc\<close> forms carry the \<^verbatim>\<open>orderBy\<close>.
\<close>

definition update_where :: "('r \<Rightarrow> bool) \<Rightarrow> ('r \<Rightarrow> 'r) \<Rightarrow> 'r list \<Rightarrow> 'r list" where
  "update_where P f t = map (\<lambda>r. if P r then f r else r) t"

definition delete_where :: "('r \<Rightarrow> bool) \<Rightarrow> 'r list \<Rightarrow> 'r list" where
  "delete_where P t = filter (\<lambda>r. \<not> P r) t"

definition order_asc :: "('r \<Rightarrow> int) \<Rightarrow> 'r list \<Rightarrow> 'r list" where
  "order_asc key t = sort_key key t"

definition order_desc :: "('r \<Rightarrow> int) \<Rightarrow> 'r list \<Rightarrow> 'r list" where
  "order_desc key t = sort_key (\<lambda>r. - key r) t"

definition find_first_desc :: "('r \<Rightarrow> int) \<Rightarrow> ('r \<Rightarrow> bool) \<Rightarrow> 'r list \<Rightarrow> 'r option" where
  "find_first_desc key P t =
     (case order_desc key (filter P t) of [] \<Rightarrow> None | r # _ \<Rightarrow> Some r)"

lemma find_SomeD: "List.find P t = Some r \<Longrightarrow> r \<in> set t \<and> P r"
  by (induction t) (auto split: if_splits)

lemma find_None_iff_all: "List.find P t = None \<longleftrightarrow> (\<forall>r \<in> set t. \<not> P r)"
  by (induction t) auto

lemma find_append [table_simps]:
  "List.find P (t @ u) = (case List.find P t of None \<Rightarrow> List.find P u | Some r \<Rightarrow> Some r)"
  by (induction t) auto

lemma set_update_where: "set (update_where P f t) = (\<lambda>r. if P r then f r else r) ` set t"
  by (simp add: update_where_def)

lemma mem_update_where: "r \<in> set t \<Longrightarrow> (if P r then f r else r) \<in> set (update_where P f t)"
  unfolding set_update_where by (rule imageI)

lemma update_where_Nil [simp]: "update_where P f [] = []"
  by (simp add: update_where_def)

lemma update_where_Cons [simp]:
  "update_where P f (r # t) = (if P r then f r else r) # update_where P f t"
  by (simp add: update_where_def)

lemma update_where_append [table_simps]:
  "update_where P f (t @ u) = update_where P f t @ update_where P f u"
  by (simp add: update_where_def)

lemma length_update_where [simp]: "length (update_where P f t) = length t"
  by (simp add: update_where_def)

lemma map_update_where:
  "(\<And>r. P r \<Longrightarrow> g (f r) = g r) \<Longrightarrow> map g (update_where P f t) = map g t"
  by (simp add: update_where_def)

lemma update_where_none: "(\<And>r. r \<in> set t \<Longrightarrow> \<not> P r) \<Longrightarrow> update_where P f t = t"
  by (induction t) auto

lemma find_update_where_other:
  "(\<And>r. P r \<Longrightarrow> \<not> Q r \<and> \<not> Q (f r)) \<Longrightarrow> List.find Q (update_where P f t) = List.find Q t"
  by (induction t) auto

lemma filter_update_where_other:
  "(\<And>r. r \<in> set t \<Longrightarrow> P r \<Longrightarrow> \<not> Q r \<and> \<not> Q (f r)) \<Longrightarrow> filter Q (update_where P f t) = filter Q t"
  by (induction t) auto

text \<open>A write that does not touch what the query tests is seen by the query.\<close>

lemma find_update_where:
  "(\<And>r. P r \<Longrightarrow> Q (f r) = Q r) \<Longrightarrow>
   List.find Q (update_where P f t) = map_option (\<lambda>r. if P r then f r else r) (List.find Q t)"
  by (induction t) auto

lemma find_replace:
  "Q new = Q old \<Longrightarrow> List.find Q (update_where (\<lambda>r. r = old) (\<lambda>_. new) t)
     = map_option (\<lambda>r. if r = old then new else r) (List.find Q t)"
  by (induction t) auto

lemma set_order_desc [simp]: "set (order_desc key t) = set t"
  by (simp add: order_desc_def)

lemma set_order_asc [simp]: "set (order_asc key t) = set t"
  by (simp add: order_asc_def)

lemma sorted_order_desc: "sorted_wrt (\<lambda>a b. key b \<le> key a) (order_desc key t)"
proof -
  have "sorted (map (\<lambda>r. - key r) (order_desc key t))"
    by (simp add: order_desc_def)
  then show ?thesis by (simp add: sorted_map)
qed

lemma sorted_wrt_last:
  "sorted_wrt (\<lambda>p q. key p < key q) ps \<Longrightarrow> r \<in> set ps \<Longrightarrow> (key r :: int) \<le> key (last ps)"
  by (induction ps rule: rev_induct) (auto simp: sorted_wrt_append)

lemma find_first_desc_None [simp]:
  "find_first_desc key P t = None \<longleftrightarrow> (\<forall>r \<in> set t. \<not> P r)"
proof -
  have "order_desc key (filter P t) = [] \<longleftrightarrow> filter P t = []"
    by (metis set_empty set_order_desc)
  then show ?thesis
    by (auto simp: find_first_desc_def filter_empty_conv split: list.splits)
qed

lemma find_first_desc_SomeD:
  assumes "find_first_desc key P t = Some r"
  shows "r \<in> set t" and "P r" and "\<And>q. q \<in> set t \<Longrightarrow> P q \<Longrightarrow> key q \<le> key r"
proof -
  obtain rs where rs: "order_desc key (filter P t) = r # rs"
    using assms by (auto simp: find_first_desc_def split: list.splits)
  have "set (r # rs) = {q \<in> set t. P q}"
    using rs by (metis set_filter set_order_desc)
  then show "r \<in> set t" and "P r" by auto
  fix q assume "q \<in> set t" "P q"
  then have "q \<in> set (r # rs)" using \<open>set (r # rs) = _\<close> by auto
  moreover have "\<forall>q \<in> set rs. key q \<le> key r"
    using sorted_order_desc[of key "filter P t"] by (simp add: rs)
  ultimately show "key q \<le> key r" by auto
qed

lemma distinct_map_find:
  "distinct (map key t) \<Longrightarrow> r \<in> set t \<Longrightarrow> List.find (\<lambda>q. key q = key r) t = Some r"
  by (induction t) force+

lemma distinct_map_inj:
  "distinct (map key t) \<Longrightarrow> r \<in> set t \<Longrightarrow> q \<in> set t \<Longrightarrow> key r = key q \<Longrightarrow> r = q"
  by (metis distinct_map inj_onD)

section \<open>Numbers and time\<close>

text \<open>
  A JavaScript number and a \<^verbatim>\<open>NUMERIC\<close> column are exact rationals; \<^verbatim>\<open>Number(\<dots>)\<close> of a column is
  its value.  A \<^verbatim>\<open>Date\<close> is its time value, a whole number of milliseconds.
\<close>

type_synonym number = rat
type_synonym date = int

definition MS_PER_DAY :: int where
  "MS_PER_DAY = 86400000"

definition add_days :: "date \<Rightarrow> int \<Rightarrow> date" where
  "add_days d n = d + n * MS_PER_DAY"

text \<open>\<^verbatim>\<open>Math.round\<close>: the nearest integer, halves upwards.\<close>

definition js_round :: "number \<Rightarrow> int" where
  "js_round x = \<lfloor>x + 1 / 2\<rfloor>"

lemma js_round_bounds: "x - 1 / 2 < of_int (js_round x)" "of_int (js_round x) \<le> x + 1 / 2"
  unfolding js_round_def by linarith+

lemma js_round_mono: "x \<le> y \<Longrightarrow> js_round x \<le> js_round y"
  unfolding js_round_def by (simp add: floor_mono)

lemma js_round_of_int [simp]: "js_round (of_int n) = n"
  unfolding js_round_def by linarith

end
