(* ===== verification/Schema.thy ===== *)
theory Schema
  imports CCIP_Prelude
begin

text \<open>
  The data model: one record per table of \<^verbatim>\<open>packages/database/prisma/schema.prisma\<close> that the modelled
  services touch (columns none of them reads or writes are left out), the enumerations of
  \<^verbatim>\<open>packages/shared/src/types.ts\<close>, the exceptions the services throw, and the store \<open>db\<close>.

  What the data base itself does on a write is part of the model: sequences, unique indexes, CHECK
  constraints and triggers are those the migrations under \<^verbatim>\<open>packages/database/prisma/migrations\<close>
  leave in force.  A violation is the exception \<open>PrismaError\<close>, which is no \<^verbatim>\<open>HttpException\<close>.
  The store also carries the wall clock that \<^verbatim>\<open>new Date()\<close> reads during a request and the jobs
  handed to the Bull queue \<^verbatim>\<open>sla\<close>.
\<close>

section \<open>Exceptions\<close>

text \<open>\<^verbatim>\<open>ServerFactSnapshot\<close>, carried by a version conflict.\<close>

record server_fact =
  sf_factId :: "int option"
  sf_scVolume :: "number option"
  sf_version :: int

text \<open>Errors of the Prisma client; \<open>RawQueryError\<close> carries the \<^verbatim>\<open>code\<close> of the error of a raw query.
  \<open>LibraryError\<close> is any other \<^verbatim>\<open>Error\<close>, with its message.\<close>

datatype prisma_error =
    RecordNotFound | UniqueViolation | CheckViolation | ForeignKeyViolation | TriggerRaised
  | ValueTooLong | InvalidArgument | RawQueryError string

datatype exn =
    BadRequestException string
  | UnauthorizedException string
  | ForbiddenException string
  | NotFoundException string
  | ConflictException string
  | UnprocessableEntityException string
  | InternalServerErrorException string
  | ServiceUnavailableException string
  | VersionConflictException server_fact
  | PrismaError prisma_error
  | LibraryError string

text \<open>\<^verbatim>\<open>e instanceof HttpException\<close> and \<^verbatim>\<open>e.message\<close>.\<close>

fun isHttpException :: "exn \<Rightarrow> bool" where
  "isHttpException (PrismaError _) = False"
| "isHttpException (LibraryError _) = False"
| "isHttpException _ = True"

fun exn_message :: "exn \<Rightarrow> string" where
  "exn_message (BadRequestException m) = m"
| "exn_message (UnauthorizedException m) = m"
| "exn_message (ForbiddenException m) = m"
| "exn_message (NotFoundException m) = m"
| "exn_message (ConflictException m) = m"
| "exn_message (UnprocessableEntityException m) = m"
| "exn_message (InternalServerErrorException m) = m"
| "exn_message (ServiceUnavailableException m) = m"
| "exn_message (VersionConflictException _) = ''VERSION_CONFLICT''"
| "exn_message (PrismaError _) = ''Prisma error''"
| "exn_message (LibraryError m) = m"

section \<open>Values of JSON columns and of request bodies\<close>

datatype json =
    JNull
  | JBool bool
  | JNum number
  | JStr string
  | JDate date
  | JArr "json list"
  | JObj "(string \<times> json) list"

text \<open>\<^verbatim>\<open>o.key\<close>: \<open>None\<close> is \<^verbatim>\<open>undefined\<close>.\<close>

fun json_field :: "json \<Rightarrow> string \<Rightarrow> json option" where
  "json_field (JObj kvs) key = map_of kvs key"
| "json_field _ _ = None"

definition json_opt :: "('a \<Rightarrow> json) \<Rightarrow> 'a option \<Rightarrow> json" where
  "json_opt f x = (case x of None \<Rightarrow> JNull | Some v \<Rightarrow> f v)"

section \<open>Enumerations\<close>

datatype user_role = Admin | Director | Stroycontrol | Engineer

datatype period_status = POpen | PGpSubmitted | PVerification | PClosed | PForceClosed

datatype zero_report_status = ZDraft | ZPendingApproval | ZApproved | ZRejected

datatype boq_item_status = BActive | BExcludedFromScope

text \<open>\<^verbatim>\<open>period_facts.discrepancy_status\<close> and \<^verbatim>\<open>discrepancies.status\<close> (the latter has no \<open>DConfirmed\<close>).\<close>

datatype discrepancy_status =
    DOpen | DConfirmed | DScOverride | DDirectorResolved | DForcedScFigure | DCancelled

datatype sla_scenario = ScenarioA | ScenarioB

datatype sla_event_type =
    NotifyDirectorDay3 | ForceCloseDay5 | DirectorDeadlineDay7 | ScFigureAppliedDay14

datatype sync_status = SPending | SApplied | SConflict | SRejected | SEscalated | SSkipped

section \<open>Rows\<close>

record organization =
  g_id :: string
  g_name :: string
  g_slug :: string
  g_plan :: string
  g_isActive :: bool

record user =
  u_id :: int
  u_email :: string
  u_role :: user_role
  u_passwordHash :: string
  u_isActive :: bool
  u_organizationId :: string

record construction_object =
  o_id :: int
  o_name :: string
  o_objectClass :: "string option"
  o_address :: "string option"
  o_permitNumber :: "string option"
  o_permitDate :: "date option"
  o_connectionDate :: "date option"
  o_status :: string
  o_createdAt :: date
  o_createdBy :: "int option"
  o_organizationId :: string

record participant =
  op_id :: int
  op_objectId :: int
  op_participantRole :: string
  op_orgName :: string
  op_contactPerson :: "string option"
  op_contactEmail :: "string option"
  op_validFrom :: date
  op_validTo :: "date option"
  op_isCurrent :: bool
  op_changedReason :: "string option"
  op_changedAt :: "date option"
  op_changedBy :: "int option"

record l2_document =
  l_id :: int
  l_objectId :: int
  l_docType :: string
  l_version :: string
  l_filePath :: string
  l_uploadedAt :: date
  l_uploadedBy :: "int option"

record boq_version =
  bv_id :: int
  bv_objectId :: int
  bv_versionNumber :: string
  bv_changeType :: string
  bv_changeReason :: "string option"
  bv_changeDocument :: "string option"
  bv_createdAt :: date
  bv_createdBy :: "int option"
  bv_approvedAt :: "date option"
  bv_isActive :: bool

record boq_item =
  bi_id :: int
  bi_boqVersionId :: int
  bi_workLineageId :: string
  bi_workCode :: string
  bi_name :: string
  bi_unit :: "string option"
  bi_planVolume :: number
  bi_contractValue :: number
  bi_weightCoef :: "number option"
  bi_isCritical :: bool
  bi_status :: boq_item_status
  bi_predecessorItemId :: "int option"

datatype baseline_status = BPending | BApproved | BRejected

record baseline_request =
  br_id :: int
  br_objectId :: int
  br_boqItemId :: int
  br_requestedBy :: "int option"
  br_requestedAt :: date
  br_oldPlanVolume :: number
  br_newPlanVolume :: number
  br_reason :: string
  br_supportingDocument :: "string option"
  br_status :: baseline_status
  br_reviewedBy :: "int option"
  br_reviewedAt :: "date option"
  br_reviewNotes :: "string option"
  br_appliesFromPeriodId :: "int option"

text \<open>The id of a refresh token is a random UUID; a number that no other row has stands for it.\<close>

record refresh_token =
  rt_id :: int
  rt_userId :: int
  rt_tokenHash :: string
  rt_expiresAt :: date
  rt_revokedAt :: "date option"
  rt_userAgent :: string
  rt_ipAddress :: string

record zero_report =
  zr_id :: int
  zr_objectId :: int
  zr_boqVersionId :: int
  zr_status :: zero_report_status
  zr_submittedAt :: "date option"
  zr_submittedBy :: "int option"
  zr_approvedAt :: "date option"
  zr_approvedBy :: "int option"
  zr_alertSentAt :: "date option"
  zr_notes :: "string option"

record zero_report_item =
  zi_id :: int
  zi_zeroReportId :: int
  zi_boqItemId :: int
  zi_factVolume :: number
  zi_source :: string
  zi_doc1Value :: "number option"
  zi_doc2Value :: "number option"
  zi_doc3Value :: "number option"
  zi_crossVerified :: bool
  zi_notes :: "string option"

text \<open>The six texts of \<^verbatim>\<open>PAUSE_REASONS\<close>, and any other text.\<close>

datatype pause_reason =
    Holidays | AwaitingMaterials | TechnologicalBreak | BadWeather | AwaitingPermits | Other
  | UnlistedReason string

record period =
  p_id :: int
  p_objectId :: int
  p_boqVersionId :: int
  p_periodNumber :: int
  p_status :: period_status
  p_openedAt :: date
  p_openedBy :: "int option"
  p_gpSubmissionToken :: "string option"
  p_gpTokenExpiresAt :: "date option"
  p_gpSubmittedAt :: "date option"
  p_gpSubmittedByName :: "string option"
  p_closedAt :: "date option"
  p_closedBy :: "int option"
  p_plannedPause :: bool
  p_pauseReason :: "pause_reason option"

record period_fact =
  f_id :: int
  f_periodId :: int
  f_boqItemId :: int
  f_gpVolume :: "number option"
  f_gpNote :: "string option"
  f_scVolume :: "number option"
  f_acceptedVolume :: "number option"
  f_discrepancyType :: "int option"
  f_discrepancyStatus :: "discrepancy_status option"
  f_isSpike :: bool
  f_spikeResponse :: "string option"
  f_version :: int

text \<open>
  \<^verbatim>\<open>sc_position\<close>: a text the engineer typed, or the sentence the sync service composes from the
  device's volume, the server's volume and the server's version.
\<close>

datatype sc_position = Typed string | OfflineConflict "json option" "number option" int

record discrepancy =
  d_id :: int
  d_periodFactId :: int
  d_type :: int
  d_status :: discrepancy_status
  d_gpPosition :: "string option"
  d_scPosition :: "sc_position option"
  d_directorDecision :: "string option"
  d_resolvedAt :: "date option"
  d_gcResponseAt :: "date option"
  d_createdAt :: date

record photo =
  ph_id :: int
  ph_periodId :: int
  ph_boqItemId :: "int option"
  ph_filePath :: string
  ph_takenAt :: "date option"
  ph_uploadedBy :: "int option"

record sla_event =
  sl_id :: int
  sl_periodId :: int
  sl_boqItemId :: "int option"
  sl_scenario :: sla_scenario
  sl_eventType :: sla_event_type
  sl_scheduledAt :: date
  sl_executedAt :: "date option"
  sl_isCancelled :: bool

text \<open>A job of the Bull queue \<^verbatim>\<open>sla\<close>; \<^verbatim>\<open>jobId\<close> is \<^verbatim>\<open>sla-<event id>\<close>.\<close>

record sla_job =
  j_slaEventId :: int
  j_addedAt :: date
  j_delay :: int

text \<open>The text of a notification is kept as its kind and the values put into it.\<close>

datatype notification_text =
    ZeroPaceText int
  | SlaDay3ActiveDispute "int option"
  | SlaDay3NoGpResponse "int option"
  | SlaDay7Reminder "int option"
  | SyncEscalatedText int int
  | SystemicFlagText nat number "number option"

record notification =
  n_id :: int
  n_userId :: int
  n_type :: string
  n_referenceTable :: string
  n_referenceId :: int
  n_message :: notification_text
  n_readAt :: "date option"

record readiness_snapshot =
  rs_periodId :: int
  rs_objectId :: int
  rs_objectReadinessPct :: number
  rs_weightedForecastDate :: "date option"
  rs_criticalPathForecastDate :: "date option"
  rs_gapFlag :: bool

record work_pace =
  w_periodId :: int
  w_boqItemId :: int
  w_periodVolume :: number
  w_weightedPace :: number
  w_isExcluded :: bool

record system_config =
  c_organizationId :: string
  c_key :: string
  c_valueType :: string
  c_valueNumeric :: "number option"
  c_valueText :: "string option"
  c_description :: "string option"
  c_updatedAt :: "date option"
  c_updatedBy :: "int option"

text \<open>A row of the materialized view \<^verbatim>\<open>mv_object_current_status\<close>, and of \<^verbatim>\<open>mv_refresh_log\<close>.\<close>

record mv_row =
  mv_objectId :: int
  mv_readinessPct :: "number option"
  mv_weightedForecastDate :: "date option"
  mv_criticalPathForecastDate :: "date option"
  mv_gapFlag :: "bool option"

record mv_log =
  ml_viewName :: string
  ml_refreshedAt :: date
  ml_periodId :: "int option"
  ml_isStale :: bool

record audit_row =
  a_tableName :: string
  a_recordId :: int
  a_action :: string
  a_oldData :: "json option"
  a_newData :: "json option"
  a_reason :: "string option"
  a_performedBy :: "int option"
  a_performedAt :: date
  a_organizationId :: string

record sync_row =
  q_id :: int
  q_deviceId :: string
  q_clientOpId :: string
  q_userId :: int
  q_operation :: string
  q_payload :: json
  q_clientTimestamp :: date
  q_serverReceivedAt :: date
  q_lastKnownVersion :: "int option"
  q_boqVersionNumber :: "string option"
  q_status :: sync_status
  q_conflictData :: "json option"
  q_resolvedAt :: "date option"
  q_resolvedBy :: "int option"

section \<open>The store\<close>

datatype table_name =
    TPeriods | TPeriodFacts | TDiscrepancies | TPhotos | TSlaEvents | TNotifications
  | TZeroReports | TZeroReportItems | TSyncQueue | TBoqVersions | TBoqItems
  | TObjects | TParticipants | TDocuments | TBaselineRequests | TRefreshTokens | TUsers

text \<open>
  \<open>audit_actions\<close> is the list of the constraint \<^verbatim>\<open>audit_log_action_check\<close> in force, which four
  migrations redefine; \<open>migrated_audit_actions\<close> is the list the last of them leaves.  \<open>mv_columns\<close> are
  the names of the columns of the materialized view \<^verbatim>\<open>mv_object_current_status\<close>, \<open>mvRows\<close> its rows as of
  its last refresh; \<open>migrated_mv_columns\<close> are those of the first migration, which no later one changes.
\<close>

record db =
  organizations :: "organization list"
  users :: "user list"
  objects :: "construction_object list"
  boqVersions :: "boq_version list"
  boqItems :: "boq_item list"
  zeroReports :: "zero_report list"
  zeroReportItems :: "zero_report_item list"
  periods :: "period list"
  periodFacts :: "period_fact list"
  discrepancies :: "discrepancy list"
  photos :: "photo list"
  slaEvents :: "sla_event list"
  slaJobs :: "sla_job list"
  notifications :: "notification list"
  readinessSnapshots :: "readiness_snapshot list"
  workPaces :: "work_pace list"
  systemConfig :: "system_config list"
  auditLog :: "audit_row list"
  syncQueue :: "sync_row list"
  participants :: "participant list"
  documents :: "l2_document list"
  baselineRequests :: "baseline_request list"
  refreshTokens :: "refresh_token list"
  mvRows :: "mv_row list"
  mvRefreshLog :: "mv_log list"
  mv_columns :: "string list"
  audit_actions :: "string list"
  seq :: "table_name \<Rightarrow> int"
  clock :: date

type_synonym 'a service = "(db, exn, 'a) prog"

definition migrated_audit_actions :: "string list" where
  "migrated_audit_actions =
     [''insert'', ''update'', ''delete'', ''admin_correction'', ''force_close'',
      ''period_opened'', ''period_closed'', ''gp_submitted'', ''period_fact_upserted'',
      ''zero_report_item_corrected'', ''period_fact_input_without_template'']"

definition migrated_mv_columns :: "string list" where
  "migrated_mv_columns =
     [''object_id'', ''name'', ''object_status'', ''current_period_id'', ''period_number'',
      ''period_status'', ''object_readiness_pct'', ''weighted_forecast_date'',
      ''critical_path_forecast_date'', ''gap_flag'', ''open_disputes'', ''unresolved_spikes'']"

definition MV_NAME :: string where
  "MV_NAME = ''mv_object_current_status''"

definition empty_db :: db where
  "empty_db =
     \<lparr>organizations = [], users = [], objects = [], boqVersions = [], boqItems = [], zeroReports = [],
      zeroReportItems = [], periods = [], periodFacts = [], discrepancies = [], photos = [],
      slaEvents = [], slaJobs = [], notifications = [], readinessSnapshots = [], workPaces = [],
      systemConfig = [], auditLog = [], syncQueue = [], participants = [], documents = [],
      baselineRequests = [], refreshTokens = [], mvRows = [],
      mvRefreshLog = [\<lparr>ml_viewName = MV_NAME, ml_refreshedAt = 0, ml_periodId = None, ml_isStale = False\<rparr>],
      mv_columns = migrated_mv_columns, audit_actions = migrated_audit_actions,
      seq = (\<lambda>_. 0), clock = 0\<rparr>"

text \<open>
  \<^verbatim>\<open>prisma.$transaction\<close>.  Audit rows are written through \<^verbatim>\<open>this.prisma\<close>, not through \<^verbatim>\<open>tx\<close>, so a
  rollback does not take them back; nor does it take back the sequence numbers drawn.
\<close>

definition keep_outside :: "db \<Rightarrow> db \<Rightarrow> db" where
  "keep_outside s' s = s\<lparr>auditLog := auditLog s', seq := seq s'\<rparr>"

definition transaction :: "'a service \<Rightarrow> 'a service" where
  "transaction m = transactionally keep_outside m"

lemma wp_transaction [wp_simps]:
  "wp (transaction m) Q E = (\<lambda>s. wp m Q (\<lambda>e s'. E e (keep_outside s' s)) s)"
  by (simp add: transaction_def wp_transactionally)

definition now :: "date service" where
  "now = gets clock"

lemma wp_now [wp_simps]: "wp now Q E = (\<lambda>s. Q (clock s) s)"
  by (simp add: now_def wp_gets)

definition nextval :: "table_name \<Rightarrow> int service" where
  "nextval T = bind (gets (\<lambda>s. seq s T + 1)) (\<lambda>n.
     andThen (modify (\<lambda>s. s\<lparr>seq := (seq s)(T := n)\<rparr>)) (ret n))"

lemma wp_nextval [wp_simps]:
  "wp (nextval T) Q E = (\<lambda>s. Q (seq s T + 1) (s\<lparr>seq := (seq s)(T := seq s T + 1)\<rparr>))"
  by (simp add: nextval_def wp_simps)

end
