(* ===== verification/Store.thy ===== *)
theory Store
  imports Schema
begin

text \<open>
  The single-row writes of the Prisma client on the store, each with what the migrations make the
  data base do: unique indexes, CHECK constraints and the triggers
  \<^verbatim>\<open>trg_period_facts_version_check\<close> and \<^verbatim>\<open>trg_period_facts_bump_version\<close>; and \<^verbatim>\<open>AuditLogService.log\<close>.
\<close>

section \<open>Audit log\<close>

text \<open>\<^verbatim>\<open>AuditLogService.log\<close>\<close>

record audit_params =
  ap_tableName :: string
  ap_recordId :: int
  ap_action :: string
  ap_oldData :: "json option"
  ap_newData :: "json option"
  ap_reason :: "string option"
  ap_performedBy :: "int option"
  ap_organizationId :: string

definition audit_row_of :: "audit_params \<Rightarrow> date \<Rightarrow> audit_row" where
  "audit_row_of ps t =
     \<lparr>a_tableName = ap_tableName ps, a_recordId = ap_recordId ps, a_action = ap_action ps,
      a_oldData = ap_oldData ps, a_newData = ap_newData ps, a_reason = ap_reason ps,
      a_performedBy = ap_performedBy ps, a_performedAt = t,
      a_organizationId = ap_organizationId ps\<rparr>"

definition audit_log :: "audit_params \<Rightarrow> unit service" where
  "audit_log ps =
     andThen (guardS (\<lambda>s. ap_action ps \<in> set (audit_actions s)) (PrismaError CheckViolation))
       (modify (\<lambda>s. s\<lparr>auditLog := auditLog s @ [audit_row_of ps (clock s)]\<rparr>))"

lemma wp_audit_log [wp_simps]:
  "wp (audit_log ps) Q E = (\<lambda>s.
     if ap_action ps \<in> set (audit_actions s)
      then Q () (s\<lparr>auditLog := auditLog s @ [audit_row_of ps (clock s)]\<rparr>)
      else E (PrismaError CheckViolation) s)"
  by (simp add: audit_log_def wp_simps)

section \<open>Periods\<close>

text \<open>\<^verbatim>\<open>UNIQUE (object_id, period_number)\<close>, \<^verbatim>\<open>gp_submission_token UUID UNIQUE\<close>,
  \<^verbatim>\<open>CHECK (period_number > 0)\<close>\<close>

definition period_insertable :: "period \<Rightarrow> period list \<Rightarrow> bool" where
  "period_insertable p ps \<longleftrightarrow>
     list_all (\<lambda>q. \<not> (p_objectId q = p_objectId p \<and> p_periodNumber q = p_periodNumber p)
                 \<and> (p_gpSubmissionToken p = None
                    \<or> p_gpSubmissionToken q \<noteq> p_gpSubmissionToken p)) ps"

definition insert_period :: "(int \<Rightarrow> period) \<Rightarrow> period service" where
  "insert_period mk = bind (nextval TPeriods) (\<lambda>i.
     andThen (guard (0 < p_periodNumber (mk i)) (PrismaError CheckViolation))
    (andThen (guardS (\<lambda>s. period_insertable (mk i) (periods s)) (PrismaError UniqueViolation))
    (andThen (modify (\<lambda>s. s\<lparr>periods := periods s @ [mk i]\<rparr>)) (ret (mk i)))))"

definition find_period :: "int \<Rightarrow> db \<Rightarrow> period option" where
  "find_period i s = List.find (\<lambda>p. p_id p = i) (periods s)"

definition update_period :: "int \<Rightarrow> (period \<Rightarrow> period) \<Rightarrow> period service" where
  "update_period i g = bind (getsOr (find_period i) (PrismaError RecordNotFound)) (\<lambda>old.
     andThen (modify (\<lambda>s. s\<lparr>periods := update_where (\<lambda>p. p_id p = i) g (periods s)\<rparr>)) (ret (g old)))"

section \<open>Period facts\<close>

text \<open>Trigger \<^verbatim>\<open>fn_check_period_fact_version\<close>: the position belongs to the period's BoQ version.\<close>

definition item_in_period_version :: "boq_item list \<Rightarrow> period list \<Rightarrow> period_fact \<Rightarrow> bool" where
  "item_in_period_version bis ps f \<longleftrightarrow>
     list_ex (\<lambda>bi. bi_id bi = f_boqItemId f
                 \<and> list_ex (\<lambda>p. p_id p = f_periodId f \<and> p_boqVersionId p = bi_boqVersionId bi) ps) bis"

text \<open>The CHECK constraints of \<^verbatim>\<open>period_facts\<close>.\<close>

definition nonneg :: "number option \<Rightarrow> bool" where
  "nonneg x = (case x of None \<Rightarrow> True | Some v \<Rightarrow> 0 \<le> v)"

definition spike_responses :: "string list" where
  "spike_responses = [''planned_concentration'', ''input_error'', ''no_reaction'']"

definition fact_checks :: "period_fact \<Rightarrow> bool" where
  "fact_checks f \<longleftrightarrow>
     nonneg (f_gpVolume f) \<and> nonneg (f_scVolume f) \<and> nonneg (f_acceptedVolume f)
     \<and> (case f_discrepancyType f of None \<Rightarrow> True | Some t \<Rightarrow> t = 1 \<or> t = 2)
     \<and> (case f_spikeResponse f of None \<Rightarrow> True | Some r \<Rightarrow> r \<in> set spike_responses)"

definition check_fact :: "period_fact \<Rightarrow> unit service" where
  "check_fact f =
     andThen (guardS (\<lambda>s. item_in_period_version (boqItems s) (periods s) f) (PrismaError TriggerRaised))
       (guard (fact_checks f) (PrismaError CheckViolation))"

text \<open>Trigger \<^verbatim>\<open>fn_period_facts_bump_version\<close>, on every UPDATE.\<close>

definition bump_version :: "period_fact \<Rightarrow> period_fact \<Rightarrow> period_fact" where
  "bump_version old new =
     (if f_scVolume new \<noteq> f_scVolume old \<or> f_discrepancyType new \<noteq> f_discrepancyType old
         \<or> f_gpNote new \<noteq> f_gpNote old
      then new\<lparr>f_version := f_version old + 1\<rparr> else new)"

definition find_fact :: "int \<Rightarrow> int \<Rightarrow> db \<Rightarrow> period_fact option" where
  "find_fact periodId boqItemId s =
     List.find (\<lambda>f. f_periodId f = periodId \<and> f_boqItemId f = boqItemId) (periodFacts s)"

definition insert_fact :: "(int \<Rightarrow> period_fact) \<Rightarrow> period_fact service" where
  "insert_fact mk = bind (nextval TPeriodFacts) (\<lambda>i.
     andThen (check_fact (mk i))
    (andThen (guardS (\<lambda>s. find_fact (f_periodId (mk i)) (f_boqItemId (mk i)) s = None)
                (PrismaError UniqueViolation))
    (andThen (modify (\<lambda>s. s\<lparr>periodFacts := periodFacts s @ [mk i]\<rparr>)) (ret (mk i)))))"

definition update_fact :: "int \<Rightarrow> (period_fact \<Rightarrow> period_fact) \<Rightarrow> period_fact service" where
  "update_fact i g =
     bind (getsOr (\<lambda>s. List.find (\<lambda>f. f_id f = i) (periodFacts s)) (PrismaError RecordNotFound)) (\<lambda>old.
     andThen (check_fact (bump_version old (g old)))
    (andThen (modify (\<lambda>s. s\<lparr>periodFacts :=
                update_where (\<lambda>f. f_id f = i) (\<lambda>_. bump_version old (g old)) (periodFacts s)\<rparr>))
       (ret (bump_version old (g old)))))"

text \<open>\<^verbatim>\<open>periodFact.upsert\<close> on the key \<^verbatim>\<open>periodId_boqItemId\<close>\<close>

definition upsert_fact ::
  "int \<Rightarrow> int \<Rightarrow> (int \<Rightarrow> period_fact) \<Rightarrow> (period_fact \<Rightarrow> period_fact) \<Rightarrow> period_fact service" where
  "upsert_fact periodId boqItemId mk g = bind (gets (find_fact periodId boqItemId)) (\<lambda>existing.
     case existing of None \<Rightarrow> insert_fact mk | Some f \<Rightarrow> update_fact (f_id f) g)"

definition empty_fact :: "int \<Rightarrow> int \<Rightarrow> int \<Rightarrow> period_fact" where
  "empty_fact i periodId boqItemId =
     \<lparr>f_id = i, f_periodId = periodId, f_boqItemId = boqItemId, f_gpVolume = None, f_gpNote = None,
      f_scVolume = None, f_acceptedVolume = None, f_discrepancyType = None,
      f_discrepancyStatus = None, f_isSpike = False, f_spikeResponse = None, f_version = 1\<rparr>"

section \<open>Other tables\<close>

definition insert_notification :: "(int \<Rightarrow> notification) \<Rightarrow> unit service" where
  "insert_notification mk = bind (nextval TNotifications) (\<lambda>i.
     modify (\<lambda>s. s\<lparr>notifications := notifications s @ [mk i]\<rparr>))"

definition update_notifications_where ::
  "(notification \<Rightarrow> bool) \<Rightarrow> (notification \<Rightarrow> notification) \<Rightarrow> unit service" where
  "update_notifications_where P g = modify (\<lambda>s. s\<lparr>notifications := update_where P g (notifications s)\<rparr>)"

text \<open>\<^verbatim>\<open>notification.createMany\<close>, one row per recipient.\<close>

definition notify_users ::
  "user list \<Rightarrow> string \<Rightarrow> string \<Rightarrow> int \<Rightarrow> notification_text \<Rightarrow> unit service" where
  "notify_users us typ refTable refId msg = forEach us (\<lambda>u. insert_notification (\<lambda>i.
     \<lparr>n_id = i, n_userId = u_id u, n_type = typ, n_referenceTable = refTable,
      n_referenceId = refId, n_message = msg, n_readAt = None\<rparr>))"

definition users_with_role :: "string \<Rightarrow> user_role \<Rightarrow> db \<Rightarrow> user list" where
  "users_with_role orgId role s =
     filter (\<lambda>u. u_organizationId u = orgId \<and> u_role u = role) (users s)"

text \<open>\<^verbatim>\<open>readinessSnapshot.create\<close>: one snapshot per period.\<close>

definition insert_snapshot :: "readiness_snapshot \<Rightarrow> unit service" where
  "insert_snapshot r =
     andThen (guardS (\<lambda>s. list_all (\<lambda>q. rs_periodId q \<noteq> rs_periodId r) (readinessSnapshots s))
                (PrismaError UniqueViolation))
       (modify (\<lambda>s. s\<lparr>readinessSnapshots := readinessSnapshots s @ [r]\<rparr>))"

definition delete_snapshots :: "(readiness_snapshot \<Rightarrow> bool) \<Rightarrow> unit service" where
  "delete_snapshots P = modify (\<lambda>s. s\<lparr>readinessSnapshots := delete_where P (readinessSnapshots s)\<rparr>)"

text \<open>\<^verbatim>\<open>workPace.upsert\<close> on the key \<^verbatim>\<open>periodId_boqItemId\<close>; every column is written either way.\<close>

definition same_pace_key :: "work_pace \<Rightarrow> work_pace \<Rightarrow> bool" where
  "same_pace_key r q \<longleftrightarrow> w_periodId q = w_periodId r \<and> w_boqItemId q = w_boqItemId r"

definition upsert_work_pace :: "work_pace \<Rightarrow> unit service" where
  "upsert_work_pace r = modify (\<lambda>s. s\<lparr>workPaces :=
     (if list_ex (same_pace_key r) (workPaces s)
      then update_where (same_pace_key r) (\<lambda>_. r) (workPaces s)
      else workPaces s @ [r])\<rparr>)"

definition insert_discrepancy :: "(int \<Rightarrow> discrepancy) \<Rightarrow> discrepancy service" where
  "insert_discrepancy mk = bind (nextval TDiscrepancies) (\<lambda>i.
     andThen (modify (\<lambda>s. s\<lparr>discrepancies := discrepancies s @ [mk i]\<rparr>)) (ret (mk i)))"

definition update_discrepancy ::
  "int \<Rightarrow> (discrepancy \<Rightarrow> discrepancy) \<Rightarrow> discrepancy service" where
  "update_discrepancy i g =
     bind (getsOr (\<lambda>s. List.find (\<lambda>d. d_id d = i) (discrepancies s)) (PrismaError RecordNotFound)) (\<lambda>old.
     andThen (modify (\<lambda>s. s\<lparr>discrepancies := update_where (\<lambda>d. d_id d = i) g (discrepancies s)\<rparr>))
       (ret (g old)))"

text \<open>The open discrepancies of a period: \<^verbatim>\<open>periodFact: { periodId }, status: 'open'\<close>.\<close>

definition discrepancy_fact :: "db \<Rightarrow> discrepancy \<Rightarrow> period_fact option" where
  "discrepancy_fact s d = List.find (\<lambda>f. f_id f = d_periodFactId d) (periodFacts s)"

definition open_in_period :: "int \<Rightarrow> db \<Rightarrow> discrepancy \<Rightarrow> bool" where
  "open_in_period periodId s d \<longleftrightarrow> d_status d = DOpen
     \<and> (case discrepancy_fact s d of None \<Rightarrow> False | Some f \<Rightarrow> f_periodId f = periodId)"

definition open_discrepancies :: "int \<Rightarrow> db \<Rightarrow> discrepancy list" where
  "open_discrepancies periodId s = filter (open_in_period periodId s) (discrepancies s)"

section \<open>Photos, SLA events, zero reports, sync queue\<close>

text \<open>Foreign keys: \<^verbatim>\<open>photos.boq_item_id\<close> refers to a position, when there is one.\<close>

definition insert_photo :: "(int \<Rightarrow> photo) \<Rightarrow> photo service" where
  "insert_photo mk = bind (nextval TPhotos) (\<lambda>i.
     andThen (guardS (\<lambda>s. case ph_boqItemId (mk i) of None \<Rightarrow> True
                        | Some b \<Rightarrow> list_ex (\<lambda>bi. bi_id bi = b) (boqItems s))
                (PrismaError ForeignKeyViolation))
    (andThen (modify (\<lambda>s. s\<lparr>photos := photos s @ [mk i]\<rparr>)) (ret (mk i))))"

definition insert_sla_event :: "(int \<Rightarrow> sla_event) \<Rightarrow> unit service" where
  "insert_sla_event mk = bind (nextval TSlaEvents) (\<lambda>i.
     modify (\<lambda>s. s\<lparr>slaEvents := slaEvents s @ [mk i]\<rparr>))"

definition update_sla_where :: "(sla_event \<Rightarrow> bool) \<Rightarrow> (sla_event \<Rightarrow> sla_event) \<Rightarrow> unit service" where
  "update_sla_where P g = modify (\<lambda>s. s\<lparr>slaEvents := update_where P g (slaEvents s)\<rparr>)"

text \<open>\<^verbatim>\<open>slaQueue.add(..., { jobId })\<close>: a job whose id is already in the queue is not added again.\<close>

definition enqueue_job :: "sla_job \<Rightarrow> unit service" where
  "enqueue_job j = modify (\<lambda>s. s\<lparr>slaJobs :=
     (if list_ex (\<lambda>k. j_slaEventId k = j_slaEventId j) (slaJobs s) then slaJobs s
      else slaJobs s @ [j])\<rparr>)"

definition insert_zero_report :: "(int \<Rightarrow> zero_report) \<Rightarrow> zero_report service" where
  "insert_zero_report mk = bind (nextval TZeroReports) (\<lambda>i.
     andThen (modify (\<lambda>s. s\<lparr>zeroReports := zeroReports s @ [mk i]\<rparr>)) (ret (mk i)))"

text \<open>Unique index \<^verbatim>\<open>uq_zero_reports_approved\<close>: one approved report per object.\<close>

definition zero_report_updatable :: "zero_report \<Rightarrow> db \<Rightarrow> bool" where
  "zero_report_updatable z s \<longleftrightarrow> zr_status z = ZApproved \<longrightarrow>
     list_all (\<lambda>q. \<not> (zr_id q \<noteq> zr_id z \<and> zr_objectId q = zr_objectId z \<and> zr_status q = ZApproved))
       (zeroReports s)"

definition update_zero_report ::
  "int \<Rightarrow> (zero_report \<Rightarrow> zero_report) \<Rightarrow> zero_report service" where
  "update_zero_report i g =
     bind (getsOr (\<lambda>s. List.find (\<lambda>z. zr_id z = i) (zeroReports s)) (PrismaError RecordNotFound)) (\<lambda>old.
     andThen (guardS (zero_report_updatable (g old)) (PrismaError UniqueViolation))
    (andThen (modify (\<lambda>s. s\<lparr>zeroReports := update_where (\<lambda>z. zr_id z = i) g (zeroReports s)\<rparr>))
       (ret (g old))))"

definition zero_item_checks :: "zero_report_item \<Rightarrow> bool" where
  "zero_item_checks z \<longleftrightarrow> 0 \<le> zi_factVolume z
     \<and> zi_source z \<in> {''field_measurement'', ''exec_docs'', ''ks2''}"

definition find_zero_item :: "int \<Rightarrow> int \<Rightarrow> db \<Rightarrow> zero_report_item option" where
  "find_zero_item zeroReportId boqItemId s =
     List.find (\<lambda>z. zi_zeroReportId z = zeroReportId \<and> zi_boqItemId z = boqItemId) (zeroReportItems s)"

text \<open>\<^verbatim>\<open>zeroReportItem.upsert\<close>: \<open>mk i\<close> gives every column but the id of an existing row.\<close>

definition upsert_zero_item ::
  "int \<Rightarrow> int \<Rightarrow> (int \<Rightarrow> zero_report_item) \<Rightarrow> zero_report_item service" where
  "upsert_zero_item zeroReportId boqItemId mk = bind (gets (find_zero_item zeroReportId boqItemId)) (\<lambda>existing.
     case existing of
       None \<Rightarrow> bind (nextval TZeroReportItems) (\<lambda>i.
         andThen (guard (zero_item_checks (mk i)) (PrismaError CheckViolation))
        (andThen (modify (\<lambda>s. s\<lparr>zeroReportItems := zeroReportItems s @ [mk i]\<rparr>)) (ret (mk i))))
     | Some z \<Rightarrow>
         andThen (guard (zero_item_checks (mk (zi_id z))) (PrismaError CheckViolation))
        (andThen (modify (\<lambda>s. s\<lparr>zeroReportItems :=
             update_where (\<lambda>r. zi_id r = zi_id z) (\<lambda>_. mk (zi_id z)) (zeroReportItems s)\<rparr>))
           (ret (mk (zi_id z)))))"

text \<open>\<^verbatim>\<open>UNIQUE (device_id, client_op_id)\<close>, \<^verbatim>\<open>boq_version_number VARCHAR(20)\<close>\<close>

definition find_sync :: "string \<Rightarrow> string \<Rightarrow> db \<Rightarrow> sync_row option" where
  "find_sync deviceId clientOpId s =
     List.find (\<lambda>q. q_deviceId q = deviceId \<and> q_clientOpId q = clientOpId) (syncQueue s)"

definition insert_sync :: "(int \<Rightarrow> sync_row) \<Rightarrow> sync_row service" where
  "insert_sync mk = bind (nextval TSyncQueue) (\<lambda>i.
     andThen (guard (case q_boqVersionNumber (mk i) of None \<Rightarrow> True | Some v \<Rightarrow> length v \<le> 20)
                (PrismaError ValueTooLong))
    (andThen (guardS (\<lambda>s. find_sync (q_deviceId (mk i)) (q_clientOpId (mk i)) s = None)
                (PrismaError UniqueViolation))
    (andThen (modify (\<lambda>s. s\<lparr>syncQueue := syncQueue s @ [mk i]\<rparr>)) (ret (mk i)))))"

definition update_sync :: "int \<Rightarrow> (sync_row \<Rightarrow> sync_row) \<Rightarrow> unit service" where
  "update_sync i g =
     andThen (guardS (\<lambda>s. list_ex (\<lambda>q. q_id q = i) (syncQueue s)) (PrismaError RecordNotFound))
       (modify (\<lambda>s. s\<lparr>syncQueue := update_where (\<lambda>q. q_id q = i) g (syncQueue s)\<rparr>))"

definition delete_sync :: "(sync_row \<Rightarrow> bool) \<Rightarrow> unit service" where
  "delete_sync P = modify (\<lambda>s. s\<lparr>syncQueue := delete_where P (syncQueue s)\<rparr>)"

section \<open>Look-ups\<close>

definition find_object :: "int \<Rightarrow> db \<Rightarrow> construction_object option" where
  "find_object i s = List.find (\<lambda>ob. o_id ob = i) (objects s)"

definition find_user :: "int \<Rightarrow> db \<Rightarrow> user option" where
  "find_user i s = List.find (\<lambda>u. u_id u = i) (users s)"

definition find_boq_item :: "int \<Rightarrow> db \<Rightarrow> boq_item option" where
  "find_boq_item i s = List.find (\<lambda>b. bi_id b = i) (boqItems s)"

definition find_boq_version :: "int \<Rightarrow> db \<Rightarrow> boq_version option" where
  "find_boq_version i s = List.find (\<lambda>v. bv_id v = i) (boqVersions s)"

text \<open>\<^verbatim>\<open>period.object.organizationId\<close>: a period's object always exists (foreign key).\<close>

definition period_org :: "period \<Rightarrow> db \<Rightarrow> string option" where
  "period_org p s = map_option o_organizationId (find_object (p_objectId p) s)"

text \<open>\<^verbatim>\<open>prisma.user.findUniqueOrThrow(\<dots>).organizationId\<close>\<close>

definition user_org :: "int \<Rightarrow> string service" where
  "user_org userId =
     bind (getsOr (find_user userId) (PrismaError RecordNotFound)) (\<lambda>u. ret (u_organizationId u))"

end
