(* ===== verification/Store_Invariant.thy ===== *)
theory Store_Invariant
  imports Store
begin

text \<open>
  What every write of the services respects.

  \<^item> \<open>db_ok\<close>, the invariant of the tables: primary keys are distinct and drawn from their sequence,
    the composite keys and the submission tokens are unique, facts satisfy their CHECK constraints,
    have a version of at least 1 and belong to the BoQ version of their period.
  \<^item> \<open>evolves s s'\<close>, how the store may change: sequences and the audit log only grow, and from a store
    with \<open>db_ok\<close> one gets a store with \<open>db_ok\<close> in which every period, fact and SLA event is still
    there under the same key, with a version that did not decrease, executed or cancelled if it was.
  \<^item> \<open>same_static s s'\<close>: users, objects with their participants and documents, the BoQ with its
    change requests, the configuration, the dashboard view and the clock are untouched.
  \<^item> \<open>same_periods s s'\<close>: the table of periods is untouched.

  The locales \<open>log_writes\<close>, \<open>fact_writes\<close> and \<open>sla_writes\<close> are the interface between a service and such
  a relation: they name the single-row writes the service makes.  The services prove inside them,
  once, that their methods move the store along the relation; the interpretations at the end of this
  theory discharge the contract for the relations above.
\<close>

section \<open>Failed transactions\<close>

text \<open>All that a failed transaction leaves behind: sequence numbers it drew and audit rows.\<close>

definition rolled_back :: "db \<Rightarrow> db \<Rightarrow> bool" where
  "rolled_back s s' \<longleftrightarrow> (\<exists>a f. s' = s\<lparr>auditLog := a, seq := f\<rparr>)"

lemma rolled_back_refl [simp]: "rolled_back s s"
  unfolding rolled_back_def by (intro exI[of _ "auditLog s"] exI[of _ "seq s"]) simp

lemma rolled_back_seq [simp]: "rolled_back s (s\<lparr>seq := f\<rparr>)"
  unfolding rolled_back_def by (intro exI[of _ "auditLog s"] exI[of _ f]) simp

lemma rolled_backI: "rolled_back s (keep_outside t s)"
  by (auto simp: rolled_back_def keep_outside_def)

lemma wp_transaction_error:
  "wp m Q (\<lambda>_ _. True) s \<Longrightarrow> wp (transaction m) Q (\<lambda>_ s'. rolled_back s s') s"
  by (simp add: wp_transaction) (erule wp_mono; simp add: rolled_backI)

lemma transaction_error: "transaction m s = (Inl e, s') \<Longrightarrow> rolled_back s s'"
  by (auto simp: transaction_def transactionally_def rolled_backI split: prod.splits sum.splits)

lemma transaction_Inr: "transaction m s = (Inr x, s') \<longleftrightarrow> m s = (Inr x, s')"
  by (auto simp: transaction_def transactionally_def split: prod.splits sum.splits)

section \<open>Keys\<close>

definition keyed :: "('r \<Rightarrow> int) \<Rightarrow> 'r list \<Rightarrow> int \<Rightarrow> bool" where
  "keyed key rows n \<longleftrightarrow> distinct (map key rows) \<and> list_all (\<lambda>r. key r \<le> n) rows"

lemma keyed_append: "keyed key rows n \<Longrightarrow> key r = n + 1 \<Longrightarrow> keyed key (rows @ [r]) (n + 1)"
  by (auto simp: keyed_def list_all_iff)

lemma keyed_mono: "keyed key rows n \<Longrightarrow> n \<le> m \<Longrightarrow> keyed key rows m"
  by (auto simp: keyed_def list_all_iff)

lemma keyed_update_where:
  assumes "\<And>r. P r \<Longrightarrow> key (f r) = key r"
  shows "keyed key (update_where P f rows) n = keyed key rows n"
proof -
  have "list_all (\<lambda>r. key r \<le> n) (update_where P f rows) = list_all (\<lambda>r. key r \<le> n) rows"
    using assms by (induction rows) auto
  moreover have "map key (update_where P f rows) = map key rows"
    by (rule map_update_where) (rule assms)
  ultimately show ?thesis by (simp add: keyed_def)
qed

lemma keyed_filter: "keyed key rows n \<Longrightarrow> keyed key (filter P rows) n"
  by (simp add: keyed_def list_all_iff distinct_map_filter)

lemma keyed_unique:
  "keyed key rows n \<Longrightarrow> r \<in> set rows \<Longrightarrow> q \<in> set rows \<Longrightarrow> key r = key q \<Longrightarrow> r = q"
  unfolding keyed_def by (blast intro: distinct_map_inj[of key])

lemma keyed_find:
  "keyed key rows n \<Longrightarrow> r \<in> set rows \<Longrightarrow> List.find (\<lambda>q. key q = key r) rows = Some r"
  by (simp add: keyed_def distinct_map_find)

lemma distinct_map_append_new:
  "distinct (map key rows) \<Longrightarrow> (\<And>q. q \<in> set rows \<Longrightarrow> key q \<noteq> key r) \<Longrightarrow> distinct (map key (rows @ [r]))"
  by (simp add: image_iff) metis

lemma distinct_map_update_where:
  assumes "\<And>r. P r \<Longrightarrow> key (f r) = key r"
  shows "distinct (map key (update_where P f rows)) = distinct (map key rows)"
  by (subst map_update_where) (simp_all add: assms)

section \<open>The invariant of the tables\<close>

definition period_key :: "period \<Rightarrow> int \<times> int" where
  "period_key p = (p_objectId p, p_periodNumber p)"

definition fact_key :: "period_fact \<Rightarrow> int \<times> int" where
  "fact_key f = (f_periodId f, f_boqItemId f)"

definition item_key :: "zero_report_item \<Rightarrow> int \<times> int" where
  "item_key i = (zi_zeroReportId i, zi_boqItemId i)"

definition pace_key :: "work_pace \<Rightarrow> int \<times> int" where
  "pace_key w = (w_periodId w, w_boqItemId w)"

definition sync_key :: "sync_row \<Rightarrow> string \<times> string" where
  "sync_key q = (q_deviceId q, q_clientOpId q)"

definition ids_ok :: "db \<Rightarrow> bool" where
  "ids_ok s \<longleftrightarrow>
     keyed p_id (periods s) (seq s TPeriods) \<and> keyed f_id (periodFacts s) (seq s TPeriodFacts)
     \<and> keyed d_id (discrepancies s) (seq s TDiscrepancies) \<and> keyed ph_id (photos s) (seq s TPhotos)
     \<and> keyed sl_id (slaEvents s) (seq s TSlaEvents)
     \<and> keyed n_id (notifications s) (seq s TNotifications)
     \<and> keyed zr_id (zeroReports s) (seq s TZeroReports)
     \<and> keyed zi_id (zeroReportItems s) (seq s TZeroReportItems)
     \<and> keyed q_id (syncQueue s) (seq s TSyncQueue)"

definition uniques_ok :: "db \<Rightarrow> bool" where
  "uniques_ok s \<longleftrightarrow>
     distinct (map period_key (periods s))
     \<and> distinct (List.map_filter p_gpSubmissionToken (periods s)) \<and> distinct (map fact_key (periodFacts s))
     \<and> distinct (map item_key (zeroReportItems s)) \<and> distinct (map rs_periodId (readinessSnapshots s))
     \<and> distinct (map pace_key (workPaces s)) \<and> distinct (map sync_key (syncQueue s))"

text \<open>\<^verbatim>\<open>weight_coef NUMERIC CHECK (weight_coef > 0 AND weight_coef <= 1)\<close>\<close>

definition weight_check :: "boq_item \<Rightarrow> bool" where
  "weight_check b \<longleftrightarrow> (case bi_weightCoef b of None \<Rightarrow> True | Some c \<Rightarrow> 0 < c \<and> c \<le> 1)"

definition rows_ok :: "db \<Rightarrow> bool" where
  "rows_ok s \<longleftrightarrow>
     list_all weight_check (boqItems s) \<and>
     list_all (\<lambda>p. 0 < p_periodNumber p) (periods s)
     \<and> list_all (\<lambda>f. fact_checks f \<and> 1 \<le> f_version f) (periodFacts s)
     \<and> list_all (item_in_period_version (boqItems s) (periods s)) (periodFacts s)"

definition db_ok :: "db \<Rightarrow> bool" where
  "db_ok s \<longleftrightarrow> ids_ok s \<and> uniques_ok s \<and> rows_ok s"

lemmas db_ok_defs = db_ok_def ids_ok_def uniques_ok_def rows_ok_def

lemma db_ok_empty: "db_ok empty_db"
  by (simp add: db_ok_defs empty_db_def keyed_def)

lemma db_ok_seq_mono: "db_ok s \<Longrightarrow> (\<And>T. seq s T \<le> f T) \<Longrightarrow> db_ok (s\<lparr>auditLog := a, seq := f\<rparr>)"
  by (auto simp: db_ok_defs intro: keyed_mono)

lemma db_ok_nextval: "db_ok s \<Longrightarrow> seq s T \<le> n \<Longrightarrow> db_ok (s\<lparr>seq := (seq s)(T := n)\<rparr>)"
  by (auto simp: db_ok_defs intro: keyed_mono)

lemma db_ok_fact_id:
  "db_ok s \<Longrightarrow> f \<in> set (periodFacts s) \<Longrightarrow> g \<in> set (periodFacts s) \<Longrightarrow> f_id f = f_id g \<Longrightarrow> f = g"
  by (auto simp: db_ok_defs intro: keyed_unique)

lemma db_ok_period_id:
  "db_ok s \<Longrightarrow> p \<in> set (periods s) \<Longrightarrow> q \<in> set (periods s) \<Longrightarrow> p_id p = p_id q \<Longrightarrow> p = q"
  by (auto simp: db_ok_defs intro: keyed_unique)

lemma db_ok_period_key:
  "db_ok s \<Longrightarrow> p \<in> set (periods s) \<Longrightarrow> q \<in> set (periods s) \<Longrightarrow>
   p_objectId p = p_objectId q \<Longrightarrow> p_periodNumber p = p_periodNumber q \<Longrightarrow> p = q"
  by (auto simp: db_ok_defs period_key_def intro: distinct_map_inj[where key = period_key])

lemma find_period_iff:
  "db_ok s \<Longrightarrow> find_period i s = Some p \<longleftrightarrow> p \<in> set (periods s) \<and> p_id p = i"
  unfolding find_period_def
  by (auto simp: db_ok_defs dest: find_SomeD keyed_find)

lemma find_fact_iff:
  assumes "db_ok s"
  shows "find_fact i b s = Some f \<longleftrightarrow> f \<in> set (periodFacts s) \<and> f_periodId f = i \<and> f_boqItemId f = b"
proof
  assume "find_fact i b s = Some f"
  then show "f \<in> set (periodFacts s) \<and> f_periodId f = i \<and> f_boqItemId f = b"
    unfolding find_fact_def by (blast dest: find_SomeD)
next
  assume f: "f \<in> set (periodFacts s) \<and> f_periodId f = i \<and> f_boqItemId f = b"
  have "distinct (map fact_key (periodFacts s))" using assms by (simp add: db_ok_defs)
  from distinct_map_find[OF this, of f] f show "find_fact i b s = Some f"
    by (simp add: find_fact_def fact_key_def)
qed

section \<open>How the store evolves\<close>

definition periods_kept :: "db \<Rightarrow> db \<Rightarrow> bool" where
  "periods_kept s s' \<longleftrightarrow> (\<forall>p \<in> set (periods s). \<exists>p' \<in> set (periods s').
     p_id p' = p_id p \<and> period_key p' = period_key p \<and> p_boqVersionId p' = p_boqVersionId p)"

definition facts_kept :: "db \<Rightarrow> db \<Rightarrow> bool" where
  "facts_kept s s' \<longleftrightarrow> (\<forall>f \<in> set (periodFacts s). \<exists>f' \<in> set (periodFacts s').
     f_id f' = f_id f \<and> fact_key f' = fact_key f \<and> f_version f \<le> f_version f')"

definition sla_kept :: "db \<Rightarrow> db \<Rightarrow> bool" where
  "sla_kept s s' \<longleftrightarrow> (\<forall>e \<in> set (slaEvents s). \<exists>e' \<in> set (slaEvents s').
     sl_id e' = sl_id e \<and> (sl_executedAt e \<noteq> None \<longrightarrow> sl_executedAt e' \<noteq> None)
     \<and> (sl_isCancelled e \<longrightarrow> sl_isCancelled e'))"

definition evolves :: "db \<Rightarrow> db \<Rightarrow> bool" where
  "evolves s s' \<longleftrightarrow>
     (\<forall>T. seq s T \<le> seq s' T) \<and> (\<exists>rows. auditLog s' = auditLog s @ rows)
     \<and> (db_ok s \<longrightarrow> db_ok s' \<and> periods_kept s s' \<and> facts_kept s s' \<and> sla_kept s s')"

lemmas kept_defs = periods_kept_def facts_kept_def sla_kept_def

lemma kept_refl: "periods_kept s s" "facts_kept s s" "sla_kept s s"
  by (auto simp: kept_defs)

lemma periods_kept_trans: "periods_kept s t \<Longrightarrow> periods_kept t u \<Longrightarrow> periods_kept s u"
  unfolding periods_kept_def by metis

lemma facts_kept_trans: "facts_kept s t \<Longrightarrow> facts_kept t u \<Longrightarrow> facts_kept s u"
  unfolding facts_kept_def by (metis order_trans)

lemma sla_kept_trans: "sla_kept s t \<Longrightarrow> sla_kept t u \<Longrightarrow> sla_kept s u"
  unfolding sla_kept_def by metis

text \<open>A table that is untouched is kept; so is one that gets a new row.\<close>

lemma kept_same:
  "periods s' = periods s \<Longrightarrow> periods_kept s s'" "periodFacts s' = periodFacts s \<Longrightarrow> facts_kept s s'"
  "slaEvents s' = slaEvents s \<Longrightarrow> sla_kept s s'"
  by (auto simp: kept_defs)

lemma kept_append:
  "periods s' = periods s @ ps \<Longrightarrow> periods_kept s s'"
  "periodFacts s' = periodFacts s @ fs \<Longrightarrow> facts_kept s s'"
  "slaEvents s' = slaEvents s @ es \<Longrightarrow> sla_kept s s'"
  by (auto simp: kept_defs)

lemma evolvesI:
  assumes "\<And>T. seq s T \<le> seq s' T" and "auditLog s' = auditLog s @ rows"
    and "db_ok s \<Longrightarrow> db_ok s'" and "db_ok s \<Longrightarrow> periods_kept s s'"
    and "db_ok s \<Longrightarrow> facts_kept s s'" and "db_ok s \<Longrightarrow> sla_kept s s'"
  shows "evolves s s'"
  using assms by (auto simp: evolves_def)

lemma evolves_db_ok: "evolves s s' \<Longrightarrow> db_ok s \<Longrightarrow> db_ok s'"
  by (simp add: evolves_def)

lemma evolves_refl: "evolves s s"
  by (simp add: evolves_def kept_refl)

lemma evolves_trans: "evolves s t \<Longrightarrow> evolves t u \<Longrightarrow> evolves s u"
  unfolding evolves_def
  by (auto intro: periods_kept_trans facts_kept_trans sla_kept_trans order_trans)

lemma evolves_keep: "evolves s s' \<Longrightarrow> evolves s (keep_outside s' s)"
  unfolding evolves_def keep_outside_def
  by (auto simp: kept_defs intro!: db_ok_seq_mono)

interpretation ev: step_rel evolves keep_outside
  by unfold_locales (fact evolves_refl, fact evolves_trans, fact evolves_keep)

definition same_static :: "db \<Rightarrow> db \<Rightarrow> bool" where
  "same_static s s' \<longleftrightarrow>
     users s' = users s \<and> objects s' = objects s \<and> boqVersions s' = boqVersions s
     \<and> boqItems s' = boqItems s \<and> systemConfig s' = systemConfig s
     \<and> participants s' = participants s \<and> documents s' = documents s
     \<and> baselineRequests s' = baselineRequests s \<and> refreshTokens s' = refreshTokens s
     \<and> mvRows s' = mvRows s \<and> mvRefreshLog s' = mvRefreshLog s \<and> mv_columns s' = mv_columns s
     \<and> audit_actions s' = audit_actions s \<and> clock s' = clock s"

interpretation static: step_rel same_static keep_outside
  by unfold_locales (auto simp: same_static_def keep_outside_def)

definition same_periods :: "db \<Rightarrow> db \<Rightarrow> bool" where
  "same_periods s s' \<longleftrightarrow> periods s' = periods s"

interpretation pers: step_rel same_periods keep_outside
  by unfold_locales (auto simp: same_periods_def keep_outside_def)

section \<open>The single-row writes\<close>

named_theorems ev_writes \<open>writes that move the store along evolves\<close>

lemma evolves_nextval: "evolves s (s\<lparr>seq := (seq s)(T := seq s T + 1)\<rparr>)"
  by (rule evolvesI[where rows = "[]"]) (auto intro: db_ok_nextval kept_same)

lemma moves_evolvesI:
  "(\<And>s. wp m (\<lambda>_. evolves s) (\<lambda>_. evolves s) s) \<Longrightarrow> moves evolves m"
  by (simp add: moves_iff_wp)

lemma ev_audit_log [ev_writes]: "moves evolves (audit_log ps)"
  by (rule moves_evolvesI)
     (auto simp: wp_simps evolves_refl db_ok_defs intro!: evolvesI kept_same)

text \<open>A write to a table other than periods, facts and SLA events only has to keep \<open>db_ok\<close>.\<close>

lemma evolves_table:
  assumes "seq s' = seq s" "auditLog s' = auditLog s" "periods s' = periods s"
    and "periodFacts s' = periodFacts s" "slaEvents s' = slaEvents s" "db_ok s \<Longrightarrow> db_ok s'"
  shows "evolves s s'"
  using assms by (intro evolvesI[where rows = "[]"]) (auto intro: kept_same)

text \<open>Drawing a key and then adding the row.\<close>

lemma evolves_insert:
  assumes "seq s' = (seq s)(T := seq s T + 1)" "auditLog s' = auditLog s"
    and "db_ok s \<Longrightarrow> db_ok s'"
    and "periods s' = periods s \<or> (\<exists>ps. periods s' = periods s @ ps)"
    and "periodFacts s' = periodFacts s \<or> (\<exists>fs. periodFacts s' = periodFacts s @ fs)"
    and "slaEvents s' = slaEvents s \<or> (\<exists>es. slaEvents s' = slaEvents s @ es)"
  shows "evolves s s'"
  using assms by (intro evolvesI[where rows = "[]"]) (auto intro: kept_same kept_append)

lemma ev_insert_notification [ev_writes]:
  "(\<And>i. n_id (mk i) = i) \<Longrightarrow> moves evolves (insert_notification mk)"
  by (rule moves_evolvesI)
     (auto simp: insert_notification_def wp_simps db_ok_defs
           intro!: evolves_insert[where T = TNotifications] keyed_append)

lemma ev_update_notifications_where [ev_writes]:
  "(\<And>n. n_id (g n) = n_id n) \<Longrightarrow> moves evolves (update_notifications_where P g)"
  unfolding update_notifications_where_def
  by (rule ev.moves_modify) (auto simp: db_ok_defs keyed_update_where intro!: evolves_table)

lemma insertable_new_key [simp]: "period_insertable p ps \<Longrightarrow> period_key p \<notin> period_key ` set ps"
  by (auto simp: period_insertable_def period_key_def list_all_iff)

lemma insertable_new_token:
  "period_insertable p ps \<Longrightarrow> distinct (List.map_filter p_gpSubmissionToken ps) \<Longrightarrow>
   distinct (List.map_filter p_gpSubmissionToken (ps @ [p]))"
  by (auto simp: period_insertable_def map_filter_def list_all_iff split: option.splits)

lemma item_in_version_more [simp]:
  "list_all (item_in_period_version bis ps) fs \<Longrightarrow> list_all (item_in_period_version bis (ps @ qs)) fs"
  by (erule list.pred_mono_strong) (auto simp: item_in_period_version_def list_ex_iff)

lemma ev_insert_period [ev_writes]:
  "(\<And>i. p_id (mk i) = i) \<Longrightarrow> moves evolves (insert_period mk)"
  by (rule moves_evolvesI)
     (auto simp: insert_period_def wp_simps evolves_nextval db_ok_defs
           intro!: evolves_insert[where T = TPeriods] keyed_append insertable_new_token)

text \<open>An update keeps the row's key and moves it along \<open>Q\<close>.\<close>

lemma kept_update_where:
  assumes "\<And>r. r \<in> set rows \<Longrightarrow> P r \<Longrightarrow> Q r (f r)" and "\<And>r. Q r r"
  shows "\<forall>r \<in> set rows. \<exists>r' \<in> set (update_where P f rows). Q r r'"
proof
  fix r assume r: "r \<in> set rows"
  then have "(if P r then f r else r) \<in> set (update_where P f rows)"
    by (rule mem_update_where)
  moreover have "Q r (if P r then f r else r)" using r assms by simp
  ultimately show "\<exists>r' \<in> set (update_where P f rows). Q r r'" by blast
qed

lemma ev_update_period [ev_writes]:
  assumes g: "\<And>p. p_id (g p) = p_id p \<and> period_key (g p) = period_key p
                    \<and> p_boqVersionId (g p) = p_boqVersionId p
                    \<and> p_gpSubmissionToken (g p) = p_gpSubmissionToken p"
  shows "moves evolves (update_period i g)"
proof -
  have num: "p_periodNumber (g p) = p_periodNumber p" for p
    using g[of p] by (simp add: period_key_def)
  have tokens: "List.map_filter p_gpSubmissionToken (update_where P g ps)
        = List.map_filter p_gpSubmissionToken ps" for P ps
    by (induction ps) (simp_all add: map_filter_def g)
  have inv: "item_in_period_version bis (update_where P g ps) = item_in_period_version bis ps" for P ps bis
  proof -
    have "list_ex (\<lambda>p. p_id p = j \<and> p_boqVersionId p = v) (update_where P g ps)
        = list_ex (\<lambda>p. p_id p = j \<and> p_boqVersionId p = v) ps" for j v
      by (induction ps) (auto simp: g)
    then show ?thesis by (simp add: item_in_period_version_def fun_eq_iff)
  qed
  have "evolves s (s\<lparr>periods := update_where (\<lambda>p. p_id p = i) g (periods s)\<rparr>)" for s
    unfolding evolves_def periods_kept_def
    using g num
    by (auto simp: tokens inv db_ok_defs keyed_update_where distinct_map_update_where list_all_iff
          set_update_where kept_same intro!: kept_update_where)
  then show ?thesis
    by (auto simp: moves_iff_wp update_period_def wp_simps evolves_refl split: option.split)
qed

lemma ev_insert_fact [ev_writes]:
  assumes mk: "\<And>i. f_id (mk i) = i" "\<And>i. f_version (mk i) = 1"
  shows "moves evolves (insert_fact mk)"
proof -
  have new: "fact_key f \<notin> fact_key ` set (periodFacts s)"
    if "find_fact (f_periodId f) (f_boqItemId f) s = None" for f s
    using that by (auto simp: find_fact_def find_None_iff_all fact_key_def)
  show ?thesis
    by (rule moves_evolvesI)
       (auto simp: insert_fact_def check_fact_def wp_simps evolves_nextval db_ok_defs mk
             dest!: new intro!: evolves_insert[where T = TPeriodFacts] keyed_append)
qed

lemma bump_version_simps [simp]:
  "f_id (bump_version old new) = f_id new" "f_periodId (bump_version old new) = f_periodId new"
  "f_boqItemId (bump_version old new) = f_boqItemId new"
  "f_gpVolume (bump_version old new) = f_gpVolume new" "f_gpNote (bump_version old new) = f_gpNote new"
  "f_scVolume (bump_version old new) = f_scVolume new"
  "f_acceptedVolume (bump_version old new) = f_acceptedVolume new"
  "f_discrepancyType (bump_version old new) = f_discrepancyType new"
  "f_discrepancyStatus (bump_version old new) = f_discrepancyStatus new"
  "f_isSpike (bump_version old new) = f_isSpike new"
  "f_spikeResponse (bump_version old new) = f_spikeResponse new"
  "fact_checks (bump_version old new) = fact_checks new"
  "fact_key (bump_version old new) = fact_key new"
  by (simp_all add: bump_version_def fact_checks_def fact_key_def)

lemma bump_version_bounds:
  "f_version new = f_version old \<Longrightarrow> f_version old \<le> f_version (bump_version old new)"
  by (simp add: bump_version_def)

lemma item_in_version_key:
  "fact_key f = fact_key g \<Longrightarrow> item_in_period_version bis ps f = item_in_period_version bis ps g"
  by (simp add: item_in_period_version_def fact_key_def)

lemma evolves_update_fact:
  assumes old: "old \<in> set (periodFacts s)" and key: "f_id new = f_id old" "fact_key new = fact_key old"
    and ok: "fact_checks new" and ver: "f_version old \<le> f_version new"
  shows "evolves s (s\<lparr>periodFacts := update_where (\<lambda>f. f_id f = f_id old) (\<lambda>_. new) (periodFacts s)\<rparr>)"
    (is "evolves s ?t")
proof -
  have same: "f = old" if "db_ok s" "f \<in> set (periodFacts s)" "f_id f = f_id old" for f
    using db_ok_fact_id[OF that(1,2) old that(3)] .
  have "update_where (\<lambda>f. f_id f = f_id old) (\<lambda>_. new) (periodFacts s)
          = update_where (\<lambda>f. f = old) (\<lambda>_. new) (periodFacts s)" if "db_ok s"
    using same[OF that] by (auto simp: update_where_def)
  moreover have "db_ok (s\<lparr>periodFacts := update_where (\<lambda>f. f = old) (\<lambda>_. new) (periodFacts s)\<rparr>)"
    if ok_s: "db_ok s"
  proof -
    let ?fs = "update_where (\<lambda>f. f = old) (\<lambda>_. new) (periodFacts s)"
    have "1 \<le> f_version old" using ok_s old by (auto simp: db_ok_defs list_all_iff)
    moreover have "keyed f_id ?fs n = keyed f_id (periodFacts s) n" for n
      by (rule keyed_update_where) (simp add: key)
    moreover have "distinct (map fact_key ?fs) = distinct (map fact_key (periodFacts s))"
      by (rule distinct_map_update_where) (simp add: key)
    moreover have "item_in_period_version (boqItems s) (periods s) new"
      using ok_s old item_in_version_key[OF key(2)] by (simp add: db_ok_defs list_all_iff)
    ultimately show ?thesis
      using ok_s ok ver by (auto simp: db_ok_defs set_update_where list_all_iff)
  qed
  moreover have "facts_kept s ?t" if "db_ok s"
    unfolding facts_kept_def
    by (simp, rule kept_update_where) (auto simp: key ver dest!: same[OF that])
  ultimately show ?thesis
    by (intro evolvesI[where rows = "[]"]) (auto intro: kept_same)
qed

lemma ev_update_fact [ev_writes]:
  assumes g: "\<And>f. f_id (g f) = f_id f \<and> fact_key (g f) = fact_key f \<and> f_version (g f) = f_version f"
  shows "moves evolves (update_fact i g)"
proof (rule moves_evolvesI)
  fix s
  show "wp (update_fact i g) (\<lambda>_. evolves s) (\<lambda>_. evolves s) s"
  proof (cases "List.find (\<lambda>f. f_id f = i) (periodFacts s)")
    case None
    then show ?thesis by (simp add: update_fact_def wp_simps evolves_refl)
  next
    case (Some old)
    have "old \<in> set (periodFacts s)" "f_id old = i" using find_SomeD[OF Some] by auto
    then show ?thesis
      using Some evolves_update_fact[of old s "bump_version old (g old)"] g bump_version_bounds[of "g old" old]
      by (auto simp: update_fact_def check_fact_def wp_simps evolves_refl)
  qed
qed

lemma ev_upsert_fact [ev_writes]:
  assumes "\<And>i. f_id (mk i) = i" "\<And>i. f_version (mk i) = 1"
    and "\<And>f. f_id (g f) = f_id f \<and> fact_key (g f) = fact_key f \<and> f_version (g f) = f_version f"
  shows "moves evolves (upsert_fact i b mk g)"
  unfolding upsert_fact_def
  by (intro ev.moves_rules ev_insert_fact ev_update_fact assms)

lemma ev_notify_users [ev_writes]: "moves evolves (notify_users us typ tab i msg)"
  unfolding notify_users_def by (intro ev.moves_rules ev_insert_notification) simp

lemma list_all_new_key [simp]: "list_all (\<lambda>q. key q \<noteq> key r) rows \<Longrightarrow> key r \<notin> key ` set rows"
  by (auto simp: list_all_iff)

lemma ev_insert_snapshot [ev_writes]: "moves evolves (insert_snapshot r)"
  by (rule moves_evolvesI)
     (auto simp: insert_snapshot_def wp_simps evolves_refl db_ok_defs intro!: evolves_table)

lemma ev_delete_snapshots [ev_writes]:
  "moves evolves (delete_snapshots P)"
  unfolding delete_snapshots_def
  by (rule ev.moves_modify)
     (auto simp: db_ok_defs delete_where_def distinct_map_filter intro!: evolves_table)

lemma same_pace_key_iff: "same_pace_key r q \<longleftrightarrow> pace_key q = pace_key r"
  by (auto simp: same_pace_key_def pace_key_def)

lemma distinct_upsert_pace:
  assumes "distinct (map pace_key ws)"
  shows "distinct (map pace_key (if list_ex (same_pace_key r) ws
           then update_where (same_pace_key r) (\<lambda>_. r) ws else ws @ [r]))"
proof -
  have "distinct (map pace_key (update_where (same_pace_key r) (\<lambda>_. r) ws)) = distinct (map pace_key ws)"
    by (rule distinct_map_update_where) (simp add: same_pace_key_iff)
  then show ?thesis using assms by (auto simp: list_ex_iff same_pace_key_iff)
qed

lemma ev_upsert_work_pace [ev_writes]: "moves evolves (upsert_work_pace r)"
  unfolding upsert_work_pace_def
  by (rule ev.moves_modify, rule evolves_table)
     (simp_all add: db_ok_defs distinct_upsert_pace split del: if_split)

lemma ev_insert_discrepancy [ev_writes]:
  "(\<And>i. d_id (mk i) = i) \<Longrightarrow> moves evolves (insert_discrepancy mk)"
  by (rule moves_evolvesI)
     (auto simp: insert_discrepancy_def wp_simps db_ok_defs
           intro!: evolves_insert[where T = TDiscrepancies] keyed_append)

lemma ev_update_discrepancy [ev_writes]:
  "(\<And>d. d_id (g d) = d_id d) \<Longrightarrow> moves evolves (update_discrepancy i g)"
  by (rule moves_evolvesI)
     (auto simp: update_discrepancy_def wp_simps evolves_refl db_ok_defs keyed_update_where
           intro!: evolves_table split: option.split)

lemma ev_insert_photo [ev_writes]:
  "(\<And>i. ph_id (mk i) = i) \<Longrightarrow> moves evolves (insert_photo mk)"
  by (rule moves_evolvesI)
     (auto simp: insert_photo_def wp_simps evolves_nextval db_ok_defs
           intro!: evolves_insert[where T = TPhotos] keyed_append)

lemma ev_insert_sla_event [ev_writes]:
  "(\<And>i. sl_id (mk i) = i) \<Longrightarrow> moves evolves (insert_sla_event mk)"
  by (rule moves_evolvesI)
     (auto simp: insert_sla_event_def wp_simps evolves_nextval db_ok_defs
           intro!: evolves_insert[where T = TSlaEvents] keyed_append)

lemma ev_update_sla_where [ev_writes]:
  assumes "\<And>e. sl_id (g e) = sl_id e"
    and "\<And>e. sl_executedAt e \<noteq> None \<Longrightarrow> sl_executedAt (g e) \<noteq> None"
    and "\<And>e. sl_isCancelled e \<Longrightarrow> sl_isCancelled (g e)"
  shows "moves evolves (update_sla_where P g)"
  unfolding update_sla_where_def
proof (rule ev.moves_modify)
  fix s :: db
  let ?t = "s\<lparr>slaEvents := update_where P g (slaEvents s)\<rparr>"
  have "sla_kept s ?t"
    unfolding sla_kept_def by (simp, rule kept_update_where) (use assms in auto)
  moreover have "db_ok s \<Longrightarrow> db_ok ?t"
    using assms(1) by (auto simp: db_ok_defs keyed_update_where)
  ultimately show "evolves s ?t"
    by (intro evolvesI[where rows = "[]"]) (auto intro: kept_same)
qed

lemma ev_enqueue_job [ev_writes]: "moves evolves (enqueue_job j)"
  unfolding enqueue_job_def
  by (rule ev.moves_modify) (auto simp: db_ok_defs intro!: evolves_table)

lemma ev_insert_zero_report [ev_writes]:
  "(\<And>i. zr_id (mk i) = i) \<Longrightarrow> moves evolves (insert_zero_report mk)"
  by (rule moves_evolvesI)
     (auto simp: insert_zero_report_def wp_simps evolves_nextval db_ok_defs
           intro!: evolves_insert[where T = TZeroReports] keyed_append)

lemma ev_update_zero_report [ev_writes]:
  "(\<And>z. zr_id (g z) = zr_id z) \<Longrightarrow> moves evolves (update_zero_report i g)"
  by (rule moves_evolvesI)
     (auto simp: update_zero_report_def wp_simps evolves_refl db_ok_defs keyed_update_where
           intro!: evolves_table split: option.split)

lemma ev_upsert_zero_item [ev_writes]:
  assumes mk: "\<And>i. zi_id (mk i) = i \<and> zi_zeroReportId (mk i) = r \<and> zi_boqItemId (mk i) = b"
  shows "moves evolves (upsert_zero_item r b mk)"
proof (rule moves_evolvesI)
  fix s
  show "wp (upsert_zero_item r b mk) (\<lambda>_. evolves s) (\<lambda>_. evolves s) s"
  proof (cases "find_zero_item r b s")
    case None
    then have "item_key (mk i) \<notin> item_key ` set (zeroReportItems s)" for i
      using mk by (auto simp: find_zero_item_def find_None_iff_all item_key_def)
    then show ?thesis
      using None mk
      by (auto simp: upsert_zero_item_def wp_simps evolves_nextval db_ok_defs
               intro!: evolves_insert[where T = TZeroReportItems] keyed_append)
  next
    case (Some z)
    let ?zs = "update_where (\<lambda>q. zi_id q = zi_id z) (\<lambda>_. mk (zi_id z)) (zeroReportItems s)"
    have z: "z \<in> set (zeroReportItems s)" "item_key z = (r, b)"
      using find_SomeD[OF Some[unfolded find_zero_item_def]] by (auto simp: item_key_def)
    have "keyed zi_id ?zs n = keyed zi_id (zeroReportItems s) n" for n
      by (rule keyed_update_where) (simp add: mk)
    moreover have "map item_key ?zs = map item_key (zeroReportItems s)" if "db_ok s"
    proof -
      have "keyed zi_id (zeroReportItems s) (seq s TZeroReportItems)" using that by (simp add: db_ok_defs)
      then have "q = z" if "q \<in> set (zeroReportItems s)" "zi_id q = zi_id z" for q
        using that z by (blast intro: keyed_unique)
      then show ?thesis using z mk by (auto simp: update_where_def item_key_def)
    qed
    ultimately show ?thesis
      using Some by (auto simp: upsert_zero_item_def wp_simps evolves_refl db_ok_defs intro!: evolves_table)
  qed
qed

lemma ev_insert_sync [ev_writes]:
  assumes "\<And>i. q_id (mk i) = i"
  shows "moves evolves (insert_sync mk)"
proof -
  have new: "sync_key q \<notin> sync_key ` set (syncQueue s)"
    if "find_sync (q_deviceId q) (q_clientOpId q) s = None" for q s
    using that by (auto simp: find_sync_def find_None_iff_all sync_key_def)
  show ?thesis
    by (rule moves_evolvesI)
       (auto simp: insert_sync_def wp_simps evolves_nextval db_ok_defs assms
             dest!: new intro!: evolves_insert[where T = TSyncQueue] keyed_append)
qed

lemma ev_update_sync [ev_writes]:
  "(\<And>q. q_id (g q) = q_id q \<and> sync_key (g q) = sync_key q) \<Longrightarrow> moves evolves (update_sync i g)"
  by (rule moves_evolvesI)
     (auto simp: update_sync_def wp_simps evolves_refl db_ok_defs keyed_update_where
           distinct_map_update_where intro!: evolves_table)

lemma ev_delete_sync [ev_writes]:
  "moves evolves (delete_sync P)"
  unfolding delete_sync_def
  by (rule ev.moves_modify)
     (auto simp: db_ok_defs delete_where_def distinct_map_filter intro!: evolves_table keyed_filter)

text \<open>No write of a service touches users, objects, the BoQ, the configuration or the clock.\<close>

lemmas write_defs =
  insert_notification_def notify_users_def insert_period_def update_period_def insert_fact_def
  update_fact_def check_fact_def insert_snapshot_def upsert_work_pace_def insert_discrepancy_def
  update_discrepancy_def insert_photo_def insert_sla_event_def update_sla_where_def enqueue_job_def
  insert_zero_report_def update_zero_report_def upsert_zero_item_def insert_sync_def update_sync_def
  delete_snapshots_def delete_sync_def update_notifications_where_def

lemma static_writes:
  "moves same_static (audit_log ps)" "moves same_static (insert_notification mkn)"
  "moves same_static (insert_period mkp)" "moves same_static (update_period i gp)"
  "moves same_static (insert_fact mkf)" "moves same_static (update_fact i gf)"
  "moves same_static (insert_snapshot r)" "moves same_static (upsert_work_pace w)"
  "moves same_static (insert_discrepancy mkd)" "moves same_static (update_discrepancy i gd)"
  "moves same_static (insert_photo mkph)" "moves same_static (insert_sla_event mks)"
  "moves same_static (update_sla_where P gs)" "moves same_static (enqueue_job j)"
  "moves same_static (insert_zero_report mkz)" "moves same_static (update_zero_report i gz)"
  "moves same_static (upsert_zero_item i b mki)" "moves same_static (insert_sync mkq)"
  "moves same_static (update_sync i gq)"
  "moves same_static (delete_snapshots Pr)"
  "moves same_static (delete_sync Pq)"
  "moves same_static (update_notifications_where Pn gn)"
  by (auto simp: moves_iff_wp write_defs wp_simps same_static_def split: option.split)

text \<open>Only the zero-report service writes its two tables.\<close>

definition same_zero :: "db \<Rightarrow> db \<Rightarrow> bool" where
  "same_zero s s' \<longleftrightarrow> zeroReports s' = zeroReports s \<and> zeroReportItems s' = zeroReportItems s"

interpretation zero: step_rel same_zero keep_outside
  by unfold_locales (auto simp: same_zero_def keep_outside_def)

lemma zero_frame:
  "moves same_zero (audit_log ps)" "moves same_zero (insert_notification mkn)"
  "moves same_zero (insert_period mkp)" "moves same_zero (update_period i gp)"
  "moves same_zero (insert_fact mkf)" "moves same_zero (update_fact i gf)"
  "moves same_zero (insert_snapshot r)" "moves same_zero (upsert_work_pace w)"
  "moves same_zero (insert_discrepancy mkd)" "moves same_zero (update_discrepancy i gd)"
  "moves same_zero (insert_photo mkph)" "moves same_zero (insert_sla_event mks)"
  "moves same_zero (update_sla_where P gs)" "moves same_zero (enqueue_job j)"
  "moves same_zero (insert_sync mkq)" "moves same_zero (update_sync i gq)"
  "moves same_zero (delete_snapshots Pr)" "moves same_zero (delete_sync Pq)"
  "moves same_zero (update_notifications_where Pn gn)"
  by (auto simp: moves_iff_wp write_defs wp_simps same_zero_def split: option.split)

text \<open>Only the period service writes the table of periods.\<close>

lemma period_writes:
  "moves same_periods (audit_log ps)" "moves same_periods (insert_notification mkn)"
  "moves same_periods (insert_fact mkf)" "moves same_periods (update_fact i gf)"
  "moves same_periods (insert_snapshot r)" "moves same_periods (upsert_work_pace w)"
  "moves same_periods (insert_discrepancy mkd)" "moves same_periods (update_discrepancy i gd)"
  "moves same_periods (insert_photo mkph)" "moves same_periods (insert_sla_event mks)"
  "moves same_periods (update_sla_where P gs)" "moves same_periods (enqueue_job j)"
  "moves same_periods (insert_zero_report mkz)" "moves same_periods (update_zero_report i gz)"
  "moves same_periods (upsert_zero_item i b mki)" "moves same_periods (insert_sync mkq)"
  "moves same_periods (update_sync i gq)"
  "moves same_periods (delete_snapshots Pr)"
  "moves same_periods (delete_sync Pq)"
  "moves same_periods (update_notifications_where Pn gn)"
  by (auto simp: moves_iff_wp write_defs wp_simps same_periods_def split: option.split)

end
