(* ===== verification/Work_Pace.thy ===== *)
theory Work_Pace
  imports Store_Invariant
begin

text \<open>
  \<^verbatim>\<open>WorkPaceService\<close> (\<^verbatim>\<open>modules/analytics/work-pace.service.ts\<close>): the decayed pace of a position
  over a window of periods, with the spike rule, and the two completion forecasts of an object.

  The three \<^verbatim>\<open>forEach\<close> loops over the window are one accumulator loop, \<open>weigh\<close>; the lemmas show that it
  computes the weighted sums it accumulates, hence that the pace lies between the smallest and the
  largest volume of the window, and how the spike rule moves it.  A JavaScript date that is out of
  range is the value \<open>InvalidDate\<close>, and a sum that an invalid date makes \<^verbatim>\<open>NaN\<close> is \<open>None\<close>.
\<close>

section \<open>Configuration\<close>

record pace_config =
  avgPacePeriods :: number
  decayFactor :: number
  spikeThreshold :: number
  weightThreshold :: number
  forecastGapPeriods :: number

definition PERIOD_LENGTH_DAYS :: int where
  "PERIOD_LENGTH_DAYS = 30"

definition DEFAULT_AVG_PACE_PERIODS :: number where
  "DEFAULT_AVG_PACE_PERIODS = 5"

definition DEFAULT_DECAY_FACTOR :: number where
  "DEFAULT_DECAY_FACTOR = 8 / 10"

definition DEFAULT_SPIKE_THRESHOLD :: number where
  "DEFAULT_SPIKE_THRESHOLD = 3"

definition DEFAULT_WEIGHT_THRESHOLD :: number where
  "DEFAULT_WEIGHT_THRESHOLD = 1 / 10"

definition DEFAULT_FORECAST_GAP_PERIODS :: number where
  "DEFAULT_FORECAST_GAP_PERIODS = 2"

lemmas pace_defaults =
  DEFAULT_AVG_PACE_PERIODS_def DEFAULT_DECAY_FACTOR_def DEFAULT_SPIKE_THRESHOLD_def
  DEFAULT_WEIGHT_THRESHOLD_def DEFAULT_FORECAST_GAP_PERIODS_def

text \<open>\<^verbatim>\<open>get(key, def)\<close> on the rows of the organization.\<close>

definition config_value :: "system_config list \<Rightarrow> string \<Rightarrow> number \<Rightarrow> number" where
  "config_value rows key d =
     (case List.find (\<lambda>r. c_key r = key) rows of
        None \<Rightarrow> d
      | Some r \<Rightarrow> (case c_valueNumeric r of None \<Rightarrow> d | Some v \<Rightarrow> v))"

definition getConfig :: "string \<Rightarrow> db \<Rightarrow> pace_config" where
  "getConfig organizationId s =
     (let rows = filter (\<lambda>r. c_organizationId r = organizationId
                   \<and> c_key r \<in> {''avg_pace_periods'', ''decay_factor'', ''spike_threshold'',
                                 ''weight_threshold'', ''forecast_gap_alert''}) (systemConfig s)
      in \<lparr>avgPacePeriods = config_value rows ''avg_pace_periods'' DEFAULT_AVG_PACE_PERIODS,
          decayFactor = config_value rows ''decay_factor'' DEFAULT_DECAY_FACTOR,
          spikeThreshold = config_value rows ''spike_threshold'' DEFAULT_SPIKE_THRESHOLD,
          weightThreshold = config_value rows ''weight_threshold'' DEFAULT_WEIGHT_THRESHOLD,
          forecastGapPeriods = config_value rows ''forecast_gap_alert'' DEFAULT_FORECAST_GAP_PERIODS\<rparr>)"

section \<open>The window\<close>

text \<open>
  Prisma's \<^verbatim>\<open>take\<close>: a fraction is refused, a negative number takes from the end.
\<close>

definition take_rows :: "number \<Rightarrow> 'r list \<Rightarrow> 'r list" where
  "take_rows n rows =
     (if 0 \<le> n then take (nat \<lfloor>n\<rfloor>) rows else drop (length rows - nat \<lfloor>- n\<rfloor>) rows)"

definition is_integer :: "number \<Rightarrow> bool" where
  "is_integer x \<longleftrightarrow> of_int \<lfloor>x\<rfloor> = x"

record window_row =
  wr_pace :: work_pace
  wr_periodNumber :: int
  wr_plannedPause :: bool

text \<open>A pace row joined with its period, when the period is one of the object up to the given one.\<close>

definition join_period :: "int \<Rightarrow> int \<Rightarrow> db \<Rightarrow> work_pace \<Rightarrow> window_row option" where
  "join_period objectId upTo s w =
     (case find_period (w_periodId w) s of
        None \<Rightarrow> None
      | Some p \<Rightarrow>
          if p_objectId p = objectId \<and> p_periodNumber p \<le> upTo
          then Some \<lparr>wr_pace = w, wr_periodNumber = p_periodNumber p, wr_plannedPause = p_plannedPause p\<rparr>
          else None)"

definition pace_window :: "int \<Rightarrow> int \<Rightarrow> int \<Rightarrow> number \<Rightarrow> db \<Rightarrow> window_row list" where
  "pace_window boqItemId objectId upTo n s =
     take_rows n (order_desc wr_periodNumber
       (List.map_filter (join_period objectId upTo s)
          (filter (\<lambda>w. w_boqItemId w = boqItemId) (workPaces s))))"

definition window_clean :: "window_row list \<Rightarrow> work_pace list" where
  "window_clean window =
     map wr_pace (filter (\<lambda>r. \<not> wr_plannedPause r \<and> \<not> w_isExcluded (wr_pace r)) window)"

section \<open>The decayed mean and the spike rule\<close>

text \<open>
  \<^verbatim>\<open>rows.forEach((r, i) => { weight = decay ** i; pw += volume * weight; w += weight })\<close>, from
  exponent \<open>i\<close> and sums \<open>pw\<close>, \<open>w\<close>.
\<close>

fun weigh :: "number \<Rightarrow> nat \<Rightarrow> number list \<Rightarrow> number \<times> number \<Rightarrow> number \<times> number" where
  "weigh decay i [] (pw, w) = (pw, w)"
| "weigh decay i (v # vs) (pw, w) =
     (let weight = decay ^ i in weigh decay (Suc i) vs (pw + v * weight, w + weight))"

text \<open>\<^verbatim>\<open>w > 0 ? pw / w : 0\<close>\<close>

definition mean_of :: "number \<times> number \<Rightarrow> number" where
  "mean_of acc = (if snd acc > 0 then fst acc / snd acc else 0)"

definition plain_pace :: "number \<Rightarrow> number list \<Rightarrow> number" where
  "plain_pace decay vs = mean_of (weigh decay 0 vs (0, 0))"

definition excluded_pace :: "number \<Rightarrow> number list \<Rightarrow> number" where
  "excluded_pace decay vs = mean_of (weigh decay 0 (tl vs) (0, 0))"

definition halved_pace :: "number \<Rightarrow> number list \<Rightarrow> number" where
  "halved_pace decay vs = mean_of (weigh decay 1 (tl vs) (hd vs * (1 / 2), 1 / 2))"

definition is_spike_window :: "pace_config \<Rightarrow> number list \<Rightarrow> bool" where
  "is_spike_window cfg vs \<longleftrightarrow>
     vs \<noteq> [] \<and> plain_pace (decayFactor cfg) vs > 0
     \<and> hd vs > plain_pace (decayFactor cfg) vs * spikeThreshold cfg"

definition spike_pace :: "number \<Rightarrow> number list \<Rightarrow> string option \<Rightarrow> number" where
  "spike_pace decay vs response =
     (if response = Some ''data_entry_error'' then excluded_pace decay vs else halved_pace decay vs)"

definition is_all_zero :: "number list \<Rightarrow> bool" where
  "is_all_zero vs \<longleftrightarrow> vs \<noteq> [] \<and> list_all (\<lambda>v. v = 0) vs"

section \<open>Dates of a forecast\<close>

datatype js_date = ValidDate date | InvalidDate

text \<open>\<^verbatim>\<open>new Date(t)\<close> for a number: truncated towards zero, invalid beyond 8.64e15 ms.\<close>

definition MAX_TIME :: int where
  "MAX_TIME = 8640000000000000"

definition new_date :: "number \<Rightarrow> js_date" where
  "new_date t =
     (if \<bar>t\<bar> > of_int MAX_TIME then InvalidDate
      else ValidDate (if 0 \<le> t then \<lfloor>t\<rfloor> else \<lceil>t\<rceil>))"

text \<open>\<^verbatim>\<open>d.getTime()\<close>, \<^verbatim>\<open>NaN\<close> as \<open>None\<close>.\<close>

fun getTime :: "js_date \<Rightarrow> number option" where
  "getTime (ValidDate t) = Some (of_int t)"
| "getTime InvalidDate = None"

section \<open>calcItemPace\<close>

record item_pace =
  paceWeighted :: number
  forecastEnd :: "js_date option"
  isAllZero :: bool

text \<open>The volume that counts for a fact: accepted, else that of the stroycontrol, else 0.\<close>

definition counted_volume :: "period_fact \<Rightarrow> number" where
  "counted_volume f =
     (case f_acceptedVolume f of
        Some v \<Rightarrow> v
      | None \<Rightarrow> (case f_scVolume f of Some v \<Rightarrow> v | None \<Rightarrow> 0))"

definition forecast_end :: "date \<Rightarrow> number \<Rightarrow> number \<Rightarrow> number \<Rightarrow> js_date" where
  "forecast_end t planVolume cumulative pace =
     (let remaining = planVolume - cumulative;
          periodsRemaining = max remaining 0 / pace
      in new_date (of_int t + periodsRemaining * of_int PERIOD_LENGTH_DAYS * of_int MS_PER_DAY))"

text \<open>The spike detection: marks the fact of the latest period and lowers its weight.\<close>

definition adjust_for_spike ::
  "pace_config \<Rightarrow> int \<Rightarrow> work_pace list \<Rightarrow> number service" where
  "adjust_for_spike cfg boqItemId windowClean =
     (let vs = map w_periodVolume windowClean in
      if is_spike_window cfg vs
      then bind (gets (find_fact (w_periodId (hd windowClean)) boqItemId)) (\<lambda>latestFact.
             case latestFact of
               None \<Rightarrow> ret (spike_pace (decayFactor cfg) vs None)
             | Some f \<Rightarrow>
                 andThen (bind (update_fact (f_id f) (\<lambda>r. r\<lparr>f_isSpike := True\<rparr>)) (\<lambda>_. ret ()))
                   (ret (spike_pace (decayFactor cfg) vs (f_spikeResponse f))))
      else ret (plain_pace (decayFactor cfg) vs))"

text \<open>The forecast of a position whose pace is known.\<close>

definition item_forecast ::
  "int \<Rightarrow> int \<Rightarrow> number \<Rightarrow> bool \<Rightarrow> item_pace service" where
  "item_forecast boqItemId asOfPeriodId finalPace allZero =
     (if finalPace \<le> 0
      then ret \<lparr>paceWeighted = 0, forecastEnd = None, isAllZero = allZero\<rparr>
      else bind (gets (find_fact asOfPeriodId boqItemId)) (\<lambda>fact.
        case fact of
          None \<Rightarrow> ret \<lparr>paceWeighted = finalPace, forecastEnd = None, isAllZero = allZero\<rparr>
        | Some f \<Rightarrow>
            bind (getsOr (find_boq_item (f_boqItemId f)) (PrismaError RecordNotFound)) (\<lambda>bi.
            bind now (\<lambda>t.
              ret \<lparr>paceWeighted = finalPace,
                   forecastEnd = Some (forecast_end t (bi_planVolume bi) (counted_volume f) finalPace),
                   isAllZero = allZero\<rparr>))))"

definition calcItemPace :: "int \<Rightarrow> int \<Rightarrow> int \<Rightarrow> item_pace service" where
  "calcItemPace boqItemId objectId asOfPeriodId =
     bind (getsOr (find_object objectId) (PrismaError RecordNotFound)) (\<lambda>ob.
     bind (gets (getConfig (o_organizationId ob))) (\<lambda>cfg.
     bind (getsOr (find_period asOfPeriodId) (PrismaError RecordNotFound)) (\<lambda>asOf.
     andThen (guard (is_integer (avgPacePeriods cfg)) (PrismaError InvalidArgument))
    (bind (gets (\<lambda>s. window_clean
             (pace_window boqItemId objectId (p_periodNumber asOf) (avgPacePeriods cfg) s))) (\<lambda>windowClean.
     bind (adjust_for_spike cfg boqItemId windowClean) (\<lambda>finalPace.
     bind (gets (users_with_role (o_organizationId ob) Director)) (\<lambda>directors.
     andThen (whenM (is_all_zero (map w_periodVolume windowClean))
                (notify_users directors ''zero_pace_forecast'' ''boq_items'' boqItemId
                   (ZeroPaceText boqItemId)))
       (item_forecast boqItemId asOfPeriodId finalPace
          (is_all_zero (map w_periodVolume windowClean))))))))))"

section \<open>calcObjectForecast\<close>

record object_forecast =
  weightedForecastDate :: "js_date option"
  criticalPathForecastDate :: "js_date option"
  gapFlag :: bool

text \<open>The variables \<^verbatim>\<open>weightedSum\<close> (\<open>None\<close> is \<^verbatim>\<open>NaN\<close>), \<^verbatim>\<open>weightedTotal\<close> and \<^verbatim>\<open>criticalMax\<close> of the loop.\<close>

record forecast_sums =
  weightedSum :: "number option"
  weightedTotal :: number
  criticalMax :: "js_date option"

text \<open>\<^verbatim>\<open>!criticalMax || d.getTime() > criticalMax.getTime()\<close>; a comparison with \<^verbatim>\<open>NaN\<close> is false.\<close>

definition later_date :: "js_date \<Rightarrow> js_date option \<Rightarrow> bool" where
  "later_date d m =
     (case m of
        None \<Rightarrow> True
      | Some e \<Rightarrow> (case (getTime d, getTime e) of (Some x, Some y) \<Rightarrow> x > y | _ \<Rightarrow> False))"

definition add_forecast :: "pace_config \<Rightarrow> number \<Rightarrow> js_date \<Rightarrow> forecast_sums \<Rightarrow> forecast_sums" where
  "add_forecast cfg weight d acc =
     \<lparr>weightedSum = (case (weightedSum acc, getTime d) of
                       (Some x, Some t) \<Rightarrow> Some (x + t * weight) | _ \<Rightarrow> None),
      weightedTotal = weightedTotal acc + weight,
      criticalMax = (if weight \<ge> weightThreshold cfg \<and> later_date d (criticalMax acc)
                     then Some d else criticalMax acc)\<rparr>"

definition no_forecasts :: forecast_sums where
  "no_forecasts = \<lparr>weightedSum = Some 0, weightedTotal = 0, criticalMax = None\<rparr>"

definition gap_flag :: "pace_config \<Rightarrow> js_date option \<Rightarrow> js_date option \<Rightarrow> bool" where
  "gap_flag cfg w c =
     (case (w, c) of
        (Some wd, Some cd) \<Rightarrow>
          (case (getTime wd, getTime cd) of
             (Some x, Some y) \<Rightarrow>
               \<bar>y - x\<bar> / of_int MS_PER_DAY / of_int PERIOD_LENGTH_DAYS \<ge> forecastGapPeriods cfg
           | _ \<Rightarrow> False)
      | _ \<Rightarrow> False)"

definition forecast_of_sums :: "pace_config \<Rightarrow> forecast_sums \<Rightarrow> object_forecast" where
  "forecast_of_sums cfg acc =
     (let w = (if weightedTotal acc > 0
               then Some (case weightedSum acc of
                            None \<Rightarrow> InvalidDate
                          | Some x \<Rightarrow> new_date (x / weightedTotal acc))
               else None)
      in \<lparr>weightedForecastDate = w, criticalPathForecastDate = criticalMax acc,
          gapFlag = gap_flag cfg w (criticalMax acc)\<rparr>)"

text \<open>The positions that carry a weight: \<^verbatim>\<open>status: 'active', weightCoef: { not: null }\<close>.\<close>

definition weighted_items :: "int \<Rightarrow> db \<Rightarrow> (int \<times> number) list" where
  "weighted_items boqVersionId s =
     List.map_filter (\<lambda>b. case bi_weightCoef b of
         None \<Rightarrow> None
       | Some c \<Rightarrow> if bi_boqVersionId b = boqVersionId \<and> bi_status b = BActive
                   then Some (bi_id b, c) else None) (boqItems s)"

definition calcObjectForecast :: "int \<Rightarrow> int \<Rightarrow> object_forecast service" where
  "calcObjectForecast objectId asOfPeriodId =
     bind (getsOr (find_object objectId) (PrismaError RecordNotFound)) (\<lambda>ob.
     bind (gets (getConfig (o_organizationId ob))) (\<lambda>cfg.
     bind (getsOr (find_period asOfPeriodId) (PrismaError RecordNotFound)) (\<lambda>per.
     bind (gets (weighted_items (p_boqVersionId per))) (\<lambda>items.
     bind (foldEach items no_forecasts (\<lambda>item acc.
             bind (calcItemPace (fst item) objectId asOfPeriodId) (\<lambda>pace.
             case forecastEnd pace of
               None \<Rightarrow> ret acc
             | Some d \<Rightarrow> ret (add_forecast cfg (snd item) d acc)))) (\<lambda>acc.
     ret (forecast_of_sums cfg acc))))))"

section \<open>What the loop over the window computes\<close>

lemma weigh_sums:
  "weigh d i vs (pw, w) =
     (pw + (\<Sum>k<length vs. vs ! k * d ^ (i + k)), w + (\<Sum>k<length vs. d ^ (i + k)))"
proof (induction vs arbitrary: i pw w)
  case Nil
  then show ?case by simp
next
  case (Cons v vs)
  have shift: "(\<Sum>k<length (v # vs). g k) = g 0 + (\<Sum>k<length vs. g (Suc k))" for g :: "nat \<Rightarrow> number"
    by (simp only: list.size add_0_right add_Suc_right sum.lessThan_Suc_shift)
  show ?case
    unfolding shift weigh.simps Let_def Cons.IH by (simp only: nth_Cons_0 nth_Cons_Suc add_0_right
        add_Suc_right add_Suc add.assoc)
qed

lemma weigh_pos: "0 < d \<Longrightarrow> 0 \<le> w \<Longrightarrow> 0 < w \<or> vs \<noteq> [] \<Longrightarrow> 0 < snd (weigh d i vs (pw, w))"
proof (induction vs arbitrary: i pw w)
  case (Cons v vs)
  have "0 < w + d ^ i" using Cons.prems by (simp add: add_nonneg_pos)
  then show ?case using Cons.IH[of "w + d ^ i" "Suc i" "pw + v * d ^ i"] Cons.prems(1)
    by (simp add: Let_def)
qed simp

text \<open>Bounds on the volumes are bounds on the sums: the accumulators stay between \<open>lo * w\<close> and \<open>hi * w\<close>.\<close>

lemma weigh_bounds:
  assumes "0 \<le> d" and "\<forall>v \<in> set vs. lo \<le> v \<and> v \<le> hi" and "lo * w \<le> pw \<and> pw \<le> hi * w"
  shows "lo * snd (weigh d i vs (pw, w)) \<le> fst (weigh d i vs (pw, w))
       \<and> fst (weigh d i vs (pw, w)) \<le> hi * snd (weigh d i vs (pw, w))"
  using assms
proof (induction vs arbitrary: i pw w)
  case (Cons v vs)
  have "lo * d ^ i \<le> v * d ^ i" "v * d ^ i \<le> hi * d ^ i"
    using Cons.prems by (auto intro: mult_right_mono)
  then have "lo * (w + d ^ i) \<le> pw + v * d ^ i \<and> pw + v * d ^ i \<le> hi * (w + d ^ i)"
    using Cons.prems(3) by (simp add: algebra_simps)
  then show ?case using Cons.IH Cons.prems by (simp add: Let_def)
qed simp

lemma mean_of_bounds:
  "0 < snd acc \<Longrightarrow> lo * snd acc \<le> fst acc \<Longrightarrow> fst acc \<le> hi * snd acc \<Longrightarrow>
   lo \<le> mean_of acc \<and> mean_of acc \<le> hi"
  by (simp add: mean_of_def divide_simps mult.commute)

lemma plain_pace_bounds:
  assumes "0 < d" "vs \<noteq> []" "\<forall>v \<in> set vs. lo \<le> v \<and> v \<le> hi"
  shows "lo \<le> plain_pace d vs \<and> plain_pace d vs \<le> hi"
  unfolding plain_pace_def
  using weigh_pos[of d 0 vs 0 0] weigh_bounds[of d vs lo hi 0 0 0] assms
  by (intro mean_of_bounds) simp_all

lemma halved_pace_bounds:
  assumes "0 < d" "vs \<noteq> []" "\<forall>v \<in> set vs. lo \<le> v \<and> v \<le> hi"
  shows "lo \<le> halved_pace d vs \<and> halved_pace d vs \<le> hi"
proof -
  have "\<forall>v \<in> set (tl vs). lo \<le> v \<and> v \<le> hi" "lo \<le> hd vs \<and> hd vs \<le> hi"
    using assms by (cases vs; simp)+
  then show ?thesis
    unfolding halved_pace_def
    using weigh_pos[of d "1/2" "tl vs" 1] assms(1)
      weigh_bounds[of d "tl vs" lo hi "1/2" "hd vs * (1/2)" 1]
    by (intro mean_of_bounds) simp_all
qed

lemma excluded_pace_bounds:
  assumes "0 < d" "tl vs \<noteq> []" "\<forall>v \<in> set vs. lo \<le> v \<and> v \<le> hi"
  shows "lo \<le> excluded_pace d vs \<and> excluded_pace d vs \<le> hi"
proof -
  have "\<forall>v \<in> set (tl vs). lo \<le> v \<and> v \<le> hi" using assms(3) by (cases vs) auto
  then show ?thesis
    using plain_pace_bounds[of d "tl vs" lo hi] assms by (simp add: excluded_pace_def plain_pace_def)
qed

lemma excluded_pace_single: "tl vs = [] \<Longrightarrow> excluded_pace d vs = 0"
  by (simp add: excluded_pace_def mean_of_def)

text \<open>
  With \<open>S\<close> and \<open>T\<close> the sums over the older periods, a spike is a latest volume above \<open>S / T\<close>: giving it
  less weight lowers the pace, and leaving it out lowers it most.
\<close>

lemma weigh_offset:
  "weigh d i vs (pw, w) = (pw + fst (weigh d i vs (0, 0)), w + snd (weigh d i vs (0, 0)))"
  by (simp add: weigh_sums)

lemma weigh_scale: "weigh d (Suc i) vs (0, 0) = (d * fst (weigh d i vs (0, 0)), d * snd (weigh d i vs (0, 0)))"
  by (simp add: weigh_sums sum_distrib_left algebra_simps)

lemma spike_paces_ordered:
  assumes spike: "is_spike_window cfg vs" and thr: "1 \<le> spikeThreshold cfg" and d: "0 < decayFactor cfg"
    and rest: "tl vs \<noteq> []"
  shows "excluded_pace (decayFactor cfg) vs < halved_pace (decayFactor cfg) vs
       \<and> halved_pace (decayFactor cfg) vs < plain_pace (decayFactor cfg) vs"
proof -
  let ?d = "decayFactor cfg"
  obtain v r where vs: "vs = v # r" using rest by (cases vs) auto
  define S T where "S = fst (weigh ?d 1 r (0, 0))" and "T = snd (weigh ?d 1 r (0, 0))"
  have T: "0 < T" unfolding T_def using d rest vs by (intro weigh_pos) simp_all
  have plain: "plain_pace ?d vs = (v + S) / (1 + T)"
    using T weigh_offset[of ?d 1 r v 1] by (simp add: plain_pace_def vs mean_of_def S_def T_def)
  have halved: "halved_pace ?d vs = (v / 2 + S) / (1 / 2 + T)"
    using T weigh_offset[of ?d 1 r "v / 2" "1 / 2"] by (simp add: halved_pace_def vs mean_of_def S_def T_def)
  have excluded: "excluded_pace ?d vs = S / T"
    using T d weigh_scale[of ?d 0 r]
    by (simp add: excluded_pace_def vs mean_of_def S_def T_def zero_less_mult_iff)
  have "plain_pace ?d vs \<le> plain_pace ?d vs * spikeThreshold cfg"
    using spike thr by (simp add: is_spike_window_def)
  moreover have "plain_pace ?d vs * spikeThreshold cfg < v"
    using spike by (simp add: is_spike_window_def vs)
  ultimately have "(v + S) / (1 + T) < v" by (simp add: plain)
  then have key: "S < v * T" using T by (simp add: divide_less_eq algebra_simps)
  have "S / T < (v / 2 + S) / (1 / 2 + T)"
    using key T by (simp add: divide_simps algebra_simps)
  moreover have "(v / 2 + S) / (1 / 2 + T) < (v + S) / (1 + T)"
    using key T by (simp add: divide_simps algebra_simps)
  ultimately show ?thesis by (simp add: plain halved excluded)
qed

lemma all_zero_pace: "is_all_zero vs \<Longrightarrow> plain_pace d vs = 0"
  by (simp add: is_all_zero_def plain_pace_def mean_of_def weigh_sums list_all_length)

section \<open>Dates\<close>

lemma new_date_lower: "of_int t \<le> x \<Longrightarrow> new_date x = ValidDate u \<Longrightarrow> t \<le> u"
  by (auto simp: new_date_def le_floor_iff ceiling_less_iff split: if_splits)
     (metis le_of_int_ceiling of_int_le_iff order_trans)

lemma new_date_upper: "x \<le> of_int t \<Longrightarrow> new_date x = ValidDate u \<Longrightarrow> u \<le> t"
  by (auto simp: new_date_def ceiling_le_iff split: if_splits)
     (metis of_int_floor_le of_int_le_iff order_trans)

lemma new_date_of_int [simp]: "\<bar>t\<bar> \<le> MAX_TIME \<Longrightarrow> new_date (of_int t) = ValidDate t"
  by (auto simp: new_date_def simp flip: of_int_abs)

lemma forecast_end_from_now: "0 < pace \<Longrightarrow> forecast_end t pv c pace = ValidDate u \<Longrightarrow> t \<le> u"
  by (auto simp: forecast_end_def Let_def PERIOD_LENGTH_DAYS_def MS_PER_DAY_def intro: new_date_lower[rotated])

lemma forecast_end_done: "pv \<le> c \<Longrightarrow> \<bar>t\<bar> \<le> MAX_TIME \<Longrightarrow> forecast_end t pv c pace = ValidDate t"
  by (simp add: forecast_end_def max_def)

lemma new_date_mono:
  assumes "x' \<le> x" "new_date x = ValidDate u" "new_date x' = ValidDate u'"
  shows "u' \<le> u"
proof (cases "0 \<le> x \<and> \<not> 0 \<le> x'")
  case True
  then have "\<lceil>x'\<rceil> \<le> 0" "0 \<le> \<lfloor>x\<rfloor>" by simp_all
  then have "\<lceil>x'\<rceil> \<le> \<lfloor>x\<rfloor>" by (rule order_trans)
  then show ?thesis using True assms(2,3) by (auto simp: new_date_def split: if_splits)
next
  case False
  then show ?thesis
    using assms by (auto simp: new_date_def floor_mono ceiling_mono split: if_splits)
qed

lemma forecast_end_antimono:
  assumes "0 < pace" "pace \<le> pace'" "forecast_end t pv c pace = ValidDate u"
    and "forecast_end t pv c pace' = ValidDate u'"
  shows "u' \<le> u"
proof -
  let ?r = "max (pv - c) 0"
  have "?r / pace' \<le> ?r / pace" using assms(1,2) by (simp add: divide_left_mono)
  then have "of_int t + ?r / pace' * of_int PERIOD_LENGTH_DAYS * of_int MS_PER_DAY
           \<le> of_int t + ?r / pace * of_int PERIOD_LENGTH_DAYS * of_int MS_PER_DAY" (is "?x' \<le> ?x")
    by (simp add: PERIOD_LENGTH_DAYS_def MS_PER_DAY_def)
  then show ?thesis
    using assms(3,4) unfolding forecast_end_def Let_def by (rule new_date_mono)
qed

section \<open>What the service writes\<close>

text \<open>The writes of the pace service: spike marks and notifications.\<close>

locale pace_writes = step_rel R keep_outside for R :: "db \<Rightarrow> db \<Rightarrow> bool" +
  assumes notification_write: "(\<And>i. n_id (mk i) = i) \<Longrightarrow> moves R (insert_notification mk)"
    and spike_write: "moves R (update_fact i (\<lambda>f. f\<lparr>f_isSpike := True\<rparr>))"
begin

lemma moves_notify_users: "moves R (notify_users us ty tab i msg)"
  unfolding notify_users_def by (intro moves_rules notification_write) simp

lemma moves_adjust_for_spike: "moves R (adjust_for_spike cfg b ws)"
  unfolding adjust_for_spike_def Let_def by (intro moves_rules spike_write)

lemma moves_item_forecast: "moves R (item_forecast b p pace z)"
  unfolding item_forecast_def now_def by (intro moves_rules)

lemma moves_calcItemPace: "moves R (calcItemPace b ob p)"
  unfolding calcItemPace_def
  by (intro moves_rules moves_adjust_for_spike moves_notify_users moves_item_forecast)

lemma moves_calcObjectForecast: "moves R (calcObjectForecast ob p)"
  unfolding calcObjectForecast_def by (intro moves_rules moves_calcItemPace)

end

interpretation ev_pace: pace_writes evolves
  by unfold_locales (auto intro!: ev_writes simp: fact_key_def)

interpretation static_pace: pace_writes same_static
  by unfold_locales (rule static_writes)+

text \<open>
  Everything else stays: of a fact, all but the spike mark; of the other tables, all but the
  notifications.
\<close>

definition unmarked :: "db \<Rightarrow> period_fact list" where
  "unmarked s = map (\<lambda>f. f\<lparr>f_isSpike := False\<rparr>) (periodFacts s)"

definition pace_frame :: "db \<Rightarrow> db \<Rightarrow> bool" where
  "pace_frame s s' \<longleftrightarrow>
     periods s' = periods s \<and> discrepancies s' = discrepancies s \<and> photos s' = photos s
     \<and> slaEvents s' = slaEvents s \<and> zeroReports s' = zeroReports s \<and> workPaces s' = workPaces s
     \<and> readinessSnapshots s' = readinessSnapshots s \<and> syncQueue s' = syncQueue s
     \<and> auditLog s' = auditLog s \<and> evolves s s' \<and> (db_ok s \<longrightarrow> unmarked s' = unmarked s)"

lemma pace_frame_spike: "moves pace_frame (update_fact i (\<lambda>f. f\<lparr>f_isSpike := True\<rparr>))"
proof (rule movesI)
  fix s
  let ?m = "update_fact i (\<lambda>f. f\<lparr>f_isSpike := True\<rparr>)"
  have "moves evolves ?m" by (rule ev_update_fact) (simp add: fact_key_def)
  then have "evolves s (snd (?m s))" by (simp add: moves_def)
  moreover have "wp ?m (\<lambda>_ t. db_ok s \<longrightarrow> unmarked t = unmarked s) (\<lambda>_ t. unmarked t = unmarked s) s"
  proof (cases "List.find (\<lambda>f. f_id f = i) (periodFacts s)")
    case None
    then show ?thesis by (simp add: update_fact_def wp_simps)
  next
    case (Some old)
    then have old: "old \<in> set (periodFacts s)" "f_id old = i" by (auto dest: find_SomeD)
    then have "f = old" if "db_ok s" "f \<in> set (periodFacts s)" "f_id f = i" for f
      using that db_ok_fact_id by metis
    then show ?thesis
      using Some by (auto simp: update_fact_def check_fact_def wp_simps unmarked_def update_where_def
                       bump_version_def)
  qed
  ultimately show "pace_frame s (snd (?m s))"
    by (auto simp: pace_frame_def wp_def update_fact_def check_fact_def prog_defs
             split: prod.splits sum.splits option.splits if_splits)
qed

interpretation frame_pace: pace_writes pace_frame
proof unfold_locales
  show "pace_frame s s" for s by (simp add: pace_frame_def evolves_refl)
  show "pace_frame s t \<Longrightarrow> pace_frame t u \<Longrightarrow> pace_frame s u" for s t u
    by (auto simp: pace_frame_def intro: evolves_trans evolves_db_ok dest: evolves_db_ok)
  show "pace_frame s s' \<Longrightarrow> pace_frame s (keep_outside s' s)" for s s'
    using evolves_keep[of s s'] by (simp add: pace_frame_def keep_outside_def unmarked_def)
  show "moves pace_frame (update_fact i (\<lambda>f. f\<lparr>f_isSpike := True\<rparr>))" for i
    by (rule pace_frame_spike)
  show "moves pace_frame (insert_notification mk)" if "\<And>i. n_id (mk i) = i" for mk
    using ev_insert_notification[of mk] that
    by (simp add: moves_def pace_frame_def insert_notification_def nextval_def prog_defs unmarked_def)
qed

section \<open>Correctness of the pace and of the forecasts\<close>

text \<open>
  The CHECK constraint on \<^verbatim>\<open>spike_response\<close> does not admit \<^verbatim>\<open>data_entry_error\<close>, so the pace of a
  spike is always the halved one.
\<close>

lemma no_data_entry_error:
  "db_ok s \<Longrightarrow> find_fact p b s = Some f \<Longrightarrow> f_spikeResponse f \<noteq> Some ''data_entry_error''"
  by (auto simp: find_fact_iff db_ok_defs list_all_iff fact_checks_def spike_responses_def)

definition settled_pace :: "pace_config \<Rightarrow> number list \<Rightarrow> number" where
  "settled_pace cfg vs =
     (if is_spike_window cfg vs then halved_pace (decayFactor cfg) vs
      else plain_pace (decayFactor cfg) vs)"

lemma wp_adjust_for_spike:
  assumes "db_ok s"
  shows "wp (adjust_for_spike cfg b ws) (\<lambda>x _. x = settled_pace cfg (map w_periodVolume ws)) (\<lambda>_ _. True) s"
  using no_data_entry_error[OF assms]
  by (auto simp: adjust_for_spike_def Let_def wp_simps settled_pace_def spike_pace_def
           split: option.split)

lemma settled_pace_bounds:
  assumes "0 < decayFactor cfg" "vs \<noteq> []" "\<forall>v \<in> set vs. lo \<le> v \<and> v \<le> hi"
  shows "lo \<le> settled_pace cfg vs \<and> settled_pace cfg vs \<le> hi"
  using plain_pace_bounds[OF assms] halved_pace_bounds[OF assms] by (simp add: settled_pace_def)

lemma settled_pace_zero: "is_all_zero vs \<Longrightarrow> settled_pace cfg vs = 0"
  by (simp add: settled_pace_def is_spike_window_def all_zero_pace)

text \<open>The result of \<open>calcItemPace\<close> in terms of its window, and where the forecast lies.\<close>

definition item_pace_spec :: "date \<Rightarrow> number \<Rightarrow> bool \<Rightarrow> item_pace \<Rightarrow> bool" where
  "item_pace_spec t x z r \<longleftrightarrow> paceWeighted r = max x 0 \<and> isAllZero r = z
     \<and> (forecastEnd r \<noteq> None \<longrightarrow> 0 < x)
     \<and> (case forecastEnd r of Some (ValidDate u) \<Rightarrow> t \<le> u | _ \<Rightarrow> True)"

lemma wp_item_forecast:
  "wp (item_forecast b p x z) (\<lambda>r _. item_pace_spec (clock s) x z r) (\<lambda>_ _. True) s"
  by (auto simp: item_forecast_def wp_simps item_pace_spec_def max_def
           split: option.split js_date.split intro: forecast_end_from_now[of x])

definition clean_volumes :: "int \<Rightarrow> int \<Rightarrow> int \<Rightarrow> db \<Rightarrow> number list" where
  "clean_volumes b ob p s =
     (case (find_object ob s, find_period p s) of
        (Some obj, Some per) \<Rightarrow> map w_periodVolume (window_clean
          (pace_window b ob (p_periodNumber per) (avgPacePeriods (getConfig (o_organizationId obj) s)) s))
      | _ \<Rightarrow> [])"

definition pace_cfg :: "int \<Rightarrow> db \<Rightarrow> pace_config" where
  "pace_cfg ob s = (case find_object ob s of
     None \<Rightarrow> getConfig [] s | Some obj \<Rightarrow> getConfig (o_organizationId obj) s)"

lemma wp_calcItemPace:
  assumes "db_ok s"
  shows "wp (calcItemPace b ob p)
           (\<lambda>r _. item_pace_spec (clock s) (settled_pace (pace_cfg ob s) (clean_volumes b ob p s))
                    (is_all_zero (clean_volumes b ob p s)) r) (\<lambda>_ _. True) s"
proof (cases "find_object ob s")
  case None
  then show ?thesis by (simp add: calcItemPace_def wp_simps)
next
  case (Some obj)
  show ?thesis
  proof (cases "find_period p s")
    case None
    then show ?thesis using Some by (simp add: calcItemPace_def wp_simps)
  next
    case p: (Some per)
    define cfg where "cfg = getConfig (o_organizationId obj) s"
    define ws where "ws = window_clean (pace_window b ob (p_periodNumber per) (avgPacePeriods cfg) s)"
    define z where "z = is_all_zero (map w_periodVolume ws)"
    have notify: "wp (whenM z (notify_users us ty tab i msg)) (\<lambda>_ t. clock t = c) (\<lambda>_ _. True) t"
      if "clock t = c" for us ty tab i msg t c
      by (rule wp_of_moves[OF static.moves_whenM[OF static_pace.moves_notify_users]])
         (use that in \<open>auto simp: same_static_def\<close>)
    have tail: "wp (bind (gets (users_with_role orgId Director)) (\<lambda>directors.
             andThen (whenM z (notify_users directors ty tab i msg)) (item_forecast b p x z)))
           (\<lambda>r _. item_pace_spec (clock s) x z r) (\<lambda>_ _. True) t"
      if t: "clock t = clock s" for t x ty tab i msg orgId
    proof -
      have "wp (item_forecast b p x z) (\<lambda>r _. item_pace_spec (clock s) x z r) (\<lambda>_ _. True) u"
        if "clock u = clock s" for u
        using wp_item_forecast[of b p x z u] that by simp
      then show ?thesis
        unfolding wp_bind wp_gets wp_andThen
        by (intro wp_mono[OF notify[OF t]]) simp_all
    qed
    have "wp (adjust_for_spike cfg b ws)
            (\<lambda>x t. x = settled_pace cfg (map w_periodVolume ws) \<and> same_static s t)
            (\<lambda>_ t. True \<and> same_static s t) s"
      by (intro wp_conj wp_adjust_for_spike assms wp_of_moves[OF static_pace.moves_adjust_for_spike])
    then have "wp (bind (adjust_for_spike cfg b ws) (\<lambda>x.
             bind (gets (users_with_role (o_organizationId obj) Director)) (\<lambda>directors.
             andThen (whenM z (notify_users directors ''zero_pace_forecast'' ''boq_items'' b (ZeroPaceText b)))
               (item_forecast b p x z))))
           (\<lambda>r _. item_pace_spec (clock s) (settled_pace cfg (map w_periodVolume ws)) z r) (\<lambda>_ _. True) s"
      unfolding wp_bind[of "adjust_for_spike cfg b ws"]
      by (rule wp_mono) (auto intro!: tail simp: same_static_def)
    then show ?thesis
      using Some p
      by (simp add: calcItemPace_def wp_getsOr wp_bind[of "getsOr f e" for f e] wp_bind[of "gets f" for f]
            wp_gets wp_andThen[of "guard b e" for b e] wp_guard clean_volumes_def pace_cfg_def cfg_def ws_def z_def)
  qed
qed

text \<open>The loop of \<open>calcObjectForecast\<close>: sums that no date before \<open>t\<close> has entered.\<close>

definition not_before :: "date \<Rightarrow> js_date option \<Rightarrow> bool" where
  "not_before t d \<longleftrightarrow> (case d of Some (ValidDate u) \<Rightarrow> t \<le> u | _ \<Rightarrow> True)"

definition sums_ok :: "date \<Rightarrow> forecast_sums \<Rightarrow> bool" where
  "sums_ok t acc \<longleftrightarrow> 0 \<le> weightedTotal acc \<and> not_before t (criticalMax acc)
     \<and> (case weightedSum acc of None \<Rightarrow> True | Some x \<Rightarrow> of_int t * weightedTotal acc \<le> x)"

lemma sums_ok_none: "sums_ok t no_forecasts"
  by (simp add: sums_ok_def no_forecasts_def not_before_def)

lemma sums_ok_add:
  assumes "sums_ok t acc" "0 < w" "not_before t (Some d)"
  shows "sums_ok t (add_forecast cfg w d acc)"
proof (cases d)
  case InvalidDate
  then show ?thesis using assms
    by (auto simp: sums_ok_def add_forecast_def not_before_def split: option.splits)
next
  case (ValidDate u)
  then have "of_int t * w \<le> of_int u * w" using assms(2,3) by (simp add: not_before_def)
  then have sum: "of_int t * (weightedTotal acc + w) \<le> x + of_int u * w"
    if "of_int t * weightedTotal acc \<le> x" for x
    using that by (simp add: distrib_left add_mono)
  show ?thesis using assms ValidDate
    by (auto simp: sums_ok_def add_forecast_def not_before_def sum split: option.splits)
qed

lemma forecast_of_sums_ok:
  assumes "sums_ok t acc"
  shows "not_before t (weightedForecastDate (forecast_of_sums cfg acc))
       \<and> not_before t (criticalPathForecastDate (forecast_of_sums cfg acc))"
proof (cases "0 < weightedTotal acc")
  case False
  then show ?thesis using assms by (simp add: forecast_of_sums_def not_before_def sums_ok_def)
next
  case True
  have "of_int t \<le> x / weightedTotal acc" if "weightedSum acc = Some x" for x
    using assms True that by (simp add: sums_ok_def le_divide_eq)
  then show ?thesis
    using assms True
    by (auto simp: forecast_of_sums_def Let_def not_before_def sums_ok_def
             split: option.splits js_date.split intro: new_date_lower)
qed

lemma gap_needs_both:
  "gapFlag (forecast_of_sums cfg acc) \<Longrightarrow>
   (\<exists>x y. weightedForecastDate (forecast_of_sums cfg acc) = Some (ValidDate x)
        \<and> criticalPathForecastDate (forecast_of_sums cfg acc) = Some (ValidDate y)
        \<and> forecastGapPeriods cfg * 30 \<le> of_int \<bar>y - x\<bar> / of_int MS_PER_DAY)"
  by (auto simp: forecast_of_sums_def Let_def gap_flag_def PERIOD_LENGTH_DAYS_def divide_simps
           elim!: getTime.elims split: option.splits js_date.splits if_splits simp flip: of_int_diff of_int_abs)

lemma weighted_items_pos:
  assumes "db_ok s" "(b, w) \<in> set (weighted_items v s)"
  shows "0 < w"
  using assms
  by (auto simp: weighted_items_def map_filter_def db_ok_defs weight_check_def list_all_iff
           split: option.splits if_splits)

lemma wp_calcObjectForecast:
  assumes "db_ok s"
  shows "wp (calcObjectForecast ob p)
           (\<lambda>r _. not_before (clock s) (weightedForecastDate r)
                \<and> not_before (clock s) (criticalPathForecastDate r)) (\<lambda>_ _. True) s"
proof -
  have step: "wp (bind (calcItemPace (fst item) ob p) (\<lambda>pace. case forecastEnd pace of
                 None \<Rightarrow> ret acc | Some d \<Rightarrow> ret (add_forecast cfg (snd item) d acc)))
           (\<lambda>acc t. sums_ok (clock s) acc \<and> db_ok t \<and> clock t = clock s) (\<lambda>_ _. True) t"
    if item: "item \<in> set (weighted_items v s)"
      and t: "sums_ok (clock s) acc \<and> db_ok t \<and> clock t = clock s" for item acc v t cfg
  proof -
    have ok: "db_ok t" using t by simp
    have weight: "0 < snd item" using weighted_items_pos[OF assms, of "fst item" "snd item"] item by simp
    have "wp (calcItemPace (fst item) ob p)
            (\<lambda>r u. not_before (clock t) (forecastEnd r) \<and> evolves t u \<and> same_static t u)
            (\<lambda>_ u. True \<and> evolves t u \<and> same_static t u) t"
      by (intro wp_conj wp_mono[OF wp_calcItemPace[OF ok]] wp_of_moves[OF ev_pace.moves_calcItemPace]
            wp_of_moves[OF static_pace.moves_calcItemPace])
         (auto simp: item_pace_spec_def not_before_def)
    then show ?thesis
      unfolding wp_bind
      by (rule wp_mono)
         (use t weight in \<open>auto simp: wp_simps same_static_def split: option.split
            intro!: sums_ok_add dest: evolves_db_ok\<close>)
  qed
  have "wp (foldEach (weighted_items v s) no_forecasts (\<lambda>item acc.
             bind (calcItemPace (fst item) ob p) (\<lambda>pace. case forecastEnd pace of
               None \<Rightarrow> ret acc | Some d \<Rightarrow> ret (add_forecast cfg (snd item) d acc))))
          (\<lambda>acc t. sums_ok (clock s) acc \<and> db_ok t \<and> clock t = clock s) (\<lambda>_ _. True) s" for v cfg
    using assms sums_ok_none step
    by (intro wp_foldEach[where I = "\<lambda>acc t. sums_ok (clock s) acc \<and> db_ok t \<and> clock t = clock s"]) auto
  then have loop: "wp (foldEach (weighted_items v s) no_forecasts (\<lambda>item acc.
             bind (calcItemPace (fst item) ob p) (\<lambda>pace. case forecastEnd pace of
               None \<Rightarrow> ret acc | Some d \<Rightarrow> ret (add_forecast cfg (snd item) d acc))))
          (\<lambda>acc _. not_before (clock s) (weightedForecastDate (forecast_of_sums cfg acc))
                \<and> not_before (clock s) (criticalPathForecastDate (forecast_of_sums cfg acc)))
          (\<lambda>_ _. True) s" for v cfg
    by (rule wp_mono) (auto intro: forecast_of_sums_ok[THEN conjunct1] forecast_of_sums_ok[THEN conjunct2])
  show ?thesis
    by (auto simp: calcObjectForecast_def wp_ret wp_gets wp_getsOr wp_bind[of "getsOr f e" for f e]
          wp_bind[of "gets f" for f] wp_bind[of "foldEach xs a g" for xs a g]
          intro!: loop split: option.split)
qed

end
