(* ===== verification/Period_Service.thy ===== *)
theory Period_Service
  imports Work_Pace
begin

text \<open>
  \<^verbatim>\<open>PeriodService\<close> (\<^verbatim>\<open>modules/period/period.service.ts\<close>): the life of a reporting period, from
  \<^verbatim>\<open>openPeriod\<close> over the general contractor's submission and the stroycontrol's facts to
  \<^verbatim>\<open>closePeriod\<close>, with the readiness snapshot and the pace deltas a close records.

  The advisory lock and \<^verbatim>\<open>randomUUID()\<close> are arguments: the lock is \<open>None\<close> when it was granted and the
  \<^verbatim>\<open>code\<close> of the error otherwise.  \<^verbatim>\<open>upsertPeriodFact\<close> is split, where the code goes from reading to
  writing, into \<open>readFact\<close> and \<open>commitFact\<close>.
\<close>

definition GP_TOKEN_EXPIRES_DAYS :: int where
  "GP_TOKEN_EXPIRES_DAYS = 14"

definition SC_FACT_ALLOWED_STATUSES :: "period_status list" where
  "SC_FACT_ALLOWED_STATUSES = [PGpSubmitted, PVerification]"

definition PAUSE_REASONS :: "pause_reason list" where
  "PAUSE_REASONS =
     [Holidays, AwaitingMaterials, TechnologicalBreak, BadWeather, AwaitingPermits, Other]"

section \<open>openPeriod\<close>

record pause_opts =
  po_plannedPause :: "bool option"
  po_pauseReason :: "pause_reason option"

definition wants_pause :: "pause_opts option \<Rightarrow> bool" where
  "wants_pause opts = (case opts of None \<Rightarrow> False | Some po \<Rightarrow> po_plannedPause po = Some True)"

definition pause_reason_ok :: "pause_opts option \<Rightarrow> bool" where
  "pause_reason_ok opts =
     (case opts of
        None \<Rightarrow> False
      | Some po \<Rightarrow> (case po_pauseReason po of None \<Rightarrow> False | Some r \<Rightarrow> r \<in> set PAUSE_REASONS))"

text \<open>\<^verbatim>\<open>(last?.periodNumber ?? 0) + 1\<close>\<close>

definition next_period_number :: "int \<Rightarrow> db \<Rightarrow> int" where
  "next_period_number objectId s =
     (case find_first_desc p_periodNumber (\<lambda>p. p_objectId p = objectId) (periods s) of
        None \<Rightarrow> 0 + 1 | Some p \<Rightarrow> p_periodNumber p + 1)"

definition new_period ::
  "int \<Rightarrow> int \<Rightarrow> int \<Rightarrow> int \<Rightarrow> pause_opts option \<Rightarrow> string \<Rightarrow> date \<Rightarrow> int \<Rightarrow> period" where
  "new_period objectId boqVersionId number actorId opts uuid t i =
     \<lparr>p_id = i, p_objectId = objectId, p_boqVersionId = boqVersionId, p_periodNumber = number,
      p_status = POpen, p_openedAt = t, p_openedBy = Some actorId,
      p_gpSubmissionToken = Some uuid, p_gpTokenExpiresAt = Some (add_days t GP_TOKEN_EXPIRES_DAYS),
      p_gpSubmittedAt = None, p_gpSubmittedByName = None, p_closedAt = None, p_closedBy = None,
      p_plannedPause = (case opts of None \<Rightarrow> False
                        | Some po \<Rightarrow> (case po_plannedPause po of None \<Rightarrow> False | Some b \<Rightarrow> b)),
      p_pauseReason = (if wants_pause opts
                       then (case opts of None \<Rightarrow> None | Some po \<Rightarrow> po_pauseReason po) else None)\<rparr>"

definition openPeriod_tx ::
  "string option \<Rightarrow> string \<Rightarrow> int \<Rightarrow> int \<Rightarrow> pause_opts option \<Rightarrow> period service" where
  "openPeriod_tx lock uuid objectId actorId pauseOpts = transaction (
     andThen (case lock of None \<Rightarrow> ret () | Some code \<Rightarrow> throw (PrismaError (RawQueryError code)))
    (bind (getsOr (find_object objectId) (PrismaError RecordNotFound)) (\<lambda>obj.
     andThen (guardS (\<lambda>s. list_ex (\<lambda>z. zr_objectId z = objectId \<and> zr_status z = ZApproved) (zeroReports s))
                (ForbiddenException ''ZERO_REPORT_NOT_APPROVED''))
    (andThen (guardS (\<lambda>s. \<not> list_ex (\<lambda>p. p_objectId p = objectId \<and> p_status p = POpen) (periods s))
                (ConflictException ''PERIOD_ALREADY_OPEN''))
    (bind (gets (next_period_number objectId)) (\<lambda>number.
     bind (getsOr (\<lambda>s. List.find (\<lambda>v. bv_objectId v = objectId \<and> bv_isActive v) (boqVersions s))
             (PrismaError RecordNotFound)) (\<lambda>boqVersion.
     bind now (\<lambda>t.
     bind (insert_period (new_period objectId (bv_id boqVersion) number actorId pauseOpts uuid t)) (\<lambda>per.
     andThen (audit_log
       \<lparr>ap_tableName = ''periods'', ap_recordId = p_id per, ap_action = ''period_opened'',
        ap_oldData = None,
        ap_newData = Some (JObj [(''objectId'', JNum (of_int objectId)),
                                 (''periodNumber'', JNum (of_int (p_periodNumber per)))]),
        ap_reason = None, ap_performedBy = Some actorId,
        ap_organizationId = o_organizationId obj\<rparr>)
       (ret per))))))))))"

definition openPeriod ::
  "string option \<Rightarrow> string \<Rightarrow> int \<Rightarrow> int \<Rightarrow> pause_opts option \<Rightarrow> period service" where
  "openPeriod lock uuid objectId actorId pauseOpts =
     andThen (guard (wants_pause pauseOpts \<longrightarrow> pause_reason_ok pauseOpts)
                (ConflictException ''INVALID_PAUSE_REASON''))
       (tryCatch (openPeriod_tx lock uuid objectId actorId pauseOpts) (\<lambda>e.
          if e = PrismaError (RawQueryError ''55P03'')
          then throw (ConflictException ''PERIOD_LOCK_TIMEOUT'') else throw e))"

section \<open>Queries\<close>

definition visible_period :: "int \<Rightarrow> string \<Rightarrow> db \<Rightarrow> period option" where
  "visible_period periodId orgId s =
     List.find (\<lambda>p. p_id p = periodId \<and> period_org p s = Some orgId) (periods s)"

definition facts_of_period :: "int \<Rightarrow> db \<Rightarrow> period_fact list" where
  "facts_of_period periodId s = filter (\<lambda>f. f_periodId f = periodId) (periodFacts s)"

definition findById :: "int \<Rightarrow> int \<Rightarrow> (period \<times> period_fact list) service" where
  "findById periodId actorId =
     bind (user_org actorId) (\<lambda>orgId.
     bind (getsOr (visible_period periodId orgId) (NotFoundException ''PERIOD_NOT_FOUND'')) (\<lambda>per.
     gets (\<lambda>s. (per, facts_of_period periodId s))))"

definition findByObject :: "int \<Rightarrow> period list service" where
  "findByObject objectId =
     gets (\<lambda>s. order_desc p_periodNumber (filter (\<lambda>p. p_objectId p = objectId) (periods s)))"

record detail_position =
  dp_boqItemId :: int
  dp_workCode :: string
  dp_name :: string
  dp_unit :: string
  dp_planVolume :: number
  dp_gpVolume :: "number option"
  dp_scVolume :: "number option"
  dp_discrepancyType :: "int option"
  dp_discrepancyStatus :: "discrepancy_status option"
  dp_acceptedVolume :: "number option"

record period_detail =
  pd_id :: int
  pd_periodNumber :: int
  pd_status :: period_status
  pd_openedAt :: date
  pd_closedAt :: "date option"
  pd_objectId :: int
  pd_boqVersionId :: int
  pd_positions :: "detail_position list"
  pd_openDiscrepancyCount :: nat

definition version_items :: "int \<Rightarrow> db \<Rightarrow> boq_item list" where
  "version_items boqVersionId s = order_asc bi_id (filter (\<lambda>b. bi_boqVersionId b = boqVersionId) (boqItems s))"

text \<open>\<^verbatim>\<open>new Map(facts.map((f) => [f.boqItemId, f]))\<close>: a later entry replaces an earlier one.\<close>

definition fact_map :: "period_fact list \<Rightarrow> int \<Rightarrow> period_fact option" where
  "fact_map facts = map_of (rev (map (\<lambda>f. (f_boqItemId f, f)) facts))"

definition detail_of :: "(int \<Rightarrow> period_fact option) \<Rightarrow> boq_item \<Rightarrow> detail_position" where
  "detail_of factMap item =
     (let f = factMap (bi_id item);
          col = (\<lambda>sel. case f of None \<Rightarrow> None | Some r \<Rightarrow> sel r)
      in \<lparr>dp_boqItemId = bi_id item, dp_workCode = bi_workCode item, dp_name = bi_name item,
          dp_unit = (case bi_unit item of None \<Rightarrow> [] | Some u \<Rightarrow> u), dp_planVolume = bi_planVolume item,
          dp_gpVolume = col f_gpVolume, dp_scVolume = col f_scVolume,
          dp_discrepancyType = (case f of None \<Rightarrow> None | Some r \<Rightarrow> f_discrepancyType r),
          dp_discrepancyStatus = (case f of None \<Rightarrow> None | Some r \<Rightarrow> f_discrepancyStatus r),
          dp_acceptedVolume = col f_acceptedVolume\<rparr>)"

definition getDetail :: "int \<Rightarrow> int \<Rightarrow> period_detail service" where
  "getDetail periodId actorId =
     bind (user_org actorId) (\<lambda>orgId.
     bind (getsOr (visible_period periodId orgId) (NotFoundException ''PERIOD_NOT_FOUND'')) (\<lambda>per.
     gets (\<lambda>s.
       \<lparr>pd_id = p_id per, pd_periodNumber = p_periodNumber per, pd_status = p_status per,
        pd_openedAt = p_openedAt per, pd_closedAt = p_closedAt per, pd_objectId = p_objectId per,
        pd_boqVersionId = p_boqVersionId per,
        pd_positions = map (detail_of (fact_map (facts_of_period periodId s)))
                         (version_items (p_boqVersionId per) s),
        pd_openDiscrepancyCount = length (open_discrepancies periodId s)\<rparr>)))"

section \<open>Guards\<close>

definition find_by_token :: "string \<Rightarrow> db \<Rightarrow> period option" where
  "find_by_token token s = List.find (\<lambda>p. p_gpSubmissionToken p = Some token) (periods s)"

definition assertGpTokenValid :: "period option \<Rightarrow> period service" where
  "assertGpTokenValid period =
     (case period of
        None \<Rightarrow> throw (NotFoundException ''GP_TOKEN_NOT_FOUND'')
      | Some p \<Rightarrow> bind now (\<lambda>t.
          andThen (guard (case p_gpTokenExpiresAt p of None \<Rightarrow> False | Some e \<Rightarrow> \<not> e < t)
                     (ForbiddenException ''GP_TOKEN_EXPIRED''))
         (andThen (guard (p_gpSubmittedAt p = None) (ForbiddenException ''GP_ALREADY_SUBMITTED''))
            (ret p))))"

definition assertPeriodEditable :: "period \<Rightarrow> unit service" where
  "assertPeriodEditable p =
     guard (\<not> (p_status p = PClosed \<or> p_status p = PForceClosed)) (ForbiddenException ''PERIOD_ALREADY_CLOSED'')"

section \<open>The form of the general contractor\<close>

record gp_form_item =
  gf_boqItemId :: int
  gf_name :: string
  gf_unit :: string
  gf_planVolume :: number

record gp_form =
  gf_periodNumber :: int
  gf_objectName :: string
  gf_gpTokenExpiresAt :: "date option"
  gf_items :: "gp_form_item list"

definition getGpFormData :: "string \<Rightarrow> gp_form service" where
  "getGpFormData token =
     bind (gets (find_by_token token)) (\<lambda>found.
     bind (assertGpTokenValid found) (\<lambda>per.
     bind (getsOr (find_object (p_objectId per)) (PrismaError RecordNotFound)) (\<lambda>ob.
     gets (\<lambda>s.
       \<lparr>gf_periodNumber = p_periodNumber per, gf_objectName = o_name ob,
        gf_gpTokenExpiresAt = p_gpTokenExpiresAt per,
        gf_items = map (\<lambda>item. \<lparr>gf_boqItemId = bi_id item, gf_name = bi_name item,
                          gf_unit = (case bi_unit item of None \<Rightarrow> [] | Some u \<Rightarrow> u),
                          gf_planVolume = bi_planVolume item\<rparr>)
                     (version_items (p_boqVersionId per) s)\<rparr>))))"

text \<open>An item of a submission; \<open>gi_keys\<close> is \<^verbatim>\<open>Object.keys(item)\<close>.\<close>

record gp_item =
  gi_boqItemId :: int
  gi_gpVolume :: number
  gi_gpNote :: "string option"
  gi_keys :: "string list"

definition extra_keys :: "gp_item \<Rightarrow> string list" where
  "extra_keys item = filter (\<lambda>k. k \<notin> {''boqItemId'', ''gpVolume'', ''gpNote''}) (gi_keys item)"

definition upsert_gp_item :: "int \<Rightarrow> gp_item \<Rightarrow> unit service" where
  "upsert_gp_item periodId item = bind (upsert_fact periodId (gi_boqItemId item)
     (\<lambda>i. (empty_fact i periodId (gi_boqItemId item))
            \<lparr>f_gpVolume := Some (gi_gpVolume item), f_gpNote := gi_gpNote item\<rparr>)
     (\<lambda>f. f\<lparr>f_gpVolume := Some (gi_gpVolume item), f_gpNote := gi_gpNote item\<rparr>)) (\<lambda>_. ret ())"

definition submitGp :: "string \<Rightarrow> string \<Rightarrow> gp_item list \<Rightarrow> period service" where
  "submitGp token gpSubmittedByName items = transaction (
     bind (gets (find_by_token token)) (\<lambda>found.
     bind (assertGpTokenValid found) (\<lambda>per.
     andThen (guard (p_status per = POpen) (ConflictException ''PERIOD_WRONG_STATUS''))
    (andThen (forEach items (\<lambda>item. guard (extra_keys item = []) (ConflictException ''PROTECTED_FIELD'')))
    (andThen (forEach items (upsert_gp_item (p_id per)))
    (bind now (\<lambda>t.
     bind (update_period (p_id per) (\<lambda>p. p\<lparr>p_gpSubmittedAt := Some t,
             p_gpSubmittedByName := Some gpSubmittedByName, p_status := PGpSubmitted\<rparr>)) (\<lambda>updated.
     bind (getsOr (period_org per) (PrismaError RecordNotFound)) (\<lambda>orgId.
     andThen (audit_log
       \<lparr>ap_tableName = ''periods'', ap_recordId = p_id per, ap_action = ''gp_submitted'',
        ap_oldData = None,
        ap_newData = Some (JObj [(''gpSubmittedByName'', JStr gpSubmittedByName),
                                 (''itemCount'', JNum (of_nat (length items)))]),
        ap_reason = None, ap_performedBy = None, ap_organizationId = orgId\<rparr>)
       (ret updated))))))))))"

section \<open>upsertPeriodFact\<close>

record upsert_opts =
  uo_spikeResponse :: "string option"
  uo_workAccessible :: "bool option"
  uo_expectedVersion :: "int option"

definition no_opts :: upsert_opts where
  "no_opts = \<lparr>uo_spikeResponse = None, uo_workAccessible = None, uo_expectedVersion = None\<rparr>"

text \<open>The deadline has passed without a submission: the stroycontrol may enter data all the same.\<close>

definition no_template_input :: "date \<Rightarrow> period \<Rightarrow> bool" where
  "no_template_input t p \<longleftrightarrow> p_status p = POpen
     \<and> (case p_gpTokenExpiresAt p of None \<Rightarrow> False | Some e \<Rightarrow> e < t)"

definition has_photo :: "int \<Rightarrow> int \<Rightarrow> db \<Rightarrow> bool" where
  "has_photo periodId boqItemId s =
     list_ex (\<lambda>ph. ph_periodId ph = periodId \<and> ph_boqItemId ph = Some boqItemId) (photos s)"

text \<open>\<^verbatim>\<open>existingFact?.version ?? 0\<close> and the snapshot a conflict carries.\<close>

definition server_version :: "period_fact option \<Rightarrow> int" where
  "server_version existing = (case existing of None \<Rightarrow> 0 | Some f \<Rightarrow> f_version f)"

definition server_snapshot :: "period_fact option \<Rightarrow> server_fact" where
  "server_snapshot existing =
     \<lparr>sf_factId = map_option f_id existing,
      sf_scVolume = (case existing of None \<Rightarrow> None | Some f \<Rightarrow> f_scVolume f),
      sf_version = server_version existing\<rparr>"

text \<open>\<^verbatim>\<open>discrepancyType\<close>, \<^verbatim>\<open>discrepancyStatus\<close> and \<^verbatim>\<open>acceptedVolume\<close> of a measured volume.\<close>

definition classify ::
  "number option \<Rightarrow> number \<Rightarrow> int option \<times> discrepancy_status \<times> number option" where
  "classify gpVol scVol =
     (if (case gpVol of None \<Rightarrow> False | Some g \<Rightarrow> \<bar>g - scVol\<bar> = 0)
      then (None, DConfirmed, Some scVol) else (Some 1, DOpen, None))"

text \<open>What the reading half hands to the writing half.\<close>

record fact_plan =
  fp_orgId :: string
  fp_status :: period_status
  fp_noTemplate :: bool
  fp_class :: "int option \<times> discrepancy_status \<times> number option"

definition readFact :: "int \<Rightarrow> int \<Rightarrow> number \<Rightarrow> upsert_opts \<Rightarrow> fact_plan service" where
  "readFact periodId boqItemId scVolume opts =
     bind (getsOr (find_period periodId) (PrismaError RecordNotFound)) (\<lambda>per.
     bind (getsOr (period_org per) (PrismaError RecordNotFound)) (\<lambda>orgId.
     andThen (assertPeriodEditable per)
    (bind (gets (\<lambda>s. no_template_input (clock s) per)) (\<lambda>noTemplate.
     andThen (guard (noTemplate \<or> p_status per \<in> set SC_FACT_ALLOWED_STATUSES)
                (ConflictException ''PERIOD_WRONG_STATUS''))
    (andThen (whenM (uo_workAccessible opts = Some False)
                (guardS (has_photo periodId boqItemId) (ConflictException ''TYPE2_PHOTO_REQUIRED'')))
    (bind (gets (find_fact periodId boqItemId)) (\<lambda>existing.
     andThen (case uo_expectedVersion opts of
                None \<Rightarrow> ret ()
              | Some v \<Rightarrow> guard (server_version existing = v)
                            (VersionConflictException (server_snapshot existing)))
       (ret \<lparr>fp_orgId = orgId, fp_status = p_status per, fp_noTemplate = noTemplate,
             fp_class = classify (case existing of None \<Rightarrow> None | Some f \<Rightarrow> f_gpVolume f) scVolume\<rparr>))))))))"

definition fill_fact ::
  "number \<Rightarrow> upsert_opts \<Rightarrow> fact_plan \<Rightarrow> period_fact \<Rightarrow> period_fact" where
  "fill_fact scVolume opts plan f =
     (case fp_class plan of (ty, st, acc) \<Rightarrow>
        f\<lparr>f_scVolume := Some scVolume, f_discrepancyType := ty, f_discrepancyStatus := Some st,
          f_acceptedVolume := acc, f_spikeResponse := uo_spikeResponse opts\<rparr>)"

definition discrepancy_status_text :: "discrepancy_status \<Rightarrow> string" where
  "discrepancy_status_text d =
     (case d of DOpen \<Rightarrow> ''open'' | DConfirmed \<Rightarrow> ''confirmed'' | DScOverride \<Rightarrow> ''sc_override''
      | DDirectorResolved \<Rightarrow> ''director_resolved'' | DForcedScFigure \<Rightarrow> ''forced_sc_figure''
      | DCancelled \<Rightarrow> ''cancelled'')"

definition fact_audit :: "int \<Rightarrow> int \<Rightarrow> number \<Rightarrow> int \<Rightarrow> fact_plan \<Rightarrow> int \<Rightarrow> audit_params" where
  "fact_audit periodId boqItemId scVolume actorId plan factId =
     \<lparr>ap_tableName = ''period_facts'', ap_recordId = factId,
      ap_action = (if fp_noTemplate plan then ''period_fact_input_without_template''
                   else ''period_fact_upserted''),
      ap_oldData = None,
      ap_newData = Some (JObj [(''periodId'', JNum (of_int periodId)), (''boqItemId'', JNum (of_int boqItemId)),
         (''scVolume'', JNum scVolume),
         (''discrepancyType'', json_opt (\<lambda>n. JNum (of_int n)) (fst (fp_class plan))),
         (''discrepancyStatus'', JStr (discrepancy_status_text (fst (snd (fp_class plan)))))]),
      ap_reason = None, ap_performedBy = Some actorId, ap_organizationId = fp_orgId plan\<rparr>"

definition commitFact ::
  "int \<Rightarrow> int \<Rightarrow> number \<Rightarrow> int \<Rightarrow> upsert_opts \<Rightarrow> fact_plan \<Rightarrow> period_fact service" where
  "commitFact periodId boqItemId scVolume actorId opts plan =
     bind (upsert_fact periodId boqItemId
             (\<lambda>i. fill_fact scVolume opts plan (empty_fact i periodId boqItemId))
             (fill_fact scVolume opts plan)) (\<lambda>updatedFact.
     andThen (whenM (fp_status plan = PGpSubmitted)
                (bind (update_period periodId (\<lambda>p. p\<lparr>p_status := PVerification\<rparr>)) (\<lambda>_. ret ())))
    (andThen (audit_log (fact_audit periodId boqItemId scVolume actorId plan (f_id updatedFact)))
       (ret updatedFact)))"

definition upsertPeriodFact ::
  "int \<Rightarrow> int \<Rightarrow> number \<Rightarrow> int \<Rightarrow> upsert_opts \<Rightarrow> period_fact service" where
  "upsertPeriodFact periodId boqItemId scVolume actorId opts = transaction (
     bind (readFact periodId boqItemId scVolume opts)
          (commitFact periodId boqItemId scVolume actorId opts))"

section \<open>Readiness\<close>

text \<open>\<^verbatim>\<open>for (const f of facts) { \<dots> readiness += pct * weight }\<close>, over the facts with their positions.\<close>

definition pct_of :: "period_fact \<Rightarrow> boq_item \<Rightarrow> number" where
  "pct_of f b = min (counted_volume f / bi_planVolume b * 100) 100"

fun readiness_loop :: "(period_fact \<times> boq_item) list \<Rightarrow> number \<Rightarrow> number" where
  "readiness_loop [] readiness = readiness"
| "readiness_loop ((f, b) # rest) readiness =
     (case bi_weightCoef b of
        None \<Rightarrow> readiness_loop rest readiness
      | Some w \<Rightarrow>
          if bi_planVolume b \<le> 0 then readiness_loop rest readiness
          else readiness_loop rest (readiness + pct_of f b * w))"

definition with_item :: "db \<Rightarrow> period_fact \<Rightarrow> (period_fact \<times> boq_item) option" where
  "with_item s f = map_option (\<lambda>b. (f, b)) (find_boq_item (f_boqItemId f) s)"

text \<open>\<^verbatim>\<open>Math.round(readiness * 100) / 100\<close>\<close>

definition round2 :: "number \<Rightarrow> number" where
  "round2 x = of_int (js_round (x * 100)) / 100"

definition calcReadiness :: "int \<Rightarrow> db \<Rightarrow> number" where
  "calcReadiness periodId s =
     round2 (readiness_loop (List.map_filter (with_item s) (facts_of_period periodId s)) 0)"

section \<open>Pace deltas\<close>

definition cumulative_volume :: "int \<Rightarrow> int \<Rightarrow> db \<Rightarrow> number" where
  "cumulative_volume periodId boqItemId s =
     (case find_fact periodId boqItemId s of None \<Rightarrow> 0 | Some f \<Rightarrow> counted_volume f)"

text \<open>The latest closed period of the object before a number.\<close>

definition previous_closed :: "int \<Rightarrow> int \<Rightarrow> db \<Rightarrow> period option" where
  "previous_closed objectId number s =
     find_first_desc p_periodNumber
       (\<lambda>p. p_objectId p = objectId \<and> p_periodNumber p < number
            \<and> (p_status p = PClosed \<or> p_status p = PForceClosed)) (periods s)"

definition pace_delta :: "int \<Rightarrow> int \<Rightarrow> int \<Rightarrow> int \<Rightarrow> db \<Rightarrow> number" where
  "pace_delta periodId objectId number boqItemId s =
     cumulative_volume periodId boqItemId s
     - (case previous_closed objectId number s of
          None \<Rightarrow> 0 | Some q \<Rightarrow> cumulative_volume (p_id q) boqItemId s)"

definition recordWorkPaceDeltas :: "int \<Rightarrow> int \<Rightarrow> unit service" where
  "recordWorkPaceDeltas periodId objectId =
     bind (getsOr (find_period periodId) (PrismaError RecordNotFound)) (\<lambda>per.
     bind (gets (\<lambda>s. filter (\<lambda>b. bi_boqVersionId b = p_boqVersionId per) (boqItems s))) (\<lambda>items.
     forEach items (\<lambda>item.
       bind (gets (pace_delta periodId objectId (p_periodNumber per) (bi_id item))) (\<lambda>delta.
       upsert_work_pace \<lparr>w_periodId = periodId, w_boqItemId = bi_id item, w_periodVolume = delta,
                         w_weightedPace = delta, w_isExcluded = p_plannedPause per\<rparr>))))"

section \<open>closePeriod\<close>

text \<open>A \<^verbatim>\<open>@db.Date\<close> column keeps the day; Prisma refuses an invalid date.\<close>

definition storable_date :: "js_date option \<Rightarrow> bool" where
  "storable_date d \<longleftrightarrow> d \<noteq> Some InvalidDate"

definition date_column :: "js_date option \<Rightarrow> date option" where
  "date_column d =
     (case d of Some (ValidDate t) \<Rightarrow> Some (t - t mod MS_PER_DAY) | _ \<Rightarrow> None)"

definition create_snapshot :: "int \<Rightarrow> int \<Rightarrow> number \<Rightarrow> object_forecast \<Rightarrow> unit service" where
  "create_snapshot periodId objectId readinessPct forecast =
     andThen (guard (storable_date (weightedForecastDate forecast)
                     \<and> storable_date (criticalPathForecastDate forecast)) (PrismaError InvalidArgument))
       (insert_snapshot
          \<lparr>rs_periodId = periodId, rs_objectId = objectId, rs_objectReadinessPct = readinessPct,
           rs_weightedForecastDate = date_column (weightedForecastDate forecast),
           rs_criticalPathForecastDate = date_column (criticalPathForecastDate forecast),
           rs_gapFlag = gapFlag forecast\<rparr>)"

text \<open>The four statements a close and a recalculation share.\<close>

definition record_snapshot :: "int \<Rightarrow> int \<Rightarrow> unit service" where
  "record_snapshot periodId objectId =
     bind (gets (calcReadiness periodId)) (\<lambda>readinessPct.
     andThen (recordWorkPaceDeltas periodId objectId)
    (bind (calcObjectForecast objectId periodId) (\<lambda>forecast.
     create_snapshot periodId objectId readinessPct forecast)))"

definition closePeriod :: "int \<Rightarrow> int \<Rightarrow> period service" where
  "closePeriod periodId actorId = transaction (
     bind (getsOr (find_period periodId) (PrismaError RecordNotFound)) (\<lambda>per.
     bind (getsOr (period_org per) (PrismaError RecordNotFound)) (\<lambda>orgId.
     andThen (assertPeriodEditable per)
    (andThen (guard (p_status per = PVerification) (ConflictException ''PERIOD_WRONG_STATUS''))
    (andThen (guardS (\<lambda>s. length (open_discrepancies periodId s) = 0)
                (ConflictException ''OPEN_DISCREPANCIES_EXIST''))
    (bind now (\<lambda>t.
     bind (update_period periodId (\<lambda>p. p\<lparr>p_status := PClosed, p_closedAt := Some t,
             p_closedBy := Some actorId\<rparr>)) (\<lambda>updated.
     andThen (record_snapshot periodId (p_objectId per))
    (andThen (audit_log
       \<lparr>ap_tableName = ''periods'', ap_recordId = periodId, ap_action = ''period_closed'',
        ap_oldData = None, ap_newData = None, ap_reason = None, ap_performedBy = Some actorId,
        ap_organizationId = orgId\<rparr>)
       (ret updated))))))))))"

section \<open>Corrections by an administrator\<close>

text \<open>
  The SQL function \<^verbatim>\<open>fn_admin_correct_fact\<close> of the migrations: an UPDATE of the fact, then an INSERT
  into \<^verbatim>\<open>audit_log\<close> that gives no \<^verbatim>\<open>organization_id\<close>, a column that is NOT NULL and has no default.
  The client reports an error of a raw query under the code \<^verbatim>\<open>P2010\<close>.
\<close>

definition insert_audit_row ::
  "string option \<Rightarrow> (string \<Rightarrow> audit_params) \<Rightarrow> unit service" where
  "insert_audit_row organizationId ps =
     (case organizationId of None \<Rightarrow> throw (PrismaError CheckViolation) | Some o' \<Rightarrow> audit_log (ps o'))"

definition fn_admin_correct_fact ::
  "int \<Rightarrow> number \<Rightarrow> number \<Rightarrow> int \<Rightarrow> string \<Rightarrow> unit service" where
  "fn_admin_correct_fact factId scVolume accepted adminId reason = transaction (tryCatch (
     bind (gets (\<lambda>s. List.find (\<lambda>f. f_id f = factId) (periodFacts s))) (\<lambda>row.
     case row of None \<Rightarrow> ret () | Some _ \<Rightarrow>
     bind (update_fact factId (\<lambda>f. f\<lparr>f_scVolume := Some scVolume, f_acceptedVolume := Some accepted\<rparr>)) (\<lambda>f.
     insert_audit_row None (\<lambda>orgId.
       \<lparr>ap_tableName = ''period_facts'', ap_recordId = factId, ap_action = ''admin_correction'',
        ap_oldData = Some (JObj [(''sc_volume'', json_opt JNum (f_scVolume f)),
                                 (''accepted_volume'', json_opt JNum (f_acceptedVolume f))]),
        ap_newData = Some (JObj [(''sc_volume'', JNum scVolume), (''accepted_volume'', JNum accepted)]),
        ap_reason = Some reason, ap_performedBy = Some adminId, ap_organizationId = orgId\<rparr>))))
     (\<lambda>_. throw (PrismaError (RawQueryError ''P2010''))))"

definition recalcSnapshotCascade :: "int \<Rightarrow> int \<Rightarrow> unit service" where
  "recalcSnapshotCascade objectId fromPeriodNumber =
     bind (gets (\<lambda>s. order_asc p_periodNumber (filter (\<lambda>p. p_objectId p = objectId
             \<and> fromPeriodNumber \<le> p_periodNumber p
             \<and> (p_status p = PClosed \<or> p_status p = PForceClosed)) (periods s)))) (\<lambda>ps.
     forEach ps (\<lambda>p. transaction (
       andThen (delete_snapshots (\<lambda>r. rs_periodId r = p_id p))
         (record_snapshot (p_id p) objectId))))"

text \<open>The cascade is not awaited and its errors are only printed.\<close>

definition adminCorrectFact ::
  "int \<Rightarrow> number \<Rightarrow> number \<Rightarrow> int \<Rightarrow> string \<Rightarrow> unit service" where
  "adminCorrectFact factId scVolume accepted adminId reason =
     bind (getsOr (\<lambda>s. List.find (\<lambda>f. f_id f = factId) (periodFacts s)) (PrismaError RecordNotFound)) (\<lambda>fact.
     bind (getsOr (find_period (f_periodId fact)) (PrismaError RecordNotFound)) (\<lambda>per.
     andThen (fn_admin_correct_fact factId scVolume accepted adminId reason)
       (tryCatch (recalcSnapshotCascade (p_objectId per) (p_periodNumber per)) (\<lambda>_. ret ()))))"

section \<open>What the service writes\<close>

text \<open>The writes to facts, snapshots, paces and the audit log, and those to the table of periods.\<close>

locale fact_writes = pace_writes R for R :: "db \<Rightarrow> db \<Rightarrow> bool" +
  assumes audit_write: "moves R (audit_log ps)"
    and fact_update: "(\<And>f. f_id (g f) = f_id f \<and> fact_key (g f) = fact_key f \<and> f_version (g f) = f_version f)
        \<Longrightarrow> moves R (update_fact i g)"
    and fact_insert: "(\<And>i. f_id (mk i) = i) \<Longrightarrow> (\<And>i. f_version (mk i) = 1) \<Longrightarrow> moves R (insert_fact mk)"
    and snapshot_insert: "moves R (insert_snapshot r)"
    and snapshot_delete: "moves R (delete_snapshots P)"
    and pace_upsert: "moves R (upsert_work_pace w)"
begin

lemma moves_transaction: "moves R m \<Longrightarrow> moves R (transaction m)"
  unfolding transaction_def by (rule moves_transactionally)

lemma moves_upsert_fact:
  "(\<And>i. f_id (mk i) = i) \<Longrightarrow> (\<And>i. f_version (mk i) = 1) \<Longrightarrow>
   (\<And>f. f_id (g f) = f_id f \<and> fact_key (g f) = fact_key f \<and> f_version (g f) = f_version f) \<Longrightarrow>
   moves R (upsert_fact p b mk g)"
  unfolding upsert_fact_def by (intro moves_rules fact_insert fact_update)

lemma moves_upsert_gp_item: "moves R (upsert_gp_item p item)"
  unfolding upsert_gp_item_def
  by (intro moves_rules moves_upsert_fact) (simp_all add: empty_fact_def fact_key_def)

lemma moves_write_fact:
  "moves R (upsert_fact p b (\<lambda>i. fill_fact v opts plan (empty_fact i p b)) (fill_fact v opts plan))"
  by (intro moves_upsert_fact) (simp_all add: empty_fact_def fact_key_def fill_fact_def split: prod.split)

lemma moves_recordWorkPaceDeltas: "moves R (recordWorkPaceDeltas p ob)"
  unfolding recordWorkPaceDeltas_def by (intro moves_rules pace_upsert)

lemma moves_record_snapshot: "moves R (record_snapshot p ob)"
  unfolding record_snapshot_def create_snapshot_def
  by (intro moves_rules moves_recordWorkPaceDeltas moves_calcObjectForecast snapshot_insert)

lemma moves_recalcSnapshotCascade: "moves R (recalcSnapshotCascade ob n)"
  unfolding recalcSnapshotCascade_def
  by (intro moves_rules moves_transaction moves_record_snapshot snapshot_delete)

lemma moves_adminCorrectFact: "moves R (adminCorrectFact i v a adm reason)"
  unfolding adminCorrectFact_def fn_admin_correct_fact_def insert_audit_row_def
  by (intro moves_rules moves_transaction moves_recalcSnapshotCascade audit_write fact_update)
     (simp add: fact_key_def)

lemma moves_readFact: "moves R (readFact p b v opts)"
  unfolding readFact_def assertPeriodEditable_def by (intro moves_rules)

lemma moves_assertGpTokenValid: "moves R (assertGpTokenValid found)"
  unfolding assertGpTokenValid_def now_def by (intro moves_rules)

end

locale period_updates = fact_writes R for R :: "db \<Rightarrow> db \<Rightarrow> bool" +
  assumes period_update: "(\<And>p. p_id (g p) = p_id p \<and> period_key (g p) = period_key p
          \<and> p_boqVersionId (g p) = p_boqVersionId p
          \<and> p_gpSubmissionToken (g p) = p_gpSubmissionToken p) \<Longrightarrow> moves R (update_period i g)"
begin

lemma moves_submitGp: "moves R (submitGp token name items)"
  unfolding submitGp_def now_def
  by (intro moves_rules moves_transaction moves_assertGpTokenValid moves_upsert_gp_item period_update
        audit_write) (simp add: period_key_def)

lemma moves_upsertPeriodFact: "moves R (upsertPeriodFact p b v actor opts)"
  unfolding upsertPeriodFact_def commitFact_def
  by (intro moves_rules moves_transaction moves_readFact moves_write_fact period_update audit_write)
     (simp add: period_key_def)

lemma moves_closePeriod: "moves R (closePeriod p actor)"
  unfolding closePeriod_def now_def assertPeriodEditable_def
  by (intro moves_rules moves_transaction moves_record_snapshot period_update audit_write)
     (simp add: period_key_def)

end

locale period_writes = period_updates R for R :: "db \<Rightarrow> db \<Rightarrow> bool" +
  assumes period_insert: "(\<And>i. p_id (mk i) = i) \<Longrightarrow> moves R (insert_period mk)"
begin

lemma moves_openPeriod: "moves R (openPeriod lock uuid ob actor opts)"
  unfolding openPeriod_def openPeriod_tx_def now_def
  by (intro moves_rules moves_transaction period_insert audit_write) (simp add: new_period_def)

end

interpretation ev_period: period_writes evolves
  by unfold_locales (auto intro!: ev_writes)

interpretation static_period: period_writes same_static
  by unfold_locales (rule static_writes)+

interpretation zero_period: period_writes same_zero
  by unfold_locales (rule zero_frame)+

interpretation same_period: fact_writes same_periods
  by unfold_locales (rule period_writes)+

end
