(* ===== verification/Period_Lifecycle.thy ===== *)
theory Period_Lifecycle
  imports Period_Service
begin

text \<open>
  The state machine of a period.  \<open>period_step\<close> is the transition relation of \<^verbatim>\<open>periods.status\<close> as the
  service drives it; \<open>lifecycle s s'\<close> says that every period of \<open>s\<close> is still in \<open>s'\<close>, with the same
  identity, that its status only went forward, and that a frozen one did not change at all.  The four
  methods that write the table of periods are shown to move the store along \<open>lifecycle\<close>; every other
  method does because it leaves the table alone.

  A period is frozen when it is closed, and also when it is still open although its token has expired:
  such a period cannot be submitted any more, so that it is never verified nor closed.
\<close>

section \<open>The state machine\<close>

inductive period_step :: "period_status \<Rightarrow> period_status \<Rightarrow> bool" where
  submit: "period_step POpen PGpSubmitted"
| verify: "period_step PGpSubmitted PVerification"
| close: "period_step PVerification PClosed"

code_pred period_step .

inductive_cases period_step_from: "period_step a b"

fun period_rank :: "period_status \<Rightarrow> nat" where
  "period_rank POpen = 0"
| "period_rank PGpSubmitted = 1"
| "period_rank PVerification = 2"
| "period_rank PClosed = 3"
| "period_rank PForceClosed = 3"

lemma period_step_rank: "period_step a b \<Longrightarrow> period_rank b = period_rank a + 1"
  by (erule period_step_from) auto

lemma period_steps_rank: "period_step\<^sup>*\<^sup>* a b \<Longrightarrow> period_rank a \<le> period_rank b"
  by (induction rule: rtranclp_induct) (auto dest: period_step_rank)

lemma period_steps_final:
  "period_step\<^sup>*\<^sup>* a b \<Longrightarrow> a = PClosed \<or> a = PForceClosed \<Longrightarrow> b = a"
  by (induction rule: rtranclp_induct) (auto elim: period_step_from)

text \<open>Moving the store: what a period may become.\<close>

definition editable :: "period \<Rightarrow> bool" where
  "editable p \<longleftrightarrow> p_status p \<noteq> PClosed \<and> p_status p \<noteq> PForceClosed"

text \<open>Open, and past the deadline for the general contractor.\<close>

definition overdue :: "date \<Rightarrow> period \<Rightarrow> bool" where
  "overdue t p \<longleftrightarrow> p_status p = POpen
     \<and> (case p_gpTokenExpiresAt p of None \<Rightarrow> True | Some e \<Rightarrow> e < t)"

definition frozen :: "date \<Rightarrow> period \<Rightarrow> bool" where
  "frozen t p \<longleftrightarrow> \<not> editable p \<or> overdue t p"

definition period_next :: "date \<Rightarrow> period \<Rightarrow> period \<Rightarrow> bool" where
  "period_next t p p' \<longleftrightarrow>
     p_id p' = p_id p \<and> period_key p' = period_key p \<and> p_boqVersionId p' = p_boqVersionId p
     \<and> p_gpSubmissionToken p' = p_gpSubmissionToken p \<and> p_gpTokenExpiresAt p' = p_gpTokenExpiresAt p
     \<and> p_plannedPause p' = p_plannedPause p
     \<and> period_step\<^sup>*\<^sup>* (p_status p) (p_status p')
     \<and> (frozen t p \<longrightarrow> p' = p)"

definition lifecycle :: "db \<Rightarrow> db \<Rightarrow> bool" where
  "lifecycle s s' \<longleftrightarrow> evolves s s' \<and> clock s' = clock s
     \<and> (db_ok s \<longrightarrow> (\<forall>p \<in> set (periods s). \<exists>p' \<in> set (periods s'). period_next (clock s) p p'))"

lemma period_next_refl: "period_next t p p"
  by (simp add: period_next_def)

lemma period_next_trans: "period_next t p q \<Longrightarrow> period_next t q r \<Longrightarrow> period_next t p r"
  by (auto simp: period_next_def intro: rtranclp_trans)

lemma lifecycle_refl: "lifecycle s s"
  by (auto simp: lifecycle_def evolves_refl intro: period_next_refl)

lemma lifecycle_trans: "lifecycle s t \<Longrightarrow> lifecycle t u \<Longrightarrow> lifecycle s u"
  unfolding lifecycle_def
  by (auto dest: evolves_db_ok intro: evolves_trans) (metis period_next_trans evolves_db_ok)+

lemma lifecycle_keep: "lifecycle s s' \<Longrightarrow> lifecycle s (keep_outside s' s)"
  unfolding lifecycle_def
  by (auto simp: keep_outside_def evolves_keep[unfolded keep_outside_def] intro: period_next_refl)

interpretation life: step_rel lifecycle keep_outside
  by unfold_locales (fact lifecycle_refl, fact lifecycle_trans, fact lifecycle_keep)

lemma same_static_clock: "same_static s s' \<Longrightarrow> clock s' = clock s"
  by (simp add: same_static_def)

lemma lifecycle_frame: "evolves s s' \<Longrightarrow> clock s' = clock s \<Longrightarrow> same_periods s s' \<Longrightarrow> lifecycle s s'"
  by (auto simp: lifecycle_def same_periods_def intro: period_next_refl)

lemma moves_lifecycle: "moves evolves m \<Longrightarrow> moves same_static m \<Longrightarrow> moves same_periods m \<Longrightarrow> moves lifecycle m"
  by (simp add: moves_def lifecycle_frame same_static_clock)

interpretation life_period: fact_writes lifecycle
  by unfold_locales (auto intro!: moves_lifecycle ev_writes static_writes period_writes simp: fact_key_def)

text \<open>The one kind of step that moves a period: an update of its row.\<close>

lemma lifecycle_update:
  assumes per: "find_period i s = Some per" and nxt: "period_next (clock s) per (g per)"
    and g: "\<And>p. p_id (g p) = p_id p \<and> period_key (g p) = period_key p
             \<and> p_boqVersionId (g p) = p_boqVersionId p \<and> p_gpSubmissionToken (g p) = p_gpSubmissionToken p"
  shows "wp (update_period i g) (\<lambda>old t. old = g per \<and> lifecycle s t) (\<lambda>_ _. False) s"
proof -
  let ?t = "s\<lparr>periods := update_where (\<lambda>p. p_id p = i) g (periods s)\<rparr>"
  have run: "update_period i g s = (Inr (g per), ?t)"
    using per by (simp add: update_period_def prog_defs)
  have "evolves s ?t"
    using ev_update_period[of g i] g run by (metis movesD)
  moreover have "clock ?t = clock s" by simp
  moreover have "\<exists>p' \<in> set (periods ?t). period_next (clock s) p p'" if ok: "db_ok s" and p: "p \<in> set (periods s)" for p
  proof -
    have "period_next (clock s) p (if p_id p = i then g p else p)"
      using per nxt p by (auto simp: find_period_iff[OF ok] period_next_refl dest: db_ok_period_id[OF ok])
    moreover have "(if p_id p = i then g p else p) \<in> set (periods ?t)"
      using mem_update_where[OF p, of "\<lambda>p. p_id p = i" g] by simp
    ultimately show ?thesis by blast
  qed
  ultimately show ?thesis by (simp add: wp_def run lifecycle_def)
qed

lemma wp_andThen_update:
  assumes "find_period i s = Some per" "period_next (clock s) per (g per)"
    and "\<And>p. p_id (g p) = p_id p \<and> period_key (g p) = period_key p
             \<and> p_boqVersionId (g p) = p_boqVersionId p \<and> p_gpSubmissionToken (g p) = p_gpSubmissionToken p"
    and "lifecycle s0 s" and "\<And>x. moves lifecycle (k x)"
  shows "wp (bind (update_period i g) k) (\<lambda>_. lifecycle s0) (\<lambda>_. lifecycle s0) s"
  unfolding wp_bind
  by (rule wp_mono[OF lifecycle_update[OF assms(1-3)]])
     (auto intro: life.wp_tail assms(5) lifecycle_trans[OF assms(4)])

section \<open>The four methods that write periods\<close>

lemma wp_life_transaction:
  "wp m (\<lambda>_. lifecycle s) (\<lambda>_. lifecycle s) s \<Longrightarrow> wp (transaction m) (\<lambda>_. lifecycle s) (\<lambda>_. lifecycle s) s"
  unfolding transaction_def by (rule life.wp_transactionally_keep)

lemma ins_period_life:
  assumes "\<And>i. p_id (mk i) = i"
  shows "moves lifecycle (insert_period mk)"
proof (rule movesI)
  fix s
  have "evolves s (snd (insert_period mk s))" "clock (snd (insert_period mk s)) = clock s"
    using ev_insert_period[of mk] static_writes(3)[of mk] assms by (simp_all add: moves_def same_static_clock)
  moreover have "set (periods s) \<subseteq> set (periods (snd (insert_period mk s)))"
    by (auto simp: insert_period_def nextval_def prog_defs)
  ultimately show "lifecycle s (snd (insert_period mk s))"
    by (auto simp: lifecycle_def intro: period_next_refl)
qed

lemma openPeriod_life: "moves lifecycle (openPeriod lock uuid ob actor opts)"
  unfolding openPeriod_def openPeriod_tx_def now_def
  by (intro life.moves_rules life_period.moves_transaction ins_period_life life_period.audit_write)
     (simp add: new_period_def)

lemma find_by_token_Some:
  "db_ok s \<Longrightarrow> find_by_token token s = Some p \<Longrightarrow> find_period (p_id p) s = Some p"
  by (auto simp: find_by_token_def find_period_iff dest: find_SomeD)

text \<open>What \<open>submitGp\<close> and \<open>upsertPeriodFact\<close> write to facts leaves the period as it was read.\<close>

lemma wp_keep_period:
  assumes "moves evolves m" "moves same_static m" "moves same_periods m"
    and "\<And>x t. lifecycle s t \<Longrightarrow> periods t = periods s \<Longrightarrow> clock t = clock s \<Longrightarrow> wp (k x) (\<lambda>_. lifecycle s) (\<lambda>_. lifecycle s) t"
  shows "wp (bind m k) (\<lambda>_. lifecycle s) (\<lambda>_. lifecycle s) s"
proof -
  have "wp m (\<lambda>_ t. lifecycle s t \<and> same_periods s t) (\<lambda>_ t. lifecycle s t \<and> same_periods s t) s"
    by (intro wp_conj wp_of_moves[OF moves_lifecycle[OF assms(1-3)]] wp_of_moves[OF assms(3)])
  then show ?thesis
    unfolding wp_bind
    by (rule wp_mono) (auto intro: assms(4) simp: same_periods_def lifecycle_def same_static_def)
qed

lemma submitGp_body_life:
  assumes ok: "db_ok s" and per: "find_by_token token s = Some per" and status: "p_status per = POpen" and fresh: "\<not> overdue (clock s) per"
  shows "wp (bind (forEach items (upsert_gp_item (p_id per))) (\<lambda>_. bind now (\<lambda>t.
           bind (update_period (p_id per) (\<lambda>p. p\<lparr>p_gpSubmittedAt := Some t,
                   p_gpSubmittedByName := Some name, p_status := PGpSubmitted\<rparr>)) (\<lambda>updated.
           bind (getsOr (period_org per) (PrismaError RecordNotFound)) (\<lambda>orgId.
           andThen (audit_log (ap orgId)) (ret updated))))))
         (\<lambda>_. lifecycle s) (\<lambda>_. lifecycle s) s"
proof (rule wp_keep_period)
  show "moves evolves (forEach items (upsert_gp_item (p_id per)))"
    by (intro ev.moves_rules ev_period.moves_upsert_gp_item)
  show "moves same_static (forEach items (upsert_gp_item (p_id per)))"
    by (intro static.moves_rules static_period.moves_upsert_gp_item)
  show "moves same_periods (forEach items (upsert_gp_item (p_id per)))"
    by (intro pers.moves_rules same_period.moves_upsert_gp_item)
  fix t assume t: "lifecycle s t" "periods t = periods s" "clock t = clock s"
  have found: "find_period (p_id per) t = Some per"
    using find_by_token_Some[OF ok per] t(2) by (simp add: find_period_def)
  have next': "period_next (clock s) per (per\<lparr>p_gpSubmittedAt := a, p_gpSubmittedByName := b, p_status := PGpSubmitted\<rparr>)" for a b
    using status fresh
    by (auto simp: period_next_def period_key_def editable_def frozen_def intro: period_step.intros)
  show "wp (bind now (\<lambda>now'. bind (update_period (p_id per) (\<lambda>p. p\<lparr>p_gpSubmittedAt := Some now',
                   p_gpSubmittedByName := Some name, p_status := PGpSubmitted\<rparr>)) (\<lambda>updated.
           bind (getsOr (period_org per) (PrismaError RecordNotFound)) (\<lambda>orgId.
           andThen (audit_log (ap orgId)) (ret updated)))))
         (\<lambda>_. lifecycle s) (\<lambda>_. lifecycle s) t" for x :: unit
    unfolding wp_bind[of now] wp_now
    by (rule wp_andThen_update[OF found])
       (auto simp: period_key_def same_periods_def t
             intro!: next' life.moves_rules life_period.audit_write)
qed

lemma wp_forEach_guard:
  "wp (forEach xs (\<lambda>x. guard (b x) e)) Q E s = (if \<forall>x \<in> set xs. b x then Q () s else E e s)"
  by (induction xs) (auto simp: wp_simps)

text \<open>A method that need only be looked at on a store with \<open>db_ok\<close>.\<close>

lemma moves_lifecycleI:
  assumes "moves evolves m" and "moves same_static m" and "\<And>s. db_ok s \<Longrightarrow> wp m (\<lambda>_. lifecycle s) (\<lambda>_. lifecycle s) s"
  shows "moves lifecycle m"
proof (rule movesI)
  fix s
  show "lifecycle s (snd (m s))"
  proof (cases "db_ok s")
    case True
    then show ?thesis using assms(3)[of s] by (simp add: wp_def split: prod.splits sum.splits)
  next
    case False
    then show ?thesis using assms(1,2) by (simp add: moves_def lifecycle_def same_static_clock)
  qed
qed

lemma submitGp_life: "moves lifecycle (submitGp token name items)"
proof (rule moves_lifecycleI[OF ev_period.moves_submitGp static_period.moves_submitGp])
  fix s assume ok: "db_ok s"
  show "wp (submitGp token name items) (\<lambda>_. lifecycle s) (\<lambda>_. lifecycle s) s"
    using submitGp_body_life[OF ok]
    unfolding submitGp_def assertGpTokenValid_def andThen_def
    by (intro wp_life_transaction)
       (auto simp: wp_bind[of "gets f" for f] wp_bind[of "guard b e" for b e] wp_bind[of now] wp_gets wp_now
          wp_guard wp_bind[of "forEach xs (\<lambda>x. guard (b x) e)" for xs b e] wp_forEach_guard wp_throw
          bind_assoc lifecycle_refl overdue_def split: option.split)
qed

lemma closePeriod_life: "moves lifecycle (closePeriod p actor)"
proof (rule moves_lifecycleI[OF ev_period.moves_closePeriod static_period.moves_closePeriod])
  fix s assume ok: "db_ok s"
  have step: "wp (bind (update_period p (\<lambda>q. q\<lparr>p_status := PClosed, p_closedAt := a, p_closedBy := b\<rparr>))
               (\<lambda>updated. bind (record_snapshot p ob) (\<lambda>_. bind (audit_log ap) (\<lambda>_. ret updated))))
             (\<lambda>_. lifecycle s) (\<lambda>_. lifecycle s) s"
    if "find_period p s = Some per" "p_status per = PVerification" for per ob ap a b
    by (rule wp_andThen_update[OF that(1)])
       (use that(2) in \<open>auto simp: period_key_def period_next_def editable_def frozen_def overdue_def lifecycle_refl
          intro!: period_step.intros life.moves_rules life_period.moves_record_snapshot life_period.audit_write\<close>)
  show "wp (closePeriod p actor) (\<lambda>_. lifecycle s) (\<lambda>_. lifecycle s) s"
    unfolding closePeriod_def assertPeriodEditable_def andThen_def
    by (intro wp_life_transaction)
       (auto simp: wp_getsOr wp_guard wp_guardS wp_now wp_bind[of "getsOr f e" for f e] wp_bind[of "guard b e" for b e]
          wp_bind[of now] wp_bind[of "guardS b e" for b e] lifecycle_refl step split: option.split)
qed

lemma commitFact_life:
  assumes ok: "db_ok s" and per: "find_period p s = Some per" and plan: "fp_status plan = p_status per"
  shows "wp (commitFact p b v actor opts plan) (\<lambda>_. lifecycle s) (\<lambda>_. lifecycle s) s"
  unfolding commitFact_def
proof (rule wp_keep_period[OF ev_period.moves_write_fact static_period.moves_write_fact
      same_period.moves_write_fact])
  fix f :: period_fact and t
  assume life: "lifecycle s t" and t: "periods t = periods s" "clock t = clock s"
  have found: "find_period p t = Some per" using per t(1) by (simp add: find_period_def)
  have rest: "moves lifecycle (bind (audit_log ap) (\<lambda>_. ret f))" for ap
    by (intro life.moves_rules life_period.audit_write)
  show "wp (andThen (whenM (fp_status plan = PGpSubmitted)
                (bind (update_period p (\<lambda>q. q\<lparr>p_status := PVerification\<rparr>)) (\<lambda>_. ret ())))
         (andThen (audit_log (fact_audit p b v actor plan (f_id f))) (ret f)))
         (\<lambda>_. lifecycle s) (\<lambda>_. lifecycle s) t"
  proof (cases "fp_status plan = PGpSubmitted")
    case False
    then show ?thesis
      unfolding whenM_def using life.wp_tail[OF life rest] by (simp add: andThen_def)
  next
    case True
    have "wp (bind (update_period p (\<lambda>q. q\<lparr>p_status := PVerification\<rparr>))
            (\<lambda>_. bind (audit_log (fact_audit p b v actor plan (f_id f))) (\<lambda>_. ret f)))
          (\<lambda>_. lifecycle s) (\<lambda>_. lifecycle s) t"
      by (rule wp_andThen_update[OF found])
         (use True plan life in \<open>auto simp: period_key_def period_next_def editable_def frozen_def overdue_def
            intro!: period_step.intros rest\<close>)
    then show ?thesis using True by (simp add: whenM_def andThen_def bind_assoc)
  qed
qed

text \<open>The reading half only reads; its plan tells the status of the period it found editable.\<close>

lemma readFact_run:
  "readFact p b v opts s = (Inr plan, s') \<Longrightarrow>
   s' = s \<and> (\<exists>per. find_period p s = Some per \<and> editable per \<and> fp_status plan = p_status per)"
  by (auto simp: readFact_def assertPeriodEditable_def editable_def prog_defs
           split: option.splits if_splits)

lemma readFact_error: "readFact p b v opts s = (Inl e, s') \<Longrightarrow> s' = s"
  by (auto simp: readFact_def assertPeriodEditable_def prog_defs split: option.splits if_splits)

lemma upsertPeriodFact_life: "moves lifecycle (upsertPeriodFact p b v actor opts)"
proof (rule moves_lifecycleI[OF ev_period.moves_upsertPeriodFact static_period.moves_upsertPeriodFact])
  fix s assume ok: "db_ok s"
  have "wp (readFact p b v opts) (\<lambda>plan. wp (commitFact p b v actor opts plan)
           (\<lambda>_. lifecycle s) (\<lambda>_. lifecycle s)) (\<lambda>_. lifecycle s) s"
    using commitFact_life[OF ok]
    by (auto simp: wp_def dest: readFact_run readFact_error intro: lifecycle_refl split: prod.split sum.split)
       (force simp: wp_def dest!: readFact_run split: prod.splits sum.splits)+
  then show "wp (upsertPeriodFact p b v actor opts) (\<lambda>_. lifecycle s) (\<lambda>_. lifecycle s) s"
    unfolding upsertPeriodFact_def by (intro wp_life_transaction) (simp add: wp_bind)
qed

end
