(* ===== verification/Period_Props.thy ===== *)
theory Period_Props
  imports Period_Lifecycle
begin

text \<open>
  Correctness of the methods of \<open>Period_Service\<close>: what each does on success, what it leaves when it
  throws, and what follows for sequences of calls: one-time submission tokens, one open period per
  object, no lost update, telescoping pace deltas, readiness between 0 and 100.
\<close>

section \<open>The table of facts as a map\<close>

text \<open>
  Under \<open>db_ok\<close> the table of facts is a finite map from period and position to the fact, and
  \<^verbatim>\<open>periodFact.upsert\<close> is the update of that map.
\<close>

definition facts_map :: "db \<Rightarrow> int \<times> int \<rightharpoonup> period_fact" where
  "facts_map s = (\<lambda>k. find_fact (fst k) (snd k) s)"

definition only_facts :: "db \<Rightarrow> db \<Rightarrow> bool" where
  "only_facts s t \<longleftrightarrow> t = s\<lparr>periodFacts := periodFacts t, seq := seq t\<rparr>"

lemma only_facts_refl [simp]: "only_facts s s"
  by (simp add: only_facts_def)

lemma only_facts_trans: "only_facts s t \<Longrightarrow> only_facts t u \<Longrightarrow> only_facts s u"
  by (cases s; cases t; cases u) (simp add: only_facts_def)

lemma only_factsD:
  "only_facts s t \<Longrightarrow> periods t = periods s \<and> auditLog t = auditLog s \<and> clock t = clock s
     \<and> objects t = objects s \<and> photos t = photos s \<and> discrepancies t = discrepancies s
     \<and> audit_actions t = audit_actions s \<and> boqItems t = boqItems s"
  by (cases s; cases t) (simp add: only_facts_def)

lemma update_fact_unique:
  assumes "db_ok s" "old \<in> set (periodFacts s)"
  shows "update_where (\<lambda>f. f_id f = f_id old) h (periodFacts s) = update_where (\<lambda>f. f = old) h (periodFacts s)"
  using db_ok_fact_id[OF assms(1) _ assms(2)] by (auto simp: update_where_def)

text \<open>Replacing the row of a fact by one with the same key updates the map.\<close>

lemma facts_map_update:
  assumes ok: "db_ok s" and old: "old \<in> set (periodFacts s)"
    and new: "f_periodId new = f_periodId old" "f_boqItemId new = f_boqItemId old"
  shows "facts_map (s\<lparr>periodFacts := update_where (\<lambda>f. f_id f = f_id old) (\<lambda>_. new) (periodFacts s)\<rparr>)
           = (facts_map s)((f_periodId old, f_boqItemId old) \<mapsto> new)"
proof (rule ext, clarify)
  fix p b
  have same: "(f_periodId new = p \<and> f_boqItemId new = b) = (f_periodId old = p \<and> f_boqItemId old = b)"
    using new by simp
  have iff: "find_fact p b s = Some old \<longleftrightarrow> p = f_periodId old \<and> b = f_boqItemId old"
    using old find_fact_iff[OF ok] by auto
  have "find_fact p b (s\<lparr>periodFacts := update_where (\<lambda>f. f_id f = f_id old) (\<lambda>_. new) (periodFacts s)\<rparr>)
      = map_option (\<lambda>f. if f = old then new else f) (find_fact p b s)"
    using find_replace[where Q = "\<lambda>f. f_periodId f = p \<and> f_boqItemId f = b", OF same]
    by (simp add: find_fact_def update_fact_unique[OF ok old])
  then show "facts_map (s\<lparr>periodFacts := update_where (\<lambda>f. f_id f = f_id old) (\<lambda>_. new) (periodFacts s)\<rparr>) (p, b)
      = ((facts_map s)((f_periodId old, f_boqItemId old) \<mapsto> new)) (p, b)"
    using iff by (auto simp: facts_map_def map_option_case split: option.split)
qed

lemma wp_upsert_fact:
  assumes ok: "db_ok s"
    and mk: "\<And>i. f_id (mk i) = i \<and> f_version (mk i) = 1 \<and> f_periodId (mk i) = p \<and> f_boqItemId (mk i) = b"
    and g: "\<And>f. f_id (g f) = f_id f \<and> fact_key (g f) = fact_key f \<and> f_version (g f) = f_version f"
  shows "wp (upsert_fact p b mk g)
           (\<lambda>f t. facts_map t = (facts_map s)((p, b) \<mapsto> f) \<and> db_ok t \<and> only_facts s t
              \<and> (case find_fact p b s of None \<Rightarrow> \<exists>i. f = mk i | Some old \<Rightarrow> f = bump_version old (g old)))
           (\<lambda>_ _. True) s"
proof -
  have "wp (upsert_fact p b mk g) (\<lambda>_ t. db_ok t) (\<lambda>_ _. True) s"
    by (rule wp_of_moves[OF ev_upsert_fact]) (use mk g ok in \<open>auto dest: evolves_db_ok\<close>)
  moreover have "wp (upsert_fact p b mk g)
     (\<lambda>f t. facts_map t = (facts_map s)((p, b) \<mapsto> f) \<and> only_facts s t
        \<and> (case find_fact p b s of None \<Rightarrow> \<exists>i. f = mk i | Some old \<Rightarrow> f = bump_version old (g old)))
     (\<lambda>_ _. True) s"
  proof (cases "find_fact p b s")
    case None
    then have "facts_map (s\<lparr>seq := q, periodFacts := periodFacts s @ [mk i]\<rparr>) = (facts_map s)((p, b) \<mapsto> mk i)" for q i
      using mk by (auto simp: facts_map_def find_fact_def find_append fun_eq_iff split: option.split)
    with None show ?thesis
      by (auto simp: upsert_fact_def insert_fact_def check_fact_def wp_simps only_facts_def)
  next
    case (Some old)
    then have old: "old \<in> set (periodFacts s)" "f_periodId old = p" "f_boqItemId old = b"
      using find_fact_iff[OF ok] by auto
    have found: "List.find (\<lambda>f. f_id f = f_id old) (periodFacts s) = Some old"
      using ok old(1) by (auto simp: db_ok_defs dest: keyed_find)
    let ?new = "bump_version old (g old)"
    have new: "f_periodId ?new = p" "f_boqItemId ?new = b"
      using g[of old] old by (auto simp: fact_key_def)
    have "facts_map (s\<lparr>periodFacts := update_where (\<lambda>f. f_id f = f_id old) (\<lambda>_. ?new) (periodFacts s)\<rparr>)
            = (facts_map s)((p, b) \<mapsto> ?new)"
      using facts_map_update[OF ok old(1), of ?new] new old by simp
    moreover have "only_facts s (s\<lparr>periodFacts := fs\<rparr>)" for fs
      by (simp add: only_facts_def)
    ultimately show ?thesis using Some found
      by (simp add: upsert_fact_def update_fact_def check_fact_def wp_simps)
  qed
  ultimately show ?thesis
    by (rule wp_mono[OF wp_conj]) auto
qed

section \<open>openPeriod\<close>

definition opened_ok :: "string \<Rightarrow> int \<Rightarrow> int \<Rightarrow> db \<Rightarrow> period \<Rightarrow> db \<Rightarrow> bool" where
  "opened_ok uuid objectId actorId s p s' \<longleftrightarrow>
     (\<exists>z \<in> set (zeroReports s). zr_objectId z = objectId \<and> zr_status z = ZApproved)
     \<and> (\<forall>q \<in> set (periods s). p_objectId q = objectId \<longrightarrow> p_status q \<noteq> POpen)
     \<and> (\<exists>v \<in> set (boqVersions s). bv_objectId v = objectId \<and> bv_isActive v \<and> p_boqVersionId p = bv_id v)
     \<and> periods s' = periods s @ [p] \<and> p_objectId p = objectId \<and> p_status p = POpen
     \<and> p_periodNumber p = next_period_number objectId s
     \<and> p_openedAt p = clock s \<and> p_openedBy p = Some actorId
     \<and> p_gpSubmissionToken p = Some uuid \<and> p_gpTokenExpiresAt p = Some (add_days (clock s) 14)
     \<and> p_gpSubmittedAt p = None \<and> p_closedAt p = None
     \<and> (\<exists>row. auditLog s' = auditLog s @ [row] \<and> a_action row = ''period_opened''
              \<and> a_recordId row = p_id p \<and> a_performedBy row = Some actorId)"

lemma wp_openPeriod_tx:
  "wp (openPeriod_tx lock uuid ob actor opts)
     (\<lambda>p s'. lock = None \<and> opened_ok uuid ob actor s p s') (\<lambda>_ s'. rolled_back s s') s"
  unfolding openPeriod_tx_def
  by (rule wp_transaction_error)
     (auto simp: wp_simps insert_period_def opened_ok_def new_period_def GP_TOKEN_EXPIRES_DAYS_def
        list_ex_iff audit_row_of_def dest!: find_SomeD split: option.splits)

lemma wp_openPeriod:
  "wp (openPeriod lock uuid ob actor opts)
     (\<lambda>p s'. lock = None \<and> opened_ok uuid ob actor s p s') (\<lambda>_ s'. rolled_back s s') s"
proof -
  have "wp (tryCatch (openPeriod_tx lock uuid ob actor opts) h)
     (\<lambda>p s'. lock = None \<and> opened_ok uuid ob actor s p s') (\<lambda>_ s'. rolled_back s s') s"
    if "\<And>e. h e = throw (g e)" for h g
    unfolding wp_tryCatch that wp_throw
    by (rule wp_openPeriod_tx)
  then show ?thesis
    unfolding openPeriod_def wp_andThen wp_guard
    by (auto simp: if_distrib[of throw, symmetric])
qed

text \<open>The number is the successor of the largest one the object has, and 1 for its first period.\<close>

lemma next_period_number_greater:
  "q \<in> set (periods s) \<Longrightarrow> p_objectId q = ob \<Longrightarrow> p_periodNumber q < next_period_number ob s"
  by (force simp: next_period_number_def split: option.splits dest: find_first_desc_SomeD(3))

lemma next_period_number_least:
  assumes "\<And>q. q \<in> set (periods s) \<Longrightarrow> p_objectId q = ob \<Longrightarrow> p_periodNumber q < n" and "1 \<le> n"
  shows "next_period_number ob s \<le> n"
proof (cases "find_first_desc p_periodNumber (\<lambda>p. p_objectId p = ob) (periods s)")
  case None
  then show ?thesis using assms(2) by (simp add: next_period_number_def del: find_first_desc_None)
next
  case (Some p)
  then show ?thesis
    using assms(1)[OF find_first_desc_SomeD(1,2)[OF Some]] by (simp add: next_period_number_def)
qed

section \<open>At most one open period per object\<close>

definition one_open :: "db \<Rightarrow> bool" where
  "one_open s \<longleftrightarrow> distinct (map p_objectId (filter (\<lambda>p. p_status p = POpen) (periods s)))"

definition keeps_one_open :: "db \<Rightarrow> db \<Rightarrow> bool" where
  "keeps_one_open s s' \<longleftrightarrow> (one_open s \<longrightarrow> one_open s')"

interpretation one: step_rel keeps_one_open keep_outside
  by unfold_locales (auto simp: keeps_one_open_def one_open_def keep_outside_def)

lemma keeps_one_open_frame: "moves same_periods m \<Longrightarrow> moves keeps_one_open m"
  by (erule moves_weaken) (simp add: same_periods_def keeps_one_open_def one_open_def)

interpretation one_period: fact_writes keeps_one_open
  by unfold_locales (auto intro!: keeps_one_open_frame period_writes)

lemma one_open_update:
  assumes "\<And>p. p_objectId (g p) = p_objectId p \<and> p_status (g p) \<noteq> POpen"
  shows "moves keeps_one_open (update_period i g)"
proof -
  let ?objs = "\<lambda>ps. map p_objectId (filter (\<lambda>p. p_status p = POpen) ps)"
  have "set (?objs (update_where P g ps)) \<subseteq> set (?objs ps)
      \<and> (distinct (?objs ps) \<longrightarrow> distinct (?objs (update_where P g ps)))" for P ps
    by (induction ps) (use assms in auto)
  then show ?thesis
    by (auto simp: moves_iff_wp update_period_def wp_simps keeps_one_open_def one_open_def
             split: option.split)
qed

lemma openPeriod_one_open: "moves keeps_one_open (openPeriod lock uuid ob actor opts)"
proof (rule movesI)
  fix s
  have "wp (openPeriod lock uuid ob actor opts) (\<lambda>_. keeps_one_open s) (\<lambda>_. keeps_one_open s) s"
    by (rule wp_mono[OF wp_openPeriod])
       (auto simp: opened_ok_def keeps_one_open_def one_open_def rolled_back_def)
  then show "keeps_one_open s (snd (openPeriod lock uuid ob actor opts s))"
    by (simp add: wp_def split: prod.splits sum.splits)
qed

lemma submitGp_one_open: "moves keeps_one_open (submitGp token name items)"
  unfolding submitGp_def now_def
  by (intro one.moves_rules one_period.moves_transaction one_period.moves_assertGpTokenValid
        one_period.moves_upsert_gp_item one_open_update one_period.audit_write) simp

lemma upsertPeriodFact_one_open: "moves keeps_one_open (upsertPeriodFact p b v actor opts)"
  unfolding upsertPeriodFact_def commitFact_def
  by (intro one.moves_rules one_period.moves_transaction one_period.moves_readFact
        one_period.moves_write_fact one_open_update one_period.audit_write) simp

lemma closePeriod_one_open: "moves keeps_one_open (closePeriod p actor)"
  unfolding closePeriod_def now_def assertPeriodEditable_def
  by (intro one.moves_rules one_period.moves_transaction one_period.moves_record_snapshot
        one_open_update one_period.audit_write) simp

section \<open>submitGp\<close>

text \<open>What a token admits: an open period that has it, not yet submitted and not past its deadline.\<close>

definition token_live :: "string \<Rightarrow> period \<Rightarrow> db \<Rightarrow> bool" where
  "token_live token p s \<longleftrightarrow> p \<in> set (periods s) \<and> p_gpSubmissionToken p = Some token
     \<and> p_status p = POpen \<and> p_gpSubmittedAt p = None
     \<and> (case p_gpTokenExpiresAt p of None \<Rightarrow> False | Some e \<Rightarrow> clock s \<le> e)"

text \<open>A token is found at the one period that has it.\<close>

lemma token_unique:
  assumes "distinct (List.map_filter p_gpSubmissionToken ps)" "p \<in> set ps"
    and "p_gpSubmissionToken p = Some token"
  shows "List.find (\<lambda>q. p_gpSubmissionToken q = Some token) ps = Some p"
proof -
  have "set (List.map_filter p_gpSubmissionToken qs) = {t. \<exists>q \<in> set qs. p_gpSubmissionToken q = Some t}" for qs
    by (induction qs) (auto simp: map_filter_simps split: option.splits)
  then show ?thesis
    using assms by (induction ps) (auto simp: map_filter_simps split: option.splits)
qed

lemma find_by_token_iff:
  "db_ok s \<Longrightarrow> find_by_token token s = Some p \<longleftrightarrow> p \<in> set (periods s) \<and> p_gpSubmissionToken p = Some token"
  unfolding find_by_token_def
  by (auto dest: find_SomeD intro: token_unique simp: db_ok_defs)

lemma submitGp_Inr:
  assumes "submitGp token name items s = (Inr p', s')"
  obtains p where "find_by_token token s = Some p" "token_live token p s"
    and "\<forall>item \<in> set items. extra_keys item = []"
proof -
  have "wp (submitGp token name items)
      (\<lambda>_ _. \<exists>p. find_by_token token s = Some p \<and> token_live token p s
             \<and> (\<forall>item \<in> set items. extra_keys item = [])) (\<lambda>_ _. True) s"
    unfolding submitGp_def assertGpTokenValid_def
    by (auto simp: wp_transaction wp_bind[of "gets f" for f] wp_bind[of "guard b e" for b e] wp_bind[of now]
          wp_andThen[of "guard b e" for b e] wp_gets wp_now wp_guard
          wp_bind[of "andThen m k" for m k] wp_bind[of "bind m k" for m k] wp_ret wp_throw
          wp_andThen[of "forEach xs (\<lambda>x. guard (b x) e)" for xs b e] wp_forEach_guard token_live_def
          not_less find_by_token_def dest: find_SomeD split: option.splits)
  then show thesis using that wp_Inr[of "submitGp token name items", OF assms] by blast
qed

text \<open>What the general contractor's item leaves in the fact of its position.\<close>

definition gp_recorded :: "gp_item \<Rightarrow> period_fact option \<Rightarrow> period_fact option \<Rightarrow> bool" where
  "gp_recorded item old new \<longleftrightarrow> (\<exists>f. new = Some f \<and> f_gpVolume f = Some (gi_gpVolume item)
     \<and> f_gpNote f = gi_gpNote item \<and> f_scVolume f = (case old of None \<Rightarrow> None | Some o' \<Rightarrow> f_scVolume o'))"

lemma wp_upsert_gp_item:
  assumes "db_ok s"
  shows "wp (upsert_gp_item p item)
           (\<lambda>_ t. (\<exists>f. facts_map t = (facts_map s)((p, gi_boqItemId item) \<mapsto> f)
                  \<and> gp_recorded item (facts_map s (p, gi_boqItemId item)) (Some f))
              \<and> db_ok t \<and> only_facts s t) (\<lambda>_ _. True) s"
  unfolding upsert_gp_item_def wp_bind wp_ret
  by (rule wp_mono[OF wp_upsert_fact[OF assms]])
     (auto simp: empty_fact_def fact_key_def gp_recorded_def facts_map_def split: option.splits)

lemma wp_upsert_gp_items:
  assumes "db_ok s" "distinct (map gi_boqItemId items)"
  shows "wp (forEach items (upsert_gp_item p))
           (\<lambda>_ t. (\<forall>item \<in> set items. gp_recorded item (facts_map s (p, gi_boqItemId item))
                                             (facts_map t (p, gi_boqItemId item)))
              \<and> (\<forall>k. k \<notin> (\<lambda>item. (p, gi_boqItemId item)) ` set items \<longrightarrow> facts_map t k = facts_map s k)
              \<and> db_ok t \<and> only_facts s t) (\<lambda>_ _. True) s"
  using assms
proof (induction items arbitrary: s)
  case Nil
  then show ?case by (simp add: wp_simps)
next
  case (Cons item items)
  show ?case
    unfolding forEach.simps wp_andThen
  proof (rule wp_mono[OF wp_upsert_gp_item[OF Cons.prems(1)]])
    fix x :: unit and t
    assume t: "(\<exists>f. facts_map t = (facts_map s)((p, gi_boqItemId item) \<mapsto> f)
                  \<and> gp_recorded item (facts_map s (p, gi_boqItemId item)) (Some f))
              \<and> db_ok t \<and> only_facts s t"
    then have ok: "db_ok t" by simp
    show "wp (forEach items (upsert_gp_item p))
           (\<lambda>_ u. (\<forall>i \<in> set (item # items). gp_recorded i (facts_map s (p, gi_boqItemId i))
                                             (facts_map u (p, gi_boqItemId i)))
              \<and> (\<forall>k. k \<notin> (\<lambda>i. (p, gi_boqItemId i)) ` set (item # items) \<longrightarrow> facts_map u k = facts_map s k)
              \<and> db_ok u \<and> only_facts s u) (\<lambda>_ _. True) t"
      by (rule wp_mono[OF Cons.IH[OF ok]])
         (use Cons.prems(2) t in \<open>auto simp: image_iff eq_commute[of "gi_boqItemId item"]
            intro: only_facts_trans\<close>)
  qed simp
qed

definition submitted :: "date \<Rightarrow> string \<Rightarrow> period \<Rightarrow> period" where
  "submitted t name p =
     p\<lparr>p_gpSubmittedAt := Some t, p_gpSubmittedByName := Some name, p_status := PGpSubmitted\<rparr>"

text \<open>What holds after a successful submission for the period \<open>p\<close> of the token.\<close>

definition submission_ok :: "string \<Rightarrow> gp_item list \<Rightarrow> db \<Rightarrow> period \<Rightarrow> db \<Rightarrow> bool" where
  "submission_ok name items s p s' \<longleftrightarrow>
     periods s' = update_where (\<lambda>q. p_id q = p_id p) (submitted (clock s) name) (periods s)
     \<and> (\<forall>item \<in> set items. gp_recorded item (facts_map s (p_id p, gi_boqItemId item))
                                      (facts_map s' (p_id p, gi_boqItemId item)))
     \<and> (\<forall>k. k \<notin> (\<lambda>item. (p_id p, gi_boqItemId item)) ` set items \<longrightarrow> facts_map s' k = facts_map s k)
     \<and> (\<exists>row. auditLog s' = auditLog s @ [row] \<and> a_action row = ''gp_submitted'' \<and> a_recordId row = p_id p)"

lemma facts_map_cong: "periodFacts t = periodFacts s \<Longrightarrow> facts_map t = facts_map s"
  by (simp add: facts_map_def find_fact_def fun_eq_iff)

lemma submitGp_success:
  assumes ok: "db_ok s" and dist: "distinct (map gi_boqItemId items)"
    and run: "submitGp token name items s = (Inr p', s')"
  obtains p where "token_live token p s" "p' = submitted (clock s) name p" "submission_ok name items s p s'"
proof -
  obtain p where p: "find_by_token token s = Some p" "token_live token p s"
      "\<forall>item \<in> set items. extra_keys item = []"
    using submitGp_Inr[OF run] by metis
  have found: "List.find (\<lambda>q. p_id q = p_id p) (periods s) = Some p"
    using find_by_token_Some[OF ok p(1)] by (simp add: find_period_def)
  have tail: "wp (forEach items (upsert_gp_item (p_id p))) (\<lambda>_ t. Q t) (\<lambda>_ _. True) s"
    if "\<And>t. (\<forall>item \<in> set items. gp_recorded item (facts_map s (p_id p, gi_boqItemId item))
                                             (facts_map t (p_id p, gi_boqItemId item)))
              \<and> (\<forall>k. k \<notin> (\<lambda>item. (p_id p, gi_boqItemId item)) ` set items \<longrightarrow> facts_map t k = facts_map s k)
              \<and> db_ok t \<and> only_facts s t \<Longrightarrow> Q t" for Q
    by (rule wp_mono[OF wp_upsert_gp_items[OF ok dist]]) (use that in auto)
  have "wp (submitGp token name items)
          (\<lambda>r t. r = submitted (clock s) name p \<and> submission_ok name items s p t) (\<lambda>_ _. True) s"
    unfolding submitGp_def assertGpTokenValid_def update_period_def find_period_def
    using p found
    by (auto simp: wp_simps wp_forEach_guard token_live_def not_less audit_row_of_def submission_ok_def
          submitted_def[abs_def] period_org_def cong: facts_map_cong dest!: only_factsD
          intro!: tail split: option.split)
  then show thesis using that p(2) wp_Inr[of "submitGp token name items", OF run] by blast
qed

section \<open>upsertPeriodFact\<close>

text \<open>What must hold for a fact to be accepted.\<close>

definition admits_fact :: "int \<Rightarrow> int \<Rightarrow> upsert_opts \<Rightarrow> period \<Rightarrow> db \<Rightarrow> bool" where
  "admits_fact p b opts per s \<longleftrightarrow>
     find_period p s = Some per
     \<and> (p_status per = PGpSubmitted \<or> p_status per = PVerification \<or> no_template_input (clock s) per)
     \<and> (uo_workAccessible opts = Some False \<longrightarrow> has_photo p b s)
     \<and> (case uo_expectedVersion opts of None \<Rightarrow> True | Some v \<Rightarrow> server_version (find_fact p b s) = v)"

definition plan_of :: "int \<Rightarrow> int \<Rightarrow> number \<Rightarrow> period \<Rightarrow> string \<Rightarrow> db \<Rightarrow> fact_plan" where
  "plan_of p b v per orgId s =
     \<lparr>fp_orgId = orgId, fp_status = p_status per, fp_noTemplate = no_template_input (clock s) per,
      fp_class = classify (case find_fact p b s of None \<Rightarrow> None | Some f \<Rightarrow> f_gpVolume f) v\<rparr>"

lemma readFact_spec:
  "readFact p b v opts s = (Inr plan, s') \<longleftrightarrow>
   s' = s \<and> (\<exists>per orgId. admits_fact p b opts per s \<and> period_org per s = Some orgId \<and> plan = plan_of p b v per orgId s)"
  by (auto simp: readFact_def admits_fact_def plan_of_def assertPeriodEditable_def no_template_input_def
        SC_FACT_ALLOWED_STATUSES_def prog_defs split: option.splits if_splits)

text \<open>What a success writes.\<close>

definition fact_entered ::
  "int \<Rightarrow> int \<Rightarrow> number \<Rightarrow> int \<Rightarrow> upsert_opts \<Rightarrow> period \<Rightarrow> db \<Rightarrow> period_fact \<Rightarrow> db \<Rightarrow> bool" where
  "fact_entered p b v actor opts per s f s' \<longleftrightarrow>
     facts_map s' = (facts_map s)((p, b) \<mapsto> f)
     \<and> f_scVolume f = Some v \<and> f_spikeResponse f = uo_spikeResponse opts
     \<and> (f_discrepancyType f, f_discrepancyStatus f, f_acceptedVolume f)
         = (case facts_map s (p, b) of
              Some old \<Rightarrow> if f_gpVolume old = Some v then (None, Some DConfirmed, Some v)
                          else (Some 1, Some DOpen, None)
            | None \<Rightarrow> (Some 1, Some DOpen, None))
     \<and> (case facts_map s (p, b) of
          None \<Rightarrow> f_version f = 1 \<and> f_gpVolume f = None
        | Some old \<Rightarrow> f_gpVolume f = f_gpVolume old \<and> f_id f = f_id old
            \<and> f_version f = (if f_scVolume old = Some v \<and> f_discrepancyType old = f_discrepancyType f
                             then f_version old else f_version old + 1))
     \<and> periods s' = (if p_status per = PGpSubmitted
                     then update_where (\<lambda>q. p_id q = p) (\<lambda>q. q\<lparr>p_status := PVerification\<rparr>) (periods s)
                     else periods s)
     \<and> photos s' = photos s \<and> discrepancies s' = discrepancies s
     \<and> (\<exists>row. auditLog s' = auditLog s @ [row] \<and> a_recordId row = f_id f \<and> a_performedBy row = Some actor
          \<and> a_action row = (if no_template_input (clock s) per then ''period_fact_input_without_template''
                            else ''period_fact_upserted''))"

lemma classify_iff:
  "classify g v = (if g = Some v then (None, DConfirmed, Some v) else (Some 1, DOpen, None))"
  by (auto simp: classify_def split: option.splits)

lemma wp_commitFact:
  assumes ok: "db_ok s" and per: "admits_fact p b opts per s"
  shows "wp (commitFact p b v actor opts (plan_of p b v per orgId s))
           (\<lambda>f s'. fact_entered p b v actor opts per s f s') (\<lambda>_ _. True) s"
proof -
  let ?plan = "plan_of p b v per orgId s"
  have found: "List.find (\<lambda>q. p_id q = p) (periods s) = Some per"
    using per by (simp add: admits_fact_def find_period_def)
  have step: "wp (upsert_fact p b (\<lambda>i. fill_fact v opts ?plan (empty_fact i p b)) (fill_fact v opts ?plan)) Q (\<lambda>_ _. True) s"
    if "\<And>f t. facts_map t = (facts_map s)((p, b) \<mapsto> f) \<and> db_ok t \<and> only_facts s t
          \<and> (case find_fact p b s of None \<Rightarrow> \<exists>i. f = fill_fact v opts ?plan (empty_fact i p b)
             | Some old \<Rightarrow> f = bump_version old (fill_fact v opts ?plan old)) \<Longrightarrow> Q f t" for Q
    by (rule wp_mono[OF wp_upsert_fact[OF ok]])
       (use that in \<open>auto simp: fill_fact_def empty_fact_def fact_key_def split: prod.splits\<close>)
  have fm: "facts_map s (p, b) = find_fact p b s" by (simp add: facts_map_def)
  show ?thesis
    unfolding commitFact_def update_period_def find_period_def wp_bind[of "upsert_fact p b mk g" for mk g]
  proof (rule step)
    fix f :: period_fact and t :: db
    let ?tail = "andThen (whenM (fp_status ?plan = PGpSubmitted)
        (bind (bind (getsOr (\<lambda>s. List.find (\<lambda>q. p_id q = p) (periods s)) (PrismaError RecordNotFound)) (\<lambda>old.
           andThen (modify (\<lambda>s. s\<lparr>periods := update_where (\<lambda>q. p_id q = p)
             (\<lambda>q. q\<lparr>p_status := PVerification\<rparr>) (periods s)\<rparr>)) (ret (old\<lparr>p_status := PVerification\<rparr>)))) (\<lambda>_. ret ())))
      (andThen (audit_log (fact_audit p b v actor ?plan (f_id f))) (ret f))"
    assume t: "facts_map t = (facts_map s)((p, b) \<mapsto> f) \<and> db_ok t \<and> only_facts s t
          \<and> (case find_fact p b s of None \<Rightarrow> \<exists>i. f = fill_fact v opts ?plan (empty_fact i p b)
             | Some old \<Rightarrow> f = bump_version old (fill_fact v opts ?plan old))"
    have frame: "periods t = periods s" "auditLog t = auditLog s" "photos t = photos s"
        "discrepancies t = discrepancies s"
      using t by (auto dest: only_factsD)
    have fact: "f_scVolume f = Some v" "f_spikeResponse f = uo_spikeResponse opts"
        "(f_discrepancyType f, f_discrepancyStatus f, f_acceptedVolume f)
         = (case facts_map s (p, b) of
              Some old \<Rightarrow> if f_gpVolume old = Some v then (None, Some DConfirmed, Some v)
                          else (Some 1, Some DOpen, None)
            | None \<Rightarrow> (Some 1, Some DOpen, None))"
        "case facts_map s (p, b) of
          None \<Rightarrow> f_version f = 1 \<and> f_gpVolume f = None
        | Some old \<Rightarrow> f_gpVolume f = f_gpVolume old \<and> f_id f = f_id old
            \<and> f_version f = (if f_scVolume old = Some v \<and> f_discrepancyType old = f_discrepancyType f
                             then f_version old else f_version old + 1)"
      using t by (auto simp: fm plan_of_def classify_iff fill_fact_def empty_fact_def bump_version_def
                    eq_commute[of None] split: option.splits)
    show "wp ?tail (\<lambda>f s'. fact_entered p b v actor opts per s f s') (\<lambda>_ _. True) t"
      using t fact frame found
      by (auto simp: wp_simps fact_entered_def plan_of_def fact_audit_def audit_row_of_def cong: facts_map_cong)
  qed
qed

lemma upsertPeriodFact_success:
  assumes ok: "db_ok s" and run: "upsertPeriodFact p b v actor opts s = (Inr f, s')"
  obtains per where "admits_fact p b opts per s" "fact_entered p b v actor opts per s f s'"
proof -
  obtain plan where plan: "readFact p b v opts s = (Inr plan, s)" "commitFact p b v actor opts plan s = (Inr f, s')"
    using run by (auto simp: upsertPeriodFact_def transaction_Inr bind_eq_Inr readFact_spec)
  obtain per orgId where per: "admits_fact p b opts per s" "plan = plan_of p b v per orgId s"
    using plan(1) by (auto simp: readFact_spec)
  have "fact_entered p b v actor opts per s f s'"
    using wp_Inr[OF plan(2)[unfolded per(2)] wp_commitFact[OF ok per(1)]] .
  with per(1) show thesis by (rule that)
qed

text \<open>A failure writes nothing at all: the audit row is the last write.\<close>

definition only_seq :: "db \<Rightarrow> db \<Rightarrow> bool" where
  "only_seq s s' \<longleftrightarrow> s' = s\<lparr>seq := seq s'\<rparr>"

lemma only_seq_refl [simp]: "only_seq s s"
  by (simp add: only_seq_def)

lemma upsertPeriodFact_failure:
  assumes ok: "db_ok s" and run: "upsertPeriodFact p b v actor opts s = (Inl e, s')"
  shows "only_seq s s'"
proof -
  have audit: "wp (andThen (whenM c (bind (update_period p h) (\<lambda>_. ret ()))) (andThen (audit_log ap) (ret f)))
           (\<lambda>_ _. True) (\<lambda>_ u. auditLog u = auditLog t) t" for c h ap f t
    by (auto simp: wp_simps update_period_def split: option.split)
  have upsert: "wp (upsert_fact p b mk g) (\<lambda>_ t. auditLog t = auditLog s) (\<lambda>_ t. auditLog t = auditLog s) s" for mk g
    by (auto simp: upsert_fact_def insert_fact_def update_fact_def check_fact_def wp_simps split: option.split)
  have "wp (commitFact p b v actor opts plan) (\<lambda>_ _. True) (\<lambda>_ t. auditLog t = auditLog s) s" for plan
    unfolding commitFact_def wp_bind[of "upsert_fact p b mk g" for mk g]
    by (rule wp_mono[OF upsert]) (auto intro: wp_mono[OF audit])
  then have commit: "auditLog t = auditLog s" if "commitFact p b v actor opts plan s = (Inl e, t)" for plan e t
    using wp_Inl[of "commitFact p b v actor opts plan", OF that] by blast
  have "wp (bind (readFact p b v opts) (commitFact p b v actor opts)) (\<lambda>_ _. True)
           (\<lambda>_ t. auditLog t = auditLog s) s"
    unfolding wp_bind
    by (auto simp: wp_def dest: readFact_error split: prod.splits sum.splits)
       (metis readFact_run commit)
  then have "wp (upsertPeriodFact p b v actor opts) (\<lambda>_ _. True) (\<lambda>_ t. only_seq s t) s"
    unfolding upsertPeriodFact_def wp_transaction
    by (rule wp_mono) (auto simp: keep_outside_def only_seq_def)
  then show ?thesis using run by (simp add: wp_def)
qed

section \<open>No lost update\<close>

lemma find_period_update:
  "(\<And>q. p_id (g q) = p_id q) \<Longrightarrow> periods s' = update_where (\<lambda>q. p_id q = i) g (periods s) \<Longrightarrow>
   find_period i s = Some per \<Longrightarrow> find_period i s' = Some (g per)"
  unfolding find_period_def by (auto simp: find_update_where dest: find_SomeD)

text \<open>After a fact was entered the period admits facts as before, but only at the new version.\<close>

lemma stale_version_conflicts:
  assumes ok: "db_ok s" and run: "upsertPeriodFact p b v actor opts s = (Inr f, s')"
    and stale: "uo_expectedVersion opts2 = Some n" "n \<noteq> f_version f"
    and photo: "uo_workAccessible opts2 = Some False \<longrightarrow> has_photo p b s"
  shows "upsertPeriodFact p b w actor2 opts2 s' = (Inl (VersionConflictException (server_snapshot (Some f))), s')"
proof -
  obtain per where per: "admits_fact p b opts per s" and ent: "fact_entered p b v actor opts per s f s'"
    using upsertPeriodFact_success[OF ok run] .
  have static: "same_static s s'"
    using static_period.moves_upsertPeriodFact run by (rule movesD)
  define per' where "per' = (if p_status per = PGpSubmitted then per\<lparr>p_status := PVerification\<rparr> else per)"
  have found: "find_period p s' = Some per'"
    using per ent find_period_update[of "\<lambda>q. q\<lparr>p_status := PVerification\<rparr>" s' p s per]
    by (auto simp: per'_def admits_fact_def fact_entered_def find_period_def)
  have org: "period_org per' s' = period_org per s"
    using static by (simp add: per'_def period_org_def find_object_def same_static_def)
  obtain orgId where "period_org per s = Some orgId"
    using run by (auto simp: upsertPeriodFact_def transaction_Inr bind_eq_Inr readFact_spec)
       (use per in \<open>auto simp: admits_fact_def\<close>)
  moreover have "find_fact p b s' = Some f" "has_photo p b s' = has_photo p b s"
    using ent by (auto simp: fact_entered_def facts_map_def has_photo_def fun_eq_iff split: if_splits)
  ultimately have "readFact p b w opts2 s' = (Inl (VersionConflictException (server_snapshot (Some f))), s')"
    using per stale photo found org static
    by (auto simp: readFact_def assertPeriodEditable_def prog_defs SC_FACT_ALLOWED_STATUSES_def per'_def
          admits_fact_def no_template_input_def same_static_def server_version_def split: option.splits)
  then show ?thesis
    by (simp add: upsertPeriodFact_def transaction_def transactionally_def keep_outside_def)
qed

section \<open>Readiness\<close>

lemma counted_volume_nonneg: "db_ok s \<Longrightarrow> f \<in> set (periodFacts s) \<Longrightarrow> 0 \<le> counted_volume f"
proof -
  assume "db_ok s" "f \<in> set (periodFacts s)"
  then have "fact_checks f" by (auto simp: db_ok_defs list_all_iff)
  then show ?thesis by (auto simp: fact_checks_def nonneg_def counted_volume_def split: option.splits)
qed

definition row_weight :: "period_fact \<times> boq_item \<Rightarrow> number" where
  "row_weight r = (case bi_weightCoef (snd r) of None \<Rightarrow> 0 | Some w \<Rightarrow> w)"

lemma readiness_loop_bounds:
  assumes "\<forall>r \<in> set rows. 0 \<le> counted_volume (fst r) \<and> weight_check (snd r)"
  shows "acc \<le> readiness_loop rows acc \<and> readiness_loop rows acc \<le> acc + 100 * sum_list (map row_weight rows)"
  using assms
proof (induction rows acc rule: readiness_loop.induct)
  case (1 acc)
  then show ?case by simp
next
  case (2 f b rest acc)
  show ?case
  proof (cases "bi_weightCoef b")
    case None
    then show ?thesis using 2 by (simp add: row_weight_def)
  next
    case (Some w)
    then have w: "0 < w" using 2(4) by (simp add: weight_check_def)
    have pct: "0 \<le> pct_of f b \<and> pct_of f b \<le> 100" if "0 < bi_planVolume b"
      using 2(4) that by (simp add: pct_of_def)
    show ?thesis
    proof (cases "bi_planVolume b \<le> 0")
      case True
      then show ?thesis using 2 Some w by (auto simp: row_weight_def)
    next
      case False
      then have "0 \<le> pct_of f b * w" "pct_of f b * w \<le> 100 * w"
        using w pct mult_right_mono[of "pct_of f b" 100 w] by simp_all
      moreover have "acc + pct_of f b * w \<le> readiness_loop rest (acc + pct_of f b * w)
          \<and> readiness_loop rest (acc + pct_of f b * w) \<le> acc + pct_of f b * w + 100 * sum_list (map row_weight rest)"
        using 2(3)[OF Some False] 2(4) by simp
      moreover have "readiness_loop ((f, b) # rest) acc = readiness_loop rest (acc + pct_of f b * w)"
        using Some False by simp
      moreover have "sum_list (map row_weight ((f, b) # rest)) = w + sum_list (map row_weight rest)"
        using Some by (simp add: row_weight_def)
      ultimately show ?thesis by linarith
    qed
  qed
qed

lemma with_item_Some:
  "with_item s f = Some r \<longleftrightarrow> fst r = f \<and> find_boq_item (f_boqItemId f) s = Some (snd r)"
  by (cases r) (auto simp: with_item_def)

lemma set_map_filter: "set (List.map_filter g xs) = {y. \<exists>x \<in> set xs. g x = Some y}"
  by (induction xs) (auto simp: map_filter_simps split: option.splits)

definition readiness_rows :: "int \<Rightarrow> db \<Rightarrow> (period_fact \<times> boq_item) list" where
  "readiness_rows p s = List.map_filter (with_item s) (facts_of_period p s)"

lemma calcReadiness_bounds:
  assumes "db_ok s" and "sum_list (map row_weight (readiness_rows p s)) \<le> 1"
  shows "0 \<le> calcReadiness p s \<and> calcReadiness p s \<le> 100"
proof -
  have rows: "0 \<le> counted_volume (fst r) \<and> weight_check (snd r)" if "r \<in> set (readiness_rows p s)" for r
    using that assms(1) counted_volume_nonneg[OF assms(1)]
    by (auto simp: readiness_rows_def set_map_filter with_item_Some facts_of_period_def find_boq_item_def
          db_ok_defs list_all_iff dest!: find_SomeD)
  define x where "x = readiness_loop (readiness_rows p s) 0"
  have "0 \<le> x \<and> x \<le> 100"
    using readiness_loop_bounds[of "readiness_rows p s" 0] rows assms(2) unfolding x_def by force
  then have "js_round (of_int 0) \<le> js_round (x * 100)" "js_round (x * 100) \<le> js_round (of_int 10000)"
    by (auto intro!: js_round_mono)
  then have "0 \<le> js_round (x * 100) \<and> js_round (x * 100) \<le> 10000"
    unfolding js_round_of_int by simp
  then have "(0::number) \<le> of_int (js_round (x * 100)) \<and> (of_int (js_round (x * 100)) :: number) \<le> of_int 10000"
    unfolding of_int_le_iff by simp
  then show ?thesis by (simp add: calcReadiness_def round2_def x_def readiness_rows_def)
qed

section \<open>Pace deltas telescope\<close>

definition closed_of :: "int \<Rightarrow> period \<Rightarrow> bool" where
  "closed_of objectId p \<longleftrightarrow> p_objectId p = objectId \<and> (p_status p = PClosed \<or> p_status p = PForceClosed)"

lemma previous_closed_eq:
  assumes ok: "db_ok s" and q: "q \<in> set (periods s)" "closed_of ob q" "p_periodNumber q < n"
    and none: "\<And>r. r \<in> set (periods s) \<Longrightarrow> closed_of ob r \<Longrightarrow> p_periodNumber r < n \<Longrightarrow>
                 p_periodNumber r \<le> p_periodNumber q"
  shows "previous_closed ob n s = Some q"
proof -
  let ?P = "\<lambda>p. p_objectId p = ob \<and> p_periodNumber p < n \<and> (p_status p = PClosed \<or> p_status p = PForceClosed)"
  have Pq: "?P q" using q by (simp add: closed_of_def)
  then have "find_first_desc p_periodNumber ?P (periods s) \<noteq> None"
    unfolding find_first_desc_None using q(1) by blast
  then obtain r where r: "find_first_desc p_periodNumber ?P (periods s) = Some r" by blast
  then have "p_periodNumber q \<le> p_periodNumber r" using find_first_desc_SomeD(3)[OF r q(1) Pq] by simp
  moreover have "p_periodNumber r \<le> p_periodNumber q"
    using find_first_desc_SomeD(1,2)[OF r] none[of r] by (simp add: closed_of_def)
  moreover have "p_objectId r = p_objectId q"
    using find_first_desc_SomeD(2)[OF r] q(2) by (simp add: closed_of_def)
  ultimately have "r = q"
    using db_ok_period_key[OF ok find_first_desc_SomeD(1)[OF r] q(1)] by simp
  then show ?thesis using r by (simp add: previous_closed_def)
qed

text \<open>Over all closed periods of an object, in order, the deltas of a position add up.\<close>

lemma deltas_telescope:
  assumes ok: "db_ok s"
    and ps: "sorted_wrt (\<lambda>p q. p_periodNumber p < p_periodNumber q) ps"
    and all: "set ps = {p \<in> set (periods s). closed_of ob p \<and> p_periodNumber p \<le> m}" and ne: "ps \<noteq> []"
  shows "sum_list (map (\<lambda>p. pace_delta (p_id p) ob (p_periodNumber p) b s) ps)
           = cumulative_volume (p_id (last ps)) b s"
  using ps all ne
proof (induction ps arbitrary: m rule: rev_induct)
  case Nil
  then show ?case by simp
next
  case (snoc q ps)
  have less: "p_periodNumber r < p_periodNumber q" if "r \<in> set ps" for r
    using snoc.prems(1) that by (simp add: sorted_wrt_append)
  have q: "q \<in> set (periods s)" "closed_of ob q" "p_periodNumber q \<le> m" using snoc.prems(2) by auto
  have below: "set ps = {p \<in> set (periods s). closed_of ob p \<and> p_periodNumber p < p_periodNumber q}"
  proof -
    have "x \<in> set ps" if "x \<in> set (periods s)" "closed_of ob x" "p_periodNumber x < p_periodNumber q" for x
    proof -
      have "x \<in> set (ps @ [q])" using that q(3) unfolding snoc.prems(2) by simp
      then show ?thesis using that(3) by auto
    qed
    moreover have "x \<in> set (periods s) \<and> closed_of ob x" if "x \<in> set ps" for x
      using snoc.prems(2) that by auto
    ultimately show ?thesis using less by blast
  qed
  show ?case
  proof (cases "ps = []")
    case True
    then have "previous_closed ob (p_periodNumber q) s = None"
      using below by (auto simp: previous_closed_def closed_of_def)
    then show ?thesis using True by (simp add: pace_delta_def)
  next
    case False
    have last: "last ps \<in> set ps" using False by simp
    have "p_periodNumber r \<le> p_periodNumber (last ps)" if "r \<in> set ps" for r
      using snoc.prems(1) that by (intro sorted_wrt_last) (simp_all add: sorted_wrt_append)
    then have prev: "previous_closed ob (p_periodNumber q) s = Some (last ps)"
      using last below by (intro previous_closed_eq[OF ok]) auto
    have "sum_list (map (\<lambda>p. pace_delta (p_id p) ob (p_periodNumber p) b s) ps)
            = cumulative_volume (p_id (last ps)) b s"
      using snoc.IH[of "p_periodNumber q - 1"] snoc.prems(1) below False by (auto simp: sorted_wrt_append)
    then show ?thesis using prev by (simp add: pace_delta_def)
  qed
qed

section \<open>closePeriod\<close>

definition pace_row :: "int \<Rightarrow> int \<Rightarrow> period \<Rightarrow> db \<Rightarrow> boq_item \<Rightarrow> work_pace" where
  "pace_row p ob per s item =
     (let delta = pace_delta p ob (p_periodNumber per) (bi_id item) s
      in \<lparr>w_periodId = p, w_boqItemId = bi_id item, w_periodVolume = delta, w_weightedPace = delta,
          w_isExcluded = p_plannedPause per\<rparr>)"

definition only_paces :: "db \<Rightarrow> db \<Rightarrow> bool" where
  "only_paces s t \<longleftrightarrow> t = s\<lparr>workPaces := workPaces t\<rparr>"

lemma pace_delta_cong:
  assumes "periods t = periods s" "periodFacts t = periodFacts s"
  shows "pace_delta p ob n b t = pace_delta p ob n b s"
proof -
  have "previous_closed ob n t = previous_closed ob n s" "cumulative_volume q b t = cumulative_volume q b s" for q
    using assms by (simp_all add: previous_closed_def cumulative_volume_def find_fact_def)
  then show ?thesis by (cases "previous_closed ob n s") (simp_all add: pace_delta_def)
qed

lemma only_paces_delta: "only_paces s t \<Longrightarrow> pace_delta p ob n b t = pace_delta p ob n b s"
  by (cases s; cases t) (auto simp: only_paces_def intro!: pace_delta_cong)

lemma wp_upsert_work_pace:
  "wp (upsert_work_pace r) Q E = (\<lambda>s. Q () (s\<lparr>workPaces :=
     (if list_ex (same_pace_key r) (workPaces s)
      then update_where (same_pace_key r) (\<lambda>_. r) (workPaces s) else workPaces s @ [r])\<rparr>))"
  by (simp add: upsert_work_pace_def wp_modify)

text \<open>Every position of the period's version gets its row, and stays with it.\<close>

lemma wp_pace_rows:
  "wp (forEach items (\<lambda>item. bind (gets (pace_delta p ob (p_periodNumber per) (bi_id item))) (\<lambda>delta.
          upsert_work_pace \<lparr>w_periodId = p, w_boqItemId = bi_id item, w_periodVolume = delta,
                            w_weightedPace = delta, w_isExcluded = p_plannedPause per\<rparr>)))
      (\<lambda>_ t. only_paces s t \<and> pace_row p ob per s ` set items \<subseteq> set (workPaces t)) E s"
proof -
  let ?loop = "\<lambda>items. forEach items (\<lambda>item. bind (gets (pace_delta p ob (p_periodNumber per) (bi_id item))) (\<lambda>delta.
          upsert_work_pace \<lparr>w_periodId = p, w_boqItemId = bi_id item, w_periodVolume = delta,
                            w_weightedPace = delta, w_isExcluded = p_plannedPause per\<rparr>))"
  have "wp (?loop items) (\<lambda>_ t. only_paces s t \<and> pace_row p ob per s ` (D \<union> set items) \<subseteq> set (workPaces t)) E t"
    if "only_paces s t" "pace_row p ob per s ` D \<subseteq> set (workPaces t)" for D t
    using that
  proof (induction items arbitrary: t D)
    case Nil
    then show ?case by (simp add: wp_simps)
  next
    case (Cons item items)
    let ?row = "pace_row p ob per s item"
    let ?t = "t\<lparr>workPaces := (if list_ex (same_pace_key ?row) (workPaces t)
      then update_where (same_pace_key ?row) (\<lambda>_. ?row) (workPaces t) else workPaces t @ [?row])\<rparr>"
    have same: "same_pace_key ?row (pace_row p ob per s i) \<Longrightarrow> pace_row p ob per s i = ?row" for i
      by (auto simp: same_pace_key_def pace_row_def Let_def)
    have "?row \<in> set (workPaces ?t)"
      by (auto simp: set_update_where list_ex_iff image_iff)
    moreover have "pace_row p ob per s i \<in> set (workPaces ?t)" if "i \<in> D" for i
    proof (cases "same_pace_key ?row (pace_row p ob per s i)")
      case True
      then show ?thesis using same calculation by metis
    next
      case False
      then show ?thesis
        using Cons.prems(2) that
          mem_update_where[of "pace_row p ob per s i" "workPaces t" "same_pace_key ?row" "\<lambda>_. ?row"] by auto
    qed
    ultimately have rows: "pace_row p ob per s ` insert item D \<subseteq> set (workPaces ?t)" by blast
    have paces: "only_paces s ?t"
      using Cons.prems(1) by (cases s; cases t) (simp add: only_paces_def)
    have step: "wp (?loop items) (\<lambda>_ t. only_paces s t \<and> pace_row p ob per s ` (insert item D \<union> set items) \<subseteq> set (workPaces t)) E ?t"
      by (rule Cons.IH[OF paces rows])
    have lit: "\<lparr>w_periodId = p, w_boqItemId = bi_id item,
        w_periodVolume = pace_delta p ob (p_periodNumber per) (bi_id item) s,
        w_weightedPace = pace_delta p ob (p_periodNumber per) (bi_id item) s,
        w_isExcluded = p_plannedPause per\<rparr> = ?row"
      by (simp add: pace_row_def Let_def)
    have "D \<union> set (item # items) = insert item D \<union> set items" by simp
    then show ?case
      using step
      unfolding forEach.simps wp_andThen wp_bind wp_gets wp_upsert_work_pace only_paces_delta[OF Cons.prems(1)] lit
      by (simp only:)
  qed
  from this[of s "{}"] show ?thesis by (simp add: only_paces_def)
qed

text \<open>The day of a forecast is not before the day of the close.\<close>

definition day_of :: "date \<Rightarrow> date" where
  "day_of t = t - t mod MS_PER_DAY"

lemma day_of_mono: "t \<le> u \<Longrightarrow> day_of t \<le> day_of u"
proof -
  assume "t \<le> u"
  then have "t div MS_PER_DAY \<le> u div MS_PER_DAY" by (simp add: zdiv_mono1 MS_PER_DAY_def)
  then show ?thesis by (simp add: day_of_def minus_mod_eq_div_mult MS_PER_DAY_def)
qed

definition snapshot_ok :: "int \<Rightarrow> int \<Rightarrow> db \<Rightarrow> readiness_snapshot \<Rightarrow> bool" where
  "snapshot_ok p ob s r \<longleftrightarrow> rs_periodId r = p \<and> rs_objectId r = ob \<and> rs_objectReadinessPct r = calcReadiness p s
     \<and> (\<forall>d. rs_weightedForecastDate r = Some d \<longrightarrow> day_of (clock s) \<le> d)
     \<and> (\<forall>d. rs_criticalPathForecastDate r = Some d \<longrightarrow> day_of (clock s) \<le> d)"

lemma date_column_not_before: "not_before t d \<Longrightarrow> date_column d = Some u \<Longrightarrow> day_of t \<le> u"
  by (auto simp: not_before_def date_column_def day_of_def[symmetric] day_of_mono
           split: option.splits js_date.splits)

text \<open>What a close and a recalculation record, on a store \<open>t\<close>, leaving \<open>u\<close>.\<close>

definition snapshot_taken :: "int \<Rightarrow> int \<Rightarrow> period \<Rightarrow> db \<Rightarrow> db \<Rightarrow> bool" where
  "snapshot_taken p ob per t u \<longleftrightarrow>
     (\<exists>r. readinessSnapshots u = readinessSnapshots t @ [r] \<and> snapshot_ok p ob t r)
     \<and> (\<forall>item \<in> set (boqItems t). bi_boqVersionId item = p_boqVersionId per \<longrightarrow>
          pace_row p ob per t item \<in> set (workPaces u))
     \<and> periods u = periods t \<and> discrepancies u = discrepancies t \<and> auditLog u = auditLog t
     \<and> unmarked u = unmarked t \<and> same_static t u"

lemma only_paces_static: "only_paces s t \<Longrightarrow> same_static s t \<and> periods t = periods s
    \<and> discrepancies t = discrepancies s \<and> auditLog t = auditLog s \<and> unmarked t = unmarked s
    \<and> readinessSnapshots t = readinessSnapshots s"
  by (cases s; cases t) (simp add: only_paces_def same_static_def unmarked_def)

lemma wp_record_snapshot:
  assumes ok: "db_ok t" and per: "find_period p t = Some per"
  shows "wp (record_snapshot p ob) (\<lambda>_ u. snapshot_taken p ob per t u) (\<lambda>_ _. True) t"
proof -
  let ?rows = "\<lambda>u. only_paces t u
     \<and> (\<forall>item \<in> set (boqItems t). bi_boqVersionId item = p_boqVersionId per \<longrightarrow>
          pace_row p ob per t item \<in> set (workPaces u))"
  have "wp (recordWorkPaceDeltas p ob) (\<lambda>_ u. ?rows u \<and> db_ok u) (\<lambda>_ _. True \<and> True) t"
  proof (rule wp_conj)
    show "wp (recordWorkPaceDeltas p ob) (\<lambda>_ u. ?rows u) (\<lambda>_ _. True) t"
      unfolding recordWorkPaceDeltas_def wp_bind[of "getsOr f e" for f e] wp_bind[of "gets f" for f] wp_getsOr wp_gets
      using per by (simp del: forEach.simps) (rule wp_mono[OF wp_pace_rows]; auto simp: image_subset_iff)
    show "wp (recordWorkPaceDeltas p ob) (\<lambda>_ u. db_ok u) (\<lambda>_ _. True) t"
      by (rule wp_of_moves[OF ev_period.moves_recordWorkPaceDeltas]) (use ok in \<open>auto dest: evolves_db_ok\<close>)
  qed
  then have "wp (recordWorkPaceDeltas p ob) (\<lambda>_ u. ?rows u \<and> db_ok u) (\<lambda>_ _. True) t" by simp
  moreover have "wp (bind (calcObjectForecast ob p) (\<lambda>fc. create_snapshot p ob (calcReadiness p t) fc))
         (\<lambda>_ v. snapshot_taken p ob per t v) (\<lambda>_ _. True) u" if u: "?rows u \<and> db_ok u" for u
  proof -
    have same: "same_static t u \<and> periods u = periods t \<and> discrepancies u = discrepancies t
        \<and> auditLog u = auditLog t \<and> unmarked u = unmarked t \<and> readinessSnapshots u = readinessSnapshots t"
      using only_paces_static u by blast
    have "wp (calcObjectForecast ob p)
       (\<lambda>r v. (not_before (clock u) (weightedForecastDate r) \<and> not_before (clock u) (criticalPathForecastDate r))
            \<and> pace_frame u v \<and> same_static u v) (\<lambda>_ v. True \<and> pace_frame u v \<and> same_static u v) u"
      using u by (intro wp_conj wp_calcObjectForecast wp_of_moves[OF frame_pace.moves_calcObjectForecast]
                    wp_of_moves[OF static_pace.moves_calcObjectForecast]) auto
    then show ?thesis
      unfolding wp_bind
      by (rule wp_mono)
         (use u same in \<open>auto simp: create_snapshot_def insert_snapshot_def wp_simps snapshot_taken_def
            pace_frame_def same_static_def snapshot_ok_def unmarked_def dest: date_column_not_before\<close>)
  qed
  ultimately show ?thesis
    unfolding record_snapshot_def wp_bind[of "gets f" for f] wp_gets wp_andThen
    by (rule wp_mono) simp
qed

definition closed_by :: "int \<Rightarrow> date \<Rightarrow> period \<Rightarrow> period" where
  "closed_by actor t p = p\<lparr>p_status := PClosed, p_closedAt := Some t, p_closedBy := Some actor\<rparr>"

lemma closed_by_fun:
  "(\<lambda>p. p\<lparr>p_status := PClosed, p_closedAt := Some t, p_closedBy := Some actor\<rparr>) = closed_by actor t"
  by (simp add: fun_eq_iff closed_by_def)

lemma closed_by_simps [simp]:
  "p_id (closed_by actor t p) = p_id p" "p_objectId (closed_by actor t p) = p_objectId p"
  "p_periodNumber (closed_by actor t p) = p_periodNumber p"
  "p_boqVersionId (closed_by actor t p) = p_boqVersionId p"
  "p_gpSubmissionToken (closed_by actor t p) = p_gpSubmissionToken p"
  "p_plannedPause (closed_by actor t p) = p_plannedPause p"
  "p_status (closed_by actor t p) = PClosed"
  by (simp_all add: closed_by_def)

definition close_ok :: "int \<Rightarrow> int \<Rightarrow> period \<Rightarrow> db \<Rightarrow> db \<Rightarrow> bool" where
  "close_ok p actor per s s' \<longleftrightarrow>
     find_period p s = Some per \<and> p_status per = PVerification \<and> open_discrepancies p s = []
     \<and> periods s' = update_where (\<lambda>q. p_id q = p) (closed_by actor (clock s)) (periods s)
     \<and> (\<exists>r. readinessSnapshots s' = readinessSnapshots s @ [r] \<and> snapshot_ok p (p_objectId per) s r)
     \<and> (\<forall>item \<in> set (boqItems s). bi_boqVersionId item = p_boqVersionId per \<longrightarrow>
          pace_row p (p_objectId per) per s item \<in> set (workPaces s'))
     \<and> unmarked s' = unmarked s \<and> discrepancies s' = discrepancies s
     \<and> (\<exists>row. auditLog s' = auditLog s @ [row] \<and> a_action row = ''period_closed''
              \<and> a_recordId row = p \<and> a_performedBy row = Some actor)"

lemma closePeriod_delta:
  assumes ok: "db_ok s" and per: "find_period p s = Some per"
  shows "pace_delta p ob (p_periodNumber per) b (s\<lparr>periods := update_where (\<lambda>q. p_id q = p) (closed_by a c) (periods s)\<rparr>)
           = pace_delta p ob (p_periodNumber per) b s" (is "pace_delta _ _ ?n _ ?t = _")
proof -
  have "q = per" if "q \<in> set (periods s)" "p_id q = p" for q
    using that per db_ok_period_id[OF ok] find_period_iff[OF ok] by blast
  then have "previous_closed ob ?n ?t = previous_closed ob ?n s"
    unfolding previous_closed_def find_first_desc_def
    by simp (subst filter_update_where_other, auto simp: closed_by_def)
  moreover have "cumulative_volume q b ?t = cumulative_volume q b s" for q
    by (simp add: cumulative_volume_def find_fact_def)
  ultimately show ?thesis
    by (cases "previous_closed ob ?n s") (simp_all add: pace_delta_def)
qed

lemma closePeriod_success:
  assumes ok: "db_ok s" and run: "closePeriod p actor s = (Inr q, s')"
  obtains per where "close_ok p actor per s s'" "q = closed_by actor (clock s) per"
proof -
  have "wp (closePeriod p actor)
     (\<lambda>q s'. \<exists>per. close_ok p actor per s s' \<and> q = closed_by actor (clock s) per) (\<lambda>_ _. True) s"
  proof (cases "find_period p s")
    case None
    then show ?thesis by (simp add: closePeriod_def wp_simps)
  next
    case (Some per)
    let ?t = "s\<lparr>periods := update_where (\<lambda>q. p_id q = p) (closed_by actor (clock s)) (periods s)\<rparr>"
    have found: "List.find (\<lambda>q. p_id q = p) (periods s) = Some per"
      using Some by (simp add: find_period_def)
    have found_t: "find_period p ?t = Some (closed_by actor (clock s) per)"
      using Some by (intro find_period_update[of "closed_by actor (clock s)"]) simp_all
    have run_t: "update_period p (closed_by actor (clock s)) s = (Inr (closed_by actor (clock s) per), ?t)"
      using found by (simp add: update_period_def prog_defs find_period_def)
    have "moves evolves (update_period p (closed_by actor (clock s)))"
      by (rule ev_update_period) (simp add: closed_by_def period_key_def)
    then have "evolves s ?t" by (metis moves_def run_t snd_conv)
    then have ok_t: "db_ok ?t" using ok by (rule evolves_db_ok)
    have rows: "pace_row p ob (closed_by actor (clock s) per) ?t item = pace_row p ob per s item" for ob item
      using closePeriod_delta[OF ok Some, of ob "bi_id item" actor "clock s"]
      by (simp add: pace_row_def)
    have frame: "calcReadiness p ?t = calcReadiness p s" "unmarked ?t = unmarked s"
      by (simp_all add: calcReadiness_def facts_of_period_def with_item_def[abs_def] find_boq_item_def unmarked_def)
    have tail: "wp (andThen (record_snapshot p (p_objectId per))
           (andThen (audit_log ap) (ret (closed_by actor (clock s) per))))
         (\<lambda>q s'. \<exists>per. close_ok p actor per s s' \<and> q = closed_by actor (clock s) per) (\<lambda>_ _. True) ?t"
      if "p_status per = PVerification" "open_discrepancies p s = []"
        and "ap_action ap = ''period_closed''" "ap_recordId ap = p" "ap_performedBy ap = Some actor" for ap
      unfolding wp_andThen wp_ret
      by (rule wp_mono[OF wp_record_snapshot[OF ok_t found_t]])
         (use that Some in \<open>auto intro!: exI[of _ per] simp: wp_audit_log close_ok_def snapshot_taken_def snapshot_ok_def
            rows frame audit_row_of_def unmarked_def\<close>)
    show ?thesis
      using Some run_t
      by (auto intro!: tail simp: closePeriod_def assertPeriodEditable_def wp_transaction wp_bind[of "getsOr f e" for f e]
            wp_bind[of now] wp_bind[of "update_period i g" for i g] wp_andThen[of "guard b e" for b e]
            wp_andThen[of "guardS b e" for b e] wp_getsOr wp_guard wp_guardS wp_now
            wp_def[of "update_period i g" for i g] closed_by_fun split: option.split)
  qed
  then show thesis using that wp_Inr[of "closePeriod p actor", OF run] by blast
qed

section \<open>After a submission\<close>

text \<open>Every period that carries the token later has left the state \<^verbatim>\<open>open\<close>.\<close>

lemma submitGp_status_later:
  assumes ok: "db_ok s" and run: "submitGp token name items s = (Inr p', s')" and ok': "db_ok s'"
    and later: "lifecycle s' t" and q: "q \<in> set (periods t)" "p_gpSubmissionToken q = Some token"
  shows "period_step\<^sup>*\<^sup>* PGpSubmitted (p_status q)"
proof -
  obtain p where p: "find_by_token token s = Some p" "p_status p = POpen" "\<not> overdue (clock s) p"
    using submitGp_Inr[OF run] by (metis not_less overdue_def option.case_eq_if token_live_def)
  have found: "List.find (\<lambda>r. p_id r = p_id p) (periods s) = Some p"
    using find_by_token_Some[OF ok p(1)] by (simp add: find_period_def)
  have "wp (submitGp token name items)
     (\<lambda>_ u. \<exists>r \<in> set (periods u). p_gpSubmissionToken r = Some token \<and> p_status r = PGpSubmitted) (\<lambda>_ _. True) s"
  proof -
    let ?g = "\<lambda>a q. q\<lparr>p_gpSubmittedAt := Some a, p_gpSubmittedByName := Some name, p_status := PGpSubmitted\<rparr>"
    have "p_gpSubmissionToken p = Some token"
      using p(1) unfolding find_by_token_def by (blast dest: find_SomeD)
    moreover have "?g a p \<in> set (update_where (\<lambda>r. p_id r = p_id p) (?g a) (periods s))" for a
      using mem_update_where[of p "periods s" "\<lambda>r. p_id r = p_id p" "?g a"] found by (auto dest: find_SomeD)
    ultimately have moved: "\<exists>r \<in> set (update_where (\<lambda>r. p_id r = p_id p) (?g a) (periods s)).
        p_gpSubmissionToken r = Some token \<and> p_status r = PGpSubmitted" for a
      by (intro bexI[of _ "?g a p"]) simp_all
    have loop: "wp (forEach items (upsert_gp_item (p_id p))) Q (\<lambda>_ _. True) s"
      if "\<And>x u. periods u = periods s \<Longrightarrow> Q x u" for Q
      by (rule wp_of_moves[OF pers.moves_forEach[OF same_period.moves_upsert_gp_item]])
         (use that in \<open>auto simp: same_periods_def\<close>)
    show ?thesis
      unfolding submitGp_def assertGpTokenValid_def update_period_def find_period_def
      using p(1) found
      by (auto simp: wp_simps wp_forEach_guard intro!: loop moved split: option.split)
  qed
  then obtain r where r: "r \<in> set (periods s')" "p_gpSubmissionToken r = Some token" "p_status r = PGpSubmitted"
    using wp_Inr[of "submitGp token name items", OF run] by blast
  then obtain r' where r': "r' \<in> set (periods t)" "period_next (clock s') r r'"
    using later ok' by (auto simp: lifecycle_def)
  have "db_ok t" using later ok' by (auto simp: lifecycle_def dest: evolves_db_ok)
  moreover have "p_gpSubmissionToken r' = Some token" using r r' by (simp add: period_next_def)
  ultimately have "r' = q"
    using q r'(1) find_by_token_iff[of t token] by (metis option.inject)
  then show ?thesis using r r' by (simp add: period_next_def)
qed

end
