(* ===== verification/Sample_Store.thy ===== *)
theory Sample_Store
  imports Schema
begin

text \<open>
  A small concrete store, the input of the witnesses: one organization with an engineer of the
  stroycontrol (1), a director (2) and an administrator (3); an object (10) with an active BoQ
  version (20) of two positions (30 and 31) whose weights add up to 1, and an approved zero report.
\<close>

definition sample_item :: "int \<Rightarrow> string \<Rightarrow> number \<Rightarrow> number \<Rightarrow> boq_item" where
  "sample_item i code plan weight =
     \<lparr>bi_id = i, bi_boqVersionId = 20, bi_workLineageId = code, bi_workCode = code, bi_name = code, bi_unit = Some ''m3'',
      bi_planVolume = plan, bi_contractValue = weight * 1000, bi_weightCoef = Some weight,
      bi_isCritical = False, bi_status = BActive, bi_predecessorItemId = None\<rparr>"

definition sample_user :: "int \<Rightarrow> string \<Rightarrow> user_role \<Rightarrow> user" where
  "sample_user i email role =
     \<lparr>u_id = i, u_email = email, u_role = role, u_passwordHash = ''hash of secret'', u_isActive = True,
      u_organizationId = ''org''\<rparr>"

definition sample_store :: db where
  "sample_store = empty_db\<lparr>
     users := [sample_user 1 ''sc@x'' Stroycontrol, sample_user 2 ''dir@x'' Director,
               sample_user 3 ''adm@x'' Admin],
     objects := [\<lparr>o_id = 10, o_name = ''House'', o_objectClass = None, o_address = None,
        o_permitNumber = None, o_permitDate = None, o_connectionDate = None, o_status = ''active'',
        o_createdAt = 0, o_createdBy = Some 3, o_organizationId = ''org''\<rparr>],
     boqVersions := [\<lparr>bv_id = 20, bv_objectId = 10, bv_versionNumber = ''1.0'', bv_changeType = ''initial'',
        bv_changeReason = None, bv_changeDocument = None, bv_createdAt = 0, bv_createdBy = Some 3,
        bv_approvedAt = None, bv_isActive = True\<rparr>],
     boqItems := [sample_item 30 ''W-1'' 100 (6 / 10), sample_item 31 ''W-2'' 50 (4 / 10)],
     zeroReports := [\<lparr>zr_id = 40, zr_objectId = 10, zr_boqVersionId = 20, zr_status = ZApproved,
        zr_submittedAt = Some 0, zr_submittedBy = Some 1, zr_approvedAt = Some 0,
        zr_approvedBy = Some 2, zr_alertSentAt = None, zr_notes = None\<rparr>],
     seq := (\<lambda>_. 100), clock := 1000\<rparr>"

text \<open>
  Three later stores of the same object: period 101 after the general contractor submitted 5 for position
  30 (\<open>submitted_store\<close>), after the stroycontrol confirmed that volume (\<open>measured\<close>), and after it measured
  7 instead and attached a photo (\<open>contested\<close>).
\<close>

definition sample_period :: "period_status \<Rightarrow> period" where
  "sample_period st =
     \<lparr>p_id = 101, p_objectId = 10, p_boqVersionId = 20, p_periodNumber = 1, p_status = st,
      p_openedAt = 1000, p_openedBy = Some 1, p_gpSubmissionToken = Some ''tok'',
      p_gpTokenExpiresAt = Some 1209601000, p_gpSubmittedAt = Some 1000, p_gpSubmittedByName = Some ''gp'',
      p_closedAt = None, p_closedBy = None, p_plannedPause = False, p_pauseReason = None\<rparr>"

definition sample_fact :: period_fact where
  "sample_fact =
     \<lparr>f_id = 101, f_periodId = 101, f_boqItemId = 30, f_gpVolume = Some 5, f_gpNote = None, f_scVolume = None,
      f_acceptedVolume = None, f_discrepancyType = None, f_discrepancyStatus = None, f_isSpike = False,
      f_spikeResponse = None, f_version = 1\<rparr>"

definition sample_seq :: "table_name \<Rightarrow> int" where
  "sample_seq t = (case t of TPeriods \<Rightarrow> 101 | TPeriodFacts \<Rightarrow> 101 | _ \<Rightarrow> 100)"

definition submitted_store :: db where
  "submitted_store = sample_store
     \<lparr>periods := [sample_period PGpSubmitted], periodFacts := [sample_fact], seq := sample_seq\<rparr>"

definition measured :: db where
  "measured = sample_store
     \<lparr>periods := [sample_period PVerification],
      periodFacts := [sample_fact\<lparr>f_scVolume := Some 5, f_acceptedVolume := Some 5,
                        f_discrepancyStatus := Some DConfirmed, f_version := 2\<rparr>],
      seq := sample_seq\<rparr>"

definition contested :: db where
  "contested = sample_store
     \<lparr>periods := [sample_period PVerification],
      periodFacts := [sample_fact\<lparr>f_scVolume := Some 7, f_discrepancyType := Some 1,
                        f_discrepancyStatus := Some DOpen, f_version := 2\<rparr>],
      photos := [\<lparr>ph_id = 1, ph_periodId = 101, ph_boqItemId = Some 30, ph_filePath = ''p'',
                  ph_takenAt = None, ph_uploadedBy = Some 1\<rparr>],
      seq := sample_seq\<rparr>"

end
