(* ===== verification/Period_Theorems.thy ===== *)
theory Period_Theorems
  imports Period_Props Sample_Store
begin

text \<open>
  The properties of the period service, each with a witness that runs the service on the sample
  stores: \<open>opened\<close> and \<open>sent\<close> are the stores after opening a period and after the general
  contractor's submission.
\<close>

section \<open>Concrete runs\<close>

definition sample_gp_items :: "gp_item list" where
  "sample_gp_items =
     [\<lparr>gi_boqItemId = 30, gi_gpVolume = 5, gi_gpNote = None, gi_keys = [''boqItemId'', ''gpVolume'']\<rparr>]"

definition sample_opts :: "int \<Rightarrow> upsert_opts" where
  "sample_opts v = \<lparr>uo_spikeResponse = None, uo_workAccessible = None, uo_expectedVersion = Some v\<rparr>"

definition opened :: db where
  "opened = final (openPeriod None ''tok'' 10 1 None) sample_store"

definition sent :: db where
  "sent = final (submitGp ''tok'' ''gp'' sample_gp_items) opened"


lemma submitted_runs: "returns (submitGp ''tok'' ''gp'' sample_gp_items) opened"
  by code_simp

lemma measured_runs: "returns (upsertPeriodFact 101 30 5 1 (sample_opts 1)) submitted_store"
  by code_simp

lemma closed_runs: "returns (closePeriod 101 1) measured"
  by code_simp

lemma samples_ok: "db_ok sample_store" "db_ok opened" "db_ok submitted_store" "db_ok measured"
  by code_simp+

section \<open>Opening\<close>



section \<open>The general contractor's submission\<close>



text \<open>
  C13.  A token works once.  After a successful submission, whatever the service does next and however
  much time passes, another submission with the same token throws and leaves the tables as they are.
\<close>

theorem submitGp_once:
  assumes ok: "db_ok s" and run: "submitGp token name items s = (Inr p', s')"
    and later: "lifecycle s' t"
  shows "\<exists>e t'. submitGp token name2 items2 (t\<lparr>clock := c\<rparr>) = (Inl e, t') \<and> rolled_back (t\<lparr>clock := c\<rparr>) t'"
proof -
  obtain p where p: "find_by_token token s = Some p" "token_live token p s"
    using submitGp_Inr[OF run] by metis
  have ok': "db_ok s'" using movesD[OF ev_period.moves_submitGp run] ok by (rule evolves_db_ok)
  have "period_step\<^sup>*\<^sup>* PGpSubmitted (p_status q)"
    if "q \<in> set (periods t)" "p_gpSubmissionToken q = Some token" for q
    using submitGp_status_later[OF ok run ok' later that] .
  moreover have "\<not> period_step\<^sup>*\<^sup>* PGpSubmitted POpen"
    using period_steps_rank by fastforce
  ultimately have no: "\<not> token_live token q (t\<lparr>clock := c\<rparr>)" for q
    unfolding token_live_def by simp metis
  obtain r t' where r: "submitGp token name2 items2 (t\<lparr>clock := c\<rparr>) = (r, t')" by fastforce
  show ?thesis
  proof (cases r)
    case (Inl e)
    then show ?thesis
      using r transaction_error[of _ "t\<lparr>clock := c\<rparr>" e t'] by (auto simp: submitGp_def)
  next
    case (Inr q)
    with r obtain q' where "token_live token q' (t\<lparr>clock := c\<rparr>)"
      using submitGp_Inr by metis
    then show ?thesis using no by blast
  qed
qed

theorem submitGp_once_witness:
  "\<exists>e t'. submitGp ''tok'' ''again'' [] (sent\<lparr>clock := 5000\<rparr>) = (Inl e, t')
        \<and> rolled_back (sent\<lparr>clock := 5000\<rparr>) t'"
  unfolding sent_def
  by (rule submitGp_once[OF samples_ok(2) returns_run[OF submitted_runs] lifecycle_refl])

section \<open>The stroycontrol's facts\<close>

text \<open>
  C3.  \<^verbatim>\<open>upsertPeriodFact\<close> succeeds only on a period in \<^verbatim>\<open>gp_submitted\<close> or \<^verbatim>\<open>verification\<close>, or open past its
  deadline, with the photo it may require and at the version it expects; it then enters the fact: the
  measured volume, confirmed when it equals the contractor's and an open type 1 discrepancy otherwise,
  the version raised when volume or type changed; a submitted period goes to \<^verbatim>\<open>verification\<close>.  When it
  throws, nothing is written, not even an audit row.
\<close>

theorem upsertPeriodFact_correct:
  assumes "db_ok s" and "upsertPeriodFact p b v actor opts s = (r, s')"
  shows "case r of
           Inl e \<Rightarrow> only_seq s s'
         | Inr f \<Rightarrow> db_ok s' \<and> (\<exists>per. admits_fact p b opts per s \<and> fact_entered p b v actor opts per s f s')"
proof (cases r)
  case (Inl e)
  then show ?thesis using upsertPeriodFact_failure assms by simp
next
  case (Inr f)
  have "db_ok s'" using movesD[OF ev_period.moves_upsertPeriodFact assms(2)] assms(1) by (rule evolves_db_ok)
  moreover have "upsertPeriodFact p b v actor opts s = (Inr f, s')" using assms(2) Inr by simp
  then obtain per where "admits_fact p b opts per s" "fact_entered p b v actor opts per s f s'"
    using upsertPeriodFact_success[OF assms(1)] by metis
  ultimately show ?thesis using Inr by auto
qed

theorem upsertPeriodFact_correct_witness:
  "\<exists>per. fact_entered 101 30 5 1 (sample_opts 1) per submitted_store
           (result_of (upsertPeriodFact 101 30 5 1 (sample_opts 1)) submitted_store)
           (final (upsertPeriodFact 101 30 5 1 (sample_opts 1)) submitted_store)"
  using upsertPeriodFact_correct[OF samples_ok(3) returns_run[OF measured_runs]] by auto

text \<open>
  C14.  No lost update.  Of two writers that start from the same known version of a fact, once the first
  has changed the measured volume the second is refused with \<^verbatim>\<open>VERSION_CONFLICT\<close>, gets the first
  writer's fact as the server's side of the conflict, and changes nothing.
\<close>

theorem no_lost_update:
  assumes "db_ok s" and "upsertPeriodFact p b v actor opts s = (Inr f, s')"
    and "uo_expectedVersion opts = Some n" and "uo_expectedVersion opts2 = Some n"
    and "uo_workAccessible opts2 = uo_workAccessible opts"
    and "map_option f_scVolume (facts_map s (p, b)) \<noteq> Some (Some v)"
  shows "upsertPeriodFact p b w actor2 opts2 s' = (Inl (VersionConflictException (server_snapshot (Some f))), s')"
proof -
  obtain per where per: "admits_fact p b opts per s" "fact_entered p b v actor opts per s f s'"
    using upsertPeriodFact_success[OF assms(1,2)] .
  have "server_version (facts_map s (p, b)) = n"
    using per(1) assms(3) by (simp add: admits_fact_def facts_map_def)
  then have "n \<noteq> f_version f"
    using per(2) assms(6) by (auto simp: fact_entered_def server_version_def split: option.splits if_splits)
  moreover have "uo_workAccessible opts2 = Some False \<longrightarrow> has_photo p b s"
    using per(1) assms(5) by (simp add: admits_fact_def)
  ultimately show ?thesis
    using stale_version_conflicts[OF assms(1,2,4)] by blast
qed

theorem no_lost_update_witness:
  "fst (upsertPeriodFact 101 30 7 1 (sample_opts 1)
          (final (upsertPeriodFact 101 30 5 1 (sample_opts 1)) submitted_store))
     = Inl (VersionConflictException (server_snapshot
         (Some (result_of (upsertPeriodFact 101 30 5 1 (sample_opts 1)) submitted_store))))"
proof -
  have "map_option f_scVolume (facts_map submitted_store (101, 30)) \<noteq> Some (Some 5)"
    by code_simp
  from no_lost_update[OF samples_ok(3) returns_run[OF measured_runs] _ _ _ this, of 1 "sample_opts 1" 7 1]
  show ?thesis by (simp add: sample_opts_def)
qed

definition race_plan :: "number \<Rightarrow> fact_plan" where
  "race_plan v = result_of (readFact 101 30 v (sample_opts 1)) submitted_store"

definition after_first :: db where
  "after_first = final (commitFact 101 30 5 1 (sample_opts 1) (race_plan 5)) submitted_store"

text \<open>
  The version check protects only transactions that do not overlap: under \<^verbatim>\<open>READ COMMITTED\<close> two
  transactions may both read before either writes, and then both commit.  Here two writers that both
  expect version 1 of the same fact succeed, and the first one's volume is overwritten.
\<close>

theorem overlapping_writers_both_commit:
  "returns (readFact 101 30 5 (sample_opts 1)) submitted_store
   \<and> returns (readFact 101 30 7 (sample_opts 1)) submitted_store
   \<and> returns (commitFact 101 30 5 1 (sample_opts 1) (race_plan 5)) submitted_store
   \<and> returns (commitFact 101 30 7 1 (sample_opts 1) (race_plan 7)) after_first
   \<and> map_option f_scVolume (find_fact 101 30 after_first) = Some (Some 5)
   \<and> map_option f_scVolume (find_fact 101 30
        (final (commitFact 101 30 7 1 (sample_opts 1) (race_plan 7)) after_first)) = Some (Some 7)"
  by code_simp

section \<open>Closing\<close>



text \<open>
  C16.  The pace deltas lose and invent nothing: over the closed periods of an object in order, the
  deltas of a position add up to its cumulative volume in the last of them.
\<close>

theorem pace_deltas_telescope:
  assumes "db_ok s"
    and "sorted_wrt (\<lambda>p q. p_periodNumber p < p_periodNumber q) ps"
    and "set ps = {p \<in> set (periods s). closed_of ob p \<and> p_periodNumber p \<le> m}" and "ps \<noteq> []"
  shows "sum_list (map (\<lambda>p. pace_delta (p_id p) ob (p_periodNumber p) b s) ps)
           = cumulative_volume (p_id (last ps)) b s"
  using assms by (rule deltas_telescope)

definition closed_store :: db where
  "closed_store = final (closePeriod 101 1) measured"

lemma closed_store_ok: "db_ok closed_store"
  using movesD[OF ev_period.moves_closePeriod returns_run[OF closed_runs]] samples_ok(4)
  by (simp add: closed_store_def evolves_db_ok)

theorem pace_deltas_telescope_witness:
  "sum_list (map (\<lambda>p. pace_delta (p_id p) 10 (p_periodNumber p) 30 closed_store) (periods closed_store))
     = cumulative_volume (p_id (last (periods closed_store))) 30 closed_store"
proof (rule pace_deltas_telescope[OF closed_store_ok, where m = 1])
  show "sorted_wrt (\<lambda>p q. p_periodNumber p < p_periodNumber q) (periods closed_store)" by code_simp
  have "list_all (\<lambda>p. closed_of 10 p \<and> p_periodNumber p \<le> 1) (periods closed_store)" by code_simp
  then show "set (periods closed_store) = {p \<in> set (periods closed_store). closed_of 10 p \<and> p_periodNumber p \<le> 1}"
    by (auto simp: list_all_iff)
  show "periods closed_store \<noteq> []" by code_simp
qed


end
