(* ===== verification/Zero_Report.thy ===== *)
theory Zero_Report
  imports Store_Invariant
begin

text \<open>
  \<^verbatim>\<open>ZeroReportService\<close> (\<^verbatim>\<open>modules/zero-report/zero-report.service.ts\<close>): the report of the state of a
  construction object before its first period.  The engineer drafts it position by position, submits
  it and the director approves it; only then can a period be opened.

  The views the methods return keep a date where the code writes its ISO text.
\<close>

definition SUBMIT_ALLOWED_STATUSES :: "zero_report_status list" where
  "SUBMIT_ALLOWED_STATUSES = [ZDraft]"

definition APPROVE_ALLOWED_STATUSES :: "zero_report_status list" where
  "APPROVE_ALLOWED_STATUSES = [ZPendingApproval]"

definition ITEM_EDIT_ALLOWED_STATUSES :: "zero_report_status list" where
  "ITEM_EDIT_ALLOWED_STATUSES = [ZDraft]"

definition DEFAULT_WEIGHT_THRESHOLD :: number where
  "DEFAULT_WEIGHT_THRESHOLD = 1 / 10"

section \<open>Views\<close>

record zero_report_view =
  zv_id :: int
  zv_objectId :: int
  zv_boqVersionId :: int
  zv_status :: zero_report_status
  zv_submittedAt :: "date option"
  zv_submittedBy :: "int option"
  zv_approvedAt :: "date option"
  zv_approvedBy :: "int option"
  zv_alertSentAt :: "date option"
  zv_notes :: "string option"

definition formatReport :: "zero_report \<Rightarrow> zero_report_view" where
  "formatReport report =
     \<lparr>zv_id = zr_id report, zv_objectId = zr_objectId report, zv_boqVersionId = zr_boqVersionId report,
      zv_status = zr_status report, zv_submittedAt = zr_submittedAt report,
      zv_submittedBy = zr_submittedBy report, zv_approvedAt = zr_approvedAt report,
      zv_approvedBy = zr_approvedBy report, zv_alertSentAt = zr_alertSentAt report,
      zv_notes = zr_notes report\<rparr>"

record zero_item_view =
  iv_id :: int
  iv_zeroReportId :: int
  iv_boqItemId :: int
  iv_factVolume :: number
  iv_source :: string
  iv_doc1Value :: "number option"
  iv_doc2Value :: "number option"
  iv_doc3Value :: "number option"
  iv_crossVerified :: bool
  iv_notes :: "string option"

definition formatItem :: "zero_report_item \<Rightarrow> zero_item_view" where
  "formatItem item =
     \<lparr>iv_id = zi_id item, iv_zeroReportId = zi_zeroReportId item, iv_boqItemId = zi_boqItemId item,
      iv_factVolume = zi_factVolume item, iv_source = zi_source item,
      iv_doc1Value = zi_doc1Value item, iv_doc2Value = zi_doc2Value item,
      iv_doc3Value = zi_doc3Value item, iv_crossVerified = zi_crossVerified item,
      iv_notes = zi_notes item\<rparr>"

definition formatReportWithItems ::
  "zero_report \<Rightarrow> zero_report_item list \<Rightarrow> zero_report_view \<times> zero_item_view list" where
  "formatReportWithItems report items = (formatReport report, map formatItem items)"

section \<open>Look-ups\<close>

definition checkObjectAccess :: "int \<Rightarrow> int \<Rightarrow> string service" where
  "checkObjectAccess userId objectId =
     bind (user_org userId) (\<lambda>orgId.
     bind (gets (find_object objectId)) (\<lambda>obj.
     andThen (guard (case obj of None \<Rightarrow> False | Some ob \<Rightarrow> o_organizationId ob = orgId)
                (NotFoundException ''OBJECT_NOT_FOUND''))
       (ret orgId)))"

definition getWeightThreshold :: "string \<Rightarrow> db \<Rightarrow> number" where
  "getWeightThreshold organizationId s =
     (case List.find (\<lambda>r. c_organizationId r = organizationId \<and> c_key r = ''weight_threshold'') (systemConfig s) of
        None \<Rightarrow> DEFAULT_WEIGHT_THRESHOLD
      | Some r \<Rightarrow> (case c_valueNumeric r of None \<Rightarrow> DEFAULT_WEIGHT_THRESHOLD | Some v \<Rightarrow> v))"

text \<open>\<^verbatim>\<open>findFirst({ where: { objectId }, orderBy: { id: 'desc' } })\<close>\<close>

definition latest_report :: "int \<Rightarrow> db \<Rightarrow> zero_report option" where
  "latest_report objectId s = find_first_desc zr_id (\<lambda>z. zr_objectId z = objectId) (zeroReports s)"

definition report_items :: "int \<Rightarrow> db \<Rightarrow> zero_report_item list" where
  "report_items reportId s = filter (\<lambda>i. zi_zeroReportId i = reportId) (zeroReportItems s)"

section \<open>create\<close>

definition new_report :: "int \<Rightarrow> int \<Rightarrow> string option \<Rightarrow> int \<Rightarrow> zero_report" where
  "new_report objectId boqVersionId notes i =
     \<lparr>zr_id = i, zr_objectId = objectId, zr_boqVersionId = boqVersionId, zr_status = ZDraft,
      zr_submittedAt = None, zr_submittedBy = None, zr_approvedAt = None, zr_approvedBy = None,
      zr_alertSentAt = None, zr_notes = notes\<rparr>"

definition create_report :: "int \<Rightarrow> int \<Rightarrow> int \<Rightarrow> string option \<Rightarrow> zero_report_view service" where
  "create_report userId objectId boqVersionId notes =
     bind (checkObjectAccess userId objectId) (\<lambda>_.
     bind (getsOr (find_boq_version boqVersionId) (NotFoundException ''BOQ_VERSION_NOT_FOUND'')) (\<lambda>boqVersion.
     andThen (guard (bv_objectId boqVersion = objectId)
                (UnprocessableEntityException ''BOQ_VERSION_OBJECT_MISMATCH''))
       (transaction (
          andThen (guardS (\<lambda>s. \<not> list_ex (\<lambda>z. zr_objectId z = objectId \<and> zr_status z \<noteq> ZRejected) (zeroReports s))
                     (ConflictException ''ZERO_REPORT_ALREADY_EXISTS''))
         (bind (insert_zero_report (new_report objectId boqVersionId notes)) (\<lambda>report.
          ret (formatReport report)))))))"

definition getByObject :: "int \<Rightarrow> int \<Rightarrow> (zero_report_view \<times> zero_item_view list) service" where
  "getByObject userId objectId =
     bind (checkObjectAccess userId objectId) (\<lambda>_.
     bind (getsOr (latest_report objectId) (NotFoundException ''ZERO_REPORT_NOT_FOUND'')) (\<lambda>report.
     gets (\<lambda>s. formatReportWithItems report (order_asc zi_boqItemId (report_items (zr_id report) s)))))"

section \<open>upsertItem\<close>

record zero_item_dto =
  zd_boqItemId :: int
  zd_factVolume :: number
  zd_source :: string
  zd_doc1Value :: "number option"
  zd_doc2Value :: "number option"
  zd_doc3Value :: "number option"
  zd_notes :: "string option"

definition cross_verified :: "zero_item_dto \<Rightarrow> bool" where
  "cross_verified dto \<longleftrightarrow>
     zd_doc1Value dto \<noteq> None \<and> zd_doc2Value dto \<noteq> None \<and> zd_doc3Value dto \<noteq> None"

definition zero_item_of :: "int \<Rightarrow> zero_item_dto \<Rightarrow> int \<Rightarrow> zero_report_item" where
  "zero_item_of reportId dto i =
     \<lparr>zi_id = i, zi_zeroReportId = reportId, zi_boqItemId = zd_boqItemId dto,
      zi_factVolume = zd_factVolume dto, zi_source = zd_source dto, zi_doc1Value = zd_doc1Value dto,
      zi_doc2Value = zd_doc2Value dto, zi_doc3Value = zd_doc3Value dto,
      zi_crossVerified = cross_verified dto, zi_notes = zd_notes dto\<rparr>"

definition item_correction ::
  "int \<Rightarrow> string \<Rightarrow> zero_report_item \<Rightarrow> zero_report_item \<Rightarrow> audit_params" where
  "item_correction userId organizationId existingItem item =
     \<lparr>ap_tableName = ''zero_report_items'', ap_recordId = zi_id item,
      ap_action = ''zero_report_item_corrected'',
      ap_oldData = Some (JObj [(''factVolume'', JNum (zi_factVolume existingItem))]),
      ap_newData = Some (JObj [(''factVolume'', JNum (zi_factVolume item))]),
      ap_reason = None, ap_performedBy = Some userId, ap_organizationId = organizationId\<rparr>"

definition upsertItem :: "int \<Rightarrow> int \<Rightarrow> zero_item_dto \<Rightarrow> zero_item_view service" where
  "upsertItem userId objectId dto =
     bind (checkObjectAccess userId objectId) (\<lambda>organizationId.
     bind (getsOr (latest_report objectId) (NotFoundException ''ZERO_REPORT_NOT_FOUND'')) (\<lambda>report.
     andThen (guard (zr_status report \<in> set ITEM_EDIT_ALLOWED_STATUSES)
                (UnprocessableEntityException ''ZERO_REPORT_INVALID_STATUS''))
    (bind (getsOr (find_boq_item (zd_boqItemId dto)) (NotFoundException ''BOQ_ITEM_NOT_FOUND'')) (\<lambda>boqItem.
     andThen (guard (bi_boqVersionId boqItem = zr_boqVersionId report)
                (UnprocessableEntityException ''BOQ_ITEM_VERSION_MISMATCH''))
    (bind (gets (find_zero_item (zr_id report) (zd_boqItemId dto))) (\<lambda>existingItem.
     bind (upsert_zero_item (zr_id report) (zd_boqItemId dto) (zero_item_of (zr_id report) dto)) (\<lambda>item.
     andThen (case existingItem of None \<Rightarrow> ret ()
                | Some old \<Rightarrow> audit_log (item_correction userId organizationId old item))
       (ret (formatItem item)))))))))"

section \<open>submit and approve\<close>

definition submit_report :: "int \<Rightarrow> int \<Rightarrow> zero_report_view service" where
  "submit_report userId objectId =
     bind (checkObjectAccess userId objectId) (\<lambda>_.
     bind (getsOr (latest_report objectId) (NotFoundException ''ZERO_REPORT_NOT_FOUND'')) (\<lambda>report.
     andThen (guard (zr_status report \<in> set SUBMIT_ALLOWED_STATUSES)
                (UnprocessableEntityException ''ZERO_REPORT_INVALID_STATUS''))
    (andThen (guardS (\<lambda>s. length (report_items (zr_id report) s) \<noteq> 0)
                (UnprocessableEntityException ''ZERO_REPORT_NO_ITEMS''))
    (bind now (\<lambda>t.
     bind (update_zero_report (zr_id report) (\<lambda>z. z\<lparr>zr_status := ZPendingApproval,
             zr_submittedAt := Some t, zr_submittedBy := Some userId\<rparr>)) (\<lambda>updated.
     ret (formatReport updated)))))))"

text \<open>\<^verbatim>\<open>new Map(items.map((i) => [i.boqItemId, i]))\<close>\<close>

definition item_map :: "zero_report_item list \<Rightarrow> int \<rightharpoonup> zero_report_item" where
  "item_map items = map_of (rev (map (\<lambda>i. (zi_boqItemId i, i)) items))"

definition is_heavy :: "number \<Rightarrow> boq_item \<Rightarrow> bool" where
  "is_heavy weightThreshold b \<longleftrightarrow>
     bi_isCritical b \<or> (case bi_weightCoef b of None \<Rightarrow> False | Some w \<Rightarrow> weightThreshold \<le> w)"

definition check_coverage :: "number \<Rightarrow> (int \<rightharpoonup> zero_report_item) \<Rightarrow> boq_item \<Rightarrow> unit service" where
  "check_coverage weightThreshold itemByBoqItemId b =
     (case itemByBoqItemId (bi_id b) of
        None \<Rightarrow> throw (UnprocessableEntityException ''ZERO_REPORT_NOT_ALL_ITEMS'')
      | Some item \<Rightarrow> guard (\<not> (is_heavy weightThreshold b \<and> \<not> zi_crossVerified item))
                       (UnprocessableEntityException ''ZERO_REPORT_CROSS_VERIFICATION_REQUIRED''))"

definition approve_report :: "int \<Rightarrow> int \<Rightarrow> zero_report_view service" where
  "approve_report userId objectId =
     bind (checkObjectAccess userId objectId) (\<lambda>organizationId. transaction (
     bind (getsOr (latest_report objectId) (NotFoundException ''ZERO_REPORT_NOT_FOUND'')) (\<lambda>report.
     andThen (guard (zr_status report \<in> set APPROVE_ALLOWED_STATUSES)
                (UnprocessableEntityException ''ZERO_REPORT_INVALID_STATUS''))
    (andThen (guardS (\<lambda>s. \<not> list_ex (\<lambda>z. zr_objectId z = objectId \<and> zr_status z = ZApproved) (zeroReports s))
                (ConflictException ''ZERO_REPORT_ALREADY_APPROVED''))
    (bind (gets (\<lambda>s. filter (\<lambda>b. bi_boqVersionId b = zr_boqVersionId report) (boqItems s))) (\<lambda>items.
     bind (gets (\<lambda>s. item_map (report_items (zr_id report) s))) (\<lambda>itemByBoqItemId.
     bind (gets (getWeightThreshold organizationId)) (\<lambda>weightThreshold.
     andThen (forEach items (check_coverage weightThreshold itemByBoqItemId))
    (bind now (\<lambda>t.
     bind (update_zero_report (zr_id report) (\<lambda>z. z\<lparr>zr_status := ZApproved,
             zr_approvedAt := Some t, zr_approvedBy := Some userId\<rparr>)) (\<lambda>updated.
     ret (formatReport updated))))))))))))"

section \<open>What the service writes\<close>

locale zero_writes = step_rel R keep_outside for R :: "db \<Rightarrow> db \<Rightarrow> bool" +
  assumes audit_write: "moves R (audit_log ps)"
    and report_insert: "(\<And>i. zr_id (mk i) = i) \<Longrightarrow> moves R (insert_zero_report mk)"
    and report_update: "(\<And>z. zr_id (gz z) = zr_id z) \<Longrightarrow> moves R (update_zero_report i gz)"
    and item_upsert: "(\<And>i. zi_id (mki i) = i \<and> zi_zeroReportId (mki i) = r \<and> zi_boqItemId (mki i) = b) \<Longrightarrow>
                        moves R (upsert_zero_item r b mki)"
begin

lemma moves_checkObjectAccess: "moves R (checkObjectAccess u ob)"
  unfolding checkObjectAccess_def user_org_def by (intro moves_rules)

lemma moves_create_report: "moves R (create_report u ob v notes)"
  unfolding create_report_def transaction_def
  by (intro moves_rules moves_checkObjectAccess report_insert) (simp add: new_report_def)

lemma moves_getByObject: "moves R (getByObject u ob)"
  unfolding getByObject_def by (intro moves_rules moves_checkObjectAccess)

lemma moves_upsertItem: "moves R (upsertItem u ob dto)"
  unfolding upsertItem_def
  by (intro moves_rules moves_checkObjectAccess item_upsert audit_write) (simp add: zero_item_of_def)

lemma moves_submit_report: "moves R (submit_report u ob)"
  unfolding submit_report_def now_def
  by (intro moves_rules moves_checkObjectAccess report_update) simp

lemma moves_approve_report: "moves R (approve_report u ob)"
  unfolding approve_report_def now_def transaction_def check_coverage_def
  by (intro moves_rules moves_checkObjectAccess report_update) simp

end

interpretation ev_zero: zero_writes evolves
  by unfold_locales (auto intro!: ev_writes)

interpretation static_zero: zero_writes same_static
  by unfold_locales (rule static_writes)+

interpretation pers_zero: zero_writes same_periods
  by unfold_locales (rule period_writes)+

end
