(* ===== verification/Zero_Props.thy ===== *)
theory Zero_Props
  imports Zero_Report
begin

text \<open>
  Correctness of the four methods of \<open>Zero_Report\<close> that write: what each does on success and what it
  leaves when it throws, as weakest-precondition facts.
\<close>

section \<open>Access and coverage\<close>

definition accessible :: "int \<Rightarrow> int \<Rightarrow> db \<Rightarrow> bool" where
  "accessible userId objectId s =
     (case (find_user userId s, find_object objectId s) of
        (Some u, Some ob) \<Rightarrow> o_organizationId ob = u_organizationId u
      | _ \<Rightarrow> False)"

lemma wp_checkObjectAccess [wp_simps]:
  "wp (checkObjectAccess userId objectId) Q E = (\<lambda>s.
     if accessible userId objectId s then Q (u_organizationId (the (find_user userId s))) s
     else if find_user userId s = None then E (PrismaError RecordNotFound) s
     else E (NotFoundException ''OBJECT_NOT_FOUND'') s)"
  by (rule ext) (auto simp: checkObjectAccess_def user_org_def accessible_def wp_simps split: option.splits)

definition covered :: "number \<Rightarrow> (int \<rightharpoonup> zero_report_item) \<Rightarrow> boq_item \<Rightarrow> bool" where
  "covered weightThreshold m b =
     (case m (bi_id b) of None \<Rightarrow> False | Some i \<Rightarrow> is_heavy weightThreshold b \<longrightarrow> zi_crossVerified i)"

lemma wp_check_coverage:
  "wp (forEach bs (check_coverage thr m)) Q (\<lambda>_. E) s = (if list_all (covered thr m) bs then Q () s else E s)"
  by (induction bs) (auto simp: check_coverage_def covered_def wp_simps split: option.split)

section \<open>create\<close>

definition live_report :: "int \<Rightarrow> db \<Rightarrow> bool" where
  "live_report objectId s \<longleftrightarrow> list_ex (\<lambda>z. zr_objectId z = objectId \<and> zr_status z \<noteq> ZRejected) (zeroReports s)"

definition report_created ::
  "int \<Rightarrow> int \<Rightarrow> int \<Rightarrow> string option \<Rightarrow> db \<Rightarrow> zero_report_view \<Rightarrow> db \<Rightarrow> bool" where
  "report_created userId objectId v notes s view s' \<longleftrightarrow>
     accessible userId objectId s \<and> \<not> live_report objectId s
     \<and> (case find_boq_version v s of None \<Rightarrow> False | Some ver \<Rightarrow> bv_objectId ver = objectId)
     \<and> (let z = new_report objectId v notes (seq s TZeroReports + 1) in
          view = formatReport z
          \<and> s' = s\<lparr>zeroReports := zeroReports s @ [z], seq := (seq s)(TZeroReports := seq s TZeroReports + 1)\<rparr>)"

lemma wp_create_report:
  "wp (create_report userId objectId v notes) (report_created userId objectId v notes s)
     (\<lambda>_. rolled_back s) s"
  by (auto simp: create_report_def wp_simps report_created_def live_report_def insert_zero_report_def
        rolled_backI split: option.split)

section \<open>submit and approve\<close>

definition report_moved :: "(zero_report \<Rightarrow> zero_report) \<Rightarrow> zero_report \<Rightarrow> db \<Rightarrow> zero_report_view \<Rightarrow> db \<Rightarrow> bool" where
  "report_moved g report s view s' \<longleftrightarrow>
     view = formatReport (g report)
     \<and> s' = s\<lparr>zeroReports := update_where (\<lambda>z. zr_id z = zr_id report) g (zeroReports s)\<rparr>"

definition to_pending :: "date \<Rightarrow> int \<Rightarrow> zero_report \<Rightarrow> zero_report" where
  "to_pending t userId z =
     z\<lparr>zr_status := ZPendingApproval, zr_submittedAt := Some t, zr_submittedBy := Some userId\<rparr>"

definition to_approved :: "date \<Rightarrow> int \<Rightarrow> zero_report \<Rightarrow> zero_report" where
  "to_approved t userId z =
     z\<lparr>zr_status := ZApproved, zr_approvedAt := Some t, zr_approvedBy := Some userId\<rparr>"

definition submit_ok :: "int \<Rightarrow> int \<Rightarrow> db \<Rightarrow> zero_report \<Rightarrow> bool" where
  "submit_ok userId objectId s report \<longleftrightarrow>
     accessible userId objectId s \<and> latest_report objectId s = Some report \<and> zr_status report = ZDraft
     \<and> report_items (zr_id report) s \<noteq> []"

definition approve_ok :: "int \<Rightarrow> int \<Rightarrow> db \<Rightarrow> zero_report \<Rightarrow> bool" where
  "approve_ok userId objectId s report \<longleftrightarrow>
     accessible userId objectId s \<and> latest_report objectId s = Some report
     \<and> zr_status report = ZPendingApproval
     \<and> \<not> list_ex (\<lambda>z. zr_objectId z = objectId \<and> zr_status z = ZApproved) (zeroReports s)
     \<and> (\<forall>b \<in> set (boqItems s). bi_boqVersionId b = zr_boqVersionId report \<longrightarrow>
          covered (getWeightThreshold (u_organizationId (the (find_user userId s))) s)
            (item_map (report_items (zr_id report) s)) b)"

lemma latest_report_mem: "latest_report objectId s = Some z \<Longrightarrow> z \<in> set (zeroReports s)"
  unfolding latest_report_def by (rule find_first_desc_SomeD)

lemma latest_report_find:
  "db_ok s \<Longrightarrow> latest_report objectId s = Some z \<Longrightarrow>
   List.find (\<lambda>q. zr_id q = zr_id z) (zeroReports s) = Some z"
  by (auto simp: db_ok_defs dest!: latest_report_mem keyed_find)

lemma wp_submit_report:
  assumes "db_ok s"
  shows "wp (submit_report userId objectId)
           (\<lambda>view t. \<exists>z. submit_ok userId objectId s z \<and> report_moved (to_pending (clock s) userId) z s view t)
           (\<lambda>_ t. t = s) s"
  using latest_report_find[OF assms]
  by (auto simp: submit_report_def wp_simps update_zero_report_def zero_report_updatable_def submit_ok_def
        report_moved_def to_pending_def[abs_def] SUBMIT_ALLOWED_STATUSES_def split: option.split)

lemma wp_approve_report:
  assumes "db_ok s"
  shows "wp (approve_report userId objectId)
           (\<lambda>view t. \<exists>z. approve_ok userId objectId s z \<and> report_moved (to_approved (clock s) userId) z s view t)
           (\<lambda>_. rolled_back s) s"
  using latest_report_find[OF assms]
  by (auto simp: approve_report_def wp_simps wp_check_coverage
        update_zero_report_def approve_ok_def report_moved_def to_approved_def[abs_def]
        APPROVE_ALLOWED_STATUSES_def rolled_backI list_all_iff split: option.split)

section \<open>upsertItem\<close>

definition items_map :: "db \<Rightarrow> int \<times> int \<rightharpoonup> zero_report_item" where
  "items_map s = (\<lambda>k. find_zero_item (fst k) (snd k) s)"

definition only_items :: "db \<Rightarrow> db \<Rightarrow> bool" where
  "only_items s t \<longleftrightarrow> t = s\<lparr>zeroReportItems := zeroReportItems t, auditLog := auditLog t, seq := seq t\<rparr>"

lemma zero_item_update:
  assumes ok: "db_ok s" and z: "find_zero_item r b s = Some z"
    and new: "zi_id new = zi_id z" "zi_zeroReportId new = r" "zi_boqItemId new = b"
  defines "t \<equiv> s\<lparr>zeroReportItems := update_where (\<lambda>q. zi_id q = zi_id z) (\<lambda>_. new) (zeroReportItems s)\<rparr>"
  shows "items_map t = (items_map s)((r, b) \<mapsto> new)"
    and "r' \<noteq> r \<Longrightarrow> report_items r' t = report_items r' s"
proof -
  have zm: "z \<in> set (zeroReportItems s)" "zi_zeroReportId z = r" "zi_boqItemId z = b"
    using find_SomeD[OF z[unfolded find_zero_item_def]] by auto
  have keyed: "keyed zi_id (zeroReportItems s) (seq s TZeroReportItems)"
    and keys: "distinct (map item_key (zeroReportItems s))"
    using ok by (simp_all add: db_ok_defs)
  have same: "q = z" if "q \<in> set (zeroReportItems s)" "zi_id q = zi_id z" for q
    using keyed_unique[OF keyed that(1) zm(1) that(2)] .
  then have upd: "zeroReportItems t = update_where (\<lambda>q. q = z) (\<lambda>_. new) (zeroReportItems s)"
    by (auto simp: t_def update_where_def)
  show "items_map t = (items_map s)((r, b) \<mapsto> new)"
  proof (rule ext, clarify)
    fix r' b'
    have iff: "find_zero_item r' b' s = Some z \<longleftrightarrow> r' = r \<and> b' = b"
      using z zm(2,3) find_SomeD[of "\<lambda>z. zi_zeroReportId z = r' \<and> zi_boqItemId z = b'" "zeroReportItems s" z]
      by (auto simp: find_zero_item_def)
    have "find_zero_item r' b' t = map_option (\<lambda>q. if q = z then new else q) (find_zero_item r' b' s)"
      unfolding find_zero_item_def upd by (rule find_replace) (simp add: new zm)
    then show "items_map t (r', b') = ((items_map s)((r, b) \<mapsto> new)) (r', b')"
      using iff by (auto simp: items_map_def map_option_case split: option.split)
  qed
  show "report_items r' t = report_items r' s" if "r' \<noteq> r"
    unfolding report_items_def upd
    by (rule filter_update_where_other) (use that zm new in auto)
qed

lemma wp_upsert_zero_item:
  assumes ok: "db_ok s"
    and mk: "\<And>i. zi_id (mk i) = i \<and> zi_zeroReportId (mk i) = r \<and> zi_boqItemId (mk i) = b"
  shows "wp (upsert_zero_item r b mk)
           (\<lambda>x t. items_map t = (items_map s)((r, b) \<mapsto> x) \<and> x = mk (zi_id x) \<and> only_items s t
              \<and> auditLog t = auditLog s \<and> (\<forall>r'. r' \<noteq> r \<longrightarrow> report_items r' t = report_items r' s))
           (\<lambda>_. rolled_back s) s"
proof (cases "find_zero_item r b s")
  case None
  then have "find_zero_item r' b' (s\<lparr>seq := q, zeroReportItems := zeroReportItems s @ [mk i]\<rparr>)
      = (if r' = r \<and> b' = b then Some (mk i) else find_zero_item r' b' s)" for r' b' i q
    using mk by (auto simp: find_zero_item_def find_append split: option.split)
  then have "items_map (s\<lparr>seq := q, zeroReportItems := zeroReportItems s @ [mk i]\<rparr>) = (items_map s)((r, b) \<mapsto> mk i)" for i q
    by (auto simp: items_map_def fun_eq_iff)
  with None mk show ?thesis
    by (auto simp: upsert_zero_item_def wp_simps only_items_def report_items_def)
next
  case (Some z)
  from zero_item_update[OF ok Some, of "mk (zi_id z)"] mk Some show ?thesis
    by (auto simp: upsert_zero_item_def wp_simps only_items_def)
qed

definition item_stored ::
  "int \<Rightarrow> zero_item_dto \<Rightarrow> zero_report \<Rightarrow> db \<Rightarrow> zero_report_item \<Rightarrow> db \<Rightarrow> bool" where
  "item_stored userId dto report s item s' \<longleftrightarrow>
     (let key = (zr_id report, zd_boqItemId dto) in
       items_map s' = (items_map s)(key \<mapsto> item)
       \<and> item = zero_item_of (zr_id report) dto (zi_id item)
       \<and> (\<forall>r. r \<noteq> zr_id report \<longrightarrow> report_items r s' = report_items r s)
       \<and> auditLog s' = auditLog s @ (case items_map s key of
            None \<Rightarrow> []
          | Some old \<Rightarrow> [audit_row_of (item_correction userId
                          (u_organizationId (the (find_user userId s))) old item) (clock s)])
       \<and> only_items s s')"

definition item_entered ::
  "int \<Rightarrow> zero_item_dto \<Rightarrow> zero_report \<Rightarrow> db \<Rightarrow> zero_item_view \<Rightarrow> db \<Rightarrow> bool" where
  "item_entered userId dto report s view s' \<longleftrightarrow>
     (\<exists>item. view = formatItem item \<and> item_stored userId dto report s item s')"

definition item_ok :: "int \<Rightarrow> int \<Rightarrow> zero_item_dto \<Rightarrow> db \<Rightarrow> zero_report \<Rightarrow> bool" where
  "item_ok userId objectId dto s report \<longleftrightarrow>
     accessible userId objectId s \<and> latest_report objectId s = Some report \<and> zr_status report = ZDraft
     \<and> (case find_boq_item (zd_boqItemId dto) s of None \<Rightarrow> False
        | Some b \<Rightarrow> bi_boqVersionId b = zr_boqVersionId report)"

lemma only_itemsD:
  "only_items s t \<Longrightarrow> clock t = clock s \<and> audit_actions t = audit_actions s \<and> zeroReports t = zeroReports s"
  by (cases s; cases t) (simp add: only_items_def)

lemma only_items_audit: "only_items s t \<Longrightarrow> only_items s (t\<lparr>auditLog := a\<rparr>)"
  by (cases s; cases t) (simp add: only_items_def)

lemma items_audit [simp]:
  "items_map (t\<lparr>auditLog := a\<rparr>) = items_map t" "report_items r (t\<lparr>auditLog := a\<rparr>) = report_items r t"
  by (simp_all add: items_map_def find_zero_item_def report_items_def)

lemma wp_upsertItem:
  assumes ok: "db_ok s" and act: "''zero_report_item_corrected'' \<in> set (audit_actions s)"
  shows "wp (upsertItem userId objectId dto)
           (\<lambda>view t. \<exists>report. item_ok userId objectId dto s report
                            \<and> item_entered userId dto report s view t)
           (\<lambda>_. rolled_back s) s"
proof -
  have step: "wp (upsert_zero_item (zr_id report) (zd_boqItemId dto) (zero_item_of (zr_id report) dto))
     (\<lambda>item. wp (andThen (case find_zero_item (zr_id report) (zd_boqItemId dto) s of None \<Rightarrow> ret ()
                   | Some old \<Rightarrow> audit_log (item_correction userId (u_organizationId (the (find_user userId s))) old item))
                 (ret (formatItem item)))
           (item_entered userId dto report s) (\<lambda>_. rolled_back s)) (\<lambda>_. rolled_back s) s"
    for report
  proof (rule wp_mono[OF wp_upsert_zero_item[OF ok]])
    fix item t
    assume "items_map t = (items_map s)((zr_id report, zd_boqItemId dto) \<mapsto> item)
      \<and> item = zero_item_of (zr_id report) dto (zi_id item) \<and> only_items s t \<and> auditLog t = auditLog s
      \<and> (\<forall>r. r \<noteq> zr_id report \<longrightarrow> report_items r t = report_items r s)"
    with act show "wp (andThen (case find_zero_item (zr_id report) (zd_boqItemId dto) s of None \<Rightarrow> ret ()
            | Some old \<Rightarrow> audit_log (item_correction userId (u_organizationId (the (find_user userId s))) old item))
            (ret (formatItem item))) (item_entered userId dto report s) (\<lambda>_. rolled_back s) t"
      unfolding item_entered_def item_stored_def Let_def items_map_def[of s]
      by (auto simp: wp_simps item_correction_def intro!: exI[of _ item] only_items_audit
            dest: only_itemsD split: option.split)
  qed (simp_all add: zero_item_of_def)
  show ?thesis
    unfolding upsertItem_def wp_bind wp_andThen wp_checkObjectAccess
    using step
    by (auto simp: item_ok_def ITEM_EDIT_ALLOWED_STATUSES_def wp_getsOr wp_guard wp_gets wp_bind wp_andThen
             elim!: wp_mono split: option.split)
qed

end
