(* ===== verification/Zero_Lifecycle.thy ===== *)
theory Zero_Lifecycle
  imports Zero_Props Period_Service
begin

text \<open>
  The state machine of a zero report, as a relation between the store before and after any method of
  the modelled services: a report goes from draft to pending to approved, its positions do not change
  once it has left the draft, and an object never gets a second report that is not rejected.
\<close>

inductive zero_step :: "zero_report_status \<Rightarrow> zero_report_status \<Rightarrow> bool" where
  submit: "zero_step ZDraft ZPendingApproval"
| approve: "zero_step ZPendingApproval ZApproved"

code_pred zero_step .

inductive_cases zero_step_from: "zero_step a b"

lemma zero_steps_draft: "zero_step\<^sup>*\<^sup>* a b \<Longrightarrow> a \<noteq> ZDraft \<Longrightarrow> b \<noteq> ZDraft"
  by (induction rule: rtranclp_induct) (auto elim: zero_step_from)

lemma zero_steps_rejected: "zero_step\<^sup>*\<^sup>* a b \<Longrightarrow> b = ZRejected \<longleftrightarrow> a = ZRejected"
  by (induction rule: rtranclp_induct) (auto elim: zero_step_from)

definition zero_next :: "zero_report \<Rightarrow> zero_report \<Rightarrow> bool" where
  "zero_next z z' \<longleftrightarrow> zr_id z' = zr_id z \<and> zr_objectId z' = zr_objectId z
     \<and> zr_boqVersionId z' = zr_boqVersionId z \<and> zero_step\<^sup>*\<^sup>* (zr_status z) (zr_status z')
     \<and> (zr_status z = ZApproved \<or> zr_status z = ZRejected \<longrightarrow> z' = z)"

lemma zero_next_refl [simp]: "zero_next z z"
  by (simp add: zero_next_def)

lemma zero_next_trans: "zero_next a b \<Longrightarrow> zero_next b c \<Longrightarrow> zero_next a c"
  by (auto simp: zero_next_def intro: rtranclp_trans)

definition one_report :: "db \<Rightarrow> bool" where
  "one_report s \<longleftrightarrow> distinct (map zr_objectId (filter (\<lambda>z. zr_status z \<noteq> ZRejected) (zeroReports s)))"

definition report_next :: "db \<Rightarrow> db \<Rightarrow> zero_report \<Rightarrow> zero_report \<Rightarrow> bool" where
  "report_next s s' z z' \<longleftrightarrow> zero_next z z'
     \<and> (zr_status z \<noteq> ZDraft \<longrightarrow> report_items (zr_id z) s' = report_items (zr_id z) s)"

lemma report_next_refl: "report_items (zr_id z) t = report_items (zr_id z) s \<Longrightarrow> report_next s t z z"
  by (simp add: report_next_def)

definition reports_next :: "db \<Rightarrow> db \<Rightarrow> bool" where
  "reports_next s s' \<longleftrightarrow>
     (\<forall>z \<in> set (zeroReports s). \<exists>z' \<in> set (zeroReports s'). report_next s s' z z')
     \<and> (one_report s \<longrightarrow> one_report s')"

definition zero_life :: "db \<Rightarrow> db \<Rightarrow> bool" where
  "zero_life s s' \<longleftrightarrow> evolves s s' \<and> (db_ok s \<longrightarrow> reports_next s s')"

lemma reports_next_same: "same_zero s s' \<Longrightarrow> reports_next s s'"
  by (auto simp: reports_next_def report_next_def same_zero_def report_items_def one_report_def intro: zero_next_refl)

lemma zero_next_draft: "zero_next z z' \<Longrightarrow> zr_status z \<noteq> ZDraft \<Longrightarrow> zr_status z' \<noteq> ZDraft \<and> zr_id z' = zr_id z"
  by (auto simp: zero_next_def dest: zero_steps_draft)

lemma report_next_trans: "report_next s t a b \<Longrightarrow> report_next t u b c \<Longrightarrow> report_next s u a c"
  by (auto simp: report_next_def dest: zero_next_draft intro: zero_next_trans)

lemma reports_next_trans: "reports_next s t \<Longrightarrow> reports_next t u \<Longrightarrow> reports_next s u"
  unfolding reports_next_def by (blast intro: report_next_trans)

lemma zero_life_refl: "zero_life s s"
  by (simp add: zero_life_def evolves_refl reports_next_same same_zero_def)

lemma zero_life_trans: "zero_life s t \<Longrightarrow> zero_life t u \<Longrightarrow> zero_life s u"
  unfolding zero_life_def by (blast dest: evolves_db_ok intro: evolves_trans reports_next_trans)

lemma zero_life_keep: "zero_life s s' \<Longrightarrow> zero_life s (keep_outside s' s)"
  unfolding zero_life_def
  using evolves_keep[of s s'] by (simp add: reports_next_same same_zero_def keep_outside_def)

interpretation zlife: step_rel zero_life keep_outside
  by unfold_locales (fact zero_life_refl, fact zero_life_trans, fact zero_life_keep)

lemma moves_zero_life: "moves evolves m \<Longrightarrow> moves same_zero m \<Longrightarrow> moves zero_life m"
  by (simp add: moves_def zero_life_def reports_next_same)

interpretation zlife_period: period_writes zero_life
  by unfold_locales (auto intro!: moves_zero_life ev_writes zero_frame simp: fact_key_def)

section \<open>The methods of the service\<close>

lemma moves_zero_lifeI:
  assumes "moves evolves m" and "\<And>s. db_ok s \<Longrightarrow> wp m (\<lambda>_. reports_next s) (\<lambda>_. reports_next s) s"
  shows "moves zero_life m"
proof (rule movesI)
  fix s
  show "zero_life s (snd (m s))"
    using assms(1) assms(2)[of s]
    by (auto simp: wp_def moves_def zero_life_def split: prod.splits sum.splits)
qed

lemma rolled_back_reports: "rolled_back s t \<Longrightarrow> reports_next s t"
  by (auto simp: rolled_back_def intro!: reports_next_same simp: same_zero_def)

lemma reports_next_more:
  assumes "zeroReports t = zeroReports s @ zs" and "zeroReportItems t = zeroReportItems s"
    and "one_report s \<Longrightarrow> one_report t"
  shows "reports_next s t"
proof -
  have "report_next s t z z" for z using assms(2) by (simp add: report_next_def report_items_def)
  then show ?thesis using assms(1,3) unfolding reports_next_def by auto
qed

lemma create_report_life: "moves zero_life (create_report u ob v notes)"
proof (rule moves_zero_lifeI[OF ev_zero.moves_create_report])
  fix s assume "db_ok s"
  have "reports_next s t" if "report_created u ob v notes s view t" for view t
    using that
    by (intro reports_next_more[where zs = "[new_report ob v notes (seq s TZeroReports + 1)]"])
       (auto simp: report_created_def one_report_def live_report_def new_report_def list_ex_iff Let_def)
  then show "wp (create_report u ob v notes) (\<lambda>_. reports_next s) (\<lambda>_. reports_next s) s"
    by (auto intro: wp_mono[OF wp_create_report] rolled_back_reports)
qed

lemma report_moved_next:
  assumes ok: "db_ok s" and z: "latest_report ob s = Some z"
    and g: "\<And>q. zr_id (g q) = zr_id q \<and> zr_objectId (g q) = zr_objectId q \<and> zr_boqVersionId (g q) = zr_boqVersionId q"
    and step: "zero_step (zr_status z) (zr_status (g z))" and moved: "report_moved g z s view t"
  shows "reports_next s t"
proof -
  have eq: "q = z" if "q \<in> set (zeroReports s)" "zr_id q = zr_id z" for q
    using ok that latest_report_mem[OF z] by (auto simp: db_ok_defs dest: keyed_unique)
  have t: "zeroReports t = update_where (\<lambda>q. q = z) g (zeroReports s)"
    using moved eq by (auto simp: report_moved_def update_where_def)
  have items: "report_items r t = report_items r s" for r
    using moved by (simp add: report_moved_def report_items_def)
  have live: "zr_status z \<noteq> ZRejected" "zr_status (g z) \<noteq> ZRejected" "zr_status z \<noteq> ZApproved"
    using step by (auto elim: zero_step_from)
  have "map zr_objectId (filter (\<lambda>z. zr_status z \<noteq> ZRejected) (update_where (\<lambda>q. q = z) g zs))
      = map zr_objectId (filter (\<lambda>z. zr_status z \<noteq> ZRejected) zs)" for zs
    using live g by (induction zs) auto
  then have "one_report t = one_report s" by (simp add: one_report_def t)
  moreover have "\<exists>q' \<in> set (zeroReports t). zero_next q q'" if q: "q \<in> set (zeroReports s)" for q
  proof (rule bexI)
    show "(if q = z then g q else q) \<in> set (zeroReports t)"
      using mem_update_where[OF q, of "\<lambda>q. q = z" g] by (simp add: t)
    show "zero_next q (if q = z then g q else q)"
      using live g step by (auto simp: zero_next_def)
  qed
  ultimately show ?thesis by (simp add: reports_next_def report_next_def items)
qed

lemma submit_report_life: "moves zero_life (submit_report u ob)"
proof (rule moves_zero_lifeI[OF ev_zero.moves_submit_report])
  fix s assume ok: "db_ok s"
  show "wp (submit_report u ob) (\<lambda>_. reports_next s) (\<lambda>_. reports_next s) s"
    by (rule wp_mono[OF wp_submit_report[OF ok]])
       (auto simp: submit_ok_def to_pending_def reports_next_same same_zero_def
         intro: zero_step.intros elim!: report_moved_next[OF ok, rotated 3])
qed

lemma approve_report_life: "moves zero_life (approve_report u ob)"
proof (rule moves_zero_lifeI[OF ev_zero.moves_approve_report])
  fix s assume ok: "db_ok s"
  show "wp (approve_report u ob) (\<lambda>_. reports_next s) (\<lambda>_. reports_next s) s"
    by (rule wp_mono[OF wp_approve_report[OF ok]])
       (auto simp: approve_ok_def to_approved_def rolled_back_reports
         intro: zero_step.intros elim!: report_moved_next[OF ok, rotated 3])
qed

lemma upsert_item_next:
  assumes ok: "db_ok s" and rep: "latest_report ob s = Some report" and draft: "zr_status report = ZDraft"
    and mk: "\<And>i. zi_id (mk i) = i \<and> zi_zeroReportId (mk i) = zr_id report \<and> zi_boqItemId (mk i) = b"
  shows "wp (upsert_zero_item (zr_id report) b mk) (\<lambda>_. zero_life s) (\<lambda>_. zero_life s) s"
proof -
  have other: "zr_id z \<noteq> zr_id report" if "z \<in> set (zeroReports s)" "zr_status z \<noteq> ZDraft" for z
    using ok that draft latest_report_mem[OF rep] by (auto simp: db_ok_defs dest: keyed_unique)
  have "reports_next s t" if "only_items s t" "\<forall>r. r \<noteq> zr_id report \<longrightarrow> report_items r t = report_items r s" for t
    using that only_itemsD[OF that(1)]
    by (auto simp: reports_next_def report_next_def other one_report_def intro: zero_next_refl)
  then have "wp (upsert_zero_item (zr_id report) b mk) (\<lambda>_. reports_next s) (\<lambda>_. reports_next s) s"
    using rolled_back_reports by (intro wp_mono[OF wp_upsert_zero_item[OF ok mk]]) blast+
  from wp_conj[OF this wp_of_moves[OF ev_upsert_zero_item[OF mk], where Q = "\<lambda>_. evolves s" and E = "\<lambda>_. evolves s"]]
  show ?thesis by (auto simp: zero_life_def elim!: wp_mono)
qed

lemma upsertItem_life: "moves zero_life (upsertItem u ob dto)"
proof (rule moves_zero_lifeI[OF ev_zero.moves_upsertItem])
  fix s assume ok: "db_ok s"
  have tail: "moves zero_life (andThen (case old of None \<Rightarrow> ret () | Some o' \<Rightarrow> audit_log (ap o')) (ret x))" for old ap x
    by (intro zlife.moves_rules zlife_period.audit_write)
  have "wp (upsertItem u ob dto) (\<lambda>_. zero_life s) (\<lambda>_. zero_life s) s"
    unfolding upsertItem_def wp_bind wp_andThen[of "guard b e" for b e] wp_checkObjectAccess
    by (auto simp: wp_getsOr wp_guard wp_gets zero_life_refl ITEM_EDIT_ALLOWED_STATUSES_def zero_item_of_def
          intro!: wp_mono[OF upsert_item_next[OF ok]] zlife.wp_tail tail split: option.split)
  then show "wp (upsertItem u ob dto) (\<lambda>_. reports_next s) (\<lambda>_. reports_next s) s"
    by (rule wp_mono) (use ok in \<open>simp_all add: zero_life_def\<close>)
qed

end
