(* ===== verification/Zero_Theorems.thy ===== *)
theory Zero_Theorems
  imports Zero_Props Sample_Store
begin

text \<open>
  The properties of the zero-report service.  The witnesses run it on the sample store without its
  report: \<open>drafted\<close> after creating one, \<open>filled\<close> after entering both positions, \<open>pending\<close> after the
  submission.
\<close>

definition bare_store :: db where
  "bare_store = sample_store\<lparr>zeroReports := []\<rparr>"

definition drafted :: db where
  "drafted = final (create_report 1 10 20 None) bare_store"

definition sample_dto :: "int \<Rightarrow> zero_item_dto" where
  "sample_dto b =
     \<lparr>zd_boqItemId = b, zd_factVolume = 7, zd_source = ''ks2'', zd_doc1Value = Some 7,
      zd_doc2Value = Some 7, zd_doc3Value = Some 7, zd_notes = None\<rparr>"

definition filled :: db where
  "filled = final (upsertItem 1 10 (sample_dto 31)) (final (upsertItem 1 10 (sample_dto 30)) drafted)"

definition pending :: db where
  "pending = final (submit_report 1 10) filled"

lemma drafted_runs: "returns (create_report 1 10 20 None) bare_store"
  by code_simp

lemma item_runs: "returns (upsertItem 1 10 (sample_dto 30)) drafted"
  by code_simp

lemma submit_runs: "returns (submit_report 1 10) filled"
  by code_simp

lemma approve_runs: "returns (approve_report 2 10) pending"
  by code_simp

lemma zero_samples_ok: "db_ok drafted" "db_ok filled" "db_ok pending"
  by code_simp+

text \<open>
  \<^verbatim>\<open>ZeroReportService.create\<close> succeeds only for a user of the object's organization, on a BoQ
  version of that object, when the object has no report that is not rejected; it then adds one draft
  and nothing else.  When it throws, no table has changed.
\<close>

theorem createReport_correct:
  assumes "create_report userId objectId v nt s = (r, s')"
  shows "case r of
           Inl e \<Rightarrow> rolled_back s s'
         | Inr view \<Rightarrow> report_created userId objectId v nt s view s'"
  using wp_create_report[of userId objectId v nt s] assms by (simp add: wp_def split: sum.splits)

theorem createReport_correct_witness:
  "report_created 1 10 20 None bare_store (result_of (create_report 1 10 20 None) bare_store) drafted"
  using createReport_correct[OF returns_run[OF drafted_runs]] by (simp add: drafted_def)

text \<open>
  C18.  \<^verbatim>\<open>ZeroReportService.upsertItem\<close> succeeds only on the latest report of the object, in draft, for
  a position of its BoQ version; it then stores exactly the values given, cross-verified exactly when
  all three documents are there, leaves every other position of every report as it was, and writes an
  audit row with the old and the new volume exactly when it corrected an existing position.  When it
  throws, no table has changed.
\<close>

theorem upsertItem_correct:
  assumes "db_ok s" and "''zero_report_item_corrected'' \<in> set (audit_actions s)"
    and "upsertItem userId objectId dto s = (r, s')"
  shows "case r of
           Inl e \<Rightarrow> rolled_back s s'
         | Inr view \<Rightarrow> \<exists>report. item_ok userId objectId dto s report
                                \<and> item_entered userId dto report s view s'"
  using wp_upsertItem[OF assms(1,2), of userId objectId dto] assms(3)
  by (simp add: wp_def split: sum.splits)

theorem upsertItem_correct_witness:
  "\<exists>report. item_entered 1 (sample_dto 30) report drafted
              (result_of (upsertItem 1 10 (sample_dto 30)) drafted)
              (final (upsertItem 1 10 (sample_dto 30)) drafted)"
proof -
  have "''zero_report_item_corrected'' \<in> set (audit_actions drafted)" by code_simp
  from upsertItem_correct[OF zero_samples_ok(1) this returns_run[OF item_runs]] show ?thesis by auto
qed

text \<open>
  \<^verbatim>\<open>ZeroReportService.submit\<close> succeeds only on a draft with at least one position, which becomes
  pending approval with the time and the submitter; nothing else changes, and nothing at all when it
  throws.
\<close>

theorem submitReport_correct:
  assumes "db_ok s" and "submit_report userId objectId s = (r, s')"
  shows "case r of
           Inl e \<Rightarrow> s' = s
         | Inr view \<Rightarrow> \<exists>z. submit_ok userId objectId s z
                          \<and> report_moved (to_pending (clock s) userId) z s view s'"
  using wp_submit_report[OF assms(1), of userId objectId] assms(2) by (simp add: wp_def split: sum.splits)

theorem submitReport_correct_witness:
  "\<exists>z. submit_ok 1 10 filled z
     \<and> report_moved (to_pending 1000 1) z filled (result_of (submit_report 1 10) filled) pending"
proof -
  have "clock filled = 1000" by code_simp
  with submitReport_correct[OF zero_samples_ok(2) returns_run[OF submit_runs]]
  show ?thesis by (simp add: pending_def)
qed

text \<open>
  C10.  \<^verbatim>\<open>ZeroReportService.approve\<close> succeeds only on a pending report of an object without an approved
  one, when every position of the report's BoQ version is in the report and every critical or heavy one
  is cross-verified; it then approves that report and changes nothing else.  When it throws, no table
  has changed.
\<close>

theorem approveReport_correct:
  assumes "db_ok s" and "approve_report userId objectId s = (r, s')"
  shows "case r of
           Inl e \<Rightarrow> rolled_back s s'
         | Inr view \<Rightarrow> \<exists>z. approve_ok userId objectId s z
                          \<and> report_moved (to_approved (clock s) userId) z s view s'"
  using wp_approve_report[OF assms(1), of userId objectId] assms(2) by (simp add: wp_def split: sum.splits)

theorem approveReport_correct_witness:
  "\<exists>z. approve_ok 2 10 pending z"
  using approveReport_correct[OF zero_samples_ok(3) returns_run[OF approve_runs]] by auto

end
