(* ===== verification/JS_Text.thy ===== *)
theory JS_Text
  imports CCIP_Prelude
begin

text \<open>
  The string functions of JavaScript the services use: \<^verbatim>\<open>trim\<close>, numbers in template strings, \<^verbatim>\<open>toFixed\<close>
  and \<^verbatim>\<open>parseFloat\<close>.
\<close>

section \<open>Texts\<close>

text \<open>\<^verbatim>\<open>s.trim()\<close>, on the characters of Latin-1.\<close>

definition js_space :: "char \<Rightarrow> bool" where
  "js_space c \<longleftrightarrow> (of_char c :: nat) \<in> {9, 10, 11, 12, 13, 32, 160}"

definition js_trim :: "string \<Rightarrow> string" where
  "js_trim s = rev (dropWhile js_space (rev (dropWhile js_space s)))"

text \<open>A whole number in a template string.\<close>

fun show_nat :: "nat \<Rightarrow> string" where
  "show_nat n = (if n < 10 then [char_of (48 + n)] else show_nat (n div 10) @ [char_of (48 + n mod 10)])"

declare show_nat.simps [simp del]

definition show_int :: "int \<Rightarrow> string" where
  "show_int i = (if i < 0 then CHR ''-'' # show_nat (nat (- i)) else show_nat (nat i))"

lemma digit_code: "k < 10 \<Longrightarrow> of_char (char_of (48 + k) :: char) = (48 + k :: nat)"
  by simp

lemma show_nat_digits: "c \<in> set (show_nat n) \<Longrightarrow> 48 \<le> (of_char c :: nat) \<and> (of_char c :: nat) < 58"
proof (induction n rule: show_nat.induct)
  case (1 n)
  from 1(2) consider "n < 10" "c = char_of (48 + n)" | "\<not> n < 10" "c \<in> set (show_nat (n div 10))"
    | "\<not> n < 10" "c = char_of (48 + n mod 10)"
    by (subst (asm) show_nat.simps) (auto split: if_splits)
  then show ?case
  proof cases
    case 3
    have "n mod 10 < 10" by simp
    with 3 show ?thesis using digit_code[of "n mod 10"] by simp
  qed (use 1(1) in auto)
qed

fun digits_value :: "string \<Rightarrow> nat" where
  "digits_value s = foldl (\<lambda>a c. a * 10 + (of_char c - 48)) 0 s"

lemma digits_value_show [simp]: "digits_value (show_nat n) = n"
proof (induction n rule: show_nat.induct)
  case (1 n)
  have "n mod 10 < 10" by simp
  with 1 show ?case by (subst show_nat.simps) (auto simp: digit_code)
qed

lemma show_nat_inj: "show_nat m = show_nat n \<Longrightarrow> m = n"
  by (metis digits_value_show)

definition show_int_chars :: "nat set" where
  "show_int_chars = insert 45 {48..<58}"

lemma show_int_chars: "c \<in> set (show_int i) \<Longrightarrow> of_char c \<in> show_int_chars"
  using show_nat_digits by (auto simp: show_int_def show_int_chars_def split: if_splits)

lemma show_nat_not_minus: "show_nat n \<noteq> CHR ''-'' # cs"
  using show_nat_digits[of "CHR ''-''" n] by force

lemma show_int_inj: "show_int i = show_int j \<Longrightarrow> i = j"
  by (auto simp: show_int_def show_nat_not_minus show_nat_not_minus[symmetric] dest: show_nat_inj split: if_splits)

section \<open>Fixed-point numbers\<close>

text \<open>\<^verbatim>\<open>x.toFixed(f)\<close>, for \<^verbatim>\<open>|x| < 1e21\<close>: the nearest multiple of \<open>10\<^sup>-\<^sup>f\<close>, halves upwards.\<close>

definition pad_left :: "nat \<Rightarrow> string \<Rightarrow> string" where
  "pad_left k ds = replicate (k - length ds) (CHR ''0'') @ ds"

definition toFixed :: "nat \<Rightarrow> number \<Rightarrow> string" where
  "toFixed f x =
     (let ds = pad_left (f + 1) (show_nat (nat \<lfloor>\<bar>x\<bar> * 10 ^ f + 1 / 2\<rfloor>)); k = length ds - f
      in (if x < 0 then ''-'' else []) @ take k ds @ (if f = 0 then [] else ''.'' @ drop k ds))"

text \<open>
  \<^verbatim>\<open>parseFloat\<close>: the number at the beginning of a text, \<open>None\<close> for \<^verbatim>\<open>NaN\<close>.  \<^verbatim>\<open>Infinity\<close>, which neither
  a number the services write nor an input field of type \<^verbatim>\<open>number\<close> can hold, is not read.
\<close>

definition is_digit :: "char \<Rightarrow> bool" where
  "is_digit c \<longleftrightarrow> 48 \<le> (of_char c :: nat) \<and> (of_char c :: nat) < 58"

definition fraction_digits :: "string \<Rightarrow> string" where
  "fraction_digits r = (case r of [] \<Rightarrow> [] | c # cs \<Rightarrow> if c = CHR ''.'' then takeWhile is_digit cs else [])"

definition after_fraction :: "string \<Rightarrow> string" where
  "after_fraction r = (case r of [] \<Rightarrow> [] | c # cs \<Rightarrow> if c = CHR ''.'' then dropWhile is_digit cs else r)"

definition unsigned_part :: "string \<Rightarrow> string" where
  "unsigned_part t = (if take 1 t = ''-'' \<or> take 1 t = ''+'' then drop 1 t else t)"

text \<open>\<^verbatim>\<open>e+3\<close>, \<^verbatim>\<open>E-12\<close>; an \<^verbatim>\<open>e\<close> without digits is no exponent.\<close>

definition exponent_of :: "string \<Rightarrow> int" where
  "exponent_of r =
     (case r of
        [] \<Rightarrow> 0
      | c # cs \<Rightarrow>
          if c = CHR ''e'' \<or> c = CHR ''E''
          then let k = int (digits_value (takeWhile is_digit (unsigned_part cs)))
               in if take 1 cs = ''-'' then - k else k
          else 0)"

definition scale10 :: "int \<Rightarrow> number \<Rightarrow> number" where
  "scale10 e x = (if 0 \<le> e then x * 10 ^ nat e else x / 10 ^ nat (- e))"

definition parseFloat :: "string \<Rightarrow> number option" where
  "parseFloat text =
     (let t = dropWhile js_space text;
          u = unsigned_part t;
          ip = takeWhile is_digit u;
          r = dropWhile is_digit u;
          fp = fraction_digits r;
          v = scale10 (exponent_of (after_fraction r)) (of_nat (digits_value (ip @ fp)) / 10 ^ length fp)
      in if ip = [] \<and> fp = [] then None else Some (if take 1 t = ''-'' then - v else v))"

lemma scale10_0 [simp]: "scale10 0 x = x"
  by (simp add: scale10_def)

lemma digits_value_zero [simp]: "digits_value (CHR ''0'' # ds) = digits_value ds"
  by simp

lemma digits_value_pad [simp]: "digits_value (pad_left k ds) = digits_value ds"
proof -
  have "digits_value (replicate n (CHR ''0'') @ ds) = digits_value ds" for n
    by (induction n) (simp_all add: digits_value_zero del: digits_value.simps)
  then show ?thesis by (simp add: pad_left_def del: digits_value.simps)
qed

lemma pad_left_digits: "c \<in> set (pad_left k (show_nat n)) \<Longrightarrow> is_digit c"
  using show_nat_digits by (auto simp: pad_left_def is_digit_def split: if_splits)

lemma pad_left_length: "k \<le> length (pad_left k ds)"
  by (simp add: pad_left_def)

lemma digit_not_space: "is_digit c \<Longrightarrow> \<not> js_space c"
  by (auto simp: is_digit_def js_space_def)

lemma take_while_digits:
  "\<forall>c \<in> set ds. is_digit c \<Longrightarrow> \<not> is_digit x \<Longrightarrow>
     takeWhile is_digit (ds @ x # r) = ds \<and> dropWhile is_digit (ds @ x # r) = x # r"
  by simp

text \<open>Reading what \<^verbatim>\<open>toFixed(1)\<close> has written.\<close>

lemma parseFloat_toFixed: "parseFloat (toFixed 1 (of_nat n / 10)) = Some (of_nat n / 10)"
proof -
  define ds where "ds = pad_left 2 (show_nat n)"
  have len: "2 \<le> length ds" unfolding ds_def by (rule pad_left_length)
  have dig: "\<forall>c \<in> set ds. is_digit c" unfolding ds_def using pad_left_digits by blast
  let ?k = "length ds - 1"
  obtain a as where tk: "take ?k ds = a # as" using len by (cases "take ?k ds") auto
  obtain z where dr: "drop ?k ds = [z]"
    using len by (metis Cons_nth_drop_Suc One_nat_def Suc_diff_Suc diff_less diff_zero drop_all
        le_refl less_le_trans numeral_2_eq_2 zero_less_Suc)
  have ds_eq: "ds = (a # as) @ [z]" using tk dr by (metis append_take_drop_id)
  have ad: "is_digit a" "\<forall>c \<in> set (a # as). is_digit c" "is_digit z" using dig ds_eq by auto
  have nine: "nat \<lfloor>\<bar>of_nat n / 10 :: rat\<bar> * 10 ^ 1 + 1 / 2\<rfloor> = n"
  proof -
    have "\<bar>of_nat n / 10 :: rat\<bar> * 10 ^ 1 + 1 / 2 = of_nat n + 1 / 2" by simp
    moreover have "\<lfloor>of_nat n + 1 / 2 :: rat\<rfloor> = int n" by linarith
    ultimately show ?thesis by simp
  qed
  have written: "toFixed 1 (of_nat n / 10) = (a # as) @ CHR ''.'' # [z]"
    using tk dr nine by (simp add: toFixed_def Let_def ds_def numeral_2_eq_2)
  have dot: "\<not> is_digit (CHR ''.'')" by (simp add: is_digit_def)
  have sign: "take 1 ((a # as) @ CHR ''.'' # [z]) \<noteq> ''-''" "take 1 ((a # as) @ CHR ''.'' # [z]) \<noteq> ''+''"
    using ad(1) by (auto simp: is_digit_def)
  have "digits_value ((a # as) @ [z]) = n"
    using ds_eq unfolding ds_def by (metis digits_value_pad digits_value_show)
  moreover have "parseFloat ((a # as) @ CHR ''.'' # [z]) = Some (of_nat (digits_value ((a # as) @ [z])) / 10)"
    using sign ad take_while_digits[OF ad(2) dot, of "[z]"] digit_not_space[OF ad(1)]
    by (simp add: parseFloat_def Let_def fraction_digits_def after_fraction_def exponent_of_def unsigned_part_def dot
          del: digits_value.simps)
  ultimately show ?thesis unfolding written by simp
qed

text \<open>White space around a number does not change it.\<close>

lemma dropWhile_append_none: "\<forall>c \<in> set w. \<not> P c \<Longrightarrow> dropWhile P (u @ w) = dropWhile P u @ w"
proof (induction u)
  case Nil
  then show ?case by (cases w) auto
qed simp

lemma takeWhile_append_none: "\<forall>c \<in> set w. \<not> P c \<Longrightarrow> takeWhile P (u @ w) = takeWhile P u"
  by (induction u) (auto simp: takeWhile_eq_Nil_iff)

lemma js_trim_split:
  obtains w where "dropWhile js_space t = js_trim t @ w" "\<forall>c \<in> set w. js_space c"
proof
  let ?u = "dropWhile js_space t"
  have "rev ?u = takeWhile js_space (rev ?u) @ dropWhile js_space (rev ?u)" by simp
  then show "?u = js_trim t @ rev (takeWhile js_space (rev ?u))"
    unfolding js_trim_def by (metis rev_append rev_rev_ident)
qed (auto dest: set_takeWhileD)

lemma js_space_not:
  "js_space c \<Longrightarrow> \<not> is_digit c \<and> c \<noteq> CHR ''-'' \<and> c \<noteq> CHR ''+'' \<and> c \<noteq> CHR ''.'' \<and> c \<noteq> CHR ''e'' \<and> c \<noteq> CHR ''E''"
  by (auto simp: js_space_def is_digit_def)

lemma unsigned_part_append:
  assumes "\<forall>c \<in> set w. js_space c"
  shows "unsigned_part (t @ w) = unsigned_part t @ w" "take 1 (t @ w) = ''-'' \<longleftrightarrow> take 1 t = ''-''"
  using assms by (cases t; cases w; auto simp: unsigned_part_def dest: js_space_not)+

lemma exponent_of_append:
  assumes "\<forall>c \<in> set w. js_space c"
  shows "exponent_of (r @ w) = exponent_of r"
proof (cases r)
  case Nil
  then show ?thesis using assms by (cases w) (auto simp: exponent_of_def dest: js_space_not)
next
  case (Cons c cs)
  have "takeWhile is_digit (unsigned_part (cs @ w)) = takeWhile is_digit (unsigned_part cs)"
    unfolding unsigned_part_append(1)[OF assms] using assms js_space_not by (blast intro: takeWhile_append_none)
  then show ?thesis using Cons unsigned_part_append(2)[OF assms, of cs] by (simp add: exponent_of_def)
qed

lemma fraction_append:
  assumes "\<forall>c \<in> set w. js_space c"
  shows "fraction_digits (r @ w) = fraction_digits r" "after_fraction (r @ w) = after_fraction r @ w"
proof -
  have no: "\<forall>c \<in> set w. \<not> is_digit c" using assms js_space_not by blast
  show "fraction_digits (r @ w) = fraction_digits r" "after_fraction (r @ w) = after_fraction r @ w"
    using assms takeWhile_append_none[OF no] dropWhile_append_none[OF no]
    by (cases r; cases w; auto simp: fraction_digits_def after_fraction_def dest: js_space_not)+
qed

lemma parseFloat_trim: "parseFloat (js_trim t) = parseFloat t"
proof -
  obtain w where w: "dropWhile js_space t = js_trim t @ w" "\<forall>c \<in> set w. js_space c" by (rule js_trim_split)
  have "dropWhile js_space (js_trim t) = js_trim t"
  proof (cases "js_trim t")
    case (Cons c cs)
    then have "\<not> js_space c" using w(1) hd_dropWhile[of js_space t] by auto
    then show ?thesis using Cons by simp
  qed simp
  moreover have no: "\<forall>c \<in> set w. \<not> is_digit c" using w(2) js_space_not by blast
  ultimately show ?thesis
    unfolding parseFloat_def Let_def w(1)
    by (simp only: unsigned_part_append[OF w(2)] takeWhile_append_none[OF no] dropWhile_append_none[OF no]
          fraction_append[OF w(2)] exponent_of_append[OF w(2)])
qed

end
