(* ===== verification/Dispute_Sla.thy ===== *)
theory Dispute_Sla
  imports Work_Pace
begin

text \<open>
  \<^verbatim>\<open>DisputeSlaService\<close> and \<^verbatim>\<open>DisputeSlaWorker\<close> (\<^verbatim>\<open>modules/dispute-sla\<close>): the timers of a dispute.  An event
  is a row of \<^verbatim>\<open>sla_events\<close>; a job of the queue \<^verbatim>\<open>sla\<close> carries its id and a delay.  The worker reads
  the event when the job fires, acts on it unless it is executed or cancelled, and marks it executed.
  Retries and the removal of finished jobs are the queue's business and not modelled.
\<close>

section \<open>DisputeSlaService\<close>

record sla_params =
  sp_periodId :: int
  sp_boqItemId :: int
  sp_createdAt :: date
  sp_scenario :: sla_scenario

text \<open>The event types of a scenario with their day.\<close>

fun scenario_events :: "sla_scenario \<Rightarrow> (sla_event_type \<times> int) list" where
  "scenario_events ScenarioA = [(NotifyDirectorDay3, 3), (ForceCloseDay5, 5)]"
| "scenario_events ScenarioB = [(NotifyDirectorDay3, 3), (DirectorDeadlineDay7, 7), (ScFigureAppliedDay14, 14)]"

definition new_event :: "sla_params \<Rightarrow> sla_event_type \<Rightarrow> int \<Rightarrow> int \<Rightarrow> sla_event" where
  "new_event ps ty day i =
     \<lparr>sl_id = i, sl_periodId = sp_periodId ps, sl_boqItemId = Some (sp_boqItemId ps),
      sl_scenario = sp_scenario ps, sl_eventType = ty,
      sl_scheduledAt = add_days (sp_createdAt ps) day, sl_executedAt = None, sl_isCancelled = False\<rparr>"

definition pending_event :: "sla_event \<Rightarrow> bool" where
  "pending_event e \<longleftrightarrow> sl_executedAt e = None \<and> \<not> sl_isCancelled e"

text \<open>\<^verbatim>\<open>delay = Math.max(0, event.scheduledAt.getTime() - Date.now())\<close>\<close>

definition job_of :: "date \<Rightarrow> sla_event \<Rightarrow> sla_job" where
  "job_of t e = \<lparr>j_slaEventId = sl_id e, j_addedAt = t, j_delay = max 0 (sl_scheduledAt e - t)\<rparr>"

definition queue_event :: "sla_event \<Rightarrow> unit service" where
  "queue_event e = bind now (\<lambda>t. enqueue_job (job_of t e))"

definition scheduled_now :: "sla_params \<Rightarrow> db \<Rightarrow> sla_event list" where
  "scheduled_now ps s = order_asc sl_id (filter (\<lambda>e. sl_periodId e = sp_periodId ps
     \<and> sl_boqItemId e = Some (sp_boqItemId ps) \<and> sl_scenario e = sp_scenario ps \<and> pending_event e) (slaEvents s))"

definition scheduleEvents :: "sla_params \<Rightarrow> unit service" where
  "scheduleEvents ps =
     andThen (forEach (scenario_events (sp_scenario ps)) (\<lambda>x. insert_sla_event (new_event ps (fst x) (snd x))))
    (bind (gets (scheduled_now ps)) (\<lambda>events. forEach events queue_event))"

definition recoverPending :: "nat service" where
  "recoverPending =
     bind (gets (\<lambda>s. filter pending_event (slaEvents s))) (\<lambda>events.
     andThen (forEach events queue_event) (ret (length events)))"

definition cancelEvents :: "int \<Rightarrow> int \<Rightarrow> unit service" where
  "cancelEvents periodId boqItemId = update_sla_where
     (\<lambda>e. sl_periodId e = periodId \<and> sl_boqItemId e = Some boqItemId \<and> pending_event e)
     (\<lambda>e. e\<lparr>sl_isCancelled := True\<rparr>)"

section \<open>DisputeSlaWorker\<close>

definition getDirectors :: "int \<Rightarrow> user list service" where
  "getDirectors periodId =
     bind (getsOr (find_period periodId) (PrismaError RecordNotFound)) (\<lambda>per.
     bind (getsOr (period_org per) (PrismaError RecordNotFound)) (\<lambda>orgId.
     gets (users_with_role orgId Director)))"

definition matches_event :: "sla_event \<Rightarrow> db \<Rightarrow> discrepancy \<Rightarrow> bool" where
  "matches_event ev s d \<longleftrightarrow> d_status d = DOpen
     \<and> (case discrepancy_fact s d of
          None \<Rightarrow> False
        | Some f \<Rightarrow> f_periodId f = sl_periodId ev
            \<and> (case sl_boqItemId ev of None \<Rightarrow> True | Some b \<Rightarrow> f_boqItemId f = b))"

definition findOpenDiscrepancy :: "sla_event \<Rightarrow> db \<Rightarrow> discrepancy option" where
  "findOpenDiscrepancy ev s = List.find (matches_event ev s) (discrepancies s)"

definition handleNotify :: "sla_event \<Rightarrow> unit service" where
  "handleNotify ev =
     bind (getDirectors (sl_periodId ev)) (\<lambda>directors.
     let isScenarioB = (sl_scenario ev = ScenarioB) in
     notify_users directors
       (if isScenarioB then ''sla_day3_active_dispute'' else ''sla_day3_no_gp_response'')
       ''sla_events'' (sl_id ev)
       (if isScenarioB then SlaDay3ActiveDispute (sl_boqItemId ev) else SlaDay3NoGpResponse (sl_boqItemId ev)))"

definition handleDirectorDeadline :: "sla_event \<Rightarrow> unit service" where
  "handleDirectorDeadline ev =
     bind (gets (findOpenDiscrepancy ev)) (\<lambda>found.
     case found of None \<Rightarrow> ret () | Some d \<Rightarrow>
       if d_directorDecision d \<noteq> None then ret ()
       else bind (getDirectors (sl_periodId ev)) (\<lambda>directors.
         notify_users directors ''sla_day7_director_reminder'' ''sla_events'' (sl_id ev)
           (SlaDay7Reminder (sl_boqItemId ev))))"

definition force_discrepancy :: "date \<Rightarrow> discrepancy \<Rightarrow> discrepancy" where
  "force_discrepancy t d = d\<lparr>d_status := DForcedScFigure, d_resolvedAt := Some t\<rparr>"

definition force_fact :: "number option \<Rightarrow> period_fact \<Rightarrow> period_fact" where
  "force_fact scVolume f =
     f\<lparr>f_discrepancyStatus := Some DForcedScFigure, f_acceptedVolume := scVolume\<rparr>"

definition handleForceClose :: "sla_event \<Rightarrow> unit service" where
  "handleForceClose ev =
     bind (gets (\<lambda>s. case findOpenDiscrepancy ev s of None \<Rightarrow> None
                   | Some d \<Rightarrow> map_option (\<lambda>f. (d, f)) (discrepancy_fact s d))) (\<lambda>found.
     case found of None \<Rightarrow> ret () | Some df \<Rightarrow>
       bind now (\<lambda>t.
       andThen (bind (update_discrepancy (d_id (fst df)) (force_discrepancy t)) (\<lambda>_. ret ()))
         (bind (update_fact (d_periodFactId (fst df)) (force_fact (f_scVolume (snd df)))) (\<lambda>_. ret ()))))"

definition find_event :: "int \<Rightarrow> db \<Rightarrow> sla_event option" where
  "find_event i s = List.find (\<lambda>e. sl_id e = i) (slaEvents s)"

definition handle_event :: "sla_event \<Rightarrow> unit service" where
  "handle_event ev =
     (case sl_eventType ev of
        NotifyDirectorDay3 \<Rightarrow> handleNotify ev
      | ForceCloseDay5 \<Rightarrow> handleForceClose ev
      | ScFigureAppliedDay14 \<Rightarrow> handleForceClose ev
      | DirectorDeadlineDay7 \<Rightarrow> handleDirectorDeadline ev)"

definition process :: "int \<Rightarrow> unit service" where
  "process slaEventId =
     bind (gets (find_event slaEventId)) (\<lambda>event.
     case event of None \<Rightarrow> ret () | Some ev \<Rightarrow>
       if sl_executedAt ev \<noteq> None \<or> sl_isCancelled ev then ret ()
       else andThen (handle_event ev)
         (bind now (\<lambda>t. update_sla_where (\<lambda>e. sl_id e = sl_id ev) (\<lambda>e. e\<lparr>sl_executedAt := Some t\<rparr>))))"

text \<open>\<^verbatim>\<open>onModuleInit\<close> of the worker: the recovery runs whenever the process starts.\<close>

definition onModuleInit :: "unit service" where
  "onModuleInit = bind recoverPending (\<lambda>_. ret ())"

section \<open>What the two classes write\<close>

text \<open>Planning writes events and jobs; the worker's steps are stated over the planning as a whole.\<close>

locale sla_planning = step_rel R keep_outside for R :: "db \<Rightarrow> db \<Rightarrow> bool" +
  assumes event_insert: "(\<And>i. sl_id (mks i) = i) \<Longrightarrow> moves R (insert_sla_event mks)"
    and job_add: "moves R (enqueue_job j)"
begin

lemma moves_queue_event: "moves R (queue_event e)"
  unfolding queue_event_def now_def by (intro moves_rules job_add)

lemma moves_scheduleEvents: "moves R (scheduleEvents ps)"
  unfolding scheduleEvents_def by (intro moves_rules moves_queue_event event_insert) (simp add: new_event_def)

lemma moves_recoverPending: "moves R recoverPending"
  unfolding recoverPending_def by (intro moves_rules moves_queue_event)

end

locale sla_writes = step_rel R keep_outside for R :: "db \<Rightarrow> db \<Rightarrow> bool" +
  assumes notification_write: "(\<And>i. n_id (mk i) = i) \<Longrightarrow> moves R (insert_notification mk)"
    and schedule: "moves R (scheduleEvents ps)"
    and recover: "moves R recoverPending"
    and event_execute: "moves R (update_sla_where P (\<lambda>e. e\<lparr>sl_executedAt := Some t\<rparr>))"
    and event_cancel: "moves R (update_sla_where P (\<lambda>e. e\<lparr>sl_isCancelled := True\<rparr>))"
    and discrepancy_force: "moves R (update_discrepancy i (force_discrepancy t))"
    and fact_force: "moves R (update_fact i (force_fact v))"
begin

lemma moves_cancelEvents: "moves R (cancelEvents p b)"
  unfolding cancelEvents_def by (rule event_cancel)

lemma moves_notify: "moves R (notify_users us ty tab i msg)"
  unfolding notify_users_def by (intro moves_rules notification_write) simp

lemma moves_handle_event: "moves R (handle_event ev)"
proof (cases "sl_eventType ev")
qed (auto simp: handle_event_def handleNotify_def handleDirectorDeadline_def handleForceClose_def Let_def
       getDirectors_def now_def intro!: moves_rules moves_notify discrepancy_force fact_force)

lemma moves_process: "moves R (process i)"
  unfolding process_def now_def by (intro moves_rules moves_handle_event event_execute)

lemma moves_onModuleInit: "moves R onModuleInit"
  unfolding onModuleInit_def by (intro moves_rules recover)

end

lemma force_keys [simp]:
  "f_id (force_fact v f) = f_id f" "fact_key (force_fact v f) = fact_key f"
  "f_version (force_fact v f) = f_version f" "d_id (force_discrepancy t d) = d_id d"
  by (simp_all add: force_fact_def force_discrepancy_def fact_key_def)

interpretation ev_plan: sla_planning evolves
  by unfold_locales (auto intro!: ev_writes)

interpretation static_plan: sla_planning same_static
  by unfold_locales (rule static_writes)+

interpretation pers_plan: sla_planning same_periods
  by unfold_locales (rule period_writes)+

interpretation zero_plan: sla_planning same_zero
  by unfold_locales (rule zero_frame)+

interpretation ev_sla: sla_writes evolves
  by unfold_locales (auto intro!: ev_writes ev_plan.moves_scheduleEvents ev_plan.moves_recoverPending)

interpretation static_sla: sla_writes same_static
  by unfold_locales (rule static_writes static_plan.moves_scheduleEvents static_plan.moves_recoverPending)+

interpretation pers_sla: sla_writes same_periods
  by unfold_locales (rule period_writes pers_plan.moves_scheduleEvents pers_plan.moves_recoverPending)+

interpretation zero_sla: sla_writes same_zero
  by unfold_locales (rule zero_frame zero_plan.moves_scheduleEvents zero_plan.moves_recoverPending)+

section \<open>Timers\<close>

text \<open>
  \<open>timers_ok\<close>: every event that is still pending has a job in the queue, and no job fires before its
  event is due.
\<close>

definition timers_ok :: "db \<Rightarrow> bool" where
  "timers_ok s \<longleftrightarrow>
     (\<forall>e \<in> set (slaEvents s). pending_event e \<longrightarrow> (\<exists>j \<in> set (slaJobs s). j_slaEventId j = sl_id e))
     \<and> (\<forall>j \<in> set (slaJobs s). \<exists>e \<in> set (slaEvents s). sl_id e = j_slaEventId j
          \<and> sl_scheduledAt e \<le> j_addedAt j + j_delay j)"

definition keeps_timers :: "db \<Rightarrow> db \<Rightarrow> bool" where
  "keeps_timers s s' \<longleftrightarrow> (timers_ok s \<longrightarrow> timers_ok s')"

interpretation timer: step_rel keeps_timers keep_outside
  by unfold_locales (auto simp: keeps_timers_def timers_ok_def keep_outside_def)

text \<open>The queue after adding the events of a list, as \<^verbatim>\<open>jobId\<close> dedupes them.\<close>

fun queue_all :: "date \<Rightarrow> sla_event list \<Rightarrow> sla_job list \<Rightarrow> sla_job list" where
  "queue_all t [] js = js"
| "queue_all t (e # es) js =
     queue_all t es (if list_ex (\<lambda>k. j_slaEventId k = sl_id e) js then js else js @ [job_of t e])"

lemma forEach_queue_event:
  "forEach es queue_event s = (Inr (), s\<lparr>slaJobs := queue_all (clock s) es (slaJobs s)\<rparr>)"
  by (induction es arbitrary: s) (auto simp: queue_event_def enqueue_job_def now_def prog_defs job_of_def)

lemma queue_all_keeps: "set js \<subseteq> set (queue_all t es js)"
proof (induction es arbitrary: js)
  case (Cons e es)
  have "set js \<subseteq> set (if list_ex (\<lambda>k. j_slaEventId k = sl_id e) js then js else js @ [job_of t e])" by auto
  also have "\<dots> \<subseteq> set (queue_all t (e # es) js)" unfolding queue_all.simps by (rule Cons.IH)
  finally show ?case .
qed simp

lemma queue_all_origin: "j \<in> set (queue_all t es js) \<Longrightarrow> j \<in> set js \<or> (\<exists>e \<in> set es. j = job_of t e)"
  by (induction es arbitrary: js) (force split: if_splits)+

lemma queue_all_has: "e \<in> set es \<Longrightarrow> \<exists>j \<in> set (queue_all t es js). j_slaEventId j = sl_id e"
proof (induction es arbitrary: js)
  case (Cons x es)
  let ?js = "if list_ex (\<lambda>k. j_slaEventId k = sl_id x) js then js else js @ [job_of t x]"
  have "\<exists>j \<in> set ?js. j_slaEventId j = sl_id x" by (auto simp: list_ex_iff job_of_def)
  then have "\<exists>j \<in> set (queue_all t es ?js). j_slaEventId j = sl_id x" using queue_all_keeps by blast
  then show ?case using Cons by auto
qed simp

lemma job_of_due: "sl_scheduledAt e \<le> j_addedAt (job_of t e) + j_delay (job_of t e)"
  by (simp add: job_of_def)

text \<open>Queueing every pending event establishes the invariant, when the jobs there were sound.\<close>

lemma timers_ok_queue:
  assumes old: "\<And>j. j \<in> set js \<Longrightarrow> \<exists>e \<in> set (slaEvents s). sl_id e = j_slaEventId j
                   \<and> sl_scheduledAt e \<le> j_addedAt j + j_delay j"
    and es: "set es \<subseteq> set (slaEvents s)"
    and all: "\<And>e. e \<in> set (slaEvents s) \<Longrightarrow> pending_event e \<Longrightarrow> e \<in> set es \<or> (\<exists>j \<in> set js. j_slaEventId j = sl_id e)"
  shows "timers_ok (s\<lparr>slaJobs := queue_all t es js\<rparr>)"
  unfolding timers_ok_def
proof (intro conjI ballI impI)
  fix e assume "e \<in> set (slaEvents (s\<lparr>slaJobs := queue_all t es js\<rparr>))" "pending_event e"
  then show "\<exists>j \<in> set (slaJobs (s\<lparr>slaJobs := queue_all t es js\<rparr>)). j_slaEventId j = sl_id e"
    using all[of e] queue_all_has[of e es] queue_all_keeps[of js t es] by auto
next
  fix j assume "j \<in> set (slaJobs (s\<lparr>slaJobs := queue_all t es js\<rparr>))"
  then have "j \<in> set js \<or> (\<exists>e \<in> set es. j = job_of t e)" using queue_all_origin by simp
  then show "\<exists>e \<in> set (slaEvents (s\<lparr>slaJobs := queue_all t es js\<rparr>)). sl_id e = j_slaEventId j
      \<and> sl_scheduledAt e \<le> j_addedAt j + j_delay j"
    using old es job_of_due by (auto simp: job_of_def[of t])
qed

fun numbered :: "sla_params \<Rightarrow> int \<Rightarrow> (sla_event_type \<times> int) list \<Rightarrow> sla_event list" where
  "numbered ps n [] = []"
| "numbered ps n (x # xs) = new_event ps (fst x) (snd x) (n + 1) # numbered ps (n + 1) xs"

lemma forEach_insert_events:
  "forEach xs (\<lambda>x. insert_sla_event (new_event ps (fst x) (snd x))) s =
     (Inr (), s\<lparr>slaEvents := slaEvents s @ numbered ps (seq s TSlaEvents) xs,
                seq := (seq s)(TSlaEvents := seq s TSlaEvents + int (length xs))\<rparr>)"
  by (induction xs arbitrary: s) (auto simp: insert_sla_event_def nextval_def prog_defs algebra_simps)

lemma numbered_pending:
  "e \<in> set (numbered ps n xs) \<Longrightarrow> sl_periodId e = sp_periodId ps \<and> sl_boqItemId e = Some (sp_boqItemId ps)
     \<and> sl_scenario e = sp_scenario ps \<and> pending_event e"
  by (induction xs arbitrary: n) (auto simp: new_event_def pending_event_def)

definition with_events :: "sla_params \<Rightarrow> db \<Rightarrow> db" where
  "with_events ps s = s\<lparr>slaEvents := slaEvents s @ numbered ps (seq s TSlaEvents) (scenario_events (sp_scenario ps)),
     seq := (seq s)(TSlaEvents := seq s TSlaEvents + int (length (scenario_events (sp_scenario ps))))\<rparr>"

lemma scheduleEvents_run:
  "scheduleEvents ps s = (Inr (), (with_events ps s)\<lparr>slaJobs :=
     queue_all (clock s) (scheduled_now ps (with_events ps s)) (slaJobs s)\<rparr>)"
  by (simp add: scheduleEvents_def andThen_def with_events_def bind_def[of "forEach _ _"] forEach_insert_events
        forEach_queue_event)

lemma schedule_timers: "moves keeps_timers (scheduleEvents ps)"
proof (rule movesI, unfold keeps_timers_def, rule impI)
  fix s assume ok: "timers_ok s"
  show "timers_ok (snd (scheduleEvents ps s))"
    unfolding scheduleEvents_run snd_conv
  proof (rule timers_ok_queue)
    show "set (scheduled_now ps (with_events ps s)) \<subseteq> set (slaEvents (with_events ps s))"
      by (auto simp: scheduled_now_def)
  next
    fix e assume "e \<in> set (slaEvents (with_events ps s))" "pending_event e"
    then show "e \<in> set (scheduled_now ps (with_events ps s)) \<or> (\<exists>j \<in> set (slaJobs s). j_slaEventId j = sl_id e)"
      using ok by (auto simp: timers_ok_def scheduled_now_def with_events_def dest: numbered_pending)
  qed (use ok in \<open>auto simp: timers_ok_def with_events_def\<close>)
qed

lemma recover_timers: "moves keeps_timers recoverPending"
proof (rule movesI, unfold keeps_timers_def, rule impI)
  fix s assume "timers_ok s"
  then have "timers_ok (s\<lparr>slaJobs := queue_all (clock s) (filter pending_event (slaEvents s)) (slaJobs s)\<rparr>)"
    by (intro timers_ok_queue) (auto simp: timers_ok_def)
  then show "timers_ok (snd (recoverPending s))"
    by (simp add: recoverPending_def prog_defs forEach_queue_event)
qed

text \<open>An update of events that keeps their due dates and revives none.\<close>

lemma timers_update:
  assumes "\<And>e. sl_id (g e) = sl_id e \<and> sl_scheduledAt (g e) = sl_scheduledAt e \<and> (pending_event (g e) \<longrightarrow> pending_event e)"
  shows "moves keeps_timers (update_sla_where P g)"
  unfolding update_sla_where_def
proof (rule timer.moves_modify, unfold keeps_timers_def timers_ok_def, intro impI conjI ballI)
  fix s :: db and e
  assume ok: "(\<forall>e\<in>set (slaEvents s). pending_event e \<longrightarrow> (\<exists>j\<in>set (slaJobs s). j_slaEventId j = sl_id e))
    \<and> (\<forall>j\<in>set (slaJobs s). \<exists>e\<in>set (slaEvents s). sl_id e = j_slaEventId j \<and> sl_scheduledAt e \<le> j_addedAt j + j_delay j)"
  { assume "e \<in> set (slaEvents (s\<lparr>slaEvents := update_where P g (slaEvents s)\<rparr>))" "pending_event e"
    then show "\<exists>j \<in> set (slaJobs (s\<lparr>slaEvents := update_where P g (slaEvents s)\<rparr>)). j_slaEventId j = sl_id e"
      using ok assms by (auto simp: set_update_where split: if_splits) }
  { fix j assume "j \<in> set (slaJobs (s\<lparr>slaEvents := update_where P g (slaEvents s)\<rparr>))"
    then obtain x where x: "x \<in> set (slaEvents s)" "sl_id x = j_slaEventId j" "sl_scheduledAt x \<le> j_addedAt j + j_delay j"
      using ok by auto
    then show "\<exists>e \<in> set (slaEvents (s\<lparr>slaEvents := update_where P g (slaEvents s)\<rparr>)). sl_id e = j_slaEventId j
        \<and> sl_scheduledAt e \<le> j_addedAt j + j_delay j"
      using mem_update_where[OF x(1), of P g] assms by (intro bexI[of _ "if P x then g x else x"]) auto }
qed

text \<open>Writes to the other tables.\<close>

lemma timer_frame:
  "moves keeps_timers (audit_log ps)" "moves keeps_timers (insert_notification mkn)"
  "moves keeps_timers (insert_period mkp)" "moves keeps_timers (update_period i gp)"
  "moves keeps_timers (insert_fact mkf)" "moves keeps_timers (update_fact i gf)"
  "moves keeps_timers (insert_snapshot r)" "moves keeps_timers (upsert_work_pace w)"
  "moves keeps_timers (insert_discrepancy mkd)" "moves keeps_timers (update_discrepancy i gd)"
  "moves keeps_timers (insert_photo mkph)" "moves keeps_timers (insert_zero_report mkz)"
  "moves keeps_timers (update_zero_report i gz)" "moves keeps_timers (upsert_zero_item i b mki)"
  "moves keeps_timers (insert_sync mkq)" "moves keeps_timers (update_sync i gq)"
  "moves keeps_timers (delete_snapshots Pr)" "moves keeps_timers (delete_sync Pq)"
  "moves keeps_timers (update_notifications_where Pn gn)"
  by (auto simp: moves_iff_wp write_defs wp_simps keeps_timers_def timers_ok_def split: option.split)

interpretation timer_sla: sla_writes keeps_timers
  by unfold_locales (auto intro!: timer_frame schedule_timers recover_timers timers_update simp: pending_event_def)

end
