(* ===== verification/Dispute.thy ===== *)
theory Dispute
  imports JS_Text Dispute_Sla Period_Service
begin

text \<open>
  \<^verbatim>\<open>DisputeService\<close> and \<^verbatim>\<open>DisputeFlagService\<close> (\<^verbatim>\<open>modules/dispute\<close>): opening a dispute over a measured
  volume, the contractor's response and its rejection, and the flag for positions that are disputed
  again and again.  None of the methods runs in a transaction.
\<close>

section \<open>Strings\<close>

text \<open>\<^verbatim>\<open>!text?.trim()\<close>\<close>

definition is_blank :: "string option \<Rightarrow> bool" where
  "is_blank t = (case t of None \<Rightarrow> True | Some s \<Rightarrow> js_trim s = [])"

section \<open>DisputeService\<close>

definition has_delta :: "period_fact \<Rightarrow> bool" where
  "has_delta f = (case (f_gpVolume f, f_scVolume f) of
     (Some gpVol, Some scVol) \<Rightarrow> \<bar>gpVol - scVol\<bar> \<noteq> 0 | _ \<Rightarrow> False)"

definition dispute_fact :: "period_fact \<Rightarrow> period_fact" where
  "dispute_fact f = f\<lparr>f_discrepancyType := Some 2, f_discrepancyStatus := Some DOpen\<rparr>"

definition new_dispute :: "int \<Rightarrow> string \<Rightarrow> date \<Rightarrow> int \<Rightarrow> discrepancy" where
  "new_dispute factId reason t i =
     \<lparr>d_id = i, d_periodFactId = factId, d_type = 2, d_status = DOpen, d_gpPosition = None,
      d_scPosition = Some (Typed (js_trim reason)), d_directorDecision = None, d_resolvedAt = None,
      d_gcResponseAt = None, d_createdAt = t\<rparr>"

definition createDispute :: "int \<Rightarrow> int \<Rightarrow> int \<Rightarrow> string option \<Rightarrow> discrepancy service" where
  "createDispute periodId boqItemId actorId disputeReason =
     andThen (guard (\<not> is_blank disputeReason) (BadRequestException ''DISPUTE_REASON_REQUIRED''))
    (bind (getsOr (find_period periodId) (PrismaError RecordNotFound)) (\<lambda>per.
     andThen (guard (p_status per = PVerification) (ConflictException ''PERIOD_WRONG_STATUS''))
    (bind (getsOr (find_fact periodId boqItemId) (NotFoundException ''PERIOD_FACT_NOT_FOUND'')) (\<lambda>fact.
     andThen (guard (has_delta fact) (BadRequestException ''NO_DELTA_TO_DISPUTE''))
    (andThen (guardS (has_photo periodId boqItemId) (BadRequestException ''TYPE2_PHOTO_REQUIRED''))
    (andThen (bind (update_fact (f_id fact) dispute_fact) (\<lambda>_. ret ()))
    (bind now (\<lambda>t.
     bind (insert_discrepancy (new_dispute (f_id fact) (the disputeReason) t)) (\<lambda>discrepancy.
     andThen (scheduleEvents \<lparr>sp_periodId = periodId, sp_boqItemId = boqItemId,
                sp_createdAt = d_createdAt discrepancy, sp_scenario = ScenarioA\<rparr>)
       (ret discrepancy))))))))))"

text \<open>A discrepancy with the three columns of its fact.\<close>

definition listDiscrepancies ::
  "int \<Rightarrow> (discrepancy \<times> int \<times> number option \<times> number option) list service" where
  "listDiscrepancies periodId = gets (\<lambda>s. map (\<lambda>x. (fst x, f_boqItemId (snd x), f_scVolume (snd x), f_gpVolume (snd x)))
     (order_desc (\<lambda>x. d_createdAt (fst x))
       (filter (\<lambda>x. f_periodId (snd x) = periodId)
         (List.map_filter (\<lambda>d. map_option (Pair d) (discrepancy_fact s d)) (discrepancies s)))))"

definition find_discrepancy :: "int \<Rightarrow> db \<Rightarrow> discrepancy option" where
  "find_discrepancy i s = List.find (\<lambda>d. d_id d = i) (discrepancies s)"

definition respond :: "string \<Rightarrow> date \<Rightarrow> discrepancy \<Rightarrow> discrepancy" where
  "respond gpPosition t d = d\<lparr>d_gpPosition := Some (js_trim gpPosition), d_gcResponseAt := Some t\<rparr>"

definition submitGpResponse :: "int \<Rightarrow> string option \<Rightarrow> discrepancy service" where
  "submitGpResponse discrepancyId gpPosition =
     andThen (guard (\<not> is_blank gpPosition) (BadRequestException ''GP_POSITION_REQUIRED''))
    (bind (getsOr (find_discrepancy discrepancyId) (PrismaError RecordNotFound)) (\<lambda>discrepancy.
     bind (getsOr (\<lambda>s. discrepancy_fact s discrepancy) (PrismaError RecordNotFound)) (\<lambda>fact.
     andThen (guard (d_status discrepancy = DOpen) (ConflictException ''DISCREPANCY_WRONG_STATUS''))
    (bind now (\<lambda>t.
     bind (update_discrepancy discrepancyId (respond (the gpPosition) t)) (\<lambda>updated.
     andThen (cancelEvents (f_periodId fact) (f_boqItemId fact))
       (ret updated)))))))"

definition rejectGpResponse :: "int \<Rightarrow> unit service" where
  "rejectGpResponse discrepancyId =
     bind (getsOr (find_discrepancy discrepancyId) (PrismaError RecordNotFound)) (\<lambda>discrepancy.
     bind (getsOr (\<lambda>s. discrepancy_fact s discrepancy) (PrismaError RecordNotFound)) (\<lambda>fact.
     andThen (guard (d_status discrepancy = DOpen) (ConflictException ''DISCREPANCY_WRONG_STATUS''))
       (case d_gcResponseAt discrepancy of
          None \<Rightarrow> throw (ConflictException ''GP_RESPONSE_NOT_SUBMITTED'')
        | Some respondedAt \<Rightarrow> scheduleEvents \<lparr>sp_periodId = f_periodId fact, sp_boqItemId = f_boqItemId fact,
                       sp_createdAt = respondedAt, sp_scenario = ScenarioB\<rparr>)))"

section \<open>DisputeFlagService\<close>

definition DEFAULT_N_FLAG :: number where
  "DEFAULT_N_FLAG = 3"

definition DEFAULT_M_WINDOW :: number where
  "DEFAULT_M_WINDOW = 5"

definition flag_config :: "string \<Rightarrow> string \<Rightarrow> number \<Rightarrow> db \<Rightarrow> number" where
  "flag_config organizationId key d s =
     (case List.find (\<lambda>r. c_organizationId r = organizationId \<and> c_key r = key) (systemConfig s) of
        None \<Rightarrow> d | Some r \<Rightarrow> (case c_valueNumeric r of None \<Rightarrow> d | Some v \<Rightarrow> v))"

definition getRecentPeriodIds :: "int \<Rightarrow> number \<Rightarrow> int list service" where
  "getRecentPeriodIds periodId mWindow =
     bind (getsOr (find_period periodId) (PrismaError RecordNotFound)) (\<lambda>per.
     andThen (guard (is_integer mWindow) (PrismaError InvalidArgument))
       (gets (\<lambda>s. map p_id (take_rows mWindow (order_desc p_periodNumber
          (filter (\<lambda>p. p_objectId p = p_objectId per \<and> p_periodNumber p \<le> p_periodNumber per) (periods s)))))))"

definition type2_count :: "int \<Rightarrow> int list \<Rightarrow> db \<Rightarrow> nat" where
  "type2_count boqItemId periodIds s = length (filter (\<lambda>d. d_type d = 2
     \<and> (case discrepancy_fact s d of None \<Rightarrow> False
        | Some f \<Rightarrow> f_boqItemId f = boqItemId \<and> f_periodId f \<in> set periodIds)) (discrepancies s))"

text \<open>\<^verbatim>\<open>aggregate({ _sum: { scVolume } })\<close>: the sum of the values that are there, null if there is none.\<close>

definition sum_scVolume :: "int \<Rightarrow> db \<Rightarrow> number option" where
  "sum_scVolume boqItemId s =
     (let vs = List.map_filter f_scVolume (filter (\<lambda>f. f_boqItemId f = boqItemId) (periodFacts s))
      in if vs = [] then None else Some (sum_list vs))"

definition detectSystemicFlag :: "int \<Rightarrow> int \<Rightarrow> string \<Rightarrow> unit service" where
  "detectSystemicFlag periodId boqItemId organizationId =
     bind (gets (flag_config organizationId ''N_flag_threshold'' DEFAULT_N_FLAG)) (\<lambda>nThreshold.
     bind (gets (flag_config organizationId ''M_flag_window'' DEFAULT_M_WINDOW)) (\<lambda>mWindow.
     bind (getRecentPeriodIds periodId mWindow) (\<lambda>recentPeriodIds.
     bind (gets (type2_count boqItemId recentPeriodIds)) (\<lambda>type2Count.
     if of_nat type2Count < nThreshold then ret ()
     else bind (gets (sum_scVolume boqItemId)) (\<lambda>cumulativeDelta.
          bind (gets (users_with_role organizationId Director)) (\<lambda>directors.
          notify_users directors ''systemic_dispute_flag'' ''period_facts'' boqItemId
            (SystemicFlagText type2Count mWindow cumulativeDelta)))))))"

definition clearSystemicFlag :: "int \<Rightarrow> string \<Rightarrow> unit service" where
  "clearSystemicFlag boqItemId organizationId =
     bind (gets (users_with_role organizationId Director)) (\<lambda>directors.
     if directors = [] then ret ()
     else bind now (\<lambda>t. update_notifications_where
       (\<lambda>n. n_userId n \<in> set (map u_id directors) \<and> n_type n = ''systemic_dispute_flag''
            \<and> n_referenceId n = boqItemId \<and> n_readAt n = None)
       (\<lambda>n. n\<lparr>n_readAt := Some t\<rparr>)))"

section \<open>What the two classes write\<close>

locale dispute_writes = sla_writes R for R :: "db \<Rightarrow> db \<Rightarrow> bool" +
  assumes discrepancy_insert: "(\<And>i. d_id (mkd i) = i) \<Longrightarrow> moves R (insert_discrepancy mkd)"
    and discrepancy_respond: "moves R (update_discrepancy i (respond txt' t))"
    and fact_dispute: "moves R (update_fact i dispute_fact)"
    and notification_read: "moves R (update_notifications_where P (\<lambda>n. n\<lparr>n_readAt := Some t\<rparr>))"
begin

lemma moves_createDispute: "moves R (createDispute p b actor reason)"
  unfolding createDispute_def now_def
  by (intro moves_rules schedule discrepancy_insert fact_dispute) (simp add: new_dispute_def)

lemma moves_submitGpResponse: "moves R (submitGpResponse d pos)"
  unfolding submitGpResponse_def now_def
  by (intro moves_rules discrepancy_respond moves_cancelEvents)

lemma moves_rejectGpResponse: "moves R (rejectGpResponse d)"
  unfolding rejectGpResponse_def by (intro moves_rules schedule)

lemma moves_detectSystemicFlag: "moves R (detectSystemicFlag p b org)"
  unfolding detectSystemicFlag_def getRecentPeriodIds_def by (intro moves_rules moves_notify)

lemma moves_clearSystemicFlag: "moves R (clearSystemicFlag b org)"
  unfolding clearSystemicFlag_def now_def by (intro moves_rules notification_read)

end

lemma dispute_keys [simp]:
  "f_id (dispute_fact f) = f_id f" "fact_key (dispute_fact f) = fact_key f"
  "f_version (dispute_fact f) = f_version f" "d_id (respond txt' t d) = d_id d"
  by (simp_all add: dispute_fact_def respond_def fact_key_def)

interpretation ev_dispute: dispute_writes evolves
  by unfold_locales (auto intro!: ev_writes)

interpretation static_dispute: dispute_writes same_static
  by unfold_locales (rule static_writes)+

interpretation pers_dispute: dispute_writes same_periods
  by unfold_locales (rule period_writes)+

interpretation zero_dispute: dispute_writes same_zero
  by unfold_locales (rule zero_frame)+

interpretation timer_dispute: dispute_writes keeps_timers
  by unfold_locales (rule timer_frame)+

interpretation timer_period: period_writes keeps_timers
  by unfold_locales (rule timer_frame)+

end
