(* ===== verification/Dispute_Props.thy ===== *)
theory Dispute_Props
  imports Dispute Period_Props
begin

text \<open>
  Correctness of the disputes and their timers: what opening a dispute, answering it and a firing timer
  do to the store; that a timer acts at most once; that a response silences the timers of its position.
\<close>

section \<open>Updating a fact that is there\<close>

lemma wp_update_fact_at:
  assumes ok: "db_ok s" and f: "find_fact p b s = Some f"
    and key: "fact_key (g f) = fact_key f" and chk: "fact_checks (g f)"
  shows "wp (update_fact (f_id f) g) Q E s =
           Q (bump_version f (g f)) (s\<lparr>periodFacts :=
               update_where (\<lambda>q. f_id q = f_id f) (\<lambda>_. bump_version f (g f)) (periodFacts s)\<rparr>)"
proof -
  have mem: "f \<in> set (periodFacts s)" using f find_fact_iff[OF ok] by simp
  then have "List.find (\<lambda>q. f_id q = f_id f) (periodFacts s) = Some f"
    using ok by (auto simp: db_ok_defs dest: keyed_find)
  moreover have "item_in_period_version (boqItems s) (periods s) (bump_version f (g f))"
    using ok mem key item_in_version_key[of "bump_version f (g f)" f] by (simp add: db_ok_defs list_all_iff)
  ultimately show ?thesis using chk by (simp add: update_fact_def check_fact_def wp_simps)
qed

lemma facts_map_update_at:
  assumes "db_ok s" and "find_fact p b s = Some f" and "fact_key new = fact_key f"
  shows "facts_map (s\<lparr>periodFacts := update_where (\<lambda>q. f_id q = f_id f) (\<lambda>_. new) (periodFacts s)\<rparr>)
           = (facts_map s)((p, b) \<mapsto> new)"
  using assms facts_map_update[of s f new] find_fact_iff[OF assms(1)] by (auto simp: fact_key_def)

lemma db_ok_fact_checks: "db_ok s \<Longrightarrow> find_fact p b s = Some f \<Longrightarrow> fact_checks f"
  using find_fact_iff by (auto simp: db_ok_defs list_all_iff)

lemma dispute_facts_map: "periodFacts t = periodFacts s \<Longrightarrow> facts_map t = facts_map s"
  by (simp add: facts_map_def find_fact_def)

lemma wp_scheduleEvents [wp_simps]:
  "wp (scheduleEvents ps) Q E = (\<lambda>s. Q () ((with_events ps s)\<lparr>slaJobs :=
     queue_all (clock s) (scheduled_now ps (with_events ps s)) (slaJobs s)\<rparr>))"
  by (rule ext) (simp add: wp_def scheduleEvents_run)

section \<open>createDispute\<close>

definition dispute_params :: "int \<Rightarrow> int \<Rightarrow> date \<Rightarrow> sla_params" where
  "dispute_params p b t = \<lparr>sp_periodId = p, sp_boqItemId = b, sp_createdAt = t, sp_scenario = ScenarioA\<rparr>"

definition dispute_ok :: "int \<Rightarrow> int \<Rightarrow> string option \<Rightarrow> period_fact \<Rightarrow> db \<Rightarrow> bool" where
  "dispute_ok p b reason f s \<longleftrightarrow>
     \<not> is_blank reason \<and> (\<exists>per. find_period p s = Some per \<and> p_status per = PVerification)
     \<and> facts_map s (p, b) = Some f \<and> has_delta f \<and> has_photo p b s"

definition dispute_opened ::
  "int \<Rightarrow> int \<Rightarrow> string option \<Rightarrow> period_fact \<Rightarrow> db \<Rightarrow> discrepancy \<Rightarrow> db \<Rightarrow> bool" where
  "dispute_opened p b reason f s d s' \<longleftrightarrow>
     (let n = seq s TSlaEvents; ps = dispute_params p b (clock s);
          e3 = new_event ps NotifyDirectorDay3 3 (n + 1); e5 = new_event ps ForceCloseDay5 5 (n + 2) in
       d = new_dispute (f_id f) (the reason) (clock s) (d_id d)
       \<and> discrepancies s' = discrepancies s @ [d]
       \<and> facts_map s' = (facts_map s)((p, b) \<mapsto> bump_version f (dispute_fact f))
       \<and> slaEvents s' = slaEvents s @ [e3, e5]
       \<and> (\<exists>j \<in> set (slaJobs s'). j_slaEventId j = n + 1) \<and> (\<exists>j \<in> set (slaJobs s'). j_slaEventId j = n + 2)
       \<and> periods s' = periods s \<and> auditLog s' = auditLog s)"

lemma scheduled_has:
  "e \<in> set (numbered ps (seq s TSlaEvents) (scenario_events (sp_scenario ps))) \<Longrightarrow>
   \<exists>j \<in> set (queue_all t (scheduled_now ps (with_events ps s)) js). j_slaEventId j = sl_id e"
  by (rule queue_all_has) (auto simp: scheduled_now_def with_events_def dest: numbered_pending)

text \<open>What scheduling adds to a store in which the fact and the discrepancy are already written.\<close>

lemma dispute_scheduled:
  assumes "ps = dispute_params p b (clock s)" and "d = new_dispute (f_id f) (the reason) (clock s) (d_id d)"
    and "facts_map t = (facts_map s)((p, b) \<mapsto> bump_version f (dispute_fact f))"
    and "discrepancies t = discrepancies s @ [d]" and "seq t TSlaEvents = seq s TSlaEvents"
    and "slaEvents t = slaEvents s" and "periods t = periods s" and "auditLog t = auditLog s"
  shows "dispute_opened p b reason f s d
           ((with_events ps t)\<lparr>slaJobs := queue_all c (scheduled_now ps (with_events ps t)) js\<rparr>)"
proof -
  have facts: "facts_map ((with_events ps t)\<lparr>slaJobs := js'\<rparr>) = (facts_map s)((p, b) \<mapsto> bump_version f (dispute_fact f))" for js'
    using assms(3) dispute_facts_map[of "(with_events ps t)\<lparr>slaJobs := js'\<rparr>" t] by (simp add: with_events_def)
  have new: "\<exists>j \<in> set (queue_all c (scheduled_now ps (with_events ps t)) js). j_slaEventId j = sl_id e"
    if "e \<in> set (numbered ps (seq s TSlaEvents) (scenario_events ScenarioA))" for e
    using scheduled_has[of e ps t c js] that by (simp add: assms(1,5) dispute_params_def)
  have ids: "\<exists>j \<in> set (queue_all c (scheduled_now ps (with_events ps t)) js). j_slaEventId j = seq s TSlaEvents + 1"
    "\<exists>j \<in> set (queue_all c (scheduled_now ps (with_events ps t)) js). j_slaEventId j = seq s TSlaEvents + 2"
    using new[of "new_event ps NotifyDirectorDay3 3 (seq s TSlaEvents + 1)"]
      new[of "new_event ps ForceCloseDay5 5 (seq s TSlaEvents + 2)"]
    by (simp_all add: new_event_def)
  have "slaEvents (with_events ps t) = slaEvents s @ [new_event ps NotifyDirectorDay3 3 (seq s TSlaEvents + 1),
      new_event ps ForceCloseDay5 5 (seq s TSlaEvents + 2)]"
    by (simp add: with_events_def assms(1,5,6) dispute_params_def add.commute)
  then show ?thesis
    using assms(2,4,7,8) ids unfolding dispute_opened_def Let_def facts
    by (simp add: with_events_def assms(1))
qed

lemma dispute_checks [simp]: "fact_checks f \<Longrightarrow> fact_checks (dispute_fact f)"
  by (simp add: fact_checks_def dispute_fact_def)

lemma wp_createDispute:
  assumes ok: "db_ok s"
  shows "wp (createDispute p b actor reason)
           (\<lambda>d t. \<exists>f. dispute_ok p b reason f s \<and> dispute_opened p b reason f s d t) (\<lambda>_ t. t = s) s"
proof -
  have tail: "wp (bind (update_fact (f_id f) dispute_fact) (\<lambda>_. ret ()))
      (\<lambda>_. wp (bind now (\<lambda>t. bind (insert_discrepancy (new_dispute (f_id f) (the reason) t)) (\<lambda>d.
         andThen (scheduleEvents \<lparr>sp_periodId = p, sp_boqItemId = b, sp_createdAt = d_createdAt d, sp_scenario = ScenarioA\<rparr>)
           (ret d)))) (\<lambda>d t. dispute_opened p b reason f s d t) (\<lambda>_ t. t = s)) (\<lambda>_ t. t = s) s"
    if f: "find_fact p b s = Some f" for f
  proof -
    let ?u = "update_where (\<lambda>q. f_id q = f_id f) (\<lambda>_. bump_version f (dispute_fact f)) (periodFacts s)"
    have fm: "facts_map (s\<lparr>periodFacts := ?u, seq := q, discrepancies := ds\<rparr>)
        = (facts_map s)((p, b) \<mapsto> bump_version f (dispute_fact f))" for q ds
      using facts_map_update_at[OF ok f, of "bump_version f (dispute_fact f)"]
        dispute_facts_map[of "s\<lparr>periodFacts := ?u, seq := q, discrepancies := ds\<rparr>" "s\<lparr>periodFacts := ?u\<rparr>"] by simp
    show ?thesis
      using f db_ok_fact_checks[OF ok f]
      by (simp add: wp_bind wp_update_fact_at[OF ok f] wp_now wp_ret wp_andThen insert_discrepancy_def wp_simps)
         (rule dispute_scheduled, simp_all only: fm, simp_all add: dispute_params_def new_dispute_def)
  qed
  show ?thesis
    unfolding createDispute_def wp_andThen[of "guard b e" for b e] wp_bind[of "getsOr h e" for h e]
      wp_andThen[of "guardS b e" for b e] wp_getsOr wp_guard wp_guardS
    using tail
    by (auto simp: dispute_ok_def facts_map_def wp_andThen split: option.split elim!: wp_mono)
qed

section \<open>Firing timers\<close>

lemma find_event_iff:
  "db_ok s \<Longrightarrow> find_event i s = Some e \<longleftrightarrow> e \<in> set (slaEvents s) \<and> sl_id e = i"
  unfolding find_event_def by (auto simp: db_ok_defs dest: find_SomeD keyed_find)

lemma process_settled:
  "find_event i s = Some e \<Longrightarrow> \<not> pending_event e \<Longrightarrow> process i s = (Inr (), s)"
  by (auto simp: process_def pending_event_def prog_defs)

text \<open>An event that is executed or cancelled stays so, and its job does nothing.\<close>

lemma process_settled_later:
  assumes ok: "db_ok s" and ev: "evolves s t" and e: "find_event i s = Some e" and done': "\<not> pending_event e"
  shows "process i t = (Inr (), t)"
proof -
  have e': "e \<in> set (slaEvents s)" "sl_id e = i" using e find_event_iff[OF ok] by auto
  have kept: "sla_kept s t" and ok': "db_ok t" using ev ok by (simp_all add: evolves_def)
  obtain e2 where "e2 \<in> set (slaEvents t)" "sl_id e2 = i" "\<not> pending_event e2"
    using kept e' done' unfolding sla_kept_def pending_event_def by metis
  then show ?thesis using process_settled find_event_iff[OF ok'] by blast
qed

lemma find_event_executed:
  "find_event i (s\<lparr>slaEvents := update_where (\<lambda>e. sl_id e = i) (\<lambda>e. e\<lparr>sl_executedAt := Some t\<rparr>) (slaEvents s)\<rparr>)
     = map_option (\<lambda>e. e\<lparr>sl_executedAt := Some t\<rparr>) (find_event i s)"
proof -
  have "List.find (\<lambda>e. sl_id e = i) (update_where (\<lambda>e. sl_id e = i) (\<lambda>e. e\<lparr>sl_executedAt := Some t\<rparr>) es)
      = map_option (\<lambda>e. e\<lparr>sl_executedAt := Some t\<rparr>) (List.find (\<lambda>e. sl_id e = i) es)" for es
    by (induction es) auto
  then show ?thesis by (simp add: find_event_def)
qed

text \<open>The handlers do not write the table of events.\<close>

definition same_events :: "db \<Rightarrow> db \<Rightarrow> bool" where
  "same_events s s' \<longleftrightarrow> slaEvents s' = slaEvents s \<and> clock s' = clock s"

interpretation sev: step_rel same_events keep_outside
  by unfold_locales (auto simp: same_events_def keep_outside_def)

lemma handle_event_events: "moves same_events (handle_event ev)"
proof -
  have "moves same_events (insert_notification mkn)" "moves same_events (update_discrepancy i gd)"
    "moves same_events (update_fact i gf)" for mkn i gd gf
    by (auto simp: moves_iff_wp write_defs wp_simps same_events_def split: option.split)
  then show ?thesis
    by (cases "sl_eventType ev")
       (auto simp: handle_event_def handleNotify_def handleDirectorDeadline_def handleForceClose_def Let_def
          getDirectors_def now_def notify_users_def intro!: sev.moves_rules)
qed

lemma process_executes:
  assumes "process i s = (Inr (), s')" and "find_event i s = Some e"
  shows "\<exists>e'. find_event i s' = Some e' \<and> \<not> pending_event e'"
proof (cases "pending_event e")
  case False
  then show ?thesis using assms process_settled[OF assms(2)] by auto
next
  case True
  have i: "sl_id e = i" using assms(2) find_SomeD[of "\<lambda>e. sl_id e = i"] by (auto simp: find_event_def)
  have "wp (handle_event e) (\<lambda>_ t. find_event i t = Some e) (\<lambda>_ _. True) s"
    by (rule wp_of_moves[OF handle_event_events])
       (use assms(2) in \<open>simp_all add: same_events_def find_event_def\<close>)
  then have "wp (process i) (\<lambda>_ t. \<exists>e'. find_event i t = Some e' \<and> \<not> pending_event e') (\<lambda>_ _. True) s"
    using True assms(2) i
    by (auto simp: process_def pending_event_def wp_gets wp_bind wp_andThen wp_now update_sla_where_def wp_modify
          find_event_executed elim!: wp_mono)
  then show ?thesis using assms(1) by (simp add: wp_def)
qed

section \<open>Forced closing\<close>

lemma bump_force [simp]: "bump_version f (force_fact v f) = force_fact v f"
  by (simp add: bump_version_def force_fact_def)

lemma force_checks: "fact_checks f \<Longrightarrow> fact_checks (force_fact (f_scVolume f) f)"
  by (simp add: fact_checks_def force_fact_def)

definition force_event :: "sla_event \<Rightarrow> bool" where
  "force_event e \<longleftrightarrow> sl_eventType e = ForceCloseDay5 \<or> sl_eventType e = ScFigureAppliedDay14"

definition forced :: "sla_event \<Rightarrow> discrepancy \<Rightarrow> period_fact \<Rightarrow> db \<Rightarrow> db \<Rightarrow> bool" where
  "forced e d f s s' \<longleftrightarrow>
     discrepancies s' = update_where (\<lambda>x. d_id x = d_id d) (force_discrepancy (clock s)) (discrepancies s)
     \<and> facts_map s' = (facts_map s)((f_periodId f, f_boqItemId f) \<mapsto> force_fact (f_scVolume f) f)
     \<and> slaEvents s' = update_where (\<lambda>x. sl_id x = sl_id e) (\<lambda>x. x\<lparr>sl_executedAt := Some (clock s)\<rparr>) (slaEvents s)
     \<and> periods s' = periods s \<and> slaJobs s' = slaJobs s \<and> notifications s' = notifications s
     \<and> auditLog s' = auditLog s"

lemma process_forces:
  assumes ok: "db_ok s" and e: "find_event i s = Some e" "pending_event e" "force_event e"
    and d: "findOpenDiscrepancy e s = Some d" and f: "discrepancy_fact s d = Some f"
  shows "\<exists>s'. process i s = (Inr (), s') \<and> forced e d f s s'"
proof -
  have fact: "f \<in> set (periodFacts s)" "f_id f = d_periodFactId d"
    using find_SomeD[OF f[unfolded discrepancy_fact_def]] by auto
  then have at: "find_fact (f_periodId f) (f_boqItemId f) s = Some f" by (simp add: find_fact_iff[OF ok])
  have dis: "d \<in> set (discrepancies s)" using find_SomeD[OF d[unfolded findOpenDiscrepancy_def]] by simp
  then have dfind: "List.find (\<lambda>x. d_id x = d_id d) (discrepancies s) = Some d"
    using ok by (auto simp: db_ok_defs dest: keyed_find)
  let ?t = "s\<lparr>discrepancies := update_where (\<lambda>x. d_id x = d_id d) (force_discrepancy (clock s)) (discrepancies s)\<rparr>"
  let ?u = "update_where (\<lambda>q. f_id q = f_id f) (\<lambda>_. force_fact (f_scVolume f) f) (periodFacts s)"
  have ok_t: "db_ok ?t" using ok by (auto simp: db_ok_defs keyed_update_where)
  have at_t: "find_fact (f_periodId f) (f_boqItemId f) ?t = Some f" using at by (simp add: find_fact_def)
  have upd: "wp (update_fact (d_periodFactId d) (force_fact (f_scVolume f))) Q E ?t
      = Q (force_fact (f_scVolume f) f) (?t\<lparr>periodFacts := ?u\<rparr>)" for Q E
    using wp_update_fact_at[OF ok_t at_t, of "force_fact (f_scVolume f)"] force_checks[OF db_ok_fact_checks[OF ok at]]
    by (simp add: fact(2))
  have fm: "facts_map (s\<lparr>discrepancies := ds, periodFacts := ?u, slaEvents := es\<rparr>)
      = (facts_map s)((f_periodId f, f_boqItemId f) \<mapsto> force_fact (f_scVolume f) f)" for ds es
    using facts_map_update_at[OF ok at, of "force_fact (f_scVolume f) f"]
      dispute_facts_map[of "s\<lparr>discrepancies := ds, periodFacts := ?u, slaEvents := es\<rparr>" "s\<lparr>periodFacts := ?u\<rparr>"] by simp
  have "wp (process i) (\<lambda>_ s'. forced e d f s s') (\<lambda>_ _. False) s"
    using e d f dfind
    by (auto simp: process_def pending_event_def force_event_def handle_event_def handleForceClose_def
          update_discrepancy_def wp_simps upd update_sla_where_def forced_def fm)
  then show ?thesis by (auto simp: wp_def split: prod.splits sum.splits)
qed

section \<open>Responses\<close>

definition response_ok :: "int \<Rightarrow> string option \<Rightarrow> discrepancy \<Rightarrow> period_fact \<Rightarrow> db \<Rightarrow> bool" where
  "response_ok i pos d f s \<longleftrightarrow> \<not> is_blank pos \<and> find_discrepancy i s = Some d \<and> d_status d = DOpen
     \<and> discrepancy_fact s d = Some f"

definition response_recorded :: "int \<Rightarrow> string option \<Rightarrow> period_fact \<Rightarrow> db \<Rightarrow> db \<Rightarrow> bool" where
  "response_recorded i pos f s s' \<longleftrightarrow>
     s' = s\<lparr>discrepancies := update_where (\<lambda>d. d_id d = i) (respond (the pos) (clock s)) (discrepancies s),
            slaEvents := update_where (\<lambda>e. sl_periodId e = f_periodId f \<and> sl_boqItemId e = Some (f_boqItemId f)
                                         \<and> pending_event e)
                           (\<lambda>e. e\<lparr>sl_isCancelled := True\<rparr>) (slaEvents s)\<rparr>"

lemma wp_submitGpResponse:
  "wp (submitGpResponse i pos)
     (\<lambda>d' t. \<exists>d f. response_ok i pos d f s \<and> d' = respond (the pos) (clock s) d \<and> response_recorded i pos f s t)
     (\<lambda>_ t. t = s) s"
  by (auto simp: submitGpResponse_def wp_simps response_ok_def response_recorded_def update_discrepancy_def
        find_discrepancy_def cancelEvents_def update_sla_where_def split: option.split)

lemma response_settles:
  assumes "response_recorded i pos f s s'" and "e \<in> set (slaEvents s')"
    and "sl_periodId e = f_periodId f" and "sl_boqItemId e = Some (f_boqItemId f)"
  shows "\<not> pending_event e"
  using assms by (auto simp: response_recorded_def set_update_where pending_event_def split: if_splits)

end
