(* ===== verification/Dispute_Theorems.thy ===== *)
theory Dispute_Theorems
  imports Dispute_Props Period_Theorems
begin

text \<open>
  The properties of the disputes and their timers.  The witnesses start from \<open>contested\<close>: a period in
  verification in which the stroycontrol measured 7 where the contractor claimed 5, with a photo.
\<close>

definition disputed :: db where
  "disputed = final (createDispute 101 30 1 (Some ''too much'')) contested"

lemma disputed_runs: "returns (createDispute 101 30 1 (Some ''too much'')) contested"
  by code_simp

lemma response_runs: "returns (submitGpResponse 101 (Some ''our act'')) disputed"
  by code_simp

lemma process_runs: "process 101 disputed = (Inr (), final (process 101) disputed)"
  by (rule returns_run[of "process 101" disputed, unfolded unit_eq, simplified]) code_simp

lemma dispute_samples_ok: "db_ok contested" "db_ok disputed"
  by code_simp+

section \<open>Disputes\<close>

text \<open>
  C19.  \<^verbatim>\<open>createDispute\<close> succeeds only with a reason, on a period in verification, for a fact whose two
  volumes differ and that has a photo; it then makes the fact an open type 2 discrepancy, adds the
  discrepancy, plans the reminder of day 3 and the forced closing of day 5 from now, with a job for
  each, and changes no period.  When it throws, nothing has changed.
\<close>

theorem createDispute_correct:
  assumes "db_ok s" and "createDispute p b actor reason s = (r, s')"
  shows "case r of
           Inl e \<Rightarrow> s' = s
         | Inr d \<Rightarrow> \<exists>f. dispute_ok p b reason f s \<and> dispute_opened p b reason f s d s'"
  using wp_createDispute[OF assms(1), of p b actor reason] assms(2) by (simp add: wp_def split: sum.splits)

theorem createDispute_correct_witness:
  "\<exists>f d. dispute_opened 101 30 (Some ''too much'') f contested d disputed"
  using createDispute_correct[OF dispute_samples_ok(1) returns_run[OF disputed_runs]]
  by (auto simp: disputed_def)

text \<open>
  C20.  A response of the general contractor is recorded on an open discrepancy and silences its timers:
  afterwards no event of that position is pending, and the job of any of them does nothing.
\<close>

theorem gp_response_silences_timers:
  assumes "db_ok s" and "submitGpResponse i pos s = (Inr d', s')"
  shows "\<exists>d f. response_ok i pos d f s \<and> d' = respond (the pos) (clock s) d \<and> response_recorded i pos f s s'
     \<and> (\<forall>e \<in> set (slaEvents s'). sl_periodId e = f_periodId f \<and> sl_boqItemId e = Some (f_boqItemId f)
           \<longrightarrow> process (sl_id e) s' = (Inr (), s'))"
proof -
  obtain d f where res: "response_ok i pos d f s" "d' = respond (the pos) (clock s) d" "response_recorded i pos f s s'"
    using wp_Inr[OF assms(2) wp_submitGpResponse] by metis
  have "db_ok s'" using movesD[OF ev_dispute.moves_submitGpResponse assms(2)] assms(1) by (rule evolves_db_ok)
  then have "process (sl_id e) s' = (Inr (), s')"
    if "e \<in> set (slaEvents s')" "sl_periodId e = f_periodId f" "sl_boqItemId e = Some (f_boqItemId f)" for e
    using response_settles[OF res(3) that] that(1) find_event_iff process_settled by blast
  with res show ?thesis by blast
qed

theorem gp_response_silences_timers_witness:
  "\<exists>d f. response_ok 101 (Some ''our act'') d f disputed"
  using gp_response_silences_timers[OF dispute_samples_ok(2) returns_run[OF response_runs]] by auto

section \<open>Timers\<close>

text \<open>
  C21.  A timer acts at most once: when the worker has processed an event, its job does nothing whatever
  the services did in between.
\<close>

theorem sla_event_acts_once:
  assumes "db_ok s" and "process i s = (Inr (), s')" and "find_event i s = Some e" and "evolves s' t"
  shows "process i t = (Inr (), t)"
proof -
  have "db_ok s'" using movesD[OF ev_sla.moves_process assms(2)] assms(1) by (rule evolves_db_ok)
  then show ?thesis
    using process_executes[OF assms(2,3)] process_settled_later[OF _ assms(4)] by blast
qed

theorem sla_event_acts_once_witness:
  "process 101 (final (process 101) disputed) = (Inr (), final (process 101) disputed)"
proof -
  have "find_event 101 disputed \<noteq> None" by code_simp
  then obtain e where "find_event 101 disputed = Some e" by blast
  from sla_event_acts_once[OF dispute_samples_ok(2) process_runs this evolves_refl] show ?thesis .
qed

text \<open>
  C22.  The forced closing of day 5 and of day 14: processing such an event, still pending, with an open
  discrepancy for its position, always succeeds; it resolves that discrepancy with the stroycontrol's
  measured volume as the accepted one, marks the event executed, and touches no other fact,
  discrepancy or event.
\<close>

theorem force_close_applies_sc_volume:
  assumes "db_ok s" and "find_event i s = Some e" and "pending_event e" and "force_event e"
    and "findOpenDiscrepancy e s = Some d" and "discrepancy_fact s d = Some f"
  shows "\<exists>s'. process i s = (Inr (), s') \<and> forced e d f s s'"
  using assms by (rule process_forces)

theorem force_close_applies_sc_volume_witness:
  "\<exists>s'. process 102 disputed = (Inr (), s')
     \<and> map_option f_acceptedVolume (facts_map s' (101, 30)) = Some (Some 7)"
proof -
  have "(case find_event 102 disputed of None \<Rightarrow> False
         | Some e \<Rightarrow> pending_event e \<and> force_event e \<and> (case findOpenDiscrepancy e disputed of None \<Rightarrow> False
             | Some d \<Rightarrow> (case discrepancy_fact disputed d of None \<Rightarrow> False
                 | Some f \<Rightarrow> f_periodId f = 101 \<and> f_boqItemId f = 30 \<and> f_scVolume f = Some 7)))"
    by code_simp
  then obtain e d f where "find_event 102 disputed = Some e" "pending_event e" "force_event e"
    "findOpenDiscrepancy e disputed = Some d" "discrepancy_fact disputed d = Some f"
    and f: "f_periodId f = 101" "f_boqItemId f = 30" "f_scVolume f = Some 7"
    by (auto split: option.splits)
  from force_close_applies_sc_volume[OF dispute_samples_ok(2) this(1-5)] f
  show ?thesis by (auto simp: forced_def force_fact_def)
qed

text \<open>
  C23.  No timer is lost across a restart, and none fires early: when no job in the queue fires before
  its event is due, then after the recovery at start-up every pending event has a job, and still no job
  fires early.
\<close>

theorem recovery_queues_every_pending_event:
  assumes "\<And>j. j \<in> set (slaJobs s) \<Longrightarrow> \<exists>e \<in> set (slaEvents s). sl_id e = j_slaEventId j
             \<and> sl_scheduledAt e \<le> j_addedAt j + j_delay j"
  shows "\<exists>s'. onModuleInit s = (Inr (), s') \<and> timers_ok s' \<and> slaEvents s' = slaEvents s"
proof -
  let ?es = "filter pending_event (slaEvents s)"
  have "timers_ok (s\<lparr>slaJobs := queue_all (clock s) ?es (slaJobs s)\<rparr>)"
    by (rule timers_ok_queue) (use assms in auto)
  moreover have "onModuleInit s = (Inr (), s\<lparr>slaJobs := queue_all (clock s) ?es (slaJobs s)\<rparr>)"
    by (simp add: onModuleInit_def recoverPending_def prog_defs forEach_queue_event)
  ultimately show ?thesis by auto
qed

theorem recovery_queues_every_pending_event_witness:
  "\<exists>s'. onModuleInit (disputed\<lparr>slaJobs := []\<rparr>) = (Inr (), s') \<and> timers_ok s'"
  using recovery_queues_every_pending_event[of "disputed\<lparr>slaJobs := []\<rparr>"] by auto

end
