(* ===== verification/Sync.thy ===== *)
theory Sync
  imports Period_Lifecycle Dispute
begin

text \<open>
  \<^verbatim>\<open>SyncService\<close> and \<^verbatim>\<open>SyncArchivalWorker\<close> (\<^verbatim>\<open>modules/sync\<close>): the operations a device made offline,
  replayed one by one against the period service, with version conflicts, escalations, retries and
  photos.

  The body of a request is a JSON value.  \<^verbatim>\<open>Date.parse\<close>, whose result on most texts ECMAScript leaves to
  the implementation, is the argument \<open>parseDate\<close>; the argument \<open>s3\<close> tells whether the object store
  accepts a key.
\<close>

section \<open>Results\<close>

record sync_result =
  sr_clientOpId :: "string option"
  sr_status :: sync_status
  sr_syncQueueId :: "int option"
  sr_reason :: "string option"
  sr_conflictData :: "json option"
  sr_duplicate :: bool

definition result_with ::
  "string option \<Rightarrow> sync_status \<Rightarrow> int option \<Rightarrow> string option \<Rightarrow> json option \<Rightarrow> bool \<Rightarrow> sync_result" where
  "result_with opId st rowId reason data dup =
     \<lparr>sr_clientOpId = opId, sr_status = st, sr_syncQueueId = rowId, sr_reason = reason,
      sr_conflictData = data, sr_duplicate = dup\<rparr>"

section \<open>validateOperation\<close>

fun is_int_field :: "json option \<Rightarrow> bool" where
  "is_int_field (Some (JNum q)) = is_integer q"
| "is_int_field _ = False"

fun is_number_field :: "json option \<Rightarrow> bool" where
  "is_number_field (Some (JNum _)) = True"
| "is_number_field _ = False"

fun string_field :: "json option \<Rightarrow> string option" where
  "string_field (Some (JStr t)) = Some t"
| "string_field _ = None"

fun number_of :: "json option \<Rightarrow> number" where
  "number_of (Some (JNum q)) = q"
| "number_of _ = 0"

definition int_of :: "json option \<Rightarrow> int" where
  "int_of j = \<lfloor>number_of j\<rfloor>"

definition text_of :: "json option \<Rightarrow> string" where
  "text_of j = (case string_field j of None \<Rightarrow> [] | Some t \<Rightarrow> t)"

definition payload_of :: "json \<Rightarrow> json" where
  "payload_of raw = (case json_field raw ''payload'' of None \<Rightarrow> JNull | Some p \<Rightarrow> p)"

definition validateOperation :: "(string \<Rightarrow> date option) \<Rightarrow> json \<Rightarrow> string option" where
  "validateOperation parseDate raw =
     (if (case string_field (json_field raw ''clientOpId'') of
            None \<Rightarrow> True | Some t \<Rightarrow> length t = 0 \<or> length t > 64) then Some ''INVALID_CLIENT_OP_ID''
      else if string_field (json_field raw ''operation'') \<noteq> Some ''submit_fact'' then Some ''UNSUPPORTED_OPERATION''
      else if (case string_field (json_field raw ''boqVersionNumber'') of
            None \<Rightarrow> True | Some t \<Rightarrow> length t = 0) then Some ''INVALID_BOQ_VERSION''
      else if \<not> is_int_field (json_field raw ''lastKnownVersion'')
            \<or> number_of (json_field raw ''lastKnownVersion'') < 0 then Some ''INVALID_LAST_KNOWN_VERSION''
      else if (case string_field (json_field raw ''clientTimestamp'') of
            None \<Rightarrow> True | Some t \<Rightarrow> parseDate t = None) then Some ''INVALID_CLIENT_TIMESTAMP''
      else let p = payload_of raw in
        if \<not> is_int_field (json_field p ''periodId'') \<or> \<not> is_int_field (json_field p ''boqItemId'')
           \<or> \<not> is_number_field (json_field p ''scVolume'') then Some ''INVALID_PAYLOAD''
        else None)"

text \<open>\<^verbatim>\<open>raw as unknown as SyncFactOperation\<close>\<close>

record fact_payload =
  fpl_periodId :: int
  fpl_boqItemId :: int
  fpl_scVolume :: number
  fpl_workAccessible :: "bool option"

record fact_operation =
  fo_clientOpId :: string
  fo_clientTimestamp :: string
  fo_boqVersionNumber :: string
  fo_lastKnownVersion :: int
  fo_payload :: json

definition fact_payload_of :: "json \<Rightarrow> fact_payload" where
  "fact_payload_of p =
     \<lparr>fpl_periodId = int_of (json_field p ''periodId''), fpl_boqItemId = int_of (json_field p ''boqItemId''),
      fpl_scVolume = number_of (json_field p ''scVolume''),
      fpl_workAccessible = (case json_field p ''workAccessible'' of Some (JBool b) \<Rightarrow> Some b | _ \<Rightarrow> None)\<rparr>"

definition as_operation :: "json \<Rightarrow> fact_operation" where
  "as_operation raw =
     \<lparr>fo_clientOpId = text_of (json_field raw ''clientOpId''),
      fo_clientTimestamp = text_of (json_field raw ''clientTimestamp''),
      fo_boqVersionNumber = text_of (json_field raw ''boqVersionNumber''),
      fo_lastKnownVersion = int_of (json_field raw ''lastKnownVersion''),
      fo_payload = payload_of raw\<rparr>"

section \<open>Outcomes of an operation\<close>

definition reject :: "int \<Rightarrow> string \<Rightarrow> string \<Rightarrow> sync_result service" where
  "reject rowId clientOpId reason =
     andThen (update_sync rowId (\<lambda>q. q\<lparr>q_status := SRejected,
                q_conflictData := Some (JObj [(''reason'', JStr reason)])\<rparr>))
       (ret (result_with (Some clientOpId) SRejected (Some rowId) (Some reason) None False))"

definition last_audit :: "int option \<Rightarrow> db \<Rightarrow> audit_row option" where
  "last_audit factId s =
     (case factId of None \<Rightarrow> None | Some i \<Rightarrow>
        find_first_desc a_performedAt (\<lambda>a. a_tableName a = ''period_facts'' \<and> a_recordId a = i) (auditLog s))"

definition device_side :: "fact_operation \<Rightarrow> json" where
  "device_side op' = JObj
     [(''scVolume'', JNum (fpl_scVolume (fact_payload_of (fo_payload op')))),
      (''lastKnownVersion'', JNum (of_int (fo_lastKnownVersion op'))),
      (''clientTimestamp'', JStr (fo_clientTimestamp op'))]"

definition conflict_data :: "fact_operation \<Rightarrow> server_fact \<Rightarrow> audit_row option \<Rightarrow> json" where
  "conflict_data op' sf lastAudit = JObj
     [(''server'', JObj
         [(''scVolume'', json_opt JNum (sf_scVolume sf)), (''version'', JNum (of_int (sf_version sf))),
          (''lastChangedBy'', json_opt (\<lambda>n. JNum (of_int n))
             (case lastAudit of None \<Rightarrow> None | Some a \<Rightarrow> a_performedBy a)),
          (''lastChangedAt'', json_opt JDate (map_option a_performedAt lastAudit))]),
      (''device'', device_side op')]"

definition sync_audit ::
  "int \<Rightarrow> string \<Rightarrow> json option \<Rightarrow> json \<Rightarrow> string option \<Rightarrow> int \<Rightarrow> string \<Rightarrow> audit_params" where
  "sync_audit rowId action oldData newData reason userId orgId =
     \<lparr>ap_tableName = ''sync_queue'', ap_recordId = rowId, ap_action = action, ap_oldData = oldData,
      ap_newData = Some newData, ap_reason = reason, ap_performedBy = Some userId,
      ap_organizationId = orgId\<rparr>"

definition markConflict ::
  "int \<Rightarrow> fact_operation \<Rightarrow> server_fact \<Rightarrow> string \<Rightarrow> int \<Rightarrow> sync_result service" where
  "markConflict rowId op' sf orgId userId =
     bind (gets (last_audit (sf_factId sf))) (\<lambda>lastAudit.
     let data = conflict_data op' sf lastAudit in
     andThen (update_sync rowId (\<lambda>q. q\<lparr>q_status := SConflict, q_conflictData := Some data\<rparr>))
    (andThen (audit_log (sync_audit rowId ''sync_conflict_detected'' None data None userId orgId))
       (ret (result_with (Some (fo_clientOpId op')) SConflict (Some rowId) None (Some data) False))))"

text \<open>A type 3 discrepancy: an offline conflict in a closed period.\<close>

definition offline_discrepancy :: "period_fact \<Rightarrow> json \<Rightarrow> date \<Rightarrow> int \<Rightarrow> discrepancy" where
  "offline_discrepancy f device t i =
     \<lparr>d_id = i, d_periodFactId = f_id f, d_type = 3, d_status = DOpen, d_gpPosition = None,
      d_scPosition = Some (OfflineConflict (json_field device ''scVolume'') (f_scVolume f) (f_version f)),
      d_directorDecision = None, d_resolvedAt = None, d_gcResponseAt = None, d_createdAt = t\<rparr>"

definition escalation_data :: "period_fact option \<Rightarrow> json \<Rightarrow> json" where
  "escalation_data existing device = JObj
     [(''server'', json_opt (\<lambda>f. JObj [(''scVolume'', json_opt JNum (f_scVolume f)),
                                    (''version'', JNum (of_int (f_version f)))]) existing),
      (''device'', device)]"

definition escalateClosedPeriod ::
  "int \<Rightarrow> int \<Rightarrow> int \<Rightarrow> json \<Rightarrow> string \<Rightarrow> int \<Rightarrow> json service" where
  "escalateClosedPeriod rowId periodId boqItemId device orgId userId =
     bind (gets (find_fact periodId boqItemId)) (\<lambda>existing.
     andThen (case existing of None \<Rightarrow> ret ()
              | Some f \<Rightarrow> bind now (\<lambda>t. bind (insert_discrepancy (offline_discrepancy f device t)) (\<lambda>_. ret ())))
    (andThen (update_sync rowId (\<lambda>q. q\<lparr>q_status := SEscalated,
                q_conflictData := Some (escalation_data existing device)\<rparr>))
    (bind (gets (users_with_role orgId Admin)) (\<lambda>admins.
     andThen (notify_users admins ''sync_conflict_escalated'' ''sync_queue'' rowId
                (SyncEscalatedText periodId boqItemId))
    (andThen (audit_log (sync_audit rowId ''sync_conflict_escalated'' None (escalation_data existing device)
                None userId orgId))
       (ret (escalation_data existing device)))))))"

section \<open>applyFactOperation\<close>

definition try_fact :: "int \<Rightarrow> int \<Rightarrow> fact_operation \<Rightarrow> sync_result service" where
  "try_fact userId rowId op' =
     (let p = fact_payload_of (fo_payload op') in
      bind (upsertPeriodFact (fpl_periodId p) (fpl_boqItemId p) (fpl_scVolume p) userId
              \<lparr>uo_spikeResponse = None, uo_workAccessible = fpl_workAccessible p,
               uo_expectedVersion = Some (fo_lastKnownVersion op')\<rparr>) (\<lambda>_.
      andThen (update_sync rowId (\<lambda>q. q\<lparr>q_status := SApplied\<rparr>))
        (ret (result_with (Some (fo_clientOpId op')) SApplied (Some rowId) None None False))))"

definition handle_failure ::
  "string \<Rightarrow> int \<Rightarrow> int \<Rightarrow> fact_operation \<Rightarrow> exn \<Rightarrow> sync_result service" where
  "handle_failure orgId userId rowId op' e =
     (let p = fact_payload_of (fo_payload op') in
      case e of
        VersionConflictException sf \<Rightarrow> markConflict rowId op' sf orgId userId
      | _ \<Rightarrow>
          if e = ForbiddenException ''PERIOD_ALREADY_CLOSED''
          then bind (escalateClosedPeriod rowId (fpl_periodId p) (fpl_boqItemId p) (device_side op') orgId userId)
                 (\<lambda>data. ret (result_with (Some (fo_clientOpId op')) SEscalated (Some rowId) None (Some data) False))
          else if isHttpException e then reject rowId (fo_clientOpId op') (exn_message e)
          else throw e)"

definition applyFactOperation ::
  "string \<Rightarrow> int \<Rightarrow> int \<Rightarrow> fact_operation \<Rightarrow> sync_result service" where
  "applyFactOperation orgId userId rowId op' =
     bind (gets (find_period (fpl_periodId (fact_payload_of (fo_payload op'))))) (\<lambda>found.
     case found of
       None \<Rightarrow> reject rowId (fo_clientOpId op') ''PERIOD_NOT_FOUND''
     | Some per \<Rightarrow>
         bind (gets (\<lambda>s. (period_org per s, find_boq_version (p_boqVersionId per) s))) (\<lambda>x.
         if fst x \<noteq> Some orgId then reject rowId (fo_clientOpId op') ''PERIOD_NOT_FOUND''
         else if map_option bv_versionNumber (snd x) \<noteq> Some (fo_boqVersionNumber op')
         then reject rowId (fo_clientOpId op') ''BOQ_VERSION_MISMATCH''
         else tryCatch (try_fact userId rowId op') (handle_failure orgId userId rowId op')))"

section \<open>processOperations\<close>

definition new_sync_row ::
  "(string \<Rightarrow> date option) \<Rightarrow> string \<Rightarrow> int \<Rightarrow> fact_operation \<Rightarrow> date \<Rightarrow> int \<Rightarrow> sync_row" where
  "new_sync_row parseDate deviceId userId op' t i =
     \<lparr>q_id = i, q_deviceId = deviceId, q_clientOpId = fo_clientOpId op', q_userId = userId,
      q_operation = ''submit_fact'', q_payload = fo_payload op',
      q_clientTimestamp = (case parseDate (fo_clientTimestamp op') of None \<Rightarrow> 0 | Some d \<Rightarrow> d),
      q_serverReceivedAt = t, q_lastKnownVersion = Some (fo_lastKnownVersion op'),
      q_boqVersionNumber = Some (fo_boqVersionNumber op'), q_status = SPending, q_conflictData = None,
      q_resolvedAt = None, q_resolvedBy = None\<rparr>"

definition duplicate_result :: "string \<Rightarrow> sync_row \<Rightarrow> sync_result" where
  "duplicate_result clientOpId row =
     result_with (Some clientOpId) (q_status row) (Some (q_id row)) None (q_conflictData row) True"

text \<open>One turn of the loop: the results so far and \<^verbatim>\<open>stopped\<close>.\<close>

definition process_one ::
  "(string \<Rightarrow> date option) \<Rightarrow> string \<Rightarrow> int \<Rightarrow> string \<Rightarrow> json \<Rightarrow> sync_result list \<times> bool
     \<Rightarrow> (sync_result list \<times> bool) service" where
  "process_one parseDate orgId userId deviceId raw acc =
     (let clientOpId = string_field (json_field raw ''clientOpId''); results = fst acc in
      if snd acc then ret (results @ [result_with clientOpId SSkipped None None None False], True)
      else case validateOperation parseDate raw of
        Some reason \<Rightarrow> ret (results @ [result_with clientOpId SRejected None (Some reason) None False], False)
      | None \<Rightarrow>
          let op' = as_operation raw in
          bind (gets (find_sync deviceId (fo_clientOpId op'))) (\<lambda>existing.
          case existing of
            Some row \<Rightarrow> ret (results @ [duplicate_result (fo_clientOpId op') row], False)
          | None \<Rightarrow>
              bind now (\<lambda>t.
              bind (insert_sync (new_sync_row parseDate deviceId userId op' t)) (\<lambda>row.
              bind (applyFactOperation orgId userId (q_id row) op') (\<lambda>result.
              ret (results @ [result], sr_status result = SConflict \<or> sr_status result = SEscalated))))))"

definition processOperations ::
  "(string \<Rightarrow> date option) \<Rightarrow> int \<Rightarrow> string \<Rightarrow> json list \<Rightarrow> sync_result list service" where
  "processOperations parseDate userId deviceId operations =
     bind (user_org userId) (\<lambda>orgId.
     bind (foldEach operations ([], False) (process_one parseDate orgId userId deviceId)) (\<lambda>acc.
     ret (fst acc)))"

section \<open>resolveConflict\<close>

definition find_sync_id :: "int \<Rightarrow> db \<Rightarrow> sync_row option" where
  "find_sync_id i s = List.find (\<lambda>q. q_id q = i) (syncQueue s)"

definition resolution_old :: "period_fact option \<Rightarrow> sync_row \<Rightarrow> json" where
  "resolution_old serverFact row = JObj
     [(''server'', json_opt (\<lambda>f. JObj [(''scVolume'', json_opt JNum (f_scVolume f)),
                                    (''version'', JNum (of_int (f_version f)))]) serverFact),
      (''device'', case q_conflictData row of None \<Rightarrow> JNull
                 | Some d \<Rightarrow> (case json_field d ''device'' of None \<Rightarrow> JNull | Some x \<Rightarrow> x))]"

definition visible_in_org :: "int \<Rightarrow> string \<Rightarrow> db \<Rightarrow> period option" where
  "visible_in_org periodId orgId s =
     (case find_period periodId s of
        None \<Rightarrow> None | Some p \<Rightarrow> if period_org p s = Some orgId then Some p else None)"

definition is_closed :: "period \<Rightarrow> bool" where
  "is_closed p \<longleftrightarrow> p_status p = PClosed \<or> p_status p = PForceClosed"

definition resolveConflict :: "int \<Rightarrow> int \<Rightarrow> number \<Rightarrow> string \<Rightarrow> (int \<times> sync_status \<times> number) service" where
  "resolveConflict userId syncQueueId chosenValue nt =
     bind (getsOr (find_sync_id syncQueueId) (NotFoundException ''SYNC_OPERATION_NOT_FOUND'')) (\<lambda>row.
     andThen (guard (q_status row = SConflict) (ConflictException ''SYNC_NOT_IN_CONFLICT''))
    (bind (user_org userId) (\<lambda>orgId.
     let p = fact_payload_of (q_payload row); choice = JObj [(''chosenValue'', JNum chosenValue), (''note'', JStr nt)] in
     bind (getsOr (visible_in_org (fpl_periodId p) orgId) (NotFoundException ''PERIOD_NOT_FOUND'')) (\<lambda>per.
     if is_closed per
     then bind (escalateClosedPeriod (q_id row) (fpl_periodId p) (fpl_boqItemId p) choice orgId userId)
            (\<lambda>_. throw (ConflictException ''PERIOD_ALREADY_CLOSED_ESCALATE''))
     else
       bind (gets (find_fact (fpl_periodId p) (fpl_boqItemId p))) (\<lambda>serverFact.
       bind (upsertPeriodFact (fpl_periodId p) (fpl_boqItemId p) chosenValue userId no_opts) (\<lambda>_.
       bind now (\<lambda>t.
       andThen (update_sync (q_id row) (\<lambda>q. q\<lparr>q_status := SApplied, q_resolvedAt := Some t,
                  q_resolvedBy := Some userId\<rparr>))
      (andThen (audit_log (sync_audit (q_id row) ''sync_conflict_resolved'' (Some (resolution_old serverFact row))
                  choice (Some nt) userId orgId))
         (ret (q_id row, SApplied, chosenValue))))))))))"

section \<open>uploadPhoto\<close>

definition photo_key :: "int \<Rightarrow> int option \<Rightarrow> string \<Rightarrow> string" where
  "photo_key periodId boqItemId clientOpId =
     ''sync-photos/'' @ show_int periodId @ ''/'' @ (case boqItemId of None \<Rightarrow> ''general'' | Some b \<Rightarrow> show_int b)
       @ ''/'' @ clientOpId"

text \<open>\<^verbatim>\<open>StorageService.upload\<close>\<close>

definition upload :: "(string \<Rightarrow> bool) \<Rightarrow> string \<Rightarrow> string service" where
  "upload s3 key = andThen (guard (s3 key) (InternalServerErrorException ''STORAGE_UPLOAD_FAILED'')) (ret key)"

text \<open>\<^verbatim>\<open>dto.takenAt ? new Date(dto.takenAt) : null\<close>; Prisma refuses an invalid date.\<close>

definition taken_at :: "(string \<Rightarrow> date option) \<Rightarrow> string option \<Rightarrow> date option service" where
  "taken_at parseDate takenAt =
     (case takenAt of None \<Rightarrow> ret None
      | Some t \<Rightarrow> if t = [] then ret None
                 else (case parseDate t of None \<Rightarrow> throw (PrismaError InvalidArgument) | Some d \<Rightarrow> ret (Some d)))"

definition photo_id_of :: "sync_row \<Rightarrow> int option" where
  "photo_id_of row = (case q_conflictData row of None \<Rightarrow> None
     | Some d \<Rightarrow> (case json_field d ''photoId'' of Some (JNum q) \<Rightarrow> Some \<lfloor>q\<rfloor> | _ \<Rightarrow> None))"

record photo_result =
  pr_photoId :: "int option"
  pr_syncQueueId :: int
  pr_duplicate :: bool

definition new_photo :: "int \<Rightarrow> int option \<Rightarrow> string \<Rightarrow> date option \<Rightarrow> int \<Rightarrow> int \<Rightarrow> photo" where
  "new_photo periodId boqItemId key taken userId i =
     \<lparr>ph_id = i, ph_periodId = periodId, ph_boqItemId = boqItemId, ph_filePath = key,
      ph_takenAt = taken, ph_uploadedBy = Some userId\<rparr>"

definition photo_sync_row ::
  "string \<Rightarrow> string \<Rightarrow> int \<Rightarrow> int \<Rightarrow> int option \<Rightarrow> date option \<Rightarrow> date \<Rightarrow> int \<Rightarrow> int \<Rightarrow> sync_row" where
  "photo_sync_row deviceId clientOpId userId periodId boqItemId taken t photoId i =
     \<lparr>q_id = i, q_deviceId = deviceId, q_clientOpId = clientOpId, q_userId = userId,
      q_operation = ''upload_photo'',
      q_payload = JObj [(''periodId'', JNum (of_int periodId)),
                        (''boqItemId'', json_opt (\<lambda>n. JNum (of_int n)) boqItemId)],
      q_clientTimestamp = (case taken of None \<Rightarrow> t | Some d \<Rightarrow> d), q_serverReceivedAt = t,
      q_lastKnownVersion = None, q_boqVersionNumber = None, q_status = SApplied,
      q_conflictData = Some (JObj [(''photoId'', JNum (of_int photoId))]), q_resolvedAt = None,
      q_resolvedBy = None\<rparr>"

definition uploadPhoto ::
  "(string \<Rightarrow> date option) \<Rightarrow> (string \<Rightarrow> bool) \<Rightarrow> int \<Rightarrow> string \<Rightarrow> string \<Rightarrow> int \<Rightarrow> int option \<Rightarrow> string option
     \<Rightarrow> photo_result service" where
  "uploadPhoto parseDate s3 userId deviceId clientOpId periodId boqItemId takenAt =
     bind (gets (find_sync deviceId clientOpId)) (\<lambda>existing.
     case existing of
       Some row \<Rightarrow> ret \<lparr>pr_photoId = photo_id_of row, pr_syncQueueId = q_id row, pr_duplicate = True\<rparr>
     | None \<Rightarrow>
         bind (user_org userId) (\<lambda>orgId.
         bind (getsOr (visible_in_org periodId orgId) (NotFoundException ''PERIOD_NOT_FOUND'')) (\<lambda>per.
         andThen (guard (\<not> is_closed per) (ForbiddenException ''PERIOD_ALREADY_CLOSED''))
        (bind (upload s3 (photo_key periodId boqItemId clientOpId)) (\<lambda>key.
         bind (taken_at parseDate takenAt) (\<lambda>taken.
         bind (insert_photo (new_photo periodId boqItemId key taken userId)) (\<lambda>photo.
         bind now (\<lambda>t.
         bind (insert_sync (photo_sync_row deviceId clientOpId userId periodId boqItemId taken t (ph_id photo))) (\<lambda>row.
         ret \<lparr>pr_photoId = Some (ph_id photo), pr_syncQueueId = q_id row, pr_duplicate = False\<rparr>)))))))))"

section \<open>SyncArchivalWorker\<close>

definition ARCHIVE_STATUSES :: "sync_status list" where
  "ARCHIVE_STATUSES = [SApplied, SRejected, SEscalated]"

definition RETENTION_DAYS :: int where
  "RETENTION_DAYS = 30"

definition archive :: "unit service" where
  "archive = bind now (\<lambda>t. delete_sync (\<lambda>q. q_status q \<in> set ARCHIVE_STATUSES
     \<and> q_serverReceivedAt q < add_days t (- RETENTION_DAYS)))"

section \<open>What the two classes write\<close>

locale sync_writes = step_rel R keep_outside for R :: "db \<Rightarrow> db \<Rightarrow> bool" +
  assumes audit_write: "moves R (audit_log ps)"
    and notification_write: "(\<And>i. n_id (mk i) = i) \<Longrightarrow> moves R (insert_notification mk)"
    and fact_upsert: "moves R (upsertPeriodFact p b v actor opts)"
    and discrepancy_insert: "(\<And>i. d_id (mkd i) = i) \<Longrightarrow> moves R (insert_discrepancy mkd)"
    and sync_insert: "(\<And>i. q_id (mkq i) = i) \<Longrightarrow> moves R (insert_sync mkq)"
    and sync_update: "(\<And>q. q_id (g q) = q_id q \<and> sync_key (g q) = sync_key q) \<Longrightarrow> moves R (update_sync i g)"
    and photo_insert: "(\<And>i. ph_id (mkph i) = i) \<Longrightarrow> moves R (insert_photo mkph)"
begin

lemma moves_reject: "moves R (reject i c reason)"
  unfolding reject_def by (intro moves_rules sync_update) (simp add: sync_key_def)

lemma moves_markConflict: "moves R (markConflict i op' sf org u)"
  unfolding markConflict_def Let_def by (intro moves_rules sync_update audit_write) (simp add: sync_key_def)

lemma moves_escalate: "moves R (escalateClosedPeriod i p b device org u)"
  unfolding escalateClosedPeriod_def notify_users_def now_def
  by (intro moves_rules sync_update audit_write discrepancy_insert notification_write)
     (simp_all add: sync_key_def offline_discrepancy_def)

lemma moves_handle_failure: "moves R (handle_failure org u i op' e)"
  unfolding handle_failure_def Let_def
  by (cases e) (auto intro!: moves_rules moves_markConflict moves_escalate moves_reject)

lemma moves_apply: "moves R (applyFactOperation org u i op')"
  unfolding applyFactOperation_def try_fact_def Let_def
  by (intro moves_rules moves_reject fact_upsert sync_update moves_handle_failure) (simp add: sync_key_def)

lemma moves_process_one: "moves R (process_one parseDate org u dev raw acc)"
  unfolding process_one_def Let_def now_def
  by (intro moves_rules sync_insert moves_apply) (simp add: new_sync_row_def)

lemma moves_processOperations: "moves R (processOperations parseDate u dev raws)"
  unfolding processOperations_def user_org_def by (intro moves_rules moves_process_one)

lemma moves_resolveConflict: "moves R (resolveConflict u i v nt)"
  unfolding resolveConflict_def user_org_def Let_def now_def
  by (intro moves_rules moves_escalate fact_upsert sync_update audit_write) (simp add: sync_key_def)

lemma moves_uploadPhoto: "moves R (uploadPhoto parseDate s3 u dev c p b taken)"
  unfolding uploadPhoto_def user_org_def upload_def taken_at_def now_def
  by (intro moves_rules photo_insert sync_insert) (simp_all add: new_photo_def photo_sync_row_def)

end

interpretation ev_sync: sync_writes evolves
  by unfold_locales (auto intro!: ev_writes ev_period.moves_upsertPeriodFact)

interpretation static_sync: sync_writes same_static
  by unfold_locales (rule static_writes static_period.moves_upsertPeriodFact)+

interpretation zero_sync: sync_writes same_zero
  by unfold_locales (rule zero_frame zero_period.moves_upsertPeriodFact)+

interpretation life_sync: sync_writes lifecycle
  by unfold_locales
     (auto intro!: upsertPeriodFact_life moves_lifecycle ev_writes static_writes period_writes)

interpretation timer_sync: sync_writes keeps_timers
  by unfold_locales (rule timer_frame timer_period.moves_upsertPeriodFact)+

text \<open>Rows of the queue are found again by every method but the archival.\<close>

definition keeps_sync :: "db \<Rightarrow> db \<Rightarrow> bool" where
  "keeps_sync s s' \<longleftrightarrow> (\<forall>d c. find_sync d c s \<noteq> None \<longrightarrow> find_sync d c s' \<noteq> None)"

interpretation ksync: step_rel keeps_sync keep_outside
  by unfold_locales (auto simp: keeps_sync_def keep_outside_def find_sync_def)

lemma keeps_sync_same: "syncQueue s' = syncQueue s \<Longrightarrow> keeps_sync s s'"
  by (simp add: keeps_sync_def find_sync_def)

lemma ksync_frame:
  "moves keeps_sync (audit_log ps)" "moves keeps_sync (insert_notification mkn)"
  "moves keeps_sync (insert_period mkp)" "moves keeps_sync (update_period i gp)"
  "moves keeps_sync (insert_fact mkf)" "moves keeps_sync (update_fact i gf)"
  "moves keeps_sync (insert_snapshot r)" "moves keeps_sync (upsert_work_pace w)"
  "moves keeps_sync (insert_discrepancy mkd)" "moves keeps_sync (insert_photo mkph)"
  "moves keeps_sync (delete_snapshots Pr)"
  by (auto simp: moves_iff_wp write_defs wp_simps intro!: keeps_sync_same split: option.split)

lemma ksync_insert: "moves keeps_sync (insert_sync mkq)"
  by (auto simp: moves_iff_wp write_defs wp_simps keeps_sync_def find_sync_def find_append split: option.split)

lemma ksync_update:
  assumes "\<And>q. q_id (g q) = q_id q \<and> sync_key (g q) = sync_key q"
  shows "moves keeps_sync (update_sync i g)"
proof -
  have "List.find (\<lambda>q. q_deviceId q = d \<and> q_clientOpId q = c) (update_where P g qs)
      = map_option (\<lambda>q. if P q then g q else q) (List.find (\<lambda>q. q_deviceId q = d \<and> q_clientOpId q = c) qs)"
    for P qs d c
    by (rule find_update_where) (use assms in \<open>auto simp: sync_key_def\<close>)
  then show ?thesis
    by (auto simp: moves_iff_wp update_sync_def wp_simps keeps_sync_def find_sync_def)
qed

interpretation ksync_period: period_writes keeps_sync
  by unfold_locales (rule ksync_frame)+

interpretation ksync_sync: sync_writes keeps_sync
  by unfold_locales (auto intro!: ksync_frame ksync_insert ksync_update ksync_period.moves_upsertPeriodFact)

end
