(* ===== verification/Sync_Props.thy ===== *)
theory Sync_Props
  imports Sync Period_Props
begin

text \<open>
  Correctness of the replay of offline operations: one result per operation, a replayed batch changes
  nothing, what a conflict leaves behind, photos, and the keys of the object store.
\<close>

section \<open>One result per operation\<close>

definition op_id :: "json \<Rightarrow> string option" where
  "op_id raw = string_field (json_field raw ''clientOpId'')"

lemma result_with_simps [simp]:
  "sr_clientOpId (result_with c st i r d b) = c" "sr_status (result_with c st i r d b) = st"
  "sr_syncQueueId (result_with c st i r d b) = i" "sr_duplicate (result_with c st i r d b) = b"
  by (simp_all add: result_with_def)

definition answers :: "fact_operation \<Rightarrow> sync_result \<Rightarrow> bool" where
  "answers op' r \<longleftrightarrow> sr_clientOpId r = Some (fo_clientOpId op') \<and> sr_status r \<noteq> SSkipped \<and> \<not> sr_duplicate r"

lemma wp_top: "(\<And>x t. Q x t) \<Longrightarrow> wp m Q (\<lambda>_ _. True) s"
  by (simp add: wp_def split: prod.split sum.split)

lemma wp_reject: "wp (reject i (fo_clientOpId op') reason) (\<lambda>r _. answers op' r) (\<lambda>_ _. True) s"
  unfolding reject_def wp_andThen by (rule wp_top) (simp add: wp_ret answers_def)

lemma wp_handle_failure: "wp (handle_failure org u i op' e) (\<lambda>r _. answers op' r) (\<lambda>_ _. True) s"
proof -
  have "wp (markConflict i op' sf org u) (\<lambda>r _. answers op' r) (\<lambda>_ _. True) s" for sf
    unfolding markConflict_def Let_def wp_bind wp_andThen wp_ret
    by (intro wp_top) (simp add: answers_def)
  moreover have "wp (bind (escalateClosedPeriod i p b device org u)
      (\<lambda>data. ret (result_with (Some (fo_clientOpId op')) SEscalated (Some i) None (Some data) False)))
      (\<lambda>r _. answers op' r) (\<lambda>_ _. True) s" for p b device
    unfolding wp_bind by (rule wp_top) (simp add: wp_ret answers_def)
  ultimately show ?thesis
    unfolding handle_failure_def Let_def by (cases e) (auto simp: wp_reject wp_throw)
qed

lemma wp_applyFactOperation:
  "wp (applyFactOperation org u i op') (\<lambda>r _. answers op' r) (\<lambda>_ _. True) s"
proof -
  have "wp (try_fact u i op') (\<lambda>r _. answers op' r)
      (\<lambda>e. wp (handle_failure org u i op' e) (\<lambda>r _. answers op' r) (\<lambda>_ _. True)) s"
  proof -
    have "wp (try_fact u i op') (\<lambda>r _. answers op' r) (\<lambda>_ _. True) s"
      unfolding try_fact_def Let_def wp_bind wp_andThen wp_ret by (intro wp_top) (simp add: answers_def)
    then show ?thesis by (rule wp_mono) (simp_all add: wp_handle_failure)
  qed
  then show ?thesis
    by (auto simp: applyFactOperation_def wp_bind wp_gets wp_tryCatch wp_reject split: option.split)
qed

text \<open>What one turn of the loop leaves: a result, and a row for a valid operation unless it was skipped.\<close>

definition queued :: "(string \<Rightarrow> date option) \<Rightarrow> string \<Rightarrow> json \<Rightarrow> db \<Rightarrow> bool" where
  "queued parseDate deviceId raw s \<longleftrightarrow>
     validateOperation parseDate raw \<noteq> None \<or> find_sync deviceId (fo_clientOpId (as_operation raw)) s \<noteq> None"

definition turn_ok ::
  "(string \<Rightarrow> date option) \<Rightarrow> string \<Rightarrow> json \<Rightarrow> sync_result list \<Rightarrow> sync_result list \<Rightarrow> db \<Rightarrow> bool" where
  "turn_ok parseDate deviceId raw before after t \<longleftrightarrow>
     (\<exists>r. after = before @ [r] \<and> sr_clientOpId r = op_id raw \<and> (sr_status r = SSkipped \<or> queued parseDate deviceId raw t))"

lemma valid_op_id:
  "validateOperation parseDate raw = None \<Longrightarrow> op_id raw = Some (fo_clientOpId (as_operation raw))"
  by (auto simp: validateOperation_def op_id_def as_operation_def text_of_def split: if_splits option.splits)

lemma insert_sync_finds:
  "wp (insert_sync mk) (\<lambda>row t. row = mk (q_id row) \<and> find_sync (q_deviceId row) (q_clientOpId row) t \<noteq> None)
     (\<lambda>_ _. True) s"
  if "\<And>i. q_id (mk i) = i"
  using that by (auto simp: insert_sync_def wp_simps find_sync_def find_append split: option.split)

lemma wp_process_one:
  "wp (process_one parseDate org u dev raw acc)
     (\<lambda>acc' t. keeps_sync s t \<and> turn_ok parseDate dev raw (fst acc) (fst acc') t) (\<lambda>_ _. True) s"
proof (cases "snd acc \<or> validateOperation parseDate raw \<noteq> None")
  case True
  then show ?thesis
    by (auto simp: process_one_def Let_def wp_ret turn_ok_def queued_def op_id_def ksync.R_refl split: option.split)
next
  case False
  let ?op = "as_operation raw"
  have id: "op_id raw = Some (fo_clientOpId ?op)" using False valid_op_id[of parseDate raw] by simp
  have rest: "wp (applyFactOperation org u (q_id row) ?op)
      (\<lambda>r t. answers ?op r \<and> keeps_sync s1 t) (\<lambda>_ _. True \<and> True) s1" for row :: sync_row and s1
    by (rule wp_conj[OF wp_applyFactOperation wp_of_moves[OF ksync_sync.moves_apply]]) simp_all
  have ins: "wp (insert_sync (new_sync_row parseDate dev u ?op t))
      (\<lambda>row s1. (row = new_sync_row parseDate dev u ?op t (q_id row)
          \<and> find_sync (q_deviceId row) (q_clientOpId row) s1 \<noteq> None) \<and> keeps_sync s s1) (\<lambda>_ _. True \<and> True) s" for t
    by (rule wp_conj[OF insert_sync_finds wp_of_moves[OF ksync_insert]]) (simp_all add: new_sync_row_def)
  have "wp (insert_sync (new_sync_row parseDate dev u ?op t)) (\<lambda>row. wp (applyFactOperation org u (q_id row) ?op)
      (\<lambda>r s'. keeps_sync s s' \<and> turn_ok parseDate dev raw (fst acc) (fst acc @ [r]) s') (\<lambda>_ _. True)) (\<lambda>_ _. True) s" for t
  proof (rule wp_mono[OF ins])
    fix row s1
    assume row: "(row = new_sync_row parseDate dev u ?op t (q_id row)
        \<and> find_sync (q_deviceId row) (q_clientOpId row) s1 \<noteq> None) \<and> keeps_sync s s1"
    then have key: "q_deviceId row = dev" "q_clientOpId row = fo_clientOpId ?op"
      by (metis new_sync_row_def sync_row.select_convs(2), metis new_sync_row_def sync_row.select_convs(3))
    show "wp (applyFactOperation org u (q_id row) ?op)
      (\<lambda>r s'. keeps_sync s s' \<and> turn_ok parseDate dev raw (fst acc) (fst acc @ [r]) s') (\<lambda>_ _. True) s1"
      by (rule wp_mono[OF rest])
         (use row key id in \<open>auto simp: turn_ok_def queued_def answers_def keeps_sync_def\<close>)
  qed simp
  with False show ?thesis
    by (auto simp: process_one_def Let_def wp_bind wp_gets wp_now wp_ret turn_ok_def queued_def
          duplicate_result_def id ksync.R_refl split: option.split)
qed

lemma foldEach_results:
  assumes "foldEach raws acc (process_one parseDate org u dev) s = (Inr acc', s')"
  shows "keeps_sync s s' \<and> (\<exists>rs. fst acc' = fst acc @ rs \<and> map sr_clientOpId rs = map op_id raws
     \<and> ((\<forall>r \<in> set rs. sr_status r \<noteq> SSkipped) \<longrightarrow> (\<forall>raw \<in> set raws. queued parseDate dev raw s')))"
  using assms
proof (induction raws arbitrary: acc s)
  case Nil
  then show ?case by (simp add: ret_def ksync.R_refl)
next
  case (Cons raw raws)
  then obtain acc1 s1 where one: "process_one parseDate org u dev raw acc s = (Inr acc1, s1)"
    and rest: "foldEach raws acc1 (process_one parseDate org u dev) s1 = (Inr acc', s')"
    by (auto simp: bind_eq_Inr)
  have turn: "keeps_sync s s1" "turn_ok parseDate dev raw (fst acc) (fst acc1) s1"
    using wp_Inr[OF one wp_process_one] by auto
  from Cons.IH[OF rest] obtain rs where rs: "keeps_sync s1 s'" "fst acc' = fst acc1 @ rs"
    "map sr_clientOpId rs = map op_id raws"
    "(\<forall>r \<in> set rs. sr_status r \<noteq> SSkipped) \<longrightarrow> (\<forall>raw \<in> set raws. queued parseDate dev raw s')" by auto
  from turn(2) obtain r where r: "fst acc1 = fst acc @ [r]" "sr_clientOpId r = op_id raw"
    "sr_status r = SSkipped \<or> queued parseDate dev raw s1" by (auto simp: turn_ok_def)
  have "queued parseDate dev raw s1 \<Longrightarrow> queued parseDate dev raw s'"
    using rs(1) by (auto simp: queued_def keeps_sync_def)
  then show ?case
    using rs r ksync.R_trans[OF turn(1) rs(1)] by (intro conjI exI[of _ "r # rs"]) auto
qed

text \<open>Replaying operations that are all in the queue: the answer to an operation is what its row holds, marked as
  a duplicate; an invalid one is refused again.\<close>

definition replay_answer :: "(string \<Rightarrow> date option) \<Rightarrow> string \<Rightarrow> db \<Rightarrow> json \<Rightarrow> sync_result \<Rightarrow> bool" where
  "replay_answer parseDate deviceId t raw r \<longleftrightarrow>
     (case validateOperation parseDate raw of
        Some reason \<Rightarrow> r = \<lparr>sr_clientOpId = op_id raw, sr_status = SRejected, sr_syncQueueId = None,
                           sr_reason = Some reason, sr_conflictData = None, sr_duplicate = False\<rparr>
      | None \<Rightarrow> (case find_sync deviceId (fo_clientOpId (as_operation raw)) t of
          None \<Rightarrow> False
        | Some row \<Rightarrow> r = \<lparr>sr_clientOpId = op_id raw, sr_status = q_status row, sr_syncQueueId = Some (q_id row),
                           sr_reason = None, sr_conflictData = q_conflictData row, sr_duplicate = True\<rparr>))"

lemma process_one_queued:
  assumes "queued parseDate dev raw t"
  shows "\<exists>r. process_one parseDate org u dev raw (rs, False) t = (Inr (rs @ [r], False), t)
           \<and> replay_answer parseDate dev t raw r"
  using assms valid_op_id [of parseDate raw]
  by (auto simp: process_one_def queued_def Let_def prog_defs duplicate_result_def replay_answer_def result_with_def
      op_id_def split: option.split)

lemma foldEach_queued:
  assumes "\<forall>raw \<in> set raws. queued parseDate dev raw t"
  shows "\<exists>rs'. foldEach raws (rs, False) (process_one parseDate org u dev) t = (Inr (rs @ rs', False), t)
           \<and> list_all2 (replay_answer parseDate dev t) raws rs'"
  using assms
proof (induction raws arbitrary: rs)
  case Nil
  then show ?case by (simp add: ret_def)
next
  case (Cons raw raws)
  obtain r where r: "process_one parseDate org u dev raw (rs, False) t = (Inr (rs @ [r], False), t)"
    "replay_answer parseDate dev t raw r"
    using process_one_queued[of parseDate dev raw t org u rs] Cons.prems by auto
  obtain rs' where "foldEach raws (rs @ [r], False) (process_one parseDate org u dev) t = (Inr ((rs @ [r]) @ rs', False), t)"
    "list_all2 (replay_answer parseDate dev t) raws rs'"
    using Cons by fastforce
  then show ?case using r by (intro exI[of _ "r # rs'"]) simp
qed

section \<open>Outcomes\<close>

text \<open>The call of the period service an operation stands for.\<close>

definition fact_call :: "int \<Rightarrow> fact_operation \<Rightarrow> period_fact service" where
  "fact_call userId op' =
     (let p = fact_payload_of (fo_payload op') in
      upsertPeriodFact (fpl_periodId p) (fpl_boqItemId p) (fpl_scVolume p) userId
        \<lparr>uo_spikeResponse = None, uo_workAccessible = fpl_workAccessible p,
         uo_expectedVersion = Some (fo_lastKnownVersion op')\<rparr>)"

definition same_facts :: "db \<Rightarrow> db \<Rightarrow> bool" where
  "same_facts s s' \<longleftrightarrow> periodFacts s' = periodFacts s \<and> periods s' = periods s"

interpretation sfact: step_rel same_facts keep_outside
  by unfold_locales (auto simp: same_facts_def keep_outside_def)

lemma sfact_frame:
  "moves same_facts (audit_log ps)" "moves same_facts (insert_notification mkn)"
  "moves same_facts (insert_discrepancy mkd)" "moves same_facts (update_sync i gq)"
  by (auto simp: moves_iff_wp write_defs wp_simps same_facts_def split: option.split)

lemma sfact_reject: "moves same_facts (reject i c reason)"
  unfolding reject_def by (intro sfact.moves_rules sfact_frame)

lemma sfact_handle_failure: "moves same_facts (handle_failure org u i op' e)"
  unfolding handle_failure_def Let_def markConflict_def escalateClosedPeriod_def notify_users_def now_def
  by (cases e) (auto intro!: sfact.moves_rules sfact_frame sfact_reject)

definition applied_row :: "int \<Rightarrow> db \<Rightarrow> db" where
  "applied_row i t = t\<lparr>syncQueue := update_where (\<lambda>q. q_id q = i) (\<lambda>q. q\<lparr>q_status := SApplied\<rparr>) (syncQueue t)\<rparr>"

definition outcome_ok :: "int \<Rightarrow> int \<Rightarrow> fact_operation \<Rightarrow> db \<Rightarrow> sync_result \<Rightarrow> db \<Rightarrow> bool" where
  "outcome_ok userId i op' s res s' \<longleftrightarrow>
     sr_status res = SApplied \<and> (\<exists>f t. fact_call userId op' s = (Inr f, t) \<and> s' = applied_row i t)
     \<or> sr_status res \<in> {SRejected, SConflict, SEscalated} \<and> same_facts s s'"

lemma wp_handle_failure_status:
  "wp (handle_failure org u i op' e) (\<lambda>r _. sr_status r \<in> {SRejected, SConflict, SEscalated}) (\<lambda>_ _. True) s"
  unfolding handle_failure_def Let_def markConflict_def reject_def
  by (cases e) (auto simp: wp_bind wp_andThen wp_ret wp_throw intro!: wp_top)

lemma rolled_back_facts: "rolled_back s t \<Longrightarrow> same_facts s t"
  by (auto simp: rolled_back_def same_facts_def)

lemma fact_call_error: "fact_call u op' s = (Inl e, t) \<Longrightarrow> rolled_back s t"
  unfolding fact_call_def Let_def upsertPeriodFact_def by (rule transaction_error)

lemma try_fact_run:
  "try_fact u i op' s = (case fact_call u op' s of
     (Inl e, t) \<Rightarrow> (Inl e, t)
   | (Inr f, t) \<Rightarrow> if list_ex (\<lambda>q. q_id q = i) (syncQueue t)
        then (Inr (result_with (Some (fo_clientOpId op')) SApplied (Some i) None None False), applied_row i t)
        else (Inl (PrismaError RecordNotFound), t))"
  by (auto simp: try_fact_def fact_call_def Let_def bind_def andThen_def update_sync_def guardS_def modify_def
        ret_def applied_row_def split: prod.split sum.split)

text \<open>The period service does not touch the queue.\<close>

definition same_queue :: "db \<Rightarrow> db \<Rightarrow> bool" where
  "same_queue s s' \<longleftrightarrow> syncQueue s' = syncQueue s"

interpretation queue_period: period_writes same_queue
  by unfold_locales (auto simp: moves_iff_wp write_defs wp_simps same_queue_def keep_outside_def split: option.split)

lemma fact_call_queue: "fact_call u op' s = (r, t) \<Longrightarrow> syncQueue t = syncQueue s"
  using movesD[OF queue_period.moves_upsertPeriodFact] by (auto simp: fact_call_def Let_def same_queue_def)

lemma applyFactOperation_outcome:
  assumes "applyFactOperation org u i op' s = (Inr res, s')" and row: "list_ex (\<lambda>q. q_id q = i) (syncQueue s)"
  shows "outcome_ok u i op' s res s'"
proof -
  have reject: "outcome_ok u i op' s res s'" if "reject i c reason s = (Inr res, s')" for c reason
    using that movesD[OF sfact_reject that]
    by (auto simp: outcome_ok_def reject_def prog_defs update_sync_def split: if_splits)
  have handled: "outcome_ok u i op' s res s'"
    if "fact_call u op' s = (Inl e, t)" "handle_failure org u i op' e t = (Inr res, s')" for e t
    using wp_Inr[OF that(2) wp_handle_failure_status] movesD[OF sfact_handle_failure that(2)]
      rolled_back_facts[OF fact_call_error[OF that(1)]] sfact.R_trans
    by (auto simp: outcome_ok_def)
  have "outcome_ok u i op' s res s'"
    if "tryCatch (try_fact u i op') (handle_failure org u i op') s = (Inr res, s')"
    using that row fact_call_queue[of u op' s] handled
    by (fastforce simp: tryCatch_def try_fact_run outcome_ok_def split: prod.splits sum.splits if_splits)
  with reject assms(1) show ?thesis
    by (auto simp: applyFactOperation_def bind_def[of "gets _"] split: option.splits if_splits)
qed

text \<open>An operation that ends in an exception leaves the facts and the periods, too.\<close>

lemma applyFactOperation_throws:
  assumes "applyFactOperation org u i op' s = (Inl e, s')" and row: "list_ex (\<lambda>q. q_id q = i) (syncQueue s)"
  shows "same_facts s s'"
proof -
  have handled: "same_facts s s'"
    if "fact_call u op' s = (Inl e', t)" "handle_failure org u i op' e' t = (Inl e, s')" for e' t
    using movesD[OF sfact_handle_failure that(2)] rolled_back_facts[OF fact_call_error[OF that(1)]] sfact.R_trans by auto
  have "same_facts s s'" if "tryCatch (try_fact u i op') (handle_failure org u i op') s = (Inl e, s')"
    using that row fact_call_queue[of u op' s] handled
    by (auto simp: tryCatch_def try_fact_run split: prod.splits sum.splits if_splits)
  moreover have "same_facts s s'" if "reject i c reason s = (Inl e, s')" for c reason
    using movesD[OF sfact_reject that] .
  ultimately show ?thesis using assms(1)
    by (auto simp: applyFactOperation_def bind_def[of "gets _"] split: option.splits if_splits)
qed

section \<open>A conflict is never reported\<close>

lemma find_sync_update:
  "find_sync_id i s \<noteq> None \<Longrightarrow> (\<And>q. q_id (g q) = q_id q) \<Longrightarrow>
   find_sync_id i (s\<lparr>syncQueue := update_where (\<lambda>q. q_id q = i) g (syncQueue s)\<rparr>) = map_option g (find_sync_id i s)"
proof -
  assume "\<And>q. q_id (g q) = q_id q"
  then have "List.find (\<lambda>q. q_id q = i) (update_where (\<lambda>q. q_id q = i) g qs) = map_option g (List.find (\<lambda>q. q_id q = i) qs)" for qs
    by (induction qs) auto
  then show ?thesis by (simp add: find_sync_id_def)
qed

lemma find_sync_id_ex: "find_sync_id i s \<noteq> None \<longleftrightarrow> list_ex (\<lambda>q. q_id q = i) (syncQueue s)"
  unfolding find_sync_id_def by (auto simp: list_ex_iff find_None_iff_all)

lemma markConflict_fails:
  assumes "''sync_conflict_detected'' \<notin> set (audit_actions s)" and "find_sync_id i s \<noteq> None"
  shows "wp (markConflict i op' sf org u) (\<lambda>_ _. False)
           (\<lambda>e t. e = PrismaError CheckViolation \<and> map_option q_status (find_sync_id i t) = Some SConflict
              \<and> same_facts s t) s"
  using assms
  by (auto simp: markConflict_def Let_def wp_simps update_sync_def find_sync_id_ex[symmetric] sync_audit_def
        find_sync_update same_facts_def)

definition gate_ok :: "string \<Rightarrow> fact_operation \<Rightarrow> db \<Rightarrow> bool" where
  "gate_ok org op' s \<longleftrightarrow>
     (case find_period (fpl_periodId (fact_payload_of (fo_payload op'))) s of None \<Rightarrow> False
      | Some per \<Rightarrow> period_org per s = Some org
          \<and> map_option bv_versionNumber (find_boq_version (p_boqVersionId per) s) = Some (fo_boqVersionNumber op'))"

lemma conflict_is_error:
  assumes gate: "gate_ok org op' s" and row: "find_sync_id i s \<noteq> None"
    and act: "''sync_conflict_detected'' \<notin> set (audit_actions s)"
    and conflict: "fact_call u op' s = (Inl (VersionConflictException sf), t)"
  shows "\<exists>s'. applyFactOperation org u i op' s = (Inl (PrismaError CheckViolation), s')
           \<and> map_option q_status (find_sync_id i s') = Some SConflict \<and> same_facts s s'"
proof -
  have undone: "rolled_back s t" using fact_call_error[OF conflict] .
  then have t: "audit_actions t = audit_actions s" "find_sync_id i t = find_sync_id i s"
    by (auto simp: rolled_back_def find_sync_id_def)
  have run: "applyFactOperation org u i op' s = markConflict i op' sf org u t"
    using gate conflict
    by (auto simp: applyFactOperation_def gate_ok_def bind_def[of "gets _"] tryCatch_def try_fact_run
          handle_failure_def Let_def split: option.splits)
  show ?thesis
    using markConflict_fails[of t i op' sf org u] act row rolled_back_facts[OF undone] sfact.R_trans
    by (auto simp: t run wp_def split: prod.splits sum.splits)
qed

section \<open>Photos\<close>

lemma photo_row [simp]:
  "q_deviceId (photo_sync_row d c u p b tk t ph i) = d" "q_clientOpId (photo_sync_row d c u p b tk t ph i) = c"
  "q_id (photo_sync_row d c u p b tk t ph i) = i"
  "photo_id_of (photo_sync_row d c u p b tk t ph i) = Some ph"
  by (simp_all add: photo_sync_row_def photo_id_of_def)

lemma wp_uploadPhoto:
  "wp (uploadPhoto parseDate s3 u dev c p b taken)
     (\<lambda>res t. \<exists>row. find_sync dev c t = Some row \<and> pr_photoId res = photo_id_of row \<and> pr_syncQueueId res = q_id row)
     (\<lambda>_ _. True) s"
  by (auto simp: uploadPhoto_def user_org_def wp_simps upload_def taken_at_def insert_photo_def insert_sync_def
        new_photo_def find_sync_def find_append split: option.split)

text \<open>Keys of the object store.\<close>

lemma show_int_not_general: "show_int i \<noteq> ''general''"
proof
  assume "show_int i = ''general''"
  then have "CHR ''g'' \<in> set (show_int i)" by simp
  then show False using show_int_chars by (fastforce simp: show_int_chars_def)
qed

definition item_segment :: "int option \<Rightarrow> string" where
  "item_segment b = (case b of None \<Rightarrow> ''general'' | Some x \<Rightarrow> show_int x)"

lemma item_segment_inj: "item_segment b = item_segment b' \<Longrightarrow> b = b'"
  using show_int_not_general show_int_not_general[symmetric]
  by (auto simp: item_segment_def dest: show_int_inj split: option.splits)

lemma no_slash: "CHR ''/'' \<notin> set (show_int i)" "CHR ''/'' \<notin> set (item_segment b)"
proof -
  show one: "CHR ''/'' \<notin> set (show_int i)" for i
    using show_int_chars by (fastforce simp: show_int_chars_def)
  show "CHR ''/'' \<notin> set (item_segment b)"
    using one by (simp add: item_segment_def split: option.split)
qed

lemma split_at_slash:
  assumes "CHR ''/'' \<notin> set xs" "CHR ''/'' \<notin> set ys" "xs @ CHR ''/'' # r = ys @ CHR ''/'' # r'"
  shows "xs = ys \<and> r = r'"
proof -
  have "takeWhile (\<lambda>c. c \<noteq> CHR ''/'') (zs @ CHR ''/'' # q) = zs" if "CHR ''/'' \<notin> set zs" for zs q
    using that by (induction zs) auto
  then have "xs = ys" using assms by metis
  then show ?thesis using assms(3) by simp
qed

lemma photo_key_inj: "photo_key p b c = photo_key p' b' c' \<Longrightarrow> p = p' \<and> b = b' \<and> c = c'"
proof -
  assume eq: "photo_key p b c = photo_key p' b' c'"
  have "photo_key p b c = ''sync-photos/'' @ show_int p @ CHR ''/'' # item_segment b @ CHR ''/'' # c" for p b c
    by (simp add: photo_key_def item_segment_def)
  with eq have "show_int p @ CHR ''/'' # item_segment b @ CHR ''/'' # c
      = show_int p' @ CHR ''/'' # item_segment b' @ CHR ''/'' # c'" by simp
  then show ?thesis
    using split_at_slash no_slash show_int_inj item_segment_inj by metis
qed

end
