(* ===== verification/Sync_Theorems.thy ===== *)
theory Sync_Theorems
  imports Sync_Props Period_Theorems
begin

text \<open>
  The properties of the offline synchronization.  The witnesses replay operations of a device \<^verbatim>\<open>d\<close>
  against the period the contractor has submitted.
\<close>

definition any_date :: "string \<Rightarrow> date option" where
  "any_date t = Some 500"

definition sample_op :: "string \<Rightarrow> int \<Rightarrow> number \<Rightarrow> json" where
  "sample_op c v vol = JObj
     [(''clientOpId'', JStr c), (''operation'', JStr ''submit_fact''), (''boqVersionNumber'', JStr ''1.0''),
      (''lastKnownVersion'', JNum (of_int v)), (''clientTimestamp'', JStr ''2026-06-01T08:00:00Z''),
      (''payload'', JObj [(''periodId'', JNum 101), (''boqItemId'', JNum 30), (''scVolume'', JNum vol)])]"

definition sample_batch :: "json list" where
  "sample_batch = [sample_op ''a'' 1 5, JNull, sample_op ''b'' 2 6]"

definition synced :: db where
  "synced = final (processOperations any_date 1 ''d'' sample_batch) submitted_store"

lemma synced_runs: "returns (processOperations any_date 1 ''d'' sample_batch) submitted_store"
  by code_simp

section \<open>Batches\<close>

text \<open>
  \<^verbatim>\<open>processOperations\<close>, when it returns, gives exactly one result per operation of the batch, in
  order, under the operation's own id; and every valid operation that was not skipped is then recorded
  in the queue of its device.
\<close>

theorem one_result_per_operation:
  assumes "processOperations parseDate userId deviceId operations s = (Inr results, s')"
  shows "map sr_clientOpId results = map op_id operations
     \<and> ((\<forall>r \<in> set results. sr_status r \<noteq> SSkipped) \<longrightarrow> (\<forall>raw \<in> set operations. queued parseDate deviceId raw s'))"
proof -
  obtain org acc where "foldEach operations ([], False) (process_one parseDate org userId deviceId) s = (Inr acc, s')"
    "results = fst acc"
    using assms by (auto simp: processOperations_def user_org_def bind_eq_Inr getsOr_def ret_def split: option.splits)
  from foldEach_results[OF this(1)] this(2) show ?thesis by auto
qed

theorem one_result_per_operation_witness:
  "map sr_clientOpId (result_of (processOperations any_date 1 ''d'' sample_batch) submitted_store)
     = [Some ''a'', None, Some ''b'']"
proof -
  have "map op_id sample_batch = [Some ''a'', None, Some ''b'']" by code_simp
  with one_result_per_operation[OF returns_run[OF synced_runs]] show ?thesis by simp
qed

text \<open>
  C24.  A batch may be sent again: when no operation of the first run was skipped, sending the same batch
  later, with the rows of the queue still there, changes nothing at all.  It answers the operations in order: a
  valid one with the status, the id and the conflict data that its row then holds, as a duplicate; an invalid one
  with its refusal.
\<close>

theorem replayed_batch_changes_nothing:
  assumes run: "processOperations parseDate userId deviceId operations s = (Inr results, s')"
    and "\<forall>r \<in> set results. sr_status r \<noteq> SSkipped"
    and "keeps_sync s' t" and "find_user userId t \<noteq> None"
  shows "\<exists>results'. processOperations parseDate userId deviceId operations t = (Inr results', t)
           \<and> list_all2 (replay_answer parseDate deviceId t) operations results'"
proof -
  obtain org acc where "foldEach operations ([], False) (process_one parseDate org userId deviceId) s = (Inr acc, s')"
    "results = fst acc"
    using run by (auto simp: processOperations_def user_org_def bind_eq_Inr getsOr_def ret_def split: option.splits)
  from foldEach_results[OF this(1)] this(2) assms(2,3)
  have q: "\<forall>raw \<in> set operations. queued parseDate deviceId raw t"
    by (auto simp: queued_def keeps_sync_def)
  obtain u where "find_user userId t = Some u" using assms(4) by auto
  then show ?thesis
    using foldEach_queued[OF q, of "[]" "u_organizationId u" userId]
    by (auto simp: processOperations_def user_org_def prog_defs ret_def)
qed

theorem replayed_batch_changes_nothing_witness:
  "\<exists>results'. processOperations any_date 1 ''d'' sample_batch synced = (Inr results', synced)
     \<and> list_all2 (replay_answer any_date ''d'' synced) sample_batch results'"
proof -
  have "list_all (\<lambda>r. sr_status r \<noteq> SSkipped) (result_of (processOperations any_date 1 ''d'' sample_batch) submitted_store)"
    by code_simp
  moreover have "find_user 1 synced \<noteq> None" by code_simp
  ultimately show ?thesis
    using replayed_batch_changes_nothing[OF returns_run[OF synced_runs] _ ksync.R_refl]
    by (auto simp: list_all_iff synced_def)
qed

definition stale_batch :: "json list" where
  "stale_batch = [sample_op ''x'' 7 9, sample_op ''y'' 1 6]"

text \<open>
  The rule that a conflict stops the batch does not survive a retry.  The first run of this batch
  finds the first operation in conflict and fails; sent again, the conflict is answered as a duplicate
  and the second operation is applied.
\<close>

theorem retry_applies_rest_after_conflict:
  "error_of (processOperations any_date 1 ''d'' stale_batch) submitted_store = Some (PrismaError CheckViolation)
   \<and> map sr_status (result_of (processOperations any_date 1 ''d'' stale_batch)
        (final (processOperations any_date 1 ''d'' stale_batch) submitted_store)) = [SConflict, SApplied]"
  by code_simp

section \<open>A single operation\<close>

text \<open>
  C25.  Only an applied operation changes facts or periods, and then exactly as the online call with the
  operation's values and its last known version as the expected one; an operation that is rejected, in
  conflict or escalated, and one that ends in an exception, leaves every fact and every period as it was.
\<close>

theorem offline_operation_outcome:
  assumes "applyFactOperation orgId userId rowId op' s = (r, s')"
    and "list_ex (\<lambda>q. q_id q = rowId) (syncQueue s)"
  shows "case r of
           Inr res \<Rightarrow>
             if sr_status res = SApplied
             then \<exists>f t. fact_call userId op' s = (Inr f, t) \<and> s' = applied_row rowId t
             else sr_status res \<in> {SRejected, SConflict, SEscalated} \<and> same_facts s s'
         | Inl e \<Rightarrow> same_facts s s'"
  using applyFactOperation_outcome[of orgId userId rowId op' s _ s']
    applyFactOperation_throws[of orgId userId rowId op' s _ s'] assms
  by (auto simp: outcome_ok_def split: sum.split)

definition queued_store :: db where
  "queued_store = final (insert_sync (new_sync_row any_date ''d'' 1 (as_operation (sample_op ''a'' 1 5)) 1000)) submitted_store"

lemma apply_runs: "returns (applyFactOperation ''org'' 1 101 (as_operation (sample_op ''a'' 1 5))) queued_store"
  by code_simp

theorem offline_operation_outcome_witness:
  "(\<exists>f t. fact_call 1 (as_operation (sample_op ''a'' 1 5)) queued_store = (Inr f, t)
     \<and> final (applyFactOperation ''org'' 1 101 (as_operation (sample_op ''a'' 1 5))) queued_store = applied_row 101 t)
   \<and> same_facts queued_store
     (final (applyFactOperation ''org'' 1 101 (as_operation (sample_op ''x'' 7 9))) queued_store)"
proof
  have row: "list_ex (\<lambda>q. q_id q = 101) (syncQueue queued_store)" by code_simp
  have "sr_status (result_of (applyFactOperation ''org'' 1 101 (as_operation (sample_op ''a'' 1 5))) queued_store) = SApplied"
    by code_simp
  then show "\<exists>f t. fact_call 1 (as_operation (sample_op ''a'' 1 5)) queued_store = (Inr f, t)
      \<and> final (applyFactOperation ''org'' 1 101 (as_operation (sample_op ''a'' 1 5))) queued_store = applied_row 101 t"
    using offline_operation_outcome[OF returns_run[OF apply_runs] row] by simp
  have "error_of (applyFactOperation ''org'' 1 101 (as_operation (sample_op ''x'' 7 9))) queued_store
      = Some (PrismaError CheckViolation)" by code_simp
  from offline_operation_outcome[OF error_run[OF this] row]
  show "same_facts queued_store
     (final (applyFactOperation ''org'' 1 101 (as_operation (sample_op ''x'' 7 9))) queued_store)" by simp
qed

text \<open>
  A version conflict is never reported to the device: with the audit actions the migrations allow,
  the request fails while it records the conflict, after the row has been marked.  No fact changes.
\<close>

theorem conflict_request_fails:
  assumes "gate_ok orgId op' s" and "find_sync_id rowId s \<noteq> None"
    and "''sync_conflict_detected'' \<notin> set (audit_actions s)"
    and "fact_call userId op' s = (Inl (VersionConflictException sf), t)"
  shows "\<exists>s'. applyFactOperation orgId userId rowId op' s = (Inl (PrismaError CheckViolation), s')
           \<and> map_option q_status (find_sync_id rowId s') = Some SConflict \<and> same_facts s s'"
  using assms by (rule conflict_is_error)

theorem conflict_request_fails_witness:
  "\<exists>s'. applyFactOperation ''org'' 1 101 (as_operation (sample_op ''x'' 7 9)) queued_store
          = (Inl (PrismaError CheckViolation), s')"
proof -
  have "case error_of (fact_call 1 (as_operation (sample_op ''x'' 7 9))) queued_store of
          Some (VersionConflictException sf) \<Rightarrow> True | _ \<Rightarrow> False" by code_simp
  then obtain sf where "error_of (fact_call 1 (as_operation (sample_op ''x'' 7 9))) queued_store
      = Some (VersionConflictException sf)" by (auto split: option.splits exn.splits)
  from conflict_request_fails[OF _ _ _ error_run[OF this], of "''org''" 101]
  have "gate_ok ''org'' (as_operation (sample_op ''x'' 7 9)) queued_store \<Longrightarrow> find_sync_id 101 queued_store \<noteq> None
      \<Longrightarrow> ''sync_conflict_detected'' \<notin> set (audit_actions queued_store) \<Longrightarrow> ?thesis" by blast
  moreover have "gate_ok ''org'' (as_operation (sample_op ''x'' 7 9)) queued_store" by code_simp
  moreover have "find_sync_id 101 queued_store \<noteq> None" by code_simp
  moreover have "''sync_conflict_detected'' \<notin> set (audit_actions queued_store)" by code_simp
  ultimately show ?thesis by blast
qed

section \<open>Photos\<close>

text \<open>
  C26.  Uploading a photo can be retried: once an upload has returned, another one with the same device
  and operation id, whatever its other arguments, returns the same photo and row as a duplicate and
  changes nothing, as long as the row is in the queue.
\<close>

theorem photo_upload_idempotent:
  assumes "uploadPhoto parseDate s3 userId deviceId opId p b taken s = (Inr res, s')"
    and "find_sync deviceId opId t = find_sync deviceId opId s'"
  shows "uploadPhoto parseDate2 s32 userId2 deviceId opId p2 b2 taken2 t = (Inr (res\<lparr>pr_duplicate := True\<rparr>), t)"
  using wp_Inr[OF assms(1) wp_uploadPhoto] assms(2)
  by (auto simp: uploadPhoto_def prog_defs)

lemma photo_runs: "returns (uploadPhoto any_date (\<lambda>_. True) 1 ''d'' ''p1'' 101 (Some 30) None) submitted_store"
  by code_simp

theorem photo_upload_idempotent_witness:
  "returns (uploadPhoto any_date (\<lambda>_. False) 1 ''d'' ''p1'' 101 None None)
     (final (uploadPhoto any_date (\<lambda>_. True) 1 ''d'' ''p1'' 101 (Some 30) None) submitted_store)"
  using photo_upload_idempotent[OF returns_run[OF photo_runs] refl] by (simp add: returns_def)

text \<open>
  C27.  The key of a photo in the object store determines the period, the position and the operation id:
  photos of different operations of a device never overwrite each other.
\<close>

theorem photo_key_injective:
  "photo_key p b opId = photo_key p2 b2 opId2 \<longleftrightarrow> p = p2 \<and> b = b2 \<and> opId = opId2"
  using photo_key_inj by blast

end
