(* ===== verification/Catalog_Store.thy ===== *)
theory Catalog_Store
  imports Store_Invariant
begin

text \<open>
  The master data: construction objects with their participants and documents, the versions of the BoQ
  with their positions, the requests to change a position, the configuration, the refresh tokens and
  the view behind the dashboard.  This theory models the single-row writes of the Prisma client on these
  tables, with the indexes, CHECK constraints and the trigger \<^verbatim>\<open>trg_boq_items_weight_coef\<close> of the
  migrations, the invariant \<open>catalog_ok\<close> of the tables, and \<open>catalog_step s s'\<close>, how the services that
  write them may change the store.
\<close>

section \<open>BoQ versions and positions\<close>

definition CHANGE_TYPES :: "string list" where
  "CHANGE_TYPES = [''initial'', ''volume'', ''cost'', ''structural'']"

definition version_key :: "boq_version \<Rightarrow> int \<times> string" where
  "version_key v = (bv_objectId v, bv_versionNumber v)"

definition active_version :: "int \<Rightarrow> db \<Rightarrow> boq_version option" where
  "active_version objectId s = List.find (\<lambda>v. bv_objectId v = objectId \<and> bv_isActive v) (boqVersions s)"

definition insert_boq_version :: "(int \<Rightarrow> boq_version) \<Rightarrow> boq_version service" where
  "insert_boq_version mk = bind (nextval TBoqVersions) (\<lambda>i.
     andThen (guard (bv_changeType (mk i) \<in> set CHANGE_TYPES) (PrismaError CheckViolation))
    (andThen (guardS (\<lambda>s. list_all (\<lambda>v. version_key v \<noteq> version_key (mk i)) (boqVersions s)
                \<and> (bv_isActive (mk i) \<longrightarrow> active_version (bv_objectId (mk i)) s = None)) (PrismaError UniqueViolation))
    (andThen (modify (\<lambda>s. s\<lparr>boqVersions := boqVersions s @ [mk i]\<rparr>)) (ret (mk i)))))"

definition deactivate_version :: "int \<Rightarrow> unit service" where
  "deactivate_version i = modify (\<lambda>s. s\<lparr>boqVersions :=
     update_where (\<lambda>v. bv_id v = i) (\<lambda>v. v\<lparr>bv_isActive := False\<rparr>) (boqVersions s)\<rparr>)"

text \<open>Trigger \<^verbatim>\<open>fn_recalc_weight_coef\<close>: every active position weighs its share of the contract value.\<close>

definition active_in :: "int \<Rightarrow> boq_item \<Rightarrow> bool" where
  "active_in v b \<longleftrightarrow> bi_boqVersionId b = v \<and> bi_status b = BActive"

definition contract_total :: "int \<Rightarrow> boq_item list \<Rightarrow> number" where
  "contract_total v items = sum_list (map bi_contractValue (filter (active_in v) items))"

definition recalc_weight_coef :: "int \<Rightarrow> boq_item list \<Rightarrow> boq_item list" where
  "recalc_weight_coef v items =
     (if contract_total v items = 0 then items
      else update_where (active_in v)
             (\<lambda>b. b\<lparr>bi_weightCoef := Some (bi_contractValue b / contract_total v items)\<rparr>) items)"

text \<open>The rows of a \<^verbatim>\<open>createMany\<close> get consecutive keys.\<close>

fun number_rows :: "int \<Rightarrow> (int \<Rightarrow> 'r) list \<Rightarrow> 'r list" where
  "number_rows n [] = []"
| "number_rows n (mk # mks) = mk (n + 1) # number_rows (n + 1) mks"

definition item_code :: "boq_item \<Rightarrow> int \<times> string" where
  "item_code b = (bi_boqVersionId b, bi_workCode b)"

definition boq_item_checks :: "boq_item \<Rightarrow> bool" where
  "boq_item_checks b \<longleftrightarrow> 0 < bi_planVolume b \<and> 0 \<le> bi_contractValue b"

text \<open>
  One \<^verbatim>\<open>INSERT\<close> of several rows of a version.  The trigger runs after the statement, once per row, and
  every run computes the same weights.
\<close>

definition insert_boq_items :: "int \<Rightarrow> (int \<Rightarrow> boq_item) list \<Rightarrow> unit service" where
  "insert_boq_items v mks =
     bind (gets (\<lambda>s. number_rows (seq s TBoqItems) mks)) (\<lambda>rows.
     andThen (modify (\<lambda>s. s\<lparr>seq := (seq s)(TBoqItems := seq s TBoqItems + int (length mks))\<rparr>))
    (andThen (guard (list_all boq_item_checks rows) (PrismaError CheckViolation))
    (andThen (guardS (\<lambda>s. rows \<noteq> [] \<longrightarrow> list_ex (\<lambda>ver. bv_id ver = v) (boqVersions s)) (PrismaError ForeignKeyViolation))
    (andThen (guardS (\<lambda>s. distinct (map item_code rows)
                \<and> list_all (\<lambda>r. item_code r \<notin> item_code ` set (boqItems s)) rows) (PrismaError UniqueViolation))
    (if rows = [] then ret ()
     else andThen (guardS (\<lambda>s. list_all weight_check (recalc_weight_coef v (boqItems s @ rows)))
                     (PrismaError CheckViolation))
            (modify (\<lambda>s. s\<lparr>boqItems := recalc_weight_coef v (boqItems s @ rows)\<rparr>)))))))"

section \<open>Objects, participants and documents\<close>

definition insert_object :: "(int \<Rightarrow> construction_object) \<Rightarrow> construction_object service" where
  "insert_object mk = bind (nextval TObjects) (\<lambda>i.
     andThen (modify (\<lambda>s. s\<lparr>objects := objects s @ [mk i]\<rparr>)) (ret (mk i)))"

definition PARTICIPANT_ROLES :: "string list" where
  "PARTICIPANT_ROLES = [''general_contractor'', ''developer'', ''designer'', ''stroycontrol_org'']"

definition role_key :: "participant \<Rightarrow> int \<times> string" where
  "role_key p = (op_objectId p, op_participantRole p)"

definition insert_participant :: "(int \<Rightarrow> participant) \<Rightarrow> participant service" where
  "insert_participant mk = bind (nextval TParticipants) (\<lambda>i.
     andThen (guard (op_participantRole (mk i) \<in> set PARTICIPANT_ROLES) (PrismaError CheckViolation))
    (andThen (guardS (\<lambda>s. op_isCurrent (mk i) \<longrightarrow>
                list_all (\<lambda>p. op_isCurrent p \<longrightarrow> role_key p \<noteq> role_key (mk i)) (participants s))
                (PrismaError UniqueViolation))
    (andThen (modify (\<lambda>s. s\<lparr>participants := participants s @ [mk i]\<rparr>)) (ret (mk i)))))"

definition update_participants_where ::
  "(participant \<Rightarrow> bool) \<Rightarrow> (participant \<Rightarrow> participant) \<Rightarrow> unit service" where
  "update_participants_where P g = modify (\<lambda>s. s\<lparr>participants := update_where P g (participants s)\<rparr>)"

definition DOC_TYPES :: "string list" where
  "DOC_TYPES = [''ssr'', ''rdc'', ''calendar_plan'', ''other'']"

definition insert_document :: "(int \<Rightarrow> l2_document) \<Rightarrow> l2_document service" where
  "insert_document mk = bind (nextval TDocuments) (\<lambda>i.
     andThen (guard (l_docType (mk i) \<in> set DOC_TYPES) (PrismaError CheckViolation))
    (andThen (modify (\<lambda>s. s\<lparr>documents := documents s @ [mk i]\<rparr>)) (ret (mk i))))"

section \<open>Change requests, configuration, tokens and the view\<close>

definition insert_baseline_request :: "(int \<Rightarrow> baseline_request) \<Rightarrow> baseline_request service" where
  "insert_baseline_request mk = bind (nextval TBaselineRequests) (\<lambda>i.
     andThen (modify (\<lambda>s. s\<lparr>baselineRequests := baselineRequests s @ [mk i]\<rparr>)) (ret (mk i)))"

definition find_baseline_request :: "int \<Rightarrow> db \<Rightarrow> baseline_request option" where
  "find_baseline_request i s = List.find (\<lambda>r. br_id r = i) (baselineRequests s)"

text \<open>\<^verbatim>\<open>applies_from_period_id\<close> refers to a period.\<close>

definition update_baseline_request ::
  "int \<Rightarrow> (baseline_request \<Rightarrow> baseline_request) \<Rightarrow> baseline_request service" where
  "update_baseline_request i g = bind (getsOr (find_baseline_request i) (PrismaError RecordNotFound)) (\<lambda>old.
     andThen (guardS (\<lambda>s. case br_appliesFromPeriodId (g old) of
                None \<Rightarrow> True | Some p \<Rightarrow> find_period p s \<noteq> None) (PrismaError ForeignKeyViolation))
    (andThen (modify (\<lambda>s. s\<lparr>baselineRequests := update_where (\<lambda>r. br_id r = i) g (baselineRequests s)\<rparr>))
       (ret (g old))))"

text \<open>\<^verbatim>\<open>chk_system_config_value\<close>\<close>

definition config_check :: "system_config \<Rightarrow> bool" where
  "config_check c \<longleftrightarrow>
     (c_valueType c = ''numeric'' \<and> c_valueNumeric c \<noteq> None \<and> c_valueText c = None)
     \<or> (c_valueType c = ''text'' \<and> c_valueText c \<noteq> None \<and> c_valueNumeric c = None)
     \<or> (c_valueType c = ''boolean'' \<and> c_valueNumeric c \<in> {Some 0, Some 1} \<and> c_valueText c = None)"

definition config_key :: "system_config \<Rightarrow> string \<times> string" where
  "config_key c = (c_organizationId c, c_key c)"

definition find_config :: "string \<Rightarrow> string \<Rightarrow> db \<Rightarrow> system_config option" where
  "find_config organizationId key s =
     List.find (\<lambda>c. c_organizationId c = organizationId \<and> c_key c = key) (systemConfig s)"

definition upsert_config ::
  "string \<Rightarrow> string \<Rightarrow> system_config \<Rightarrow> (system_config \<Rightarrow> system_config) \<Rightarrow> system_config service" where
  "upsert_config organizationId key new g = bind (gets (find_config organizationId key)) (\<lambda>existing.
     case existing of
       None \<Rightarrow> andThen (guard (config_check new) (PrismaError CheckViolation))
              (andThen (modify (\<lambda>s. s\<lparr>systemConfig := systemConfig s @ [new]\<rparr>)) (ret new))
     | Some old \<Rightarrow> andThen (guard (config_check (g old)) (PrismaError CheckViolation))
              (andThen (modify (\<lambda>s. s\<lparr>systemConfig :=
                 update_where (\<lambda>c. config_key c = (organizationId, key)) (\<lambda>_. g old) (systemConfig s)\<rparr>))
                (ret (g old))))"

definition find_token :: "string \<Rightarrow> db \<Rightarrow> refresh_token option" where
  "find_token tokenHash s = List.find (\<lambda>r. rt_tokenHash r = tokenHash) (refreshTokens s)"

definition insert_refresh_token :: "(int \<Rightarrow> refresh_token) \<Rightarrow> unit service" where
  "insert_refresh_token mk = bind (nextval TRefreshTokens) (\<lambda>i.
     andThen (guardS (\<lambda>s. find_token (rt_tokenHash (mk i)) s = None) (PrismaError UniqueViolation))
       (modify (\<lambda>s. s\<lparr>refreshTokens := refreshTokens s @ [mk i]\<rparr>)))"

definition revoke_tokens_where :: "(refresh_token \<Rightarrow> bool) \<Rightarrow> unit service" where
  "revoke_tokens_where P = bind now (\<lambda>t. modify (\<lambda>s. s\<lparr>refreshTokens :=
     update_where P (\<lambda>r. r\<lparr>rt_revokedAt := Some t\<rparr>) (refreshTokens s)\<rparr>))"

text \<open>
  \<^verbatim>\<open>REFRESH MATERIALIZED VIEW\<close>: a row for each object with a period, about its latest one.
\<close>

definition status_row :: "db \<Rightarrow> construction_object \<Rightarrow> mv_row option" where
  "status_row s ob =
     (case find_first_desc p_periodNumber (\<lambda>p. p_objectId p = o_id ob) (periods s) of
        None \<Rightarrow> None
      | Some p \<Rightarrow> (case List.find (\<lambda>r. rs_periodId r = p_id p) (readinessSnapshots s) of
           None \<Rightarrow> Some \<lparr>mv_objectId = o_id ob, mv_readinessPct = None, mv_weightedForecastDate = None,
                        mv_criticalPathForecastDate = None, mv_gapFlag = None\<rparr>
         | Some r \<Rightarrow> Some \<lparr>mv_objectId = o_id ob, mv_readinessPct = Some (rs_objectReadinessPct r),
                        mv_weightedForecastDate = rs_weightedForecastDate r,
                        mv_criticalPathForecastDate = rs_criticalPathForecastDate r,
                        mv_gapFlag = Some (rs_gapFlag r)\<rparr>))"

definition refresh_view :: "unit service" where
  "refresh_view = modify (\<lambda>s. s\<lparr>mvRows := List.map_filter (status_row s) (objects s)\<rparr>)"

definition upsert_mv_log :: "mv_log \<Rightarrow> unit service" where
  "upsert_mv_log r = modify (\<lambda>s. s\<lparr>mvRefreshLog :=
     (if list_ex (\<lambda>q. ml_viewName q = ml_viewName r) (mvRefreshLog s)
      then update_where (\<lambda>q. ml_viewName q = ml_viewName r) (\<lambda>_. r) (mvRefreshLog s)
      else mvRefreshLog s @ [r])\<rparr>)"

end
