(* ===== verification/Catalog_Invariant.thy ===== *)
theory Catalog_Invariant
  imports Catalog_Store
begin

text \<open>
  The invariant of the master data and how services may change it.

  \<^item> \<open>catalog_ok\<close>: keys are distinct and drawn from their sequences; an object has at most one active
    BoQ version, one version per number and one current participant per role; the weights of the active
    positions of a version are absent or their shares of the contract value.
  \<^item> \<open>catalog_step s s'\<close>: the tables of the reporting cycle are as before, sequences and the audit log
    only grow, and both invariants survive.

  The locale \<open>catalog_writes\<close> is the contract of the services that write master data.
\<close>

section \<open>The invariant\<close>

definition share_of :: "number \<Rightarrow> boq_item \<Rightarrow> number" where
  "share_of tot b = bi_contractValue b / tot"

definition shares_ok :: "boq_item list \<Rightarrow> int \<Rightarrow> bool" where
  "shares_ok items v \<longleftrightarrow>
     list_all (\<lambda>b. bi_weightCoef b = None) (filter (active_in v) items)
     \<or> contract_total v items \<noteq> 0
       \<and> list_all (\<lambda>b. bi_weightCoef b = Some (share_of (contract_total v items) b)) (filter (active_in v) items)"

definition current_keys :: "participant list \<Rightarrow> (int \<times> string) list" where
  "current_keys ps = map role_key (filter op_isCurrent ps)"

text \<open>A position out of scope weighs nothing.\<close>

definition idle_unweighted :: "boq_item \<Rightarrow> bool" where
  "idle_unweighted b \<longleftrightarrow> (bi_status b \<noteq> BActive \<longrightarrow> bi_weightCoef b = None)"

definition boq_ok :: "db \<Rightarrow> bool" where
  "boq_ok s \<longleftrightarrow>
     keyed bv_id (boqVersions s) (seq s TBoqVersions) \<and> keyed bi_id (boqItems s) (seq s TBoqItems)
     \<and> distinct (map version_key (boqVersions s))
     \<and> distinct (map bv_objectId (filter bv_isActive (boqVersions s)))
     \<and> distinct (map item_code (boqItems s))
     \<and> list_all (\<lambda>b. bi_boqVersionId b \<in> bv_id ` set (boqVersions s)) (boqItems s)
     \<and> list_all boq_item_checks (boqItems s) \<and> list_all idle_unweighted (boqItems s)
     \<and> list_all (\<lambda>v. shares_ok (boqItems s) (bv_id v)) (boqVersions s)"

definition registry_ok :: "db \<Rightarrow> bool" where
  "registry_ok s \<longleftrightarrow>
     keyed o_id (objects s) (seq s TObjects) \<and> keyed op_id (participants s) (seq s TParticipants)
     \<and> distinct (current_keys (participants s))
     \<and> keyed l_id (documents s) (seq s TDocuments) \<and> keyed br_id (baselineRequests s) (seq s TBaselineRequests)
     \<and> keyed rt_id (refreshTokens s) (seq s TRefreshTokens) \<and> distinct (map rt_tokenHash (refreshTokens s))
     \<and> distinct (map config_key (systemConfig s)) \<and> list_all config_check (systemConfig s)
     \<and> distinct (map ml_viewName (mvRefreshLog s))"

definition catalog_ok :: "db \<Rightarrow> bool" where
  "catalog_ok s \<longleftrightarrow> boq_ok s \<and> registry_ok s"

lemmas catalog_defs = catalog_ok_def boq_ok_def registry_ok_def

lemma catalog_ok_empty: "catalog_ok empty_db"
  by (simp add: catalog_defs empty_db_def keyed_def current_keys_def)

lemma catalog_ok_seq_mono:
  "catalog_ok s \<Longrightarrow> (\<And>T. seq s T \<le> f T) \<Longrightarrow> catalog_ok (s\<lparr>auditLog := a, seq := f\<rparr>)"
  by (auto simp: catalog_defs intro: keyed_mono)

text \<open>A service that leaves the master data alone keeps their invariant.\<close>

lemma static_catalog_ok:
  assumes "same_static s s'" and "\<And>T. seq s T \<le> seq s' T" and "catalog_ok s"
  shows "catalog_ok s'"
  using assms by (auto simp: same_static_def catalog_defs intro: keyed_mono)

section \<open>What survives\<close>

definition rows_kept :: "('r \<Rightarrow> 'r \<Rightarrow> bool) \<Rightarrow> 'r list \<Rightarrow> 'r list \<Rightarrow> bool" where
  "rows_kept Q rows rows' \<longleftrightarrow> (\<forall>r \<in> set rows. \<exists>r' \<in> set rows'. Q r r')"

lemma rows_kept_refl: "(\<And>r. Q r r) \<Longrightarrow> rows_kept Q rows rows"
  by (auto simp: rows_kept_def)

lemma rows_kept_append: "(\<And>r. Q r r) \<Longrightarrow> rows_kept Q rows (rows @ rs)"
  by (auto simp: rows_kept_def)

lemma rows_kept_update:
  "(\<And>r. Q r r) \<Longrightarrow> (\<And>r. P r \<Longrightarrow> Q r (f r)) \<Longrightarrow> rows_kept Q rows (update_where P f rows)"
  unfolding rows_kept_def by (rule kept_update_where) auto

lemma rows_kept_trans:
  "(\<And>a b c. Q a b \<Longrightarrow> Q b c \<Longrightarrow> Q a c) \<Longrightarrow> rows_kept Q rows rows' \<Longrightarrow> rows_kept Q rows' rows''
     \<Longrightarrow> rows_kept Q rows rows''"
  unfolding rows_kept_def by metis

text \<open>A version may be deactivated, a position reweighted, a participant replaced, a token revoked.\<close>

definition version_next :: "boq_version \<Rightarrow> boq_version \<Rightarrow> bool" where
  "version_next v v' \<longleftrightarrow> v' = v \<or> v' = v\<lparr>bv_isActive := False\<rparr>"

definition item_next :: "boq_item \<Rightarrow> boq_item \<Rightarrow> bool" where
  "item_next b b' \<longleftrightarrow> (\<exists>c. b' = b\<lparr>bi_weightCoef := c\<rparr>)"

definition participant_next :: "participant \<Rightarrow> participant \<Rightarrow> bool" where
  "participant_next p p' \<longleftrightarrow>
     op_id p' = op_id p \<and> role_key p' = role_key p \<and> op_validFrom p' = op_validFrom p
     \<and> op_orgName p' = op_orgName p \<and> (op_isCurrent p' \<longrightarrow> op_isCurrent p)"

definition token_next :: "refresh_token \<Rightarrow> refresh_token \<Rightarrow> bool" where
  "token_next r r' \<longleftrightarrow> r' = r \<or> (\<exists>t. r' = r\<lparr>rt_revokedAt := Some t\<rparr>)"

lemma next_refl [simp]:
  "version_next v v" "item_next b b" "participant_next p p" "token_next r r"
  by (auto simp: version_next_def item_next_def participant_next_def token_next_def
      intro: exI[of _ "bi_weightCoef b"])

lemma next_trans:
  "version_next v v' \<Longrightarrow> version_next v' v'' \<Longrightarrow> version_next v v''"
  "item_next b b' \<Longrightarrow> item_next b' b'' \<Longrightarrow> item_next b b''"
  "participant_next p p' \<Longrightarrow> participant_next p' p'' \<Longrightarrow> participant_next p p''"
  "token_next r r' \<Longrightarrow> token_next r' r'' \<Longrightarrow> token_next r r''"
  by (auto simp: version_next_def item_next_def participant_next_def token_next_def)

definition catalog_kept :: "db \<Rightarrow> db \<Rightarrow> bool" where
  "catalog_kept s s' \<longleftrightarrow>
     rows_kept version_next (boqVersions s) (boqVersions s') \<and> rows_kept item_next (boqItems s) (boqItems s')
     \<and> rows_kept participant_next (participants s) (participants s')
     \<and> rows_kept token_next (refreshTokens s) (refreshTokens s')
     \<and> set (objects s) \<subseteq> set (objects s') \<and> set (documents s) \<subseteq> set (documents s')"

lemma catalog_kept_refl: "catalog_kept s s"
  by (simp add: catalog_kept_def rows_kept_refl)

lemma catalog_kept_trans: "catalog_kept s t \<Longrightarrow> catalog_kept t u \<Longrightarrow> catalog_kept s u"
  unfolding catalog_kept_def by (blast intro: rows_kept_trans next_trans)

lemma catalog_kept_same:
  "boqVersions s' = boqVersions s \<Longrightarrow> boqItems s' = boqItems s \<Longrightarrow> participants s' = participants s \<Longrightarrow>
   refreshTokens s' = refreshTokens s \<Longrightarrow> objects s' = objects s \<Longrightarrow> documents s' = documents s \<Longrightarrow>
   catalog_kept s s'"
  by (simp add: catalog_kept_def rows_kept_refl)

lemma static_catalog_kept: "same_static s s' \<Longrightarrow> catalog_kept s s'"
  by (simp add: same_static_def catalog_kept_same)

section \<open>Steps of the services that write master data\<close>

definition same_core :: "db \<Rightarrow> db \<Rightarrow> bool" where
  "same_core s s' \<longleftrightarrow>
     users s' = users s \<and> zeroReports s' = zeroReports s \<and> zeroReportItems s' = zeroReportItems s
     \<and> periods s' = periods s \<and> periodFacts s' = periodFacts s \<and> discrepancies s' = discrepancies s
     \<and> photos s' = photos s \<and> slaEvents s' = slaEvents s \<and> slaJobs s' = slaJobs s
     \<and> notifications s' = notifications s \<and> readinessSnapshots s' = readinessSnapshots s
     \<and> workPaces s' = workPaces s \<and> syncQueue s' = syncQueue s
     \<and> mv_columns s' = mv_columns s \<and> audit_actions s' = audit_actions s \<and> clock s' = clock s"

definition catalog_step :: "db \<Rightarrow> db \<Rightarrow> bool" where
  "catalog_step s s' \<longleftrightarrow>
     same_core s s' \<and> (\<forall>T. seq s T \<le> seq s' T) \<and> (\<exists>rows. auditLog s' = auditLog s @ rows)
     \<and> (db_ok s \<longrightarrow> db_ok s') \<and> (catalog_ok s \<longrightarrow> catalog_ok s') \<and> catalog_kept s s'"

lemma same_core_trans: "same_core s t \<Longrightarrow> same_core t u \<Longrightarrow> same_core s u"
  by (simp add: same_core_def)

lemma catalog_stepI:
  assumes "same_core s s'" "\<And>T. seq s T \<le> seq s' T" "auditLog s' = auditLog s @ rows"
    and "db_ok s \<Longrightarrow> db_ok s'" "catalog_ok s \<Longrightarrow> catalog_ok s'" "catalog_kept s s'"
  shows "catalog_step s s'"
  using assms by (auto simp: catalog_step_def)

lemma catalog_step_refl: "catalog_step s s"
  by (rule catalog_stepI[where rows = "[]"]) (simp_all add: same_core_def catalog_kept_refl)

lemma catalog_step_trans: "catalog_step s t \<Longrightarrow> catalog_step t u \<Longrightarrow> catalog_step s u"
  unfolding catalog_step_def
  by (auto intro: same_core_trans catalog_kept_trans order_trans)

lemma catalog_step_keep: "catalog_step s s' \<Longrightarrow> catalog_step s (keep_outside s' s)"
  unfolding catalog_step_def keep_outside_def
  by (auto simp: same_core_def catalog_kept_same intro!: db_ok_seq_mono catalog_ok_seq_mono)

interpretation cat: step_rel catalog_step keep_outside
  by unfold_locales (fact catalog_step_refl, fact catalog_step_trans, fact catalog_step_keep)

lemma catalog_step_evolves: "catalog_step s s' \<Longrightarrow> evolves s s'"
  by (auto simp: catalog_step_def same_core_def evolves_def kept_same)

section \<open>The writes\<close>

named_theorems cat_writes \<open>writes that move the store along catalog_step\<close>

lemma moves_catI:
  "(\<And>s. wp m (\<lambda>_. catalog_step s) (\<lambda>_. catalog_step s) s) \<Longrightarrow> moves catalog_step m"
  by (simp add: moves_iff_wp)

text \<open>Drawing a key.\<close>

lemma catalog_step_seq:
  assumes "\<And>T. seq s T \<le> f T"
  shows "catalog_step s (s\<lparr>seq := f\<rparr>)"
proof (rule catalog_stepI[where rows = "[]"])
  show "db_ok s \<Longrightarrow> db_ok (s\<lparr>seq := f\<rparr>)"
    using db_ok_seq_mono[of s f "auditLog s"] assms by simp
  show "catalog_ok s \<Longrightarrow> catalog_ok (s\<lparr>seq := f\<rparr>)"
    using catalog_ok_seq_mono[of s f "auditLog s"] assms by simp
qed (use assms in \<open>simp_all add: same_core_def catalog_kept_same\<close>)

lemma cat_audit_log [cat_writes]: "moves catalog_step (audit_log ps)"
proof -
  have "catalog_step s (s\<lparr>auditLog := auditLog s @ [r]\<rparr>)" for s r
  proof (rule catalog_stepI[where rows = "[r]"])
    show "db_ok s \<Longrightarrow> db_ok (s\<lparr>auditLog := auditLog s @ [r]\<rparr>)"
      using db_ok_seq_mono[of s "seq s"] by simp
    show "catalog_ok s \<Longrightarrow> catalog_ok (s\<lparr>auditLog := auditLog s @ [r]\<rparr>)"
      using catalog_ok_seq_mono[of s "seq s"] by simp
  qed (simp_all add: same_core_def catalog_kept_same)
  then show ?thesis
    by (intro moves_catI) (simp add: wp_simps catalog_step_refl)
qed

text \<open>A write to tables outside \<open>db_ok\<close>.\<close>

lemma db_ok_frame:
  assumes "db_ok s" "boqItems s' = boqItems s" "same_core s s'" "\<And>T. seq s T \<le> seq s' T"
  shows "db_ok s'"
  using assms by (auto simp: db_ok_defs same_core_def intro: keyed_mono)

lemma fresh_key:
  "keyed key rows n \<Longrightarrow> r \<in> set rows \<Longrightarrow> key r \<noteq> n + 1"
  by (auto simp: keyed_def list_all_iff)

lemma fresh_version_shares:
  assumes "boq_ok s"
  shows "shares_ok (boqItems s) (seq s TBoqVersions + 1)"
proof -
  have "\<not> active_in (seq s TBoqVersions + 1) b" if b: "b \<in> set (boqItems s)" for b
  proof -
    obtain v where "v \<in> set (boqVersions s)" "bi_boqVersionId b = bv_id v"
      using assms b by (auto simp: boq_ok_def list_all_iff)
    with assms show ?thesis by (auto simp: active_in_def boq_ok_def dest: fresh_key)
  qed
  then have "filter (active_in (seq s TBoqVersions + 1)) (boqItems s) = []" by (simp add: filter_empty_conv)
  then show ?thesis by (simp add: shares_ok_def)
qed

lemma active_version_None:
  "active_version i s = None \<longleftrightarrow> (\<forall>v \<in> set (boqVersions s). bv_objectId v = i \<longrightarrow> \<not> bv_isActive v)"
  by (auto simp: active_version_def find_None_iff_all)

lemma cat_insert_boq_version [cat_writes]:
  assumes mk: "\<And>i. bv_id (mk i) = i"
  shows "moves catalog_step (insert_boq_version mk)"
proof (rule moves_catI)
  fix s :: db
  let ?i = "seq s TBoqVersions + 1"
  let ?f = "(seq s)(TBoqVersions := ?i)"
  let ?t = "s\<lparr>seq := ?f, boqVersions := boqVersions s @ [mk ?i]\<rparr>"
  have "boq_ok ?t" if "boq_ok s" "list_all (\<lambda>v. version_key v \<noteq> version_key (mk ?i)) (boqVersions s)"
      "bv_isActive (mk ?i) \<longrightarrow> active_version (bv_objectId (mk ?i)) s = None"
    using that fresh_version_shares[OF that(1)]
    by (auto simp: boq_ok_def mk active_version_None list_all_iff intro!: keyed_append)
  then have "catalog_step s ?t" if "list_all (\<lambda>v. version_key v \<noteq> version_key (mk ?i)) (boqVersions s)"
      "bv_isActive (mk ?i) \<longrightarrow> active_version (bv_objectId (mk ?i)) s = None"
    using that
    by (intro catalog_stepI[where rows = "[]"])
       (auto simp: same_core_def catalog_ok_def registry_ok_def catalog_kept_def rows_kept_refl
             rows_kept_append intro: db_ok_frame)
  moreover have "catalog_step s (s\<lparr>seq := ?f\<rparr>)" by (rule catalog_step_seq) simp
  ultimately show "wp (insert_boq_version mk) (\<lambda>_. catalog_step s) (\<lambda>_. catalog_step s) s"
    by (auto simp: insert_boq_version_def wp_simps active_version_def)
qed

text \<open>Writes to the tables of the registry leave the BoQ alone.\<close>

lemma catalog_step_registry:
  assumes "same_core s s'" "boqVersions s' = boqVersions s" "boqItems s' = boqItems s"
    and "\<And>T. seq s T \<le> seq s' T" "auditLog s' = auditLog s"
    and "registry_ok s \<Longrightarrow> registry_ok s'"
    and "rows_kept participant_next (participants s) (participants s')"
    and "rows_kept token_next (refreshTokens s) (refreshTokens s')"
    and "set (objects s) \<subseteq> set (objects s')" "set (documents s) \<subseteq> set (documents s')"
  shows "catalog_step s s'"
proof (rule catalog_stepI[where rows = "[]"])
  show "catalog_ok s \<Longrightarrow> catalog_ok s'"
    using assms by (auto simp: catalog_ok_def boq_ok_def intro: keyed_mono)
qed (use assms in \<open>auto simp: catalog_kept_def rows_kept_refl intro: db_ok_frame\<close>)

lemmas registry_simps =
  wp_simps same_core_def registry_ok_def rows_kept_refl rows_kept_append catalog_step_refl

lemma cat_insert_object [cat_writes]:
  assumes "\<And>i. o_id (mk i) = i"
  shows "moves catalog_step (insert_object mk)"
  by (rule moves_catI)
     (auto simp: insert_object_def registry_simps assms intro!: catalog_step_registry keyed_append)

lemma current_keys_simps:
  "current_keys (ps @ [p]) = current_keys ps @ (if op_isCurrent p then [role_key p] else [])"
  by (simp add: current_keys_def)

lemma cat_insert_participant [cat_writes]:
  assumes "\<And>i. op_id (mk i) = i"
  shows "moves catalog_step (insert_participant mk)"
proof (rule moves_catI)
  fix s :: db
  have "catalog_step s (s\<lparr>seq := (seq s)(TParticipants := seq s TParticipants + 1)\<rparr>)"
    by (rule catalog_step_seq) simp
  moreover have "role_key p \<notin> set (current_keys (participants s))"
    if "list_all (\<lambda>q. op_isCurrent q \<longrightarrow> role_key q \<noteq> role_key p) (participants s)" for p
    using that by (auto simp: current_keys_def list_all_iff)
  ultimately show "wp (insert_participant mk) (\<lambda>_. catalog_step s) (\<lambda>_. catalog_step s) s"
    using assms
    by (auto simp: insert_participant_def registry_simps current_keys_simps
             intro!: catalog_step_registry keyed_append)
qed

text \<open>Participants are only ever closed.\<close>

lemma cat_update_participants [cat_writes]:
  assumes g: "\<And>p. participant_next p (g p) \<and> \<not> op_isCurrent (g p)"
  shows "moves catalog_step (update_participants_where P g)"
proof -
  have key: "op_id (g p) = op_id p" for p using g[of p] by (simp add: participant_next_def)
  have "filter op_isCurrent (update_where P g ps) = filter (\<lambda>p. \<not> P p) (filter op_isCurrent ps)" for ps
    by (induction ps) (simp_all add: g)
  then have "distinct (current_keys (update_where P g ps))" if "distinct (current_keys ps)" for ps
    using that distinct_map_filter[of role_key "filter op_isCurrent ps"] by (simp add: current_keys_def)
  then show ?thesis
    unfolding update_participants_where_def
    by (intro cat.moves_modify catalog_step_registry)
       (auto simp: registry_simps key keyed_update_where g intro!: rows_kept_update)
qed

lemma cat_insert_document [cat_writes]:
  assumes "\<And>i. l_id (mk i) = i"
  shows "moves catalog_step (insert_document mk)"
proof (rule moves_catI)
  fix s :: db
  have "catalog_step s (s\<lparr>seq := (seq s)(TDocuments := seq s TDocuments + 1)\<rparr>)"
    by (rule catalog_step_seq) simp
  then show "wp (insert_document mk) (\<lambda>_. catalog_step s) (\<lambda>_. catalog_step s) s"
    by (auto simp: insert_document_def registry_simps assms intro!: catalog_step_registry keyed_append)
qed

lemma cat_insert_baseline_request [cat_writes]:
  assumes "\<And>i. br_id (mk i) = i"
  shows "moves catalog_step (insert_baseline_request mk)"
  by (rule moves_catI)
     (auto simp: insert_baseline_request_def registry_simps assms intro!: catalog_step_registry keyed_append)

lemma cat_update_baseline_request [cat_writes]:
  assumes "\<And>r. br_id (g r) = br_id r"
  shows "moves catalog_step (update_baseline_request i g)"
  by (rule moves_catI)
     (auto simp: update_baseline_request_def registry_simps assms keyed_update_where
           intro!: catalog_step_registry split: option.split)

lemma cat_upsert_config [cat_writes]:
  assumes new: "config_key new = (orgId, key)" and g: "\<And>c. config_key (g c) = config_key c"
  shows "moves catalog_step (upsert_config orgId key new g)"
proof (rule moves_catI)
  fix s :: db
  show "wp (upsert_config orgId key new g) (\<lambda>_. catalog_step s) (\<lambda>_. catalog_step s) s"
  proof (cases "find_config orgId key s")
    case None
    then have "config_key new \<notin> config_key ` set (systemConfig s)"
      by (auto simp: find_config_def find_None_iff_all config_key_def new[unfolded config_key_def])
    with None show ?thesis
      by (auto simp: upsert_config_def registry_simps intro!: catalog_step_registry)
  next
    case (Some old)
    have "config_key old = (orgId, key)"
      using find_SomeD[OF Some[unfolded find_config_def]] by (simp add: config_key_def)
    then have "map config_key (update_where (\<lambda>c. config_key c = (orgId, key)) (\<lambda>_. g old) (systemConfig s))
        = map config_key (systemConfig s)"
      by (intro map_update_where) (simp add: g)
    with Some show ?thesis
      by (auto simp: upsert_config_def registry_simps list_all_iff set_update_where intro!: catalog_step_registry)
  qed
qed

lemma cat_insert_refresh_token [cat_writes]:
  assumes "\<And>i. rt_id (mk i) = i"
  shows "moves catalog_step (insert_refresh_token mk)"
proof (rule moves_catI)
  fix s :: db
  have "catalog_step s (s\<lparr>seq := (seq s)(TRefreshTokens := seq s TRefreshTokens + 1)\<rparr>)"
    by (rule catalog_step_seq) simp
  moreover have "find_token h u = None \<longleftrightarrow> h \<notin> rt_tokenHash ` set (refreshTokens u)" for h and u :: db
    by (auto simp: find_token_def find_None_iff_all)
  ultimately show "wp (insert_refresh_token mk) (\<lambda>_. catalog_step s) (\<lambda>_. catalog_step s) s"
    by (auto simp: insert_refresh_token_def registry_simps assms
             intro!: catalog_step_registry keyed_append)
qed

lemma cat_revoke_tokens [cat_writes]: "moves catalog_step (revoke_tokens_where P)"
  unfolding revoke_tokens_where_def now_def
  by (intro cat.moves_bind cat.moves_gets cat.moves_modify catalog_step_registry)
     (auto simp: registry_simps keyed_update_where distinct_map_update_where token_next_def intro!: rows_kept_update)

lemma cat_refresh_view [cat_writes]: "moves catalog_step refresh_view"
  unfolding refresh_view_def
  by (intro cat.moves_modify catalog_step_registry) (auto simp: registry_simps)

lemma cat_upsert_mv_log [cat_writes]: "moves catalog_step (upsert_mv_log r)"
proof -
  have "map ml_viewName (update_where (\<lambda>q. ml_viewName q = ml_viewName r) (\<lambda>_. r) rows) = map ml_viewName rows" for rows
    by (rule map_update_where) simp
  then show ?thesis
    unfolding upsert_mv_log_def
    by (intro cat.moves_modify catalog_step_registry) (auto simp: registry_simps list_ex_iff)
qed

section \<open>Writing positions\<close>

lemma set_number_rows: "r \<in> set (number_rows n mks) \<Longrightarrow> \<exists>mk \<in> set mks. \<exists>i > n. r = mk i"
  by (induction mks arbitrary: n) force+

lemma keyed_number_rows:
  "keyed key rows n \<Longrightarrow> (\<And>mk i. mk \<in> set mks \<Longrightarrow> key (mk i) = i)
     \<Longrightarrow> keyed key (rows @ number_rows n mks) (n + int (length mks))"
proof (induction mks arbitrary: rows n)
  case (Cons mk mks)
  have "keyed key (rows @ [mk (n + 1)]) (n + 1)" using Cons.prems by (intro keyed_append) auto
  from Cons.IH[OF this] Cons.prems show ?case by (simp add: algebra_simps)
qed simp

definition new_weight :: "int \<Rightarrow> boq_item list \<Rightarrow> boq_item \<Rightarrow> number option" where
  "new_weight v items b =
     (if contract_total v items \<noteq> 0 \<and> active_in v b then Some (share_of (contract_total v items) b)
      else bi_weightCoef b)"

definition reweigh :: "int \<Rightarrow> boq_item list \<Rightarrow> boq_item \<Rightarrow> boq_item" where
  "reweigh v items b = b\<lparr>bi_weightCoef := new_weight v items b\<rparr>"

lemma recalc_map: "recalc_weight_coef v items = map (reweigh v items) items"
proof -
  have "b\<lparr>bi_weightCoef := bi_weightCoef b\<rparr> = b" for b :: boq_item by simp
  then show ?thesis
    by (auto simp: recalc_weight_coef_def reweigh_def new_weight_def update_where_def share_of_def map_idI)
qed

lemma reweigh_simps [simp]:
  "bi_id (reweigh v items b) = bi_id b" "bi_boqVersionId (reweigh v items b) = bi_boqVersionId b"
  "bi_contractValue (reweigh v items b) = bi_contractValue b" "active_in w (reweigh v items b) = active_in w b"
  "item_code (reweigh v items b) = item_code b" "boq_item_checks (reweigh v items b) = boq_item_checks b"
  "bi_weightCoef (reweigh v items b) = new_weight v items b" "item_next b (reweigh v items b)"
  by (auto simp: reweigh_def active_in_def item_code_def boq_item_checks_def item_next_def)

lemma filter_recalc_other:
  assumes "v \<noteq> w"
  shows "filter (active_in w) (recalc_weight_coef v items) = filter (active_in w) items"
proof -
  have "reweigh v items b = b" if "active_in w b" for b
    using assms that by (simp add: reweigh_def new_weight_def active_in_def)
  then have "map (reweigh v items) (filter (active_in w) items) = filter (active_in w) items"
    by (intro map_idI) auto
  then show ?thesis by (simp add: recalc_map filter_map comp_def)
qed

lemma contract_total_recalc [simp]: "contract_total w (recalc_weight_coef v items) = contract_total w items"
  by (simp add: contract_total_def recalc_map filter_map comp_def)

lemma contract_total_nonneg: "list_all boq_item_checks items \<Longrightarrow> 0 \<le> contract_total v items"
  by (auto simp: contract_total_def boq_item_checks_def list_all_iff intro!: sum_list_nonneg)

lemma contract_total_append: "contract_total v (xs @ ys) = contract_total v xs + contract_total v ys"
  by (simp add: contract_total_def)

text \<open>The trigger restores the shares of the version, and does not touch other versions.\<close>

lemma shares_ok_recalc:
  assumes "shares_ok items w" and "list_all boq_item_checks (items @ rows)"
    and "list_all (\<lambda>b. bi_boqVersionId b = v \<and> bi_weightCoef b = None) rows"
  shows "shares_ok (recalc_weight_coef v (items @ rows)) w"
proof (cases "w = v")
  case False
  then have none: "filter (active_in w) rows = []"
    using assms(3) by (auto simp: filter_empty_conv list_all_iff active_in_def)
  have "filter (active_in w) (recalc_weight_coef v (items @ rows)) = filter (active_in w) items"
    using False none by (simp add: filter_recalc_other)
  moreover have "contract_total w (items @ rows) = contract_total w items"
    using none by (simp add: contract_total_def)
  ultimately show ?thesis using assms(1) by (simp add: shares_ok_def)
next
  case v: True
  show ?thesis
  proof (cases "contract_total v (items @ rows) = 0")
    case False
    then have "bi_weightCoef (reweigh v (items @ rows) b) = Some (share_of (contract_total v (items @ rows)) (reweigh v (items @ rows) b))"
      if "active_in v b" for b
      using that by (simp add: new_weight_def share_of_def)
    moreover have "list_all P (filter (active_in v) (recalc_weight_coef v (items @ rows)))"
      if "\<And>b. active_in v b \<Longrightarrow> P (reweigh v (items @ rows) b)" for P
      using that by (auto simp: recalc_map filter_map comp_def list_all_iff)
    ultimately show ?thesis
      using v False by (simp add: shares_ok_def)
  next
    case zero: True
    have "0 \<le> contract_total v items" "0 \<le> contract_total v rows"
      using assms(2) by (simp_all add: contract_total_nonneg)
    with zero have "contract_total v items = 0" by (simp add: contract_total_append)
    with assms v have "list_all (\<lambda>b. bi_weightCoef b = None) (filter (active_in v) (items @ rows))"
      by (auto simp: shares_ok_def list_all_iff)
    then show ?thesis
      using zero v by (simp add: shares_ok_def recalc_weight_coef_def)
  qed
qed

lemma item_in_version_recalc:
  assumes "item_in_period_version items ps f"
  shows "item_in_period_version (recalc_weight_coef v (items @ rows)) ps f"
proof -
  have "reweigh v (items @ rows) b \<in> set (recalc_weight_coef v (items @ rows))" if "b \<in> set items" for b
    using that by (simp add: recalc_map)
  with assms show ?thesis
    unfolding item_in_period_version_def list_ex_iff by (metis reweigh_simps(1,2))
qed

lemma items_kept_recalc: "rows_kept item_next items (recalc_weight_coef v (items @ rows))"
proof -
  have "reweigh v (items @ rows) b \<in> set (recalc_weight_coef v (items @ rows))" if "b \<in> set items" for b
    using that by (simp add: recalc_map)
  then show ?thesis unfolding rows_kept_def by (metis reweigh_simps(8))
qed

lemma items_ok_recalc:
  "keyed bi_id (recalc_weight_coef v items) n = keyed bi_id items n"
  "map item_code (recalc_weight_coef v items) = map item_code items"
  "list_all boq_item_checks (recalc_weight_coef v items) = list_all boq_item_checks items"
  "list_all (\<lambda>b. bi_boqVersionId b \<in> V) (recalc_weight_coef v items) = list_all (\<lambda>b. bi_boqVersionId b \<in> V) items"
  by (simp_all add: recalc_map keyed_def comp_def list_all_iff)

lemma idle_recalc:
  "list_all idle_unweighted items \<Longrightarrow> list_all idle_unweighted (recalc_weight_coef v items)"
  by (auto simp: recalc_map list_all_iff idle_unweighted_def reweigh_def new_weight_def active_in_def)

lemma cat_insert_boq_items [cat_writes]:
  assumes mks: "\<And>mk i. mk \<in> set mks \<Longrightarrow> bi_id (mk i) = i \<and> bi_boqVersionId (mk i) = v \<and> bi_weightCoef (mk i) = None"
  shows "moves catalog_step (insert_boq_items v mks)"
proof (rule moves_catI)
  fix s :: db
  let ?rows = "number_rows (seq s TBoqItems) mks"
  let ?f = "(seq s)(TBoqItems := seq s TBoqItems + int (length mks))"
  let ?items = "recalc_weight_coef v (boqItems s @ ?rows)"
  let ?t = "s\<lparr>seq := ?f, boqItems := ?items\<rparr>"
  have row: "list_all (\<lambda>b. bi_boqVersionId b = v \<and> bi_weightCoef b = None) ?rows"
    using mks by (auto simp: list_all_iff dest!: set_number_rows)
  have seq_step: "catalog_step s (s\<lparr>seq := ?f\<rparr>)" by (rule catalog_step_seq) simp
  have "catalog_step s ?t"
    if checks: "list_all boq_item_checks ?rows" and fk: "list_ex (\<lambda>ver. bv_id ver = v) (boqVersions s)"
      and codes: "distinct (map item_code ?rows)" "list_all (\<lambda>r. item_code r \<notin> item_code ` set (boqItems s)) ?rows"
      and weights: "list_all weight_check ?items"
  proof (rule catalog_stepI[where rows = "[]"])
    assume ok: "catalog_ok s"
    have "boq_ok s" "registry_ok s" using ok by (simp_all add: catalog_ok_def)
    have "keyed bi_id (boqItems s @ ?rows) (?f TBoqItems)"
      using \<open>boq_ok s\<close> mks by (auto simp: boq_ok_def intro!: keyed_number_rows)
    moreover have "distinct (map item_code (boqItems s @ ?rows))"
      using \<open>boq_ok s\<close> codes by (auto simp: boq_ok_def list_all_iff)
    moreover have "list_all (\<lambda>b. bi_boqVersionId b \<in> bv_id ` set (boqVersions s)) (boqItems s @ ?rows)"
      using \<open>boq_ok s\<close> fk row by (auto simp: boq_ok_def list_all_iff list_ex_iff)
    moreover have chk: "list_all boq_item_checks (boqItems s @ ?rows)"
      using \<open>boq_ok s\<close> checks by (simp add: boq_ok_def)
    moreover have "list_all idle_unweighted (boqItems s @ ?rows)"
      using \<open>boq_ok s\<close> row by (auto simp: boq_ok_def list_all_iff idle_unweighted_def)
    moreover have "list_all (\<lambda>w. shares_ok ?items (bv_id w)) (boqVersions s)"
      using \<open>boq_ok s\<close> row chk by (auto simp: boq_ok_def list_all_iff intro!: shares_ok_recalc)
    ultimately have "boq_ok ?t"
      using \<open>boq_ok s\<close> by (simp add: boq_ok_def items_ok_recalc idle_recalc del: list_all_append)
    then show "catalog_ok ?t"
      using \<open>registry_ok s\<close> by (simp add: catalog_ok_def registry_ok_def)
  next
    assume "db_ok s"
    then show "db_ok ?t"
      using weights by (auto simp: db_ok_defs item_in_version_recalc list_all_iff)
  qed (simp_all add: same_core_def catalog_kept_def rows_kept_refl items_kept_recalc)
  then show "wp (insert_boq_items v mks) (\<lambda>_. catalog_step s) (\<lambda>_. catalog_step s) s"
    using seq_step by (auto simp: insert_boq_items_def wp_simps)
qed

lemma list_all_update_where:
  "(\<And>r. key (f r) = key r) \<Longrightarrow>
     list_all (\<lambda>r. P (key r)) (update_where Q f rows) = list_all (\<lambda>r. P (key r)) rows"
  by (induction rows) simp_all

lemma cat_deactivate_version [cat_writes]: "moves catalog_step (deactivate_version i)"
  unfolding deactivate_version_def
proof (rule cat.moves_modify)
  fix s :: db
  let ?g = "\<lambda>v :: boq_version. v\<lparr>bv_isActive := False\<rparr>"
  let ?vs = "update_where (\<lambda>v. bv_id v = i) ?g (boqVersions s)"
  have maps: "map bv_id ?vs = map bv_id (boqVersions s)" "map version_key ?vs = map version_key (boqVersions s)"
    by (rule map_update_where; simp add: version_key_def)+
  have "filter bv_isActive (update_where P ?g vs) = filter (\<lambda>v. \<not> P v) (filter bv_isActive vs)" for P vs
    by (induction vs) simp_all
  then have active: "filter bv_isActive ?vs = filter (\<lambda>v. bv_id v \<noteq> i) (filter bv_isActive (boqVersions s))" .
  have ids: "bv_id ` set ?vs = bv_id ` set (boqVersions s)" using maps(1) by (metis set_map)
  show "catalog_step s (s\<lparr>boqVersions := ?vs\<rparr>)"
  proof (rule catalog_stepI[where rows = "[]"])
    assume "catalog_ok s"
    moreover have "list_all (\<lambda>v. P (bv_id v)) ?vs = list_all (\<lambda>v. P (bv_id v)) (boqVersions s)" for P
      by (rule list_all_update_where) simp
    ultimately show "catalog_ok (s\<lparr>boqVersions := ?vs\<rparr>)"
      using distinct_map_filter[of bv_objectId "filter bv_isActive (boqVersions s)"]
      by (simp add: catalog_ok_def boq_ok_def registry_ok_def maps ids active keyed_update_where)
  qed (auto simp: same_core_def catalog_kept_def rows_kept_refl version_next_def
        intro: db_ok_frame intro!: rows_kept_update)
qed

end
