(* ===== verification/Boq_Service.thy ===== *)
theory Boq_Service
  imports Catalog_Invariant Zero_Report JS_Text
begin

text \<open>
  \<^verbatim>\<open>BoqService\<close> (\<^verbatim>\<open>modules/boq\<close>) and \<^verbatim>\<open>BaselineService\<close> (\<^verbatim>\<open>modules/baseline\<close>): the first version of the BoQ
  of an object, the queries for its versions, and the requests to change the planned volume of a
  position, whose approval makes a new version.

  The argument \<open>uuid\<close> gives the random lineage id of the position with a key.
\<close>

section \<open>BoqService\<close>

definition boq_checkObjectAccess :: "int \<Rightarrow> int \<Rightarrow> unit service" where
  "boq_checkObjectAccess userId objectId =
     bind (user_org userId) (\<lambda>orgId.
     bind (gets (find_object objectId)) (\<lambda>obj.
     guard (case obj of None \<Rightarrow> False | Some ob \<Rightarrow> o_organizationId ob = orgId)
       (NotFoundException ''OBJECT_NOT_FOUND'')))"

record boq_item_dto =
  bd_workCode :: string
  bd_name :: string
  bd_unit :: "string option"
  bd_planVolume :: number
  bd_contractValue :: number
  bd_isCritical :: "bool option"

definition initial_version :: "int \<Rightarrow> int \<Rightarrow> string option \<Rightarrow> date \<Rightarrow> int \<Rightarrow> boq_version" where
  "initial_version userId objectId changeReason t i =
     \<lparr>bv_id = i, bv_objectId = objectId, bv_versionNumber = ''1.0'', bv_changeType = ''initial'',
      bv_changeReason = changeReason, bv_changeDocument = None, bv_createdAt = t,
      bv_createdBy = Some userId, bv_approvedAt = None, bv_isActive = True\<rparr>"

definition initial_item :: "(int \<Rightarrow> string) \<Rightarrow> int \<Rightarrow> boq_item_dto \<Rightarrow> int \<Rightarrow> boq_item" where
  "initial_item uuid versionId item i =
     \<lparr>bi_id = i, bi_boqVersionId = versionId, bi_workLineageId = uuid i, bi_workCode = bd_workCode item,
      bi_name = bd_name item, bi_unit = bd_unit item, bi_planVolume = bd_planVolume item,
      bi_contractValue = bd_contractValue item, bi_weightCoef = None,
      bi_isCritical = (case bd_isCritical item of None \<Rightarrow> False | Some b \<Rightarrow> b), bi_status = BActive,
      bi_predecessorItemId = None\<rparr>"

text \<open>\<^verbatim>\<open>Number(agg._sum.weightCoef ?? 0)\<close>\<close>

definition active_weight_sum :: "int \<Rightarrow> db \<Rightarrow> number" where
  "active_weight_sum v s = sum_list (List.map_filter bi_weightCoef (filter (active_in v) (boqItems s)))"

definition weight_message :: "string \<Rightarrow> number \<Rightarrow> string" where
  "weight_message hint sm =
     ''BOQ_WEIGHT_INVALID: sum of weight_coef is '' @ toFixed 6 sm @ '', expected 1.0.'' @ hint"

definition check_weights :: "int \<Rightarrow> string \<Rightarrow> unit service" where
  "check_weights v hint = bind (gets (active_weight_sum v)) (\<lambda>sm.
     guard (\<not> 1 / 1000 < \<bar>sm - 1\<bar>) (UnprocessableEntityException (weight_message hint sm)))"

record boq_item_view =
  biv_id :: int
  biv_workCode :: string
  biv_name :: string
  biv_unit :: "string option"
  biv_planVolume :: number
  biv_contractValue :: number
  biv_weightCoef :: "number option"
  biv_isCritical :: bool
  biv_status :: boq_item_status

definition boq_item_view_of :: "boq_item \<Rightarrow> boq_item_view" where
  "boq_item_view_of i =
     \<lparr>biv_id = bi_id i, biv_workCode = bi_workCode i, biv_name = bi_name i, biv_unit = bi_unit i,
      biv_planVolume = bi_planVolume i, biv_contractValue = bi_contractValue i,
      biv_weightCoef = bi_weightCoef i, biv_isCritical = bi_isCritical i, biv_status = bi_status i\<rparr>"

text \<open>\<^verbatim>\<open>createInitial\<close> returns a version with its positions, \<^verbatim>\<open>getActive\<close> the reason of the change too.\<close>

record created_boq =
  cb_id :: int
  cb_versionNumber :: string
  cb_changeType :: string
  cb_isActive :: bool
  cb_createdAt :: date
  cb_itemsCount :: nat
  cb_items :: "boq_item_view list"

record active_boq = created_boq +
  ab_changeReason :: "string option"

definition version_items :: "int \<Rightarrow> db \<Rightarrow> boq_item list" where
  "version_items v s = order_asc bi_id (filter (\<lambda>b. bi_boqVersionId b = v) (boqItems s))"

definition created_boq_of :: "boq_version \<Rightarrow> boq_item list \<Rightarrow> created_boq" where
  "created_boq_of version items =
     \<lparr>cb_id = bv_id version, cb_versionNumber = bv_versionNumber version,
      cb_changeType = bv_changeType version, cb_isActive = bv_isActive version,
      cb_createdAt = bv_createdAt version, cb_itemsCount = length items,
      cb_items = map boq_item_view_of items\<rparr>"

definition active_boq_of :: "boq_version \<Rightarrow> boq_item list \<Rightarrow> active_boq" where
  "active_boq_of version items =
     created_boq.extend (created_boq_of version items) (active_boq.fields (bv_changeReason version))"

definition createInitial ::
  "(int \<Rightarrow> string) \<Rightarrow> int \<Rightarrow> int \<Rightarrow> string option \<Rightarrow> boq_item_dto list \<Rightarrow> created_boq service" where
  "createInitial uuid userId objectId changeReason items =
     andThen (boq_checkObjectAccess userId objectId)
    (andThen (guardS (\<lambda>s. active_version objectId s = None) (ConflictException ''BOQ_ACTIVE_VERSION_EXISTS''))
    (bind (transaction (
       bind now (\<lambda>t.
       bind (insert_boq_version (initial_version userId objectId changeReason t)) (\<lambda>ver.
       andThen (insert_boq_items (bv_id ver) (map (initial_item uuid (bv_id ver)) items))
      (andThen (check_weights (bv_id ver) '' Ensure all contract_value > 0.'')
         (ret ver)))))) (\<lambda>version.
     bind (gets (version_items (bv_id version))) (\<lambda>rows.
     ret (created_boq_of version rows)))))"

definition getActive :: "int \<Rightarrow> int \<Rightarrow> active_boq service" where
  "getActive userId objectId =
     andThen (boq_checkObjectAccess userId objectId)
    (bind (getsOr (active_version objectId) (NotFoundException ''BOQ_ACTIVE_VERSION_NOT_FOUND'')) (\<lambda>version.
     bind (gets (version_items (bv_id version))) (\<lambda>rows.
     ret (active_boq_of version rows))))"

record version_summary =
  vs_id :: int
  vs_versionNumber :: string
  vs_changeType :: string
  vs_changeReason :: "string option"
  vs_isActive :: bool
  vs_createdAt :: date
  vs_approvedAt :: "date option"
  vs_itemsCount :: nat

definition version_summary_of :: "db \<Rightarrow> boq_version \<Rightarrow> version_summary" where
  "version_summary_of s v =
     \<lparr>vs_id = bv_id v, vs_versionNumber = bv_versionNumber v, vs_changeType = bv_changeType v,
      vs_changeReason = bv_changeReason v, vs_isActive = bv_isActive v, vs_createdAt = bv_createdAt v,
      vs_approvedAt = bv_approvedAt v,
      vs_itemsCount = length (filter (\<lambda>b. bi_boqVersionId b = bv_id v) (boqItems s))\<rparr>"

definition listVersions :: "int \<Rightarrow> int \<Rightarrow> version_summary list service" where
  "listVersions userId objectId =
     andThen (boq_checkObjectAccess userId objectId)
       (gets (\<lambda>s. map (version_summary_of s)
          (order_asc bv_createdAt (filter (\<lambda>v. bv_objectId v = objectId) (boqVersions s)))))"

section \<open>BaselineService\<close>

record baseline_dto =
  bl_boqItemId :: int
  bl_newPlanVolume :: number
  bl_reason :: string
  bl_supportingDocument :: "string option"

definition item_of_active_version :: "int \<Rightarrow> int \<Rightarrow> db \<Rightarrow> boq_item option" where
  "item_of_active_version boqItemId objectId s =
     List.find (\<lambda>b. bi_id b = boqItemId
       \<and> list_ex (\<lambda>v. bv_id v = bi_boqVersionId b \<and> bv_objectId v = objectId \<and> bv_isActive v) (boqVersions s))
       (boqItems s)"

definition new_baseline_request :: "int \<Rightarrow> int \<Rightarrow> baseline_dto \<Rightarrow> number \<Rightarrow> date \<Rightarrow> int \<Rightarrow> baseline_request" where
  "new_baseline_request userId objectId dto oldPlanVolume t i =
     \<lparr>br_id = i, br_objectId = objectId, br_boqItemId = bl_boqItemId dto, br_requestedBy = Some userId,
      br_requestedAt = t, br_oldPlanVolume = oldPlanVolume, br_newPlanVolume = bl_newPlanVolume dto,
      br_reason = bl_reason dto, br_supportingDocument = bl_supportingDocument dto, br_status = BPending,
      br_reviewedBy = None, br_reviewedAt = None, br_reviewNotes = None, br_appliesFromPeriodId = None\<rparr>"

record baseline_view =
  blv_id :: int
  blv_objectId :: int
  blv_boqItemId :: int
  blv_oldPlanVolume :: number
  blv_newPlanVolume :: number
  blv_reason :: string
  blv_status :: baseline_status
  blv_requestedAt :: date

definition baseline_view_of :: "baseline_request \<Rightarrow> baseline_view" where
  "baseline_view_of r =
     \<lparr>blv_id = br_id r, blv_objectId = br_objectId r, blv_boqItemId = br_boqItemId r,
      blv_oldPlanVolume = br_oldPlanVolume r, blv_newPlanVolume = br_newPlanVolume r,
      blv_reason = br_reason r, blv_status = br_status r, blv_requestedAt = br_requestedAt r\<rparr>"

definition createRequest :: "int \<Rightarrow> int \<Rightarrow> baseline_dto \<Rightarrow> baseline_view service" where
  "createRequest userId objectId dto =
     bind (checkObjectAccess userId objectId) (\<lambda>_.
     bind (getsOr (item_of_active_version (bl_boqItemId dto) objectId)
             (NotFoundException ''BOQ_ITEM_NOT_IN_ACTIVE_VERSION'')) (\<lambda>boqItem.
     bind now (\<lambda>t.
     bind (insert_baseline_request (new_baseline_request userId objectId dto (bi_planVolume boqItem) t)) (\<lambda>request.
     ret (baseline_view_of request)))))"

text \<open>\<^verbatim>\<open>(parseFloat(activeVersion.versionNumber) + 0.1).toFixed(1)\<close>\<close>

definition nextVersionNumber :: "string \<Rightarrow> string" where
  "nextVersionNumber versionNumber =
     (case parseFloat versionNumber of None \<Rightarrow> ''NaN'' | Some x \<Rightarrow> toFixed 1 (x + 1 / 10))"

definition baseline_version :: "int \<Rightarrow> baseline_request \<Rightarrow> string \<Rightarrow> date \<Rightarrow> int \<Rightarrow> boq_version" where
  "baseline_version userId request number t i =
     \<lparr>bv_id = i, bv_objectId = br_objectId request, bv_versionNumber = number,
      bv_changeType = ''baseline_update'', bv_changeReason = Some (br_reason request),
      bv_changeDocument = br_supportingDocument request, bv_createdAt = t, bv_createdBy = Some userId,
      bv_approvedAt = None, bv_isActive = True\<rparr>"

definition copied_item :: "baseline_request \<Rightarrow> int \<Rightarrow> boq_item \<Rightarrow> int \<Rightarrow> boq_item" where
  "copied_item request versionId item i =
     item\<lparr>bi_id := i, bi_boqVersionId := versionId,
       bi_planVolume := (if bi_id item = br_boqItemId request then br_newPlanVolume request else bi_planVolume item),
       bi_weightCoef := None, bi_predecessorItemId := Some (bi_id item)\<rparr>"

definition approved_request ::
  "int \<Rightarrow> string option \<Rightarrow> int option \<Rightarrow> date \<Rightarrow> baseline_request \<Rightarrow> baseline_request" where
  "approved_request userId reviewNotes appliesFromPeriodId t r =
     r\<lparr>br_status := BApproved, br_reviewedBy := Some userId, br_reviewedAt := Some t,
       br_reviewNotes := reviewNotes, br_appliesFromPeriodId := appliesFromPeriodId\<rparr>"

definition baseline_tx ::
  "int \<Rightarrow> baseline_request \<Rightarrow> string option \<Rightarrow> int option \<Rightarrow> (boq_version \<times> baseline_request) service" where
  "baseline_tx userId request reviewNotes appliesFromPeriodId =
     andThen (guardS (\<lambda>s. \<not> list_ex (\<lambda>p. p_objectId p = br_objectId request \<and> p_status p = POpen) (periods s))
                (ConflictException ''PERIOD_OPEN_CANNOT_UPDATE_BASELINE''))
    (bind (getsOr (active_version (br_objectId request)) (PrismaError RecordNotFound)) (\<lambda>activeVersion.
     bind (gets (\<lambda>s. filter (\<lambda>b. bi_boqVersionId b = bv_id activeVersion) (boqItems s))) (\<lambda>items.
     bind now (\<lambda>t.
     bind (insert_boq_version
             (baseline_version userId request (nextVersionNumber (bv_versionNumber activeVersion)) t)) (\<lambda>newVersion.
     andThen (insert_boq_items (bv_id newVersion) (map (copied_item request (bv_id newVersion)) items))
    (andThen (check_weights (bv_id newVersion) [])
    (andThen (deactivate_version (bv_id activeVersion))
    (bind (update_baseline_request (br_id request) (approved_request userId reviewNotes appliesFromPeriodId t))
       (\<lambda>updatedRequest. ret (newVersion, updatedRequest))))))))))"

definition baseline_audit :: "int \<Rightarrow> string \<Rightarrow> baseline_request \<Rightarrow> boq_version \<Rightarrow> audit_params" where
  "baseline_audit userId organizationId request newVersion =
     \<lparr>ap_tableName = ''boq_versions'', ap_recordId = bv_id newVersion, ap_action = ''baseline_updated'',
      ap_oldData = None,
      ap_newData = Some (JObj
        [(''objectId'', JNum (of_int (br_objectId request))), (''boqItemId'', JNum (of_int (br_boqItemId request))),
         (''oldPlanVolume'', JNum (br_oldPlanVolume request)), (''newPlanVolume'', JNum (br_newPlanVolume request)),
         (''versionNumber'', JStr (bv_versionNumber newVersion))]),
      ap_reason = None, ap_performedBy = Some userId, ap_organizationId = organizationId\<rparr>"

definition approveRequest ::
  "int \<Rightarrow> int \<Rightarrow> string option \<Rightarrow> int option \<Rightarrow> (int \<times> baseline_status \<times> int \<times> string) service" where
  "approveRequest userId requestId reviewNotes appliesFromPeriodId =
     bind (getsOr (find_baseline_request requestId) (NotFoundException ''BASELINE_REQUEST_NOT_FOUND'')) (\<lambda>request.
     andThen (guard (br_status request = BPending) (ConflictException ''BASELINE_REQUEST_ALREADY_REVIEWED''))
    (bind (checkObjectAccess userId (br_objectId request)) (\<lambda>organizationId.
     bind (transaction (baseline_tx userId request reviewNotes appliesFromPeriodId)) (\<lambda>x.
     andThen (audit_log (baseline_audit userId organizationId request (fst x)))
       (ret (br_id (snd x), br_status (snd x), bv_id (fst x), bv_versionNumber (fst x)))))))"

end
