(* ===== verification/Boq_Props.thy ===== *)
theory Boq_Props
  imports Boq_Service Zero_Props
begin

text \<open>
  Correctness of the BoQ and baseline services: what \<^verbatim>\<open>createInitial\<close> stores, why the weights of a
  version add up to exactly 1, and why no baseline request is ever approved.
\<close>

section \<open>The contract of the writes\<close>

lemma moves_boq_access: "moves catalog_step (boq_checkObjectAccess u ob)"
  unfolding boq_checkObjectAccess_def user_org_def by (intro cat.moves_rules)

lemma moves_access: "moves catalog_step (checkObjectAccess u ob)"
  unfolding checkObjectAccess_def user_org_def by (intro cat.moves_rules)

lemma moves_check_weights: "moves catalog_step (check_weights v hint)"
  unfolding check_weights_def by (intro cat.moves_rules)

lemma createInitial_step: "moves catalog_step (createInitial uuid u ob reason items)"
  unfolding createInitial_def transaction_def now_def
  by (intro cat.moves_rules moves_boq_access moves_check_weights cat_insert_boq_version cat_insert_boq_items)
     (auto simp: initial_version_def initial_item_def)

lemma createRequest_step: "moves catalog_step (createRequest u ob dto)"
  unfolding createRequest_def now_def
  by (intro cat.moves_rules moves_access cat_insert_baseline_request) (simp add: new_baseline_request_def)

lemma approveRequest_step: "moves catalog_step (approveRequest u i notes p)"
  unfolding approveRequest_def baseline_tx_def transaction_def now_def
  by (intro cat.moves_rules moves_access moves_check_weights cat_audit_log cat_insert_boq_version
        cat_insert_boq_items cat_deactivate_version cat_update_baseline_request)
     (auto simp: baseline_version_def copied_item_def approved_request_def)

lemma boq_queries_step:
  "moves catalog_step (getActive u ob)" "moves catalog_step (listVersions u ob)"
  unfolding getActive_def listVersions_def by (intro cat.moves_rules moves_boq_access)+

section \<open>The weights\<close>

lemma sum_shares:
  "tot \<noteq> 0 \<Longrightarrow> sum_list (map (share_of tot) bs) = sum_list (map bi_contractValue bs) / tot"
  by (induction bs) (simp_all add: share_of_def add_divide_distrib)

lemma map_filter_Some_map:
  "list_all (\<lambda>b. h b = Some (k b)) bs \<Longrightarrow> List.map_filter h bs = map k bs"
  by (induction bs) (simp_all add: map_filter_def)

lemma map_filter_none: "list_all (\<lambda>b. h b = None) bs \<Longrightarrow> List.map_filter h bs = []"
  by (induction bs) (simp_all add: map_filter_def)

text \<open>The weights of a version add up to 0, before they are computed, or to exactly 1.\<close>

lemma weights_sum:
  assumes "shares_ok (boqItems s) v"
  shows "active_weight_sum v s = 0 \<and> list_all (\<lambda>b. bi_weightCoef b = None) (filter (active_in v) (boqItems s))
         \<or> active_weight_sum v s = 1 \<and> contract_total v (boqItems s) \<noteq> 0
           \<and> list_all (\<lambda>b. bi_weightCoef b = Some (share_of (contract_total v (boqItems s)) b))
                 (filter (active_in v) (boqItems s))"
  using assms unfolding shares_ok_def
proof
  assume none: "list_all (\<lambda>b. bi_weightCoef b = None) (filter (active_in v) (boqItems s))"
  then show ?thesis by (simp add: active_weight_sum_def map_filter_none)
next
  assume shares: "contract_total v (boqItems s) \<noteq> 0
      \<and> list_all (\<lambda>b. bi_weightCoef b = Some (share_of (contract_total v (boqItems s)) b)) (filter (active_in v) (boqItems s))"
  then have "active_weight_sum v s = 1"
    using map_filter_Some_map[of bi_weightCoef "share_of (contract_total v (boqItems s))"]
    by (simp add: active_weight_sum_def sum_shares) (simp add: contract_total_def)
  with shares show ?thesis by blast
qed

section \<open>createInitial\<close>

lemma wp_boq_access [wp_simps]:
  "wp (boq_checkObjectAccess userId objectId) Q E = (\<lambda>s.
     if accessible userId objectId s then Q () s
     else if find_user userId s = None then E (PrismaError RecordNotFound) s
     else E (NotFoundException ''OBJECT_NOT_FOUND'') s)"
  by (rule ext) (auto simp: boq_checkObjectAccess_def user_org_def accessible_def wp_simps split: option.splits)

definition initial_rows :: "(int \<Rightarrow> string) \<Rightarrow> boq_item_dto list \<Rightarrow> db \<Rightarrow> boq_item list" where
  "initial_rows uuid items s =
     number_rows (seq s TBoqItems) (map (initial_item uuid (seq s TBoqVersions + 1)) items)"

definition with_version :: "int \<Rightarrow> int \<Rightarrow> string option \<Rightarrow> boq_item list \<Rightarrow> db \<Rightarrow> db" where
  "with_version userId objectId reason rows s =
     (let v = seq s TBoqVersions + 1 in
      s\<lparr>seq := (seq s)(TBoqVersions := v, TBoqItems := seq s TBoqItems + int (length rows)),
        boqVersions := boqVersions s @ [initial_version userId objectId reason (clock s) v],
        boqItems := recalc_weight_coef v (boqItems s @ rows)\<rparr>)"

text \<open>The view of a position: its data from the request, and its share of the contract value.\<close>

definition dto_view :: "number \<Rightarrow> boq_item_dto \<Rightarrow> int \<Rightarrow> boq_item_view" where
  "dto_view tot d i =
     \<lparr>biv_id = i, biv_workCode = bd_workCode d, biv_name = bd_name d, biv_unit = bd_unit d,
      biv_planVolume = bd_planVolume d, biv_contractValue = bd_contractValue d,
      biv_weightCoef = Some (bd_contractValue d / tot),
      biv_isCritical = (case bd_isCritical d of None \<Rightarrow> False | Some b \<Rightarrow> b), biv_status = BActive\<rparr>"

definition boq_created ::
  "(int \<Rightarrow> string) \<Rightarrow> int \<Rightarrow> int \<Rightarrow> string option \<Rightarrow> boq_item_dto list \<Rightarrow> db \<Rightarrow> created_boq \<Rightarrow> db \<Rightarrow> bool" where
  "boq_created uuid userId objectId reason items s view s' \<longleftrightarrow>
     accessible userId objectId s \<and> active_version objectId s = None
     \<and> s' = with_version userId objectId reason (initial_rows uuid items s) s
     \<and> view = created_boq_of (initial_version userId objectId reason (clock s) (seq s TBoqVersions + 1))
               (version_items (seq s TBoqVersions + 1) s')"

lemma length_number_rows [simp]: "length (number_rows n mks) = length mks"
  by (induction mks arbitrary: n) simp_all

lemma map_number_rows: "map f (number_rows n (map g xs)) = number_rows n (map (\<lambda>x i. f (g x i)) xs)"
  by (induction xs arbitrary: n) simp_all

lemma number_rows_const: "number_rows n (map (\<lambda>x i. f x) xs) = map f xs"
  by (induction xs arbitrary: n) simp_all

lemma number_rows_increasing:
  "(\<And>x i. key (g x i) = i) \<Longrightarrow> sorted (map key (number_rows n (map g xs)))"
proof -
  assume k: "\<And>x i. key (g x i) = i"
  have "sorted (map key (number_rows n (map g xs))) \<and> list_all (\<lambda>r. n < key r) (number_rows n (map g xs))"
    by (induction xs arbitrary: n) (fastforce simp: k list_all_iff)+
  then show ?thesis by blast
qed

lemma fresh_version_empty:
  assumes "boq_ok s"
  shows "filter (\<lambda>b. bi_boqVersionId b = seq s TBoqVersions + 1) (boqItems s) = []"
    and "filter (active_in (seq s TBoqVersions + 1)) (boqItems s) = []"
proof -
  have "bi_boqVersionId b \<noteq> seq s TBoqVersions + 1" if "b \<in> set (boqItems s)" for b
    using assms that fresh_key[of bv_id "boqVersions s" "seq s TBoqVersions"]
    by (auto simp: boq_ok_def list_all_iff)
  then show "filter (\<lambda>b. bi_boqVersionId b = seq s TBoqVersions + 1) (boqItems s) = []"
    and "filter (active_in (seq s TBoqVersions + 1)) (boqItems s) = []"
    by (auto simp: filter_empty_conv active_in_def)
qed

lemma wp_createInitial:
  assumes "boq_ok s"
  shows "wp (createInitial uuid userId objectId reason items)
     (\<lambda>view s'. boq_created uuid userId objectId reason items s view s'
        \<and> \<not> 1 / 1000 < \<bar>active_weight_sum (seq s TBoqVersions + 1) s' - 1\<bar>)
     (\<lambda>_. rolled_back s) s"
proof (cases "items = []")
  case True
  with fresh_version_empty(2)[OF assms] show ?thesis
    by (auto simp: createInitial_def wp_simps insert_boq_version_def insert_boq_items_def check_weights_def
          boq_created_def with_version_def initial_rows_def initial_version_def created_boq_of_def
          active_weight_sum_def active_version_def rolled_backI Let_def)
next
  case False
  then have "number_rows n (map f items) \<noteq> []" for n and f :: "boq_item_dto \<Rightarrow> int \<Rightarrow> boq_item"
    by (cases items) simp_all
  then show ?thesis
    by (auto simp: createInitial_def wp_simps insert_boq_version_def insert_boq_items_def check_weights_def
          boq_created_def with_version_def initial_rows_def initial_version_def created_boq_of_def
          active_weight_sum_def False rolled_backI Let_def)
qed

lemma initial_rows_simps:
  assumes "b \<in> set (initial_rows uuid items s)"
  shows "bi_boqVersionId b = seq s TBoqVersions + 1" "active_in (seq s TBoqVersions + 1) b"
  using assms by (auto simp: initial_rows_def initial_item_def active_in_def dest!: set_number_rows)

text \<open>The positions of the new version, in the order of the request.\<close>

lemma created_items:
  assumes ok: "boq_ok s" and s': "s' = with_version userId objectId reason (initial_rows uuid items s) s"
    and tot: "tot = sum_list (map bd_contractValue items)" "tot \<noteq> 0"
  shows "map boq_item_view_of (version_items (seq s TBoqVersions + 1) s') = number_rows (seq s TBoqItems) (map (dto_view tot) items)"
proof -
  let ?v = "seq s TBoqVersions + 1" and ?rows = "initial_rows uuid items s"
  let ?r = "reweigh ?v (boqItems s @ ?rows)"
  have mine: "filter (\<lambda>b. bi_boqVersionId b = ?v) ?rows = ?rows" "filter (active_in ?v) ?rows = ?rows"
    using initial_rows_simps by (auto intro!: filter_True)
  have total: "contract_total ?v (boqItems s @ ?rows) = tot"
    using fresh_version_empty(2)[OF ok] mine(2) tot(1)
    by (simp add: contract_total_def initial_rows_def map_number_rows initial_item_def number_rows_const)
  have "filter (\<lambda>b. bi_boqVersionId b = ?v) (boqItems s') = map ?r ?rows"
    using s' fresh_version_empty(1)[OF ok] mine(1)
    by (simp add: with_version_def Let_def recalc_map filter_map comp_def)
  moreover have "sorted (map bi_id (map ?r ?rows))"
    by (simp add: comp_def initial_rows_def number_rows_increasing initial_item_def)
  ultimately have "version_items ?v s' = map ?r ?rows"
    by (simp add: version_items_def order_asc_def sort_key_id_if_sorted)
  moreover have "boq_item_view_of (?r (initial_item uuid ?v d i)) = dto_view tot d i" for d i
    using total tot(2)
    by (simp add: boq_item_view_of_def dto_view_def reweigh_def initial_item_def new_weight_def active_in_def share_of_def)
  ultimately show ?thesis
    by (simp add: initial_rows_def map_number_rows)
qed

text \<open>A version is only created when its weights could be computed, and then they are exact.\<close>

lemma createInitial_success:
  assumes ok: "catalog_ok s" and run: "createInitial uuid userId objectId reason items s = (Inr view, s')"
  defines "tot \<equiv> sum_list (map bd_contractValue items)"
  shows "boq_created uuid userId objectId reason items s view s' \<and> tot \<noteq> 0
     \<and> cb_items view = number_rows (seq s TBoqItems) (map (dto_view tot) items)"
proof -
  let ?v = "seq s TBoqVersions + 1" and ?rows = "initial_rows uuid items s"
  have boq: "boq_ok s" using ok by (simp add: catalog_ok_def)
  have made: "boq_created uuid userId objectId reason items s view s'"
    and sm: "\<not> 1 / 1000 < \<bar>active_weight_sum ?v s' - 1\<bar>"
    using wp_Inr[OF run wp_createInitial[OF boq]] by blast+
  have s': "s' = with_version userId objectId reason ?rows s" using made by (simp add: boq_created_def)
  have "catalog_ok s'"
    using movesD[OF createInitial_step run] ok by (simp add: catalog_step_def)
  then have "shares_ok (boqItems s') ?v"
    by (simp add: catalog_ok_def boq_ok_def s' with_version_def Let_def initial_version_def)
  from weights_sum[OF this] sm have "contract_total ?v (boqItems s') \<noteq> 0" by auto
  moreover have "contract_total ?v (boqItems s') = contract_total ?v ?rows"
    using fresh_version_empty(2)[OF boq]
    by (simp add: s' with_version_def Let_def contract_total_append) (simp add: contract_total_def)
  moreover have "contract_total ?v ?rows = tot"
  proof -
    have "filter (active_in ?v) ?rows = ?rows" using initial_rows_simps by (auto intro!: filter_True)
    then show ?thesis
      by (simp add: contract_total_def tot_def initial_rows_def map_number_rows initial_item_def number_rows_const)
  qed
  ultimately have "tot \<noteq> 0" by simp
  moreover have "cb_items view = number_rows (seq s TBoqItems) (map (dto_view tot) items)"
    using made created_items[OF boq s' tot_def[THEN meta_eq_to_obj_eq] calculation]
    by (simp add: boq_created_def created_boq_of_def)
  ultimately show ?thesis using made by blast
qed

section \<open>Baseline requests\<close>

text \<open>The number of the next version, on the numbers the services write.\<close>

lemma nextVersionNumber_toFixed: "nextVersionNumber (toFixed 1 (of_nat n / 10)) = toFixed 1 (of_nat (n + 1) / 10)"
  unfolding nextVersionNumber_def parseFloat_toFixed by (simp add: add_divide_distrib add.commute)

text \<open>No request is ever approved: \<^verbatim>\<open>baseline_update\<close> is no type of change.\<close>

lemma wp_approveRequest: "wp (approveRequest userId i notes p) (\<lambda>_ _. False) (\<lambda>_. rolled_back s) s"
  by (auto simp: approveRequest_def baseline_tx_def wp_simps insert_boq_version_def baseline_version_def
        CHANGE_TYPES_def rolled_backI split: option.split)

definition request_created :: "int \<Rightarrow> int \<Rightarrow> baseline_dto \<Rightarrow> db \<Rightarrow> baseline_view \<Rightarrow> db \<Rightarrow> bool" where
  "request_created userId objectId dto s view s' \<longleftrightarrow>
     accessible userId objectId s
     \<and> (\<exists>b ver. b \<in> set (boqItems s) \<and> bi_id b = bl_boqItemId dto
          \<and> ver \<in> set (boqVersions s) \<and> bv_id ver = bi_boqVersionId b \<and> bv_objectId ver = objectId \<and> bv_isActive ver
          \<and> (let i = seq s TBaselineRequests + 1; r = new_baseline_request userId objectId dto (bi_planVolume b) (clock s) i in
               view = baseline_view_of r
               \<and> s' = s\<lparr>seq := (seq s)(TBaselineRequests := i), baselineRequests := baselineRequests s @ [r]\<rparr>))"

lemma wp_createRequest:
  "wp (createRequest userId objectId dto) (request_created userId objectId dto s) (\<lambda>_ s'. s' = s) s"
proof -
  have "\<exists>ver \<in> set (boqVersions s). bv_id ver = bi_boqVersionId b \<and> bv_objectId ver = objectId \<and> bv_isActive ver"
    and "b \<in> set (boqItems s)" "bi_id b = bl_boqItemId dto"
    if "item_of_active_version (bl_boqItemId dto) objectId s = Some b" for b
    using find_SomeD[OF that[unfolded item_of_active_version_def]] by (auto simp: list_ex_iff)
  then show ?thesis
    by (fastforce simp: createRequest_def wp_simps insert_baseline_request_def request_created_def Let_def
          split: option.split)
qed

end
