(* ===== verification/Dashboard.thy ===== *)
theory Dashboard
  imports Catalog_Invariant JS_Text
begin

text \<open>
  \<^verbatim>\<open>MvStalenessService\<close> and \<^verbatim>\<open>AnalyticsService\<close> (\<^verbatim>\<open>modules/analytics\<close>), \<^verbatim>\<open>AdminService\<close> (\<^verbatim>\<open>modules/admin\<close>)
  and \<^verbatim>\<open>SystemConfigService\<close> (\<^verbatim>\<open>modules/system-config\<close>): the dashboard over the materialized view, its
  refresh, and the configuration of an organization.

  The argument \<open>rank\<close> gives the place of a text in the collation of the data base.  A view keeps a date
  where the code writes its ISO text, and the midnight a day begins with where it writes the day.
\<close>

section \<open>MvStalenessService\<close>

definition STALE_MINUTES :: int where
  "STALE_MINUTES = 30"

datatype stale_reason = MvRefreshFailed | OlderThan30min

record staleness_meta =
  sm_isStale :: bool
  sm_refreshedAt :: "date option"
  sm_staleReason :: "stale_reason option"

definition staleness_of :: "date \<Rightarrow> mv_log option \<Rightarrow> staleness_meta" where
  "staleness_of t entry =
     (case entry of
        None \<Rightarrow> \<lparr>sm_isStale = False, sm_refreshedAt = None, sm_staleReason = None\<rparr>
      | Some r \<Rightarrow>
          if ml_isStale r
          then \<lparr>sm_isStale = True, sm_refreshedAt = Some (ml_refreshedAt r), sm_staleReason = Some MvRefreshFailed\<rparr>
          else if STALE_MINUTES * 60 * 1000 < t - ml_refreshedAt r
          then \<lparr>sm_isStale = True, sm_refreshedAt = Some (ml_refreshedAt r), sm_staleReason = Some OlderThan30min\<rparr>
          else \<lparr>sm_isStale = False, sm_refreshedAt = Some (ml_refreshedAt r), sm_staleReason = None\<rparr>)"

definition getStalenessMeta :: "staleness_meta service" where
  "getStalenessMeta = gets (\<lambda>s. staleness_of (clock s)
     (List.find (\<lambda>r. ml_viewName r = MV_NAME) (mvRefreshLog s)))"

section \<open>AnalyticsService\<close>

datatype dashboard_sort = GapFirst | ReadinessAsc | ReadinessDesc | ForecastAsc | ForecastDesc | NameAsc

record dashboard_query =
  dq_search :: "string option"
  dq_status :: "string option"
  dq_objectClass :: "string option"
  dq_gapOnly :: "bool option"
  dq_sort :: "dashboard_sort option"
  dq_page :: "nat option"
  dq_pageSize :: "nat option"

definition toDateString :: "date option \<Rightarrow> date option" where
  "toDateString v = map_option (\<lambda>d. d - d mod MS_PER_DAY) v"

text \<open>A raw query names columns of the view; one that is not there is an error of the data base.\<close>

definition query_columns :: "string list \<Rightarrow> unit service" where
  "query_columns cols = guardS (\<lambda>s. set cols \<subseteq> set (mv_columns s)) (PrismaError (RawQueryError ''P2010''))"

text \<open>\<^verbatim>\<open>name ILIKE pattern\<close>, with the wildcards \<^verbatim>\<open>%\<close> and \<^verbatim>\<open>_\<close> and the escape character, on ASCII letters.\<close>

definition to_lower :: "char \<Rightarrow> char" where
  "to_lower c = (let n = of_char c :: nat in if 65 \<le> n \<and> n \<le> 90 then char_of (n + 32) else c)"

function ilike :: "string \<Rightarrow> string \<Rightarrow> bool" where
  "ilike [] text = (text = [])"
| "ilike (p # ps) text =
     (if p = CHR ''%'' then ilike ps text \<or> (case text of [] \<Rightarrow> False | _ # cs \<Rightarrow> ilike (p # ps) cs)
      else case text of
        [] \<Rightarrow> False
      | c # cs \<Rightarrow>
          if p = CHR ''_'' then ilike ps cs
          else if p = CHR 0x5C then (case ps of [] \<Rightarrow> False | q # qs \<Rightarrow> to_lower q = to_lower c \<and> ilike qs cs)
          else to_lower p = to_lower c \<and> ilike ps cs)"
  by pat_completeness auto
termination
  by (relation "measure (\<lambda>(ps, text). length ps + length text)") auto

text \<open>An object joined with its row of the view.\<close>

type_synonym joined_row = "construction_object \<times> mv_row option"

definition joined_rows :: "db \<Rightarrow> joined_row list" where
  "joined_rows s = map (\<lambda>ob. (ob, List.find (\<lambda>m. mv_objectId m = o_id ob) (mvRows s))) (objects s)"

definition gap_of :: "joined_row \<Rightarrow> bool" where
  "gap_of r = (case snd r of None \<Rightarrow> False | Some m \<Rightarrow> (case mv_gapFlag m of None \<Rightarrow> False | Some g \<Rightarrow> g))"

definition readiness_of :: "joined_row \<Rightarrow> number option" where
  "readiness_of r = Option.bind (snd r) mv_readinessPct"

definition weighted_date_of :: "joined_row \<Rightarrow> date option" where
  "weighted_date_of r = Option.bind (snd r) mv_weightedForecastDate"

definition critical_date_of :: "joined_row \<Rightarrow> date option" where
  "critical_date_of r = Option.bind (snd r) mv_criticalPathForecastDate"

text \<open>\<^verbatim>\<open>if (x) \<dots>\<close> on an optional text: the empty one is no condition.\<close>

definition given :: "string option \<Rightarrow> (string \<Rightarrow> bool) \<Rightarrow> bool" where
  "given x P = (case x of None \<Rightarrow> True | Some t \<Rightarrow> t = [] \<or> P t)"

definition dashboard_where :: "string \<Rightarrow> dashboard_query \<Rightarrow> joined_row \<Rightarrow> bool" where
  "dashboard_where orgId dto r \<longleftrightarrow>
     o_organizationId (fst r) = orgId
     \<and> given (dq_status dto) (\<lambda>x. o_status (fst r) = x)
     \<and> given (dq_objectClass dto) (\<lambda>x. o_objectClass (fst r) = Some x)
     \<and> given (dq_search dto) (\<lambda>x. ilike (''%'' @ x @ ''%'') (o_name (fst r)))
     \<and> (dq_gapOnly dto = Some True \<longrightarrow> gap_of r)"

text \<open>
  \<^verbatim>\<open>ORDER BY k1, k2, \<dots>\<close>: sorting is stable, so the last key is sorted first.  \<open>coalesce\<close> is
  \<^verbatim>\<open>COALESCE(m.obj_readiness_pct, -1)\<close>; \<open>nulls_last\<close> puts an absent date at the end.
\<close>

definition coalesce :: "joined_row \<Rightarrow> number" where
  "coalesce r = (case readiness_of r of None \<Rightarrow> - 1 | Some x \<Rightarrow> x)"

definition nulls_last :: "(date \<Rightarrow> int) \<Rightarrow> joined_row list \<Rightarrow> joined_row list" where
  "nulls_last k rows =
     sort_key (\<lambda>r. case weighted_date_of r of None \<Rightarrow> 0 | Some d \<Rightarrow> k d)
       (filter (\<lambda>r. weighted_date_of r \<noteq> None) rows)
     @ filter (\<lambda>r. weighted_date_of r = None) rows"

definition buildOrderBy :: "(string \<Rightarrow> int) \<Rightarrow> dashboard_sort option \<Rightarrow> joined_row list \<Rightarrow> joined_row list" where
  "buildOrderBy rank srt rows =
     (let by_name = sort_key (\<lambda>r. rank (o_name (fst r))) rows in
      case srt of
        Some ReadinessAsc \<Rightarrow> sort_key coalesce by_name
      | Some ReadinessDesc \<Rightarrow> sort_key (\<lambda>r. - coalesce r) by_name
      | Some ForecastAsc \<Rightarrow> nulls_last (\<lambda>d. d) by_name
      | Some ForecastDesc \<Rightarrow> nulls_last (\<lambda>d. - d) by_name
      | Some NameAsc \<Rightarrow> by_name
      | _ \<Rightarrow> sort_key (\<lambda>r. if gap_of r then 0 else 1 :: int) (sort_key coalesce by_name))"

record dashboard_item =
  di_objectId :: int
  di_name :: string
  di_objectClass :: "string option"
  di_status :: string
  di_hasAnalytics :: bool
  di_objReadinessPct :: "number option"
  di_weightedForecastDate :: "date option"
  di_criticalPathForecastDate :: "date option"
  di_gapFlag :: bool

definition dashboard_item_of :: "joined_row \<Rightarrow> dashboard_item" where
  "dashboard_item_of r =
     \<lparr>di_objectId = o_id (fst r), di_name = o_name (fst r), di_objectClass = o_objectClass (fst r),
      di_status = o_status (fst r), di_hasAnalytics = (snd r \<noteq> None), di_objReadinessPct = readiness_of r,
      di_weightedForecastDate = toDateString (weighted_date_of r),
      di_criticalPathForecastDate = toDateString (critical_date_of r), di_gapFlag = gap_of r\<rparr>"

record dashboard =
  da_items :: "dashboard_item list"
  da_page :: nat
  da_pageSize :: nat
  da_total :: nat
  da_meta :: staleness_meta

definition DASHBOARD_COLUMNS :: "string list" where
  "DASHBOARD_COLUMNS =
     [''object_id'', ''obj_readiness_pct'', ''weighted_forecast_date'', ''critical_path_forecast_date'', ''gap_flag'']"

definition page_of :: "nat \<Rightarrow> nat \<Rightarrow> 'r list \<Rightarrow> 'r list" where
  "page_of limit offset rows = take limit (drop offset rows)"

definition getDashboard :: "(string \<Rightarrow> int) \<Rightarrow> int \<Rightarrow> dashboard_query \<Rightarrow> dashboard service" where
  "getDashboard rank userId dto =
     bind (user_org userId) (\<lambda>orgId.
     let limit = (case dq_pageSize dto of None \<Rightarrow> 50 | Some n \<Rightarrow> n);
         page = (case dq_page dto of None \<Rightarrow> 1 | Some n \<Rightarrow> n);
         offset = (page - 1) * limit in
     andThen (query_columns DASHBOARD_COLUMNS)
    (bind (gets (\<lambda>s. filter (dashboard_where orgId dto) (joined_rows s))) (\<lambda>rows.
     bind getStalenessMeta (\<lambda>meta.
     ret \<lparr>da_items = map dashboard_item_of (page_of limit offset (buildOrderBy rank (dq_sort dto) rows)),
          da_page = page, da_pageSize = limit, da_total = length rows, da_meta = meta\<rparr>))))"

section \<open>AdminService\<close>

text \<open>\<open>acquired\<close> is the answer of \<^verbatim>\<open>pg_try_advisory_xact_lock\<close>, \<open>refreshed\<close> tells whether \<^verbatim>\<open>REFRESH\<close> works.\<close>

definition refreshDashboard :: "bool \<Rightarrow> bool \<Rightarrow> date service" where
  "refreshDashboard acquired refreshed = transaction (
     andThen (guard acquired (ConflictException ''REFRESH_IN_PROGRESS''))
    (andThen (guard refreshed (InternalServerErrorException ''REFRESH_FAILED''))
    (andThen refresh_view
    (bind now (\<lambda>t.
     andThen (upsert_mv_log \<lparr>ml_viewName = MV_NAME, ml_refreshedAt = t, ml_periodId = None, ml_isStale = False\<rparr>)
       (ret t))))))"

section \<open>SystemConfigService\<close>

definition KNOWN_KEYS :: "string list" where
  "KNOWN_KEYS =
     [''N_flag_threshold'', ''M_flag_window'', ''weight_threshold'', ''forecast_gap_alert'',
      ''tolerance_threshold'', ''overrun_warning_limit'', ''avg_pace_periods'', ''decay_factor'',
      ''spike_threshold'', ''zero_report_alert_days'', ''baseline_correction_threshold'']"

record config_view =
  cv_key :: string
  cv_valueType :: string
  cv_value :: "number option"
  cv_description :: "string option"
  cv_updatedAt :: "date option"

definition config_view_of :: "system_config \<Rightarrow> config_view" where
  "config_view_of c =
     \<lparr>cv_key = c_key c, cv_valueType = c_valueType c, cv_value = c_valueNumeric c,
      cv_description = c_description c, cv_updatedAt = c_updatedAt c\<rparr>"

definition list_config :: "(string \<Rightarrow> int) \<Rightarrow> int \<Rightarrow> config_view list service" where
  "list_config rank userId =
     bind (user_org userId) (\<lambda>organizationId.
     gets (\<lambda>s. map config_view_of
       (sort_key (\<lambda>c. rank (c_key c)) (filter (\<lambda>c. c_organizationId c = organizationId) (systemConfig s)))))"

definition new_config :: "string \<Rightarrow> string \<Rightarrow> number \<Rightarrow> date \<Rightarrow> int \<Rightarrow> system_config" where
  "new_config organizationId key v t userId =
     \<lparr>c_organizationId = organizationId, c_key = key, c_valueType = ''numeric'', c_valueNumeric = Some v,
      c_valueText = None, c_description = None, c_updatedAt = Some t, c_updatedBy = Some userId\<rparr>"

definition changed_config :: "number \<Rightarrow> date \<Rightarrow> int \<Rightarrow> system_config \<Rightarrow> system_config" where
  "changed_config v t userId c =
     c\<lparr>c_valueNumeric := Some v, c_updatedAt := Some t, c_updatedBy := Some userId\<rparr>"

definition update_config :: "int \<Rightarrow> string \<Rightarrow> number \<Rightarrow> config_view service" where
  "update_config userId key v =
     andThen (guard (key \<in> set KNOWN_KEYS) (BadRequestException (''UNKNOWN_CONFIG_KEY: '' @ key)))
    (bind (user_org userId) (\<lambda>organizationId.
     bind now (\<lambda>t.
     bind (upsert_config organizationId key (new_config organizationId key v t userId) (changed_config v t userId))
       (\<lambda>config. ret (config_view_of config)))))"

section \<open>What the services write\<close>

lemma dashboard_queries_step:
  "moves catalog_step (getDashboard rank u dto)" "moves catalog_step getStalenessMeta"
  "moves catalog_step (list_config rank u)"
  unfolding getDashboard_def getStalenessMeta_def list_config_def query_columns_def user_org_def Let_def
  by (intro cat.moves_rules)+

lemma refreshDashboard_step: "moves catalog_step (refreshDashboard acquired refreshed)"
  unfolding refreshDashboard_def transaction_def now_def
  by (intro cat.moves_rules cat_refresh_view cat_upsert_mv_log)

lemma update_config_step: "moves catalog_step (update_config u key v)"
  unfolding update_config_def user_org_def now_def
  by (intro cat.moves_rules cat_upsert_config)
     (simp_all add: new_config_def changed_config_def config_key_def)

end
