(* ===== verification/Objects.thy ===== *)
theory Objects
  imports Dashboard
begin

text \<open>
  \<^verbatim>\<open>ObjectsService\<close> and \<^verbatim>\<open>ObjectParticipantsService\<close> (\<^verbatim>\<open>modules/objects\<close>) and \<^verbatim>\<open>DocumentsService\<close>
  (\<^verbatim>\<open>modules/documents\<close>): registering objects, their participants with their history, the change of the
  general contractor, the page of an object, and the upload of its documents.

  \<open>parseDate\<close> is \<^verbatim>\<open>new Date(text)\<close>, \<open>None\<close> for an invalid date, which Prisma refuses; a column of type
  \<^verbatim>\<open>DATE\<close> keeps the day.
\<close>

section \<open>ObjectsService\<close>

definition day_column :: "date \<Rightarrow> date" where
  "day_column d = d - d mod MS_PER_DAY"

definition parse_day :: "(string \<Rightarrow> date option) \<Rightarrow> string \<Rightarrow> date service" where
  "parse_day parseDate t =
     (case parseDate t of None \<Rightarrow> throw (PrismaError InvalidArgument) | Some d \<Rightarrow> ret (day_column d))"

text \<open>\<^verbatim>\<open>dto.permitDate ? new Date(dto.permitDate) : undefined\<close>\<close>

definition optional_day :: "(string \<Rightarrow> date option) \<Rightarrow> string option \<Rightarrow> date option service" where
  "optional_day parseDate x =
     (case x of None \<Rightarrow> ret None
      | Some t \<Rightarrow> if t = [] then ret None else bind (parse_day parseDate t) (\<lambda>d. ret (Some d)))"

record object_dto =
  od_name :: string
  od_objectClass :: "string option"
  od_address :: "string option"
  od_permitNumber :: "string option"
  od_permitDate :: "string option"
  od_connectionDate :: "string option"

definition new_object ::
  "int \<Rightarrow> string \<Rightarrow> object_dto \<Rightarrow> date option \<Rightarrow> date option \<Rightarrow> date \<Rightarrow> int \<Rightarrow> construction_object" where
  "new_object userId organizationId dto permitDate connectionDate t i =
     \<lparr>o_id = i, o_name = od_name dto, o_objectClass = od_objectClass dto, o_address = od_address dto,
      o_permitNumber = od_permitNumber dto, o_permitDate = permitDate, o_connectionDate = connectionDate,
      o_status = ''active'', o_createdAt = t, o_createdBy = Some userId, o_organizationId = organizationId\<rparr>"

record object_passport =
  pp_id :: int
  pp_name :: string
  pp_objectClass :: "string option"
  pp_address :: "string option"
  pp_permitNumber :: "string option"
  pp_permitDate :: "date option"
  pp_connectionDate :: "date option"
  pp_status :: string

definition passport_of :: "construction_object \<Rightarrow> object_passport" where
  "passport_of ob =
     \<lparr>pp_id = o_id ob, pp_name = o_name ob, pp_objectClass = o_objectClass ob, pp_address = o_address ob,
      pp_permitNumber = o_permitNumber ob, pp_permitDate = toDateString (o_permitDate ob),
      pp_connectionDate = toDateString (o_connectionDate ob), pp_status = o_status ob\<rparr>"

text \<open>The passport with the time the object was created.\<close>

definition create_object :: "(string \<Rightarrow> date option) \<Rightarrow> int \<Rightarrow> object_dto \<Rightarrow> (object_passport \<times> date) service" where
  "create_object parseDate userId dto =
     bind (user_org userId) (\<lambda>organizationId.
     bind (optional_day parseDate (od_permitDate dto)) (\<lambda>permitDate.
     bind (optional_day parseDate (od_connectionDate dto)) (\<lambda>connectionDate.
     bind now (\<lambda>t.
     bind (insert_object (new_object userId organizationId dto permitDate connectionDate t)) (\<lambda>obj.
     ret (passport_of obj, o_createdAt obj))))))"

record object_row =
  or_id :: int
  or_name :: string
  or_objectClass :: "string option"
  or_status :: string
  or_connectionDate :: "date option"
  or_createdAt :: date

definition list_objects :: "int \<Rightarrow> object_row list service" where
  "list_objects userId =
     bind (user_org userId) (\<lambda>organizationId.
     gets (\<lambda>s. map (\<lambda>ob. \<lparr>or_id = o_id ob, or_name = o_name ob, or_objectClass = o_objectClass ob,
                       or_status = o_status ob, or_connectionDate = toDateString (o_connectionDate ob),
                       or_createdAt = o_createdAt ob\<rparr>)
       (order_desc o_createdAt (filter (\<lambda>ob. o_organizationId ob = organizationId) (objects s)))))"

text \<open>The object, if it is one of the user's organization.\<close>

definition require_object :: "int \<Rightarrow> int \<Rightarrow> construction_object service" where
  "require_object userId objectId =
     bind (user_org userId) (\<lambda>organizationId.
     getsOr (\<lambda>s. case find_object objectId s of None \<Rightarrow> None
              | Some ob \<Rightarrow> if o_organizationId ob = organizationId then Some ob else None)
       (NotFoundException ''OBJECT_NOT_FOUND''))"

record participant_dto =
  pd_participantRole :: string
  pd_orgName :: string
  pd_contactPerson :: "string option"
  pd_contactEmail :: "string option"
  pd_validFrom :: string
  pd_changedReason :: "string option"

definition close_participant :: "date \<Rightarrow> date \<Rightarrow> int \<Rightarrow> string option \<Rightarrow> participant \<Rightarrow> participant" where
  "close_participant validFrom t userId reason p =
     p\<lparr>op_isCurrent := False, op_validTo := Some validFrom, op_changedAt := Some t,
       op_changedBy := Some userId, op_changedReason := reason\<rparr>"

definition new_participant ::
  "int \<Rightarrow> string \<Rightarrow> string \<Rightarrow> string option \<Rightarrow> string option \<Rightarrow> date \<Rightarrow> int \<Rightarrow> participant" where
  "new_participant objectId role orgName contactPerson contactEmail validFrom i =
     \<lparr>op_id = i, op_objectId = objectId, op_participantRole = role, op_orgName = orgName,
      op_contactPerson = contactPerson, op_contactEmail = contactEmail, op_validFrom = validFrom,
      op_validTo = None, op_isCurrent = True, op_changedReason = None, op_changedAt = None,
      op_changedBy = None\<rparr>"

record participant_view =
  pv_id :: int
  pv_participantRole :: string
  pv_orgName :: string
  pv_contactPerson :: "string option"
  pv_contactEmail :: "string option"
  pv_validFrom :: date
  pv_isCurrent :: bool

definition participant_view_of :: "participant \<Rightarrow> participant_view" where
  "participant_view_of p =
     \<lparr>pv_id = op_id p, pv_participantRole = op_participantRole p, pv_orgName = op_orgName p,
      pv_contactPerson = op_contactPerson p, pv_contactEmail = op_contactEmail p,
      pv_validFrom = day_column (op_validFrom p), pv_isCurrent = op_isCurrent p\<rparr>"

text \<open>
  The two writes that replace the current participant of a role: the first closes the record of the old
  one, the second adds the new one.  \<^verbatim>\<open>addParticipant\<close> makes them outside a transaction.
\<close>

definition close_current :: "int \<Rightarrow> string \<Rightarrow> date \<Rightarrow> int \<Rightarrow> string option \<Rightarrow> unit service" where
  "close_current objectId role validFrom userId reason =
     bind now (\<lambda>t. update_participants_where
       (\<lambda>p. op_objectId p = objectId \<and> op_participantRole p = role \<and> op_isCurrent p)
       (close_participant validFrom t userId reason))"

definition addParticipant ::
  "(string \<Rightarrow> date option) \<Rightarrow> int \<Rightarrow> int \<Rightarrow> participant_dto \<Rightarrow> participant_view service" where
  "addParticipant parseDate userId objectId dto =
     bind (require_object userId objectId) (\<lambda>_.
     bind (parse_day parseDate (pd_validFrom dto)) (\<lambda>validFrom.
     andThen (close_current objectId (pd_participantRole dto) validFrom userId (pd_changedReason dto))
    (bind (insert_participant (new_participant objectId (pd_participantRole dto) (pd_orgName dto)
             (pd_contactPerson dto) (pd_contactEmail dto) validFrom)) (\<lambda>p.
     ret (participant_view_of p)))))"

section \<open>getDetail\<close>

record detail_participant =
  dp_role :: string
  dp_orgName :: string
  dp_contactPerson :: "string option"
  dp_contactEmail :: "string option"
  dp_validFrom :: date

definition detail_participants :: "int \<Rightarrow> db \<Rightarrow> detail_participant list" where
  "detail_participants objectId s =
     map (\<lambda>p. \<lparr>dp_role = op_participantRole p, dp_orgName = op_orgName p, dp_contactPerson = op_contactPerson p,
             dp_contactEmail = op_contactEmail p, dp_validFrom = day_column (op_validFrom p)\<rparr>)
       (order_asc op_validFrom (filter (\<lambda>p. op_objectId p = objectId \<and> op_isCurrent p) (participants s)))"

record detail_boq =
  db_id :: int
  db_versionNumber :: string
  db_itemsCount :: nat

definition detail_boq_of :: "int \<Rightarrow> db \<Rightarrow> detail_boq option" where
  "detail_boq_of objectId s =
     map_option (\<lambda>v. \<lparr>db_id = bv_id v, db_versionNumber = bv_versionNumber v,
        db_itemsCount = length (filter (\<lambda>b. bi_boqVersionId b = bv_id v) (boqItems s))\<rparr>)
       (active_version objectId s)"

record detail_period =
  dper_id :: int
  dper_periodNumber :: int
  dper_status :: period_status
  dper_openedAt :: date
  dper_closedAt :: "date option"

definition detail_period_of :: "int \<Rightarrow> db \<Rightarrow> detail_period option" where
  "detail_period_of objectId s =
     map_option (\<lambda>p. \<lparr>dper_id = p_id p, dper_periodNumber = p_periodNumber p, dper_status = p_status p,
        dper_openedAt = p_openedAt p, dper_closedAt = p_closedAt p\<rparr>)
       (find_first_desc p_periodNumber (\<lambda>p. p_objectId p = objectId) (periods s))"

record detail_current =
  dc_objReadinessPct :: "number option"
  dc_weightedForecastDate :: "date option"
  dc_criticalPathForecastDate :: "date option"
  dc_gapFlag :: bool

definition detail_current_of :: "mv_row \<Rightarrow> detail_current" where
  "detail_current_of m =
     \<lparr>dc_objReadinessPct = mv_readinessPct m, dc_weightedForecastDate = toDateString (mv_weightedForecastDate m),
      dc_criticalPathForecastDate = toDateString (mv_criticalPathForecastDate m),
      dc_gapFlag = (case mv_gapFlag m of None \<Rightarrow> False | Some g \<Rightarrow> g)\<rparr>"

record detail_history =
  dh_periodId :: int
  dh_periodNumber :: int
  dh_closedAt :: "date option"
  dh_objectReadinessPct :: number
  dh_weightedForecastDate :: "date option"
  dh_criticalPathForecastDate :: "date option"
  dh_gapFlag :: bool
  dh_boqVersionNumber :: string

definition history_row :: "db \<Rightarrow> readiness_snapshot \<Rightarrow> detail_history option" where
  "history_row s r =
     (case find_period (rs_periodId r) s of
        None \<Rightarrow> None
      | Some p \<Rightarrow> (case find_boq_version (p_boqVersionId p) s of
           None \<Rightarrow> None
         | Some v \<Rightarrow> Some \<lparr>dh_periodId = rs_periodId r, dh_periodNumber = p_periodNumber p, dh_closedAt = p_closedAt p,
              dh_objectReadinessPct = rs_objectReadinessPct r,
              dh_weightedForecastDate = toDateString (rs_weightedForecastDate r),
              dh_criticalPathForecastDate = toDateString (rs_criticalPathForecastDate r),
              dh_gapFlag = rs_gapFlag r, dh_boqVersionNumber = bv_versionNumber v\<rparr>))"

definition detail_history_of :: "int \<Rightarrow> db \<Rightarrow> detail_history list" where
  "detail_history_of objectId s =
     order_desc dh_periodNumber
       (List.map_filter (history_row s) (filter (\<lambda>r. rs_objectId r = objectId) (readinessSnapshots s)))"

record object_detail =
  ob_object :: object_passport
  ob_participants :: "detail_participant list"
  ob_activeBoq :: "detail_boq option"
  ob_currentPeriod :: "detail_period option"
  ob_hasAnalytics :: bool
  ob_current :: "detail_current option"
  ob_history :: "detail_history list"
  ob_meta :: staleness_meta

definition DETAIL_COLUMNS :: "string list" where
  "DETAIL_COLUMNS =
     [''obj_readiness_pct'', ''weighted_forecast_date'', ''critical_path_forecast_date'', ''gap_flag'', ''object_id'']"

definition get_object_detail :: "int \<Rightarrow> int \<Rightarrow> object_detail service" where
  "get_object_detail userId objectId =
     bind (require_object userId objectId) (\<lambda>obj.
     andThen (query_columns DETAIL_COLUMNS)
    (bind (gets (\<lambda>s. List.find (\<lambda>m. mv_objectId m = objectId) (mvRows s))) (\<lambda>mvRow.
     bind (gets (\<lambda>s. (detail_participants objectId s, detail_boq_of objectId s, detail_period_of objectId s,
                      detail_history_of objectId s))) (\<lambda>x.
     bind getStalenessMeta (\<lambda>meta.
     ret \<lparr>ob_object = passport_of obj, ob_participants = fst x, ob_activeBoq = fst (snd x),
          ob_currentPeriod = fst (snd (snd x)), ob_hasAnalytics = (mvRow \<noteq> None),
          ob_current = map_option detail_current_of mvRow, ob_history = snd (snd (snd x)), ob_meta = meta\<rparr>)))))"

section \<open>ObjectParticipantsService\<close>

definition GENERAL_CONTRACTOR_ROLE :: string where
  "GENERAL_CONTRACTOR_ROLE = ''general_contractor''"

record contractor_dto =
  gc_orgName :: string
  gc_contactPerson :: "string option"
  gc_contactEmail :: "string option"
  gc_validFrom :: string
  gc_reason :: string

definition open_dispute_of_object :: "int \<Rightarrow> db \<Rightarrow> discrepancy \<Rightarrow> bool" where
  "open_dispute_of_object objectId s d \<longleftrightarrow> d_status d = DOpen
     \<and> (case discrepancy_fact s d of None \<Rightarrow> False
        | Some f \<Rightarrow> (case find_period (f_periodId f) s of None \<Rightarrow> False | Some p \<Rightarrow> p_objectId p = objectId))"

definition contractor_tx ::
  "(string \<Rightarrow> date option) \<Rightarrow> int \<Rightarrow> int \<Rightarrow> contractor_dto \<Rightarrow> participant service" where
  "contractor_tx parseDate userId objectId dto =
     andThen (guardS (\<lambda>s. \<not> list_ex (\<lambda>p. p_objectId p = objectId \<and> p_status p = POpen) (periods s))
                (ConflictException ''PERIOD_OPEN_CANNOT_CHANGE_GC''))
    (andThen (guardS (\<lambda>s. length (filter (open_dispute_of_object objectId s) (discrepancies s)) = 0)
                (ConflictException ''OPEN_DISPUTES_EXIST''))
    (bind (parse_day parseDate (gc_validFrom dto)) (\<lambda>validFrom.
     andThen (close_current objectId GENERAL_CONTRACTOR_ROLE validFrom userId (Some (gc_reason dto)))
       (insert_participant (new_participant objectId GENERAL_CONTRACTOR_ROLE (gc_orgName dto)
          (gc_contactPerson dto) (gc_contactEmail dto) validFrom)))))"

definition contractor_audit :: "int \<Rightarrow> int \<Rightarrow> string \<Rightarrow> contractor_dto \<Rightarrow> participant \<Rightarrow> audit_params" where
  "contractor_audit userId objectId organizationId dto newParticipant =
     \<lparr>ap_tableName = ''object_participants'', ap_recordId = op_id newParticipant,
      ap_action = ''general_contractor_changed'', ap_oldData = None,
      ap_newData = Some (JObj [(''objectId'', JNum (of_int objectId)), (''orgName'', JStr (gc_orgName dto)),
                              (''reason'', JStr (gc_reason dto))]),
      ap_reason = None, ap_performedBy = Some userId, ap_organizationId = organizationId\<rparr>"

definition changeGeneralContractor ::
  "(string \<Rightarrow> date option) \<Rightarrow> int \<Rightarrow> int \<Rightarrow> contractor_dto \<Rightarrow> participant_view service" where
  "changeGeneralContractor parseDate userId objectId dto =
     bind (require_object userId objectId) (\<lambda>obj.
     bind (transaction (contractor_tx parseDate userId objectId dto)) (\<lambda>newParticipant.
     andThen (audit_log (contractor_audit userId objectId (o_organizationId obj) dto newParticipant))
       (ret (participant_view_of newParticipant))))"

section \<open>DocumentsService\<close>

definition safe_char :: "char \<Rightarrow> bool" where
  "safe_char c \<longleftrightarrow> (let n = of_char c :: nat in
     (97 \<le> n \<and> n \<le> 122) \<or> (65 \<le> n \<and> n \<le> 90) \<or> (48 \<le> n \<and> n \<le> 57) \<or> n = 46 \<or> n = 95 \<or> n = 45)"

definition safeName :: "string \<Rightarrow> string" where
  "safeName originalname = map (\<lambda>c. if safe_char c then c else CHR ''_'') originalname"

definition document_key :: "string \<Rightarrow> int \<Rightarrow> string \<Rightarrow> date \<Rightarrow> string \<Rightarrow> string" where
  "document_key organizationId objectId docType timestamp originalname =
     organizationId @ ''/'' @ show_int objectId @ ''/'' @ docType @ ''/'' @ show_int timestamp @ ''-''
       @ safeName originalname"

definition new_document :: "int \<Rightarrow> int \<Rightarrow> string \<Rightarrow> string \<Rightarrow> string \<Rightarrow> date \<Rightarrow> int \<Rightarrow> l2_document" where
  "new_document userId objectId docType version key t i =
     \<lparr>l_id = i, l_objectId = objectId, l_docType = docType, l_version = version, l_filePath = key,
      l_uploadedAt = t, l_uploadedBy = Some userId\<rparr>"

record document_view =
  dv_id :: int
  dv_docType :: string
  dv_version :: string
  dv_filePath :: string
  dv_uploadedAt :: date

definition document_view_of :: "l2_document \<Rightarrow> document_view" where
  "document_view_of doc =
     \<lparr>dv_id = l_id doc, dv_docType = l_docType doc, dv_version = l_version doc, dv_filePath = l_filePath doc,
      dv_uploadedAt = l_uploadedAt doc\<rparr>"

text \<open>\<open>s3\<close> tells whether the object store accepts a key.\<close>

definition upload_document ::
  "(string \<Rightarrow> bool) \<Rightarrow> int \<Rightarrow> int \<Rightarrow> string \<Rightarrow> string \<Rightarrow> string \<Rightarrow> document_view service" where
  "upload_document s3 userId objectId docType version originalname =
     bind (require_object userId objectId) (\<lambda>obj.
     bind now (\<lambda>timestamp.
     let key = document_key (o_organizationId obj) objectId docType timestamp originalname in
     andThen (guard (s3 key) (InternalServerErrorException ''STORAGE_UPLOAD_FAILED''))
    (bind (insert_document (new_document userId objectId docType version key timestamp)) (\<lambda>doc.
     ret (document_view_of doc)))))"

section \<open>What the services write\<close>

lemma moves_require_object: "moves catalog_step (require_object u ob)"
  unfolding require_object_def user_org_def by (intro cat.moves_rules)

lemma moves_parse_day: "moves catalog_step (parse_day parseDate t)"
  unfolding parse_day_def by (intro cat.moves_rules)

lemma moves_optional_day: "moves catalog_step (optional_day parseDate x)"
  unfolding optional_day_def by (intro cat.moves_rules moves_parse_day)

lemma create_object_step: "moves catalog_step (create_object parseDate u dto)"
  unfolding create_object_def user_org_def now_def
  by (intro cat.moves_rules moves_optional_day cat_insert_object) (simp add: new_object_def)

lemma close_current_step: "moves catalog_step (close_current ob role d u reason)"
  unfolding close_current_def now_def
  by (intro cat.moves_rules cat_update_participants)
     (simp add: close_participant_def participant_next_def role_key_def)

lemma addParticipant_step: "moves catalog_step (addParticipant parseDate u ob dto)"
  unfolding addParticipant_def
  by (intro cat.moves_rules moves_require_object moves_parse_day close_current_step cat_insert_participant)
     (simp add: new_participant_def)

lemma object_queries_step:
  "moves catalog_step (list_objects u)" "moves catalog_step (get_object_detail u ob)"
  unfolding list_objects_def get_object_detail_def user_org_def query_columns_def
  by (intro cat.moves_rules moves_require_object dashboard_queries_step)+

lemma changeGeneralContractor_step: "moves catalog_step (changeGeneralContractor parseDate u ob dto)"
  unfolding changeGeneralContractor_def transaction_def contractor_tx_def
  by (intro cat.moves_rules moves_require_object moves_parse_day close_current_step cat_insert_participant
        cat_audit_log) (simp add: new_participant_def)

lemma upload_document_step: "moves catalog_step (upload_document s3 u ob ty v name)"
  unfolding upload_document_def now_def Let_def
  by (intro cat.moves_rules moves_require_object cat_insert_document) (simp add: new_document_def)

end
