(* ===== verification/Auth.thy ===== *)
theory Auth
  imports Catalog_Invariant JS_Text
begin

text \<open>
  \<^verbatim>\<open>AuthService\<close> (\<^verbatim>\<open>common/auth\<close>), the guards (\<^verbatim>\<open>common/guards\<close>) and the tenant filter of the Prisma
  client (\<^verbatim>\<open>common/prisma\<close>).

  Cryptography is a parameter: \<open>compare password hash\<close> is \<^verbatim>\<open>bcrypt.compare\<close>, \<open>sha256\<close> the hex digest,
  \<open>sign\<close> the JSON web token of a payload, and \<open>uuid\<close> the value \<^verbatim>\<open>randomUUID()\<close> returns in the call.
\<close>

section \<open>AuthService\<close>

record jwt_payload =
  jp_sub :: string
  jp_email :: string
  jp_role :: user_role
  jp_organizationId :: string

definition payload_for :: "user \<Rightarrow> jwt_payload" where
  "payload_for u =
     \<lparr>jp_sub = show_int (u_id u), jp_email = u_email u, jp_role = u_role u, jp_organizationId = u_organizationId u\<rparr>"

record tokens =
  tk_accessToken :: string
  tk_refreshToken :: string

definition REFRESH_DAYS :: int where
  "REFRESH_DAYS = 30"

definition new_refresh_token :: "int \<Rightarrow> string \<Rightarrow> date \<Rightarrow> string \<Rightarrow> string \<Rightarrow> int \<Rightarrow> refresh_token" where
  "new_refresh_token userId tokenHash t userAgent ipAddress i =
     \<lparr>rt_id = i, rt_userId = userId, rt_tokenHash = tokenHash, rt_expiresAt = add_days t REFRESH_DAYS,
      rt_revokedAt = None, rt_userAgent = userAgent, rt_ipAddress = ipAddress\<rparr>"

text \<open>The end both \<^verbatim>\<open>login\<close> and \<^verbatim>\<open>refresh\<close> come to: a signed access token and a new refresh token.\<close>

definition issue_tokens ::
  "(string \<Rightarrow> string) \<Rightarrow> (jwt_payload \<Rightarrow> string) \<Rightarrow> string \<Rightarrow> user \<Rightarrow> string \<Rightarrow> string \<Rightarrow> tokens service" where
  "issue_tokens sha256 sign uuid u userAgent ipAddress =
     bind now (\<lambda>t.
     andThen (insert_refresh_token (new_refresh_token (u_id u) (sha256 uuid) t userAgent ipAddress))
       (ret \<lparr>tk_accessToken = sign (payload_for u), tk_refreshToken = uuid\<rparr>))"

definition login ::
  "(string \<Rightarrow> string \<Rightarrow> bool) \<Rightarrow> (string \<Rightarrow> string) \<Rightarrow> (jwt_payload \<Rightarrow> string) \<Rightarrow> string
     \<Rightarrow> string \<Rightarrow> string \<Rightarrow> string \<Rightarrow> string \<Rightarrow> tokens service" where
  "login compare sha256 sign uuid email password userAgent ipAddress =
     bind (gets (\<lambda>s. List.find (\<lambda>u. u_email u = email) (users s))) (\<lambda>found.
     case found of
       None \<Rightarrow> throw (UnauthorizedException ''INVALID_CREDENTIALS'')
     | Some u \<Rightarrow>
         andThen (guard (u_isActive u) (UnauthorizedException ''INVALID_CREDENTIALS''))
        (andThen (guard (compare password (u_passwordHash u)) (UnauthorizedException ''INVALID_CREDENTIALS''))
           (issue_tokens sha256 sign uuid u userAgent ipAddress)))"

definition usable_token :: "string \<Rightarrow> db \<Rightarrow> (refresh_token \<times> user) option" where
  "usable_token tokenHash s =
     (case find_token tokenHash s of
        None \<Rightarrow> None
      | Some stored \<Rightarrow> (case find_user (rt_userId stored) s of
           None \<Rightarrow> None
         | Some u \<Rightarrow>
             if rt_revokedAt stored \<noteq> None \<or> rt_expiresAt stored < clock s \<or> \<not> u_isActive u then None
             else Some (stored, u)))"

text \<open>
  The two halves of \<^verbatim>\<open>refresh\<close>, which does not run in a transaction: what it reads, and what it writes.
\<close>

definition refresh_writes ::
  "(string \<Rightarrow> string) \<Rightarrow> (jwt_payload \<Rightarrow> string) \<Rightarrow> string \<Rightarrow> refresh_token \<times> user \<Rightarrow> string \<Rightarrow> string
     \<Rightarrow> tokens service" where
  "refresh_writes sha256 sign uuid x userAgent ipAddress =
     andThen (revoke_tokens_where (\<lambda>r. rt_id r = rt_id (fst x)))
       (issue_tokens sha256 sign uuid (snd x) userAgent ipAddress)"

definition refresh ::
  "(string \<Rightarrow> string) \<Rightarrow> (jwt_payload \<Rightarrow> string) \<Rightarrow> string \<Rightarrow> string \<Rightarrow> string \<Rightarrow> string \<Rightarrow> tokens service" where
  "refresh sha256 sign uuid rawToken userAgent ipAddress =
     bind (getsOr (usable_token (sha256 rawToken)) (UnauthorizedException ''INVALID_REFRESH_TOKEN'')) (\<lambda>x.
     refresh_writes sha256 sign uuid x userAgent ipAddress)"

definition logout :: "(string \<Rightarrow> string) \<Rightarrow> string \<Rightarrow> unit service" where
  "logout sha256 rawToken =
     revoke_tokens_where (\<lambda>r. rt_tokenHash r = sha256 rawToken \<and> rt_revokedAt r = None)"

section \<open>AuthController\<close>

text \<open>The cookie \<^verbatim>\<open>refresh_token\<close> of a request, and what the answer does to it.\<close>

datatype cookie_change = KeepCookie | SetCookie string | ClearCookie

definition auth_refresh ::
  "(string \<Rightarrow> string) \<Rightarrow> (jwt_payload \<Rightarrow> string) \<Rightarrow> string \<Rightarrow> string option \<Rightarrow> string \<Rightarrow> string
     \<Rightarrow> (string \<times> cookie_change) service" where
  "auth_refresh sha256 sign uuid cookie userAgent ipAddress =
     (case cookie of
        None \<Rightarrow> throw (UnauthorizedException ''NO_REFRESH_TOKEN'')
      | Some raw \<Rightarrow>
          if raw = [] then throw (UnauthorizedException ''NO_REFRESH_TOKEN'')
          else bind (refresh sha256 sign uuid raw userAgent ipAddress) (\<lambda>t.
               ret (tk_accessToken t, SetCookie (tk_refreshToken t))))"

definition auth_login ::
  "(string \<Rightarrow> string \<Rightarrow> bool) \<Rightarrow> (string \<Rightarrow> string) \<Rightarrow> (jwt_payload \<Rightarrow> string) \<Rightarrow> string
     \<Rightarrow> string \<Rightarrow> string \<Rightarrow> string \<Rightarrow> string \<Rightarrow> (string \<times> cookie_change) service" where
  "auth_login compare sha256 sign uuid email password userAgent ipAddress =
     bind (login compare sha256 sign uuid email password userAgent ipAddress) (\<lambda>t.
     ret (tk_accessToken t, SetCookie (tk_refreshToken t)))"

definition auth_logout :: "(string \<Rightarrow> string) \<Rightarrow> string option \<Rightarrow> cookie_change service" where
  "auth_logout sha256 cookie =
     andThen (case cookie of None \<Rightarrow> ret () | Some raw \<Rightarrow> if raw = [] then ret () else logout sha256 raw)
       (ret ClearCookie)"

section \<open>GpTokenGuard\<close>

definition gp_token_guard :: "string \<Rightarrow> bool service" where
  "gp_token_guard token =
     bind (getsOr (\<lambda>s. case List.find (\<lambda>p. p_gpSubmissionToken p = Some token) (periods s) of
             None \<Rightarrow> None
           | Some p \<Rightarrow> (case p_gpTokenExpiresAt p of None \<Rightarrow> None
                       | Some e \<Rightarrow> if e < clock s then None else Some p))
           (UnauthorizedException ''GP_TOKEN_INVALID'')) (\<lambda>per.
     andThen (guard (p_gpSubmittedAt per = None) (ForbiddenException ''GP_ALREADY_SUBMITTED''))
       (ret True))"

section \<open>The tenant filter\<close>

definition TENANT_MODELS :: "string list" where
  "TENANT_MODELS = [''Object'', ''User'', ''SystemConfig'', ''AuditLog'']"

definition FILTER_OPS :: "string list" where
  "FILTER_OPS = [''findMany'', ''findFirst'', ''findFirstOrThrow'', ''findUnique'', ''findUniqueOrThrow'',
     ''count'', ''aggregate'']"

definition WRITE_OPS :: "string list" where
  "WRITE_OPS = [''update'', ''delete'', ''updateMany'', ''deleteMany'']"

text \<open>The arguments of a query: fields with an object each.  \<^verbatim>\<open>{ ...args.where, organizationId }\<close>\<close>

type_synonym query_args = "string \<rightharpoonup> (string \<rightharpoonup> json)"

definition with_org :: "string \<Rightarrow> string \<Rightarrow> query_args \<Rightarrow> query_args" where
  "with_org field organizationId args =
     args(field \<mapsto> (case args field of None \<Rightarrow> Map.empty | Some m \<Rightarrow> m)(''organizationId'' \<mapsto> JStr organizationId))"

definition tenant_filter :: "string option \<Rightarrow> string \<Rightarrow> string \<Rightarrow> query_args \<Rightarrow> query_args" where
  "tenant_filter ctx model action args =
     (case ctx of None \<Rightarrow> args
      | Some organizationId \<Rightarrow>
          if organizationId = [] \<or> model \<notin> set TENANT_MODELS then args
          else if action \<in> set FILTER_OPS then with_org ''where'' organizationId args
          else if action = ''create'' then with_org ''data'' organizationId args
          else if action \<in> set WRITE_OPS then with_org ''where'' organizationId args
          else if action = ''upsert''
          then with_org ''create'' organizationId (with_org ''where'' organizationId args)
          else args)"

text \<open>
  \<^verbatim>\<open>TenantMiddleware\<close>: the context of a request is the organization its bearer token names, read before
  the signature is checked.  \<open>decode\<close> stands for \<^verbatim>\<open>JSON.parse(Buffer.from(text, 'base64url'))\<close>, \<open>None\<close> when it
  throws; \<^verbatim>\<open>split('.')[1]\<close> is \<^verbatim>\<open>undefined\<close> without a dot, which \<^verbatim>\<open>Buffer.from\<close> refuses.
\<close>

definition second_segment :: "string \<Rightarrow> string option" where
  "second_segment t =
     (case dropWhile (\<lambda>c. c \<noteq> CHR ''.'') t of [] \<Rightarrow> None | _ # r \<Rightarrow> Some (takeWhile (\<lambda>c. c \<noteq> CHR ''.'') r))"

definition decodeOrgId :: "(string \<Rightarrow> json option) \<Rightarrow> string option \<Rightarrow> string option" where
  "decodeOrgId decode authorization =
     (case authorization of
        None \<Rightarrow> None
      | Some auth \<Rightarrow>
          if take 7 auth = ''Bearer ''
          then (case Option.bind (second_segment (drop 7 auth)) decode of
                  None \<Rightarrow> None
                | Some payload \<Rightarrow> (case json_field payload ''organizationId'' of Some (JStr t) \<Rightarrow> Some t | _ \<Rightarrow> None))
          else None)"

definition tenant_context :: "(string \<Rightarrow> json option) \<Rightarrow> string option \<Rightarrow> string option" where
  "tenant_context decode authorization =
     (case decodeOrgId decode authorization of
        None \<Rightarrow> None
      | Some organizationId \<Rightarrow> if organizationId \<noteq> [] then Some organizationId else None)"

section \<open>What the services write\<close>

lemma issue_tokens_step: "moves catalog_step (issue_tokens sha256 sign uuid u agent ip)"
  unfolding issue_tokens_def now_def
  by (intro cat.moves_rules cat_insert_refresh_token) (simp add: new_refresh_token_def)

lemma login_step: "moves catalog_step (login compare sha256 sign uuid email pw agent ip)"
  unfolding login_def by (intro cat.moves_rules issue_tokens_step)

lemma refresh_step: "moves catalog_step (refresh sha256 sign uuid raw agent ip)"
  unfolding refresh_def refresh_writes_def by (intro cat.moves_rules issue_tokens_step cat_revoke_tokens)

lemma logout_step: "moves catalog_step (logout sha256 raw)"
  unfolding logout_def by (rule cat_revoke_tokens)

lemma auth_step:
  "moves catalog_step (auth_login compare sha256 sign uuid email pw agent ip)"
  "moves catalog_step (auth_refresh sha256 sign uuid cookie agent ip)"
  "moves catalog_step (auth_logout sha256 cookie)"
  unfolding auth_login_def auth_refresh_def auth_logout_def
  by (intro cat.moves_rules login_step refresh_step logout_step)+

end
