(* ===== verification/Catalog_Props.thy ===== *)
theory Catalog_Props
  imports Boq_Props Objects Auth Work_Pace
begin

text \<open>
  Lemmas on the participants of an object, the dashboard, the configuration and the refresh tokens.
\<close>

lemma wp_fails: "wp m (\<lambda>_ _. False) E s \<Longrightarrow> \<exists>e s'. m s = (Inl e, s') \<and> E e s'"
  by (simp add: wp_def split: sum.splits prod.splits)
     (metis Inl_Inr_False old.sum.exhaust)

section \<open>Participants\<close>

definition current_of :: "int \<Rightarrow> string \<Rightarrow> db \<Rightarrow> participant list" where
  "current_of objectId role s =
     filter (\<lambda>p. op_objectId p = objectId \<and> op_participantRole p = role \<and> op_isCurrent p) (participants s)"

lemma wp_require_object [wp_simps]:
  "wp (require_object userId objectId) Q E = (\<lambda>s.
     if accessible userId objectId s then Q (the (find_object objectId s)) s
     else if find_user userId s = None then E (PrismaError RecordNotFound) s
     else E (NotFoundException ''OBJECT_NOT_FOUND'') s)"
  by (rule ext) (auto simp: require_object_def user_org_def accessible_def wp_simps split: option.splits)

lemma wp_parse_day [wp_simps]:
  "wp (parse_day parseDate t) Q E =
     (case parseDate t of None \<Rightarrow> E (PrismaError InvalidArgument) | Some d \<Rightarrow> Q (day_column d))"
  by (simp add: parse_day_def wp_simps split: option.split)

text \<open>The participants after a replacement: the record of the old one is closed, the new one added.\<close>

definition closed_out :: "int \<Rightarrow> string \<Rightarrow> date \<Rightarrow> int \<Rightarrow> string option \<Rightarrow> db \<Rightarrow> participant list" where
  "closed_out objectId role validFrom userId reason s =
     update_where (\<lambda>q. op_objectId q = objectId \<and> op_participantRole q = role \<and> op_isCurrent q)
       (close_participant validFrom (clock s) userId reason) (participants s)"

definition replaced ::
  "int \<Rightarrow> string \<Rightarrow> date \<Rightarrow> int \<Rightarrow> string option \<Rightarrow> participant \<Rightarrow> db \<Rightarrow> db \<Rightarrow> bool" where
  "replaced objectId role validFrom userId reason p s s' \<longleftrightarrow>
     s' = s\<lparr>seq := (seq s)(TParticipants := seq s TParticipants + 1),
            participants := closed_out objectId role validFrom userId reason s @ [p]\<rparr>"

lemma closed_not_current:
  "filter (\<lambda>q. P q \<and> op_isCurrent q)
     (update_where (\<lambda>q. P q \<and> op_isCurrent q) (close_participant d t u r) ps) = []"
  by (induction ps) (auto simp: close_participant_def)

lemma replaced_current:
  assumes "replaced objectId role d u r (new_participant objectId role n c e d i) s s'"
  shows "current_of objectId role s' = [new_participant objectId role n c e d i]"
  using assms closed_not_current[of "\<lambda>q. op_objectId q = objectId \<and> op_participantRole q = role"]
  by (simp add: replaced_def closed_out_def current_of_def new_participant_def conj_assoc)

text \<open>The participants of other roles and objects, and the history, are untouched.\<close>

lemma replaced_others:
  assumes "replaced objectId role d u r p s s'" and "q \<in> set (participants s)"
    and "\<not> (op_objectId q = objectId \<and> op_participantRole q = role \<and> op_isCurrent q)"
  shows "q \<in> set (participants s')"
  using assms by (auto simp: replaced_def closed_out_def set_update_where)

lemma new_participant_simps [simp]:
  "op_id (new_participant ob role n c e d i) = i"
  "op_isCurrent (new_participant ob role n c e d i)"
  "op_participantRole (new_participant ob role n c e d i) = role"
  "op_orgName (new_participant ob role n c e d i) = n"
  "role_key (new_participant ob role n c e d i) = (ob, role)"
  by (simp_all add: new_participant_def role_key_def)

lemma wp_close_current [wp_simps]:
  "wp (close_current objectId role d userId reason) Q E
     = (\<lambda>s. Q () (s\<lparr>participants := closed_out objectId role d userId reason s\<rparr>))"
  by (rule ext) (simp add: close_current_def update_participants_where_def closed_out_def wp_simps)

lemma wp_insert_current:
  assumes "role \<in> set PARTICIPANT_ROLES"
    and "list_all (\<lambda>p. op_isCurrent p \<longrightarrow> role_key p \<noteq> (ob, role)) (participants s)"
  shows "wp (insert_participant (new_participant ob role n c e d)) Q E s
     = Q (new_participant ob role n c e d (seq s TParticipants + 1))
         (s\<lparr>seq := (seq s)(TParticipants := seq s TParticipants + 1),
            participants := participants s @ [new_participant ob role n c e d (seq s TParticipants + 1)]\<rparr>)"
  using assms by (simp add: insert_participant_def wp_simps)

lemma none_current:
  "list_all (\<lambda>p. op_isCurrent p \<longrightarrow> role_key p \<noteq> (ob, role)) (closed_out ob role d u r s)"
proof -
  have "list_all (\<lambda>p. op_isCurrent p \<longrightarrow> role_key p \<noteq> (ob, role))
     (update_where (\<lambda>q. op_objectId q = ob \<and> op_participantRole q = role \<and> op_isCurrent q)
        (close_participant d t u r) ps)" for t ps
    by (induction ps) (auto simp: close_participant_def role_key_def)
  then show ?thesis by (simp add: closed_out_def)
qed

lemmas replace_simps = wp_insert_current none_current

definition participant_added ::
  "(string \<Rightarrow> date option) \<Rightarrow> int \<Rightarrow> int \<Rightarrow> participant_dto \<Rightarrow> db \<Rightarrow> participant_view \<Rightarrow> db \<Rightarrow> bool" where
  "participant_added parseDate userId objectId dto s view s' \<longleftrightarrow>
     accessible userId objectId s \<and> pd_participantRole dto \<in> set PARTICIPANT_ROLES
     \<and> (\<exists>d. parseDate (pd_validFrom dto) = Some d
          \<and> (let p = new_participant objectId (pd_participantRole dto) (pd_orgName dto) (pd_contactPerson dto)
                     (pd_contactEmail dto) (day_column d) (seq s TParticipants + 1) in
               view = participant_view_of p
               \<and> replaced objectId (pd_participantRole dto) (day_column d) userId (pd_changedReason dto) p s s'
               \<and> current_of objectId (pd_participantRole dto) s' = [p]))"

lemma wp_insert_refused:
  "role \<notin> set PARTICIPANT_ROLES \<Longrightarrow>
     wp (insert_participant (new_participant ob role n c e d)) Q E s
       = E (PrismaError CheckViolation) (s\<lparr>seq := (seq s)(TParticipants := seq s TParticipants + 1)\<rparr>)"
  by (simp add: insert_participant_def wp_simps)

lemma replaced_run:
  "wp (andThen (close_current ob role d u r) (bind (insert_participant (new_participant ob role n c e d)) k)) Q E s
     \<longleftrightarrow> (if role \<in> set PARTICIPANT_ROLES
          then wp (k (new_participant ob role n c e d (seq s TParticipants + 1))) Q E
                 (s\<lparr>seq := (seq s)(TParticipants := seq s TParticipants + 1),
                    participants := closed_out ob role d u r s
                      @ [new_participant ob role n c e d (seq s TParticipants + 1)]\<rparr>)
          else E (PrismaError CheckViolation)
                 (s\<lparr>participants := closed_out ob role d u r s,
                    seq := (seq s)(TParticipants := seq s TParticipants + 1)\<rparr>))"
  by (simp add: wp_andThen wp_bind wp_close_current replace_simps wp_insert_refused)

lemma wp_addParticipant:
  "wp (addParticipant parseDate userId objectId dto) (participant_added parseDate userId objectId dto s) (\<lambda>_ _. True) s"
proof -
  have "participant_added parseDate userId objectId dto s
      (participant_view_of (new_participant objectId (pd_participantRole dto) (pd_orgName dto)
         (pd_contactPerson dto) (pd_contactEmail dto) (day_column d) (seq s TParticipants + 1))) s'"
    if "accessible userId objectId s" "pd_participantRole dto \<in> set PARTICIPANT_ROLES"
      "parseDate (pd_validFrom dto) = Some d"
      "replaced objectId (pd_participantRole dto) (day_column d) userId (pd_changedReason dto)
         (new_participant objectId (pd_participantRole dto) (pd_orgName dto) (pd_contactPerson dto)
            (pd_contactEmail dto) (day_column d) (seq s TParticipants + 1)) s s'" for d s'
    unfolding participant_added_def Let_def using that replaced_current[OF that(4)] by blast
  then show ?thesis
    unfolding addParticipant_def wp_bind[of "require_object userId objectId"] wp_bind[of "parse_day _ _"]
      replaced_run wp_require_object wp_parse_day replaced_def wp_ret
    by (simp split: option.split)
qed

text \<open>The change of the general contractor is committed before its audit row is refused.\<close>

definition contractor_change_ok ::
  "(string \<Rightarrow> date option) \<Rightarrow> int \<Rightarrow> int \<Rightarrow> contractor_dto \<Rightarrow> db \<Rightarrow> bool" where
  "contractor_change_ok parseDate userId objectId dto s \<longleftrightarrow>
     accessible userId objectId s
     \<and> \<not> list_ex (\<lambda>p. p_objectId p = objectId \<and> p_status p = POpen) (periods s)
     \<and> filter (open_dispute_of_object objectId s) (discrepancies s) = []
     \<and> parseDate (gc_validFrom dto) \<noteq> None"

lemma contractor_tx_run:
  assumes "contractor_change_ok parseDate userId objectId dto s" "parseDate (gc_validFrom dto) = Some d"
  shows "wp (contractor_tx parseDate userId objectId dto)
     (\<lambda>p s'. p = new_participant objectId GENERAL_CONTRACTOR_ROLE (gc_orgName dto) (gc_contactPerson dto)
                   (gc_contactEmail dto) (day_column d) (seq s TParticipants + 1)
        \<and> replaced objectId GENERAL_CONTRACTOR_ROLE (day_column d) userId (Some (gc_reason dto)) p s s')
     (\<lambda>_ _. False) s"
proof -
  have "GENERAL_CONTRACTOR_ROLE \<in> set PARTICIPANT_ROLES"
    by (simp add: GENERAL_CONTRACTOR_ROLE_def PARTICIPANT_ROLES_def)
  then show ?thesis
    using assms
    by (simp add: contractor_tx_def wp_simps replace_simps contractor_change_ok_def replaced_def)
qed

lemma contractor_change_fails:
  assumes ok: "contractor_change_ok parseDate userId objectId dto s"
    and "''general_contractor_changed'' \<notin> set (audit_actions s)"
    and run: "changeGeneralContractor parseDate userId objectId dto s = (r, s')"
  shows "r = Inl (PrismaError CheckViolation) \<and> auditLog s' = auditLog s
     \<and> (\<exists>p. current_of objectId GENERAL_CONTRACTOR_ROLE s' = [p] \<and> op_orgName p = gc_orgName dto)"
proof -
  obtain d where d: "parseDate (gc_validFrom dto) = Some d" using ok by (auto simp: contractor_change_ok_def)
  have acc: "accessible userId objectId s" using ok by (simp add: contractor_change_ok_def)
  have role: "GENERAL_CONTRACTOR_ROLE \<in> set PARTICIPANT_ROLES"
    by (simp add: GENERAL_CONTRACTOR_ROLE_def PARTICIPANT_ROLES_def)
  have "wp (changeGeneralContractor parseDate userId objectId dto) (\<lambda>_ _. False)
     (\<lambda>e t. e = PrismaError CheckViolation \<and> auditLog t = auditLog s
        \<and> (\<exists>p. current_of objectId GENERAL_CONTRACTOR_ROLE t = [p] \<and> op_orgName p = gc_orgName dto)) s"
    using ok assms(2) d acc role
    by (simp add: changeGeneralContractor_def contractor_tx_def contractor_audit_def wp_simps replace_simps
          contractor_change_ok_def replaced_current[unfolded replaced_def, OF refl])
  then show ?thesis using run by (simp add: wp_def split: sum.splits)
qed

section \<open>The dashboard\<close>

lemma dashboard_fails:
  assumes "''obj_readiness_pct'' \<notin> set (mv_columns s)"
  shows "wp (getDashboard rank userId dto) (\<lambda>_ _. False) (\<lambda>_. (=) s) s"
    and "wp (get_object_detail userId objectId) (\<lambda>_ _. False) (\<lambda>_. (=) s) s"
  using assms
  by (auto simp: getDashboard_def get_object_detail_def query_columns_def user_org_def wp_simps Let_def
        DASHBOARD_COLUMNS_def DETAIL_COLUMNS_def split: option.split)

text \<open>After a refresh the view is that of the store, and counts as fresh for half an hour.\<close>

lemma wp_refreshDashboard:
  "wp (refreshDashboard acquired refreshed)
     (\<lambda>t s'. t = clock s \<and> mvRows s' = List.map_filter (status_row s) (objects s)
        \<and> (\<forall>u. u - t \<le> STALE_MINUTES * 60 * 1000 \<longrightarrow>
              staleness_of u (List.find (\<lambda>r. ml_viewName r = MV_NAME) (mvRefreshLog s'))
              = \<lparr>sm_isStale = False, sm_refreshedAt = Some t, sm_staleReason = None\<rparr>))
     (\<lambda>_. rolled_back s) s"
proof -
  have "List.find (\<lambda>r. ml_viewName r = ml_viewName q)
          (if list_ex (\<lambda>r. ml_viewName r = ml_viewName q) rows
           then update_where (\<lambda>r. ml_viewName r = ml_viewName q) (\<lambda>_. q) rows else rows @ [q]) = Some q" for q rows
    by (induction rows) (auto simp: find_append)
  from this[of "\<lparr>ml_viewName = MV_NAME, ml_refreshedAt = t, ml_periodId = None, ml_isStale = False\<rparr>" for t]
  show ?thesis
    by (auto simp: refreshDashboard_def refresh_view_def upsert_mv_log_def wp_simps staleness_of_def rolled_backI
          split: if_splits)
qed

section \<open>Configuration\<close>

definition config_reads :: "string \<Rightarrow> string \<Rightarrow> db \<Rightarrow> number option" where
  "config_reads organizationId key s = Option.bind (find_config organizationId key s) c_valueNumeric"

lemma wp_update_config:
  "wp (update_config userId key v)
     (\<lambda>view s'. key \<in> set KNOWN_KEYS \<and> cv_value view = Some v
        \<and> (\<exists>u. find_user userId s = Some u \<and> config_reads (u_organizationId u) key s' = Some v
             \<and> (\<forall>org k. (org, k) \<noteq> (u_organizationId u, key) \<longrightarrow> config_reads org k s' = config_reads org k s))
        \<and> s' = s\<lparr>systemConfig := systemConfig s'\<rparr>)
     (\<lambda>_ s'. s' = s) s"
proof (cases "find_user userId s")
  case None
  then show ?thesis by (simp add: update_config_def user_org_def wp_simps)
next
  case (Some u)
  let ?org = "u_organizationId u"
  have other: "List.find (\<lambda>c. c_organizationId c = org \<and> c_key c = k)
          (update_where (\<lambda>c. config_key c = (?org, key)) (\<lambda>_. changed_config v t userId old) rows)
        = List.find (\<lambda>c. c_organizationId c = org \<and> c_key c = k) rows"
    if "(org, k) \<noteq> (?org, key)" "config_key old = (?org, key)" for org k t old rows
    using that by (intro find_update_where_other) (auto simp: config_key_def changed_config_def)
  have own: "List.find (\<lambda>c. c_organizationId c = ?org \<and> c_key c = key)
          (update_where (\<lambda>c. config_key c = (?org, key)) (\<lambda>_. changed_config v t userId old) rows)
        = Some (changed_config v t userId old)"
    if "List.find (\<lambda>c. c_organizationId c = ?org \<and> c_key c = key) rows = Some old" "config_key old = (?org, key)"
    for t old rows
    using that by (induction rows) (auto simp: config_key_def changed_config_def split: if_splits)
  show ?thesis
  proof (cases "find_config ?org key s")
    case None
    then show ?thesis
      using Some
      by (auto simp: update_config_def user_org_def upsert_config_def wp_simps config_reads_def find_config_def
            find_append new_config_def config_view_of_def split: option.split)
  next
    case old: (Some old)
    then have "config_key old = (?org, key)"
      using find_SomeD[OF old[unfolded find_config_def]] by (simp add: config_key_def)
    then show ?thesis
      using Some old own[OF old[unfolded find_config_def]] other
      by (auto simp: update_config_def user_org_def upsert_config_def wp_simps config_reads_def find_config_def
            changed_config_def config_view_of_def split: option.split)
  qed
qed

section \<open>Refresh tokens\<close>

lemma find_distinct:
  "distinct (map key rows) \<Longrightarrow>
     List.find (\<lambda>r. key r = h) rows = Some r \<longleftrightarrow> r \<in> set rows \<and> key r = h"
  by (induction rows) auto

lemma find_token_iff:
  "registry_ok s \<Longrightarrow> find_token h s = Some r \<longleftrightarrow> r \<in> set (refreshTokens s) \<and> rt_tokenHash r = h"
  by (simp add: find_token_def registry_ok_def find_distinct)

text \<open>A refresh leaves the token it was given revoked, whatever the new one is.\<close>

definition spent :: "string \<Rightarrow> db \<Rightarrow> bool" where
  "spent h s \<longleftrightarrow> (\<exists>r \<in> set (refreshTokens s). rt_tokenHash r = h \<and> rt_revokedAt r \<noteq> None)"

lemma refresh_spends:
  "wp (refresh sha256 sign uuid raw agent ip) (\<lambda>_. spent (sha256 raw)) (\<lambda>_ _. True) s"
proof (cases "usable_token (sha256 raw) s")
  case None
  then show ?thesis by (simp add: refresh_def wp_simps)
next
  case (Some x)
  then have "find_token (sha256 raw) s = Some (fst x)"
    by (auto simp: usable_token_def split: option.splits if_splits)
  then have "fst x \<in> set (refreshTokens s)" "rt_tokenHash (fst x) = sha256 raw"
    using find_SomeD[of "\<lambda>r. rt_tokenHash r = sha256 raw" "refreshTokens s" "fst x"]
    by (simp_all add: find_token_def)
  then have "spent (sha256 raw) (s\<lparr>seq := f, refreshTokens :=
      update_where (\<lambda>r. rt_id r = rt_id (fst x)) (\<lambda>r. r\<lparr>rt_revokedAt := Some t\<rparr>) (refreshTokens s) @ rs\<rparr>)" for f t rs
    by (auto simp: spent_def set_update_where intro!: bexI[of _ "fst x\<lparr>rt_revokedAt := Some t\<rparr>"])
  then show ?thesis
    using Some
    by (simp add: refresh_def refresh_writes_def issue_tokens_def revoke_tokens_where_def insert_refresh_token_def wp_simps)
qed

lemma spent_refused:
  assumes "registry_ok s" "spent (sha256 raw) s"
  shows "refresh sha256 sign uuid raw agent ip s = (Inl (UnauthorizedException ''INVALID_REFRESH_TOKEN''), s)"
proof -
  obtain r where "find_token (sha256 raw) s = Some r" "rt_revokedAt r \<noteq> None"
    using assms by (auto simp: spent_def find_token_iff)
  then show ?thesis by (simp add: refresh_def usable_token_def getsOr_def bind_def split: option.split)
qed

lemma spent_kept:
  assumes "spent h s" "rows_kept token_next (refreshTokens s) (refreshTokens t)"
  shows "spent h t"
proof -
  obtain r where "r \<in> set (refreshTokens s)" and r: "rt_tokenHash r = h" "rt_revokedAt r \<noteq> None"
    using assms(1) by (auto simp: spent_def)
  then obtain r' where "r' \<in> set (refreshTokens t)" "token_next r r'"
    using assms(2) by (auto simp: rows_kept_def)
  with r show ?thesis by (auto simp: spent_def token_next_def intro!: bexI[of _ r'])
qed

end
