(* ===== verification/Catalog_Theorems.thy ===== *)
theory Catalog_Theorems
  imports Catalog_Props Sample_Store
begin

text \<open>
  The properties of the master data: the BoQ, the participants, the dashboard, the configuration and the
  sessions.  The witnesses start from \<open>site\<close>, the sample store with a second object (101) that has no
  BoQ, and from \<open>session\<close>, in which user 1 has logged in.
\<close>

definition any_day :: "string \<Rightarrow> date option" where
  "any_day t = Some (3 * MS_PER_DAY + 5)"

definition site_dto :: object_dto where
  "site_dto = \<lparr>od_name = ''Bridge'', od_objectClass = None, od_address = None, od_permitNumber = None,
     od_permitDate = None, od_connectionDate = None\<rparr>"

definition site :: db where
  "site = final (create_object any_day 3 site_dto) sample_store"



definition plain_hash :: "string \<Rightarrow> string" where
  "plain_hash t = ''h:'' @ t"

definition check_password :: "string \<Rightarrow> string \<Rightarrow> bool" where
  "check_password pw h \<longleftrightarrow> h = ''hash of '' @ pw"

definition sign_sub :: "jwt_payload \<Rightarrow> string" where
  "sign_sub p = jp_sub p"

definition session :: db where
  "session = final (login check_password plain_hash sign_sub ''u1'' ''sc@x'' ''secret'' ''ua'' ''ip'') sample_store"

definition gc_dto :: contractor_dto where
  "gc_dto = \<lparr>gc_orgName = ''Build Co'', gc_contactPerson = None, gc_contactEmail = None,
     gc_validFrom = ''2026-01-01'', gc_reason = ''insolvency''\<rparr>"

definition gc_participant :: participant_dto where
  "gc_participant = \<lparr>pd_participantRole = ''designer'', pd_orgName = ''Plan Co'', pd_contactPerson = None,
     pd_contactEmail = None, pd_validFrom = ''2026-01-01'', pd_changedReason = None\<rparr>"


lemma participant_runs: "returns (addParticipant any_day 1 101 gc_participant) site"
  by code_simp

lemma login_runs: "returns (login check_password plain_hash sign_sub ''u1'' ''sc@x'' ''secret'' ''ua'' ''ip'') sample_store"
  by code_simp



section \<open>The BoQ\<close>



text \<open>
  A baseline request cannot be approved: whatever the state and the request, \<^verbatim>\<open>approveRequest\<close>
  throws and leaves all tables as they were, because the new version has the type
  \<^verbatim>\<open>baseline_update\<close>, which the CHECK constraint of the table excludes.
\<close>

theorem approveRequest_never_succeeds:
  "\<exists>e s'. approveRequest userId requestId reviewNotes periodId s = (Inl e, s') \<and> rolled_back s s'"
  by (rule wp_fails) (rule wp_approveRequest)

section \<open>Participants\<close>

text \<open>
  \<^verbatim>\<open>addParticipant\<close> succeeds only for a user of the object's organization, one of the four roles and
  a valid date.  Afterwards the new record is the only current one of its role, the record it replaces
  is closed on the day the new one begins, and the participants of other roles and objects are as before.
\<close>

theorem addParticipant_correct:
  assumes "addParticipant parseDate userId objectId dto s = (Inr view, s')"
  shows "participant_added parseDate userId objectId dto s view s'
     \<and> (\<forall>q \<in> set (participants s).
          \<not> (op_objectId q = objectId \<and> op_participantRole q = pd_participantRole dto \<and> op_isCurrent q)
          \<longrightarrow> q \<in> set (participants s'))"
proof -
  have added: "participant_added parseDate userId objectId dto s view s'"
    using wp_Inr[OF assms wp_addParticipant] .
  then obtain d p where "replaced objectId (pd_participantRole dto) d userId (pd_changedReason dto) p s s'"
    by (auto simp: participant_added_def Let_def)
  from added replaced_others[OF this] show ?thesis by blast
qed

theorem addParticipant_correct_witness:
  "participant_added any_day 1 101 gc_participant site
     (result_of (addParticipant any_day 1 101 gc_participant) site)
     (final (addParticipant any_day 1 101 gc_participant) site)"
  using addParticipant_correct[OF returns_run[OF participant_runs]] by (rule conjunct1)

text \<open>
  Under the audit actions the migrations allow, a permitted change of the general contractor always
  ends in an error of the data base, after the change has been committed and without an audit row.
\<close>

theorem contractor_change_unaudited:
  assumes "contractor_change_ok parseDate userId objectId dto s"
    and "''general_contractor_changed'' \<notin> set (audit_actions s)"
  shows "\<exists>s'. changeGeneralContractor parseDate userId objectId dto s = (Inl (PrismaError CheckViolation), s')
     \<and> auditLog s' = auditLog s
     \<and> (\<exists>p. current_of objectId GENERAL_CONTRACTOR_ROLE s' = [p] \<and> op_orgName p = gc_orgName dto)"
  using contractor_change_fails[OF assms] by (metis prod.exhaust)

theorem contractor_change_unaudited_witness:
  "\<exists>s' p. changeGeneralContractor any_day 1 101 gc_dto site = (Inl (PrismaError CheckViolation), s')
     \<and> auditLog s' = auditLog site \<and> current_of 101 GENERAL_CONTRACTOR_ROLE s' = [p] \<and> op_orgName p = ''Build Co''"
proof -
  have "contractor_change_ok any_day 1 101 gc_dto site" "''general_contractor_changed'' \<notin> set (audit_actions site)"
    "gc_orgName gc_dto = ''Build Co''"
    by code_simp+
  from contractor_change_unaudited[OF this(1,2)] this(3) show ?thesis by auto
qed

section \<open>The dashboard and the configuration\<close>

text \<open>
  Under the columns the migrations give the view, the dashboard and the page of an object always
  answer with an error: both read \<^verbatim>\<open>obj_readiness_pct\<close>, which the view does not have.
\<close>

theorem dashboard_always_fails:
  assumes "mv_columns s = migrated_mv_columns"
  shows "(\<exists>e. getDashboard rank userId dto s = (Inl e, s)) \<and> (\<exists>e. get_object_detail userId objectId s = (Inl e, s))"
proof -
  have "''obj_readiness_pct'' \<notin> set (mv_columns s)" by (simp add: assms migrated_mv_columns_def)
  from wp_fails[OF dashboard_fails(1)[OF this]] wp_fails[OF dashboard_fails(2)[OF this]]
  show ?thesis by blast
qed

theorem dashboard_always_fails_witness:
  "\<exists>e. get_object_detail 1 10 sample_store = (Inl e, sample_store)"
proof -
  have "mv_columns sample_store = migrated_mv_columns" by code_simp
  from dashboard_always_fails[OF this] show ?thesis by blast
qed

text \<open>
  \<^verbatim>\<open>update\<close> of the configuration is what the next read of that key in that organization finds; every
  other key and organization reads as before, and no other table changes.  When it throws, nothing has
  changed.
\<close>

theorem config_update_roundtrip:
  assumes "update_config userId key v s = (r, s')"
  shows "case r of
           Inl e \<Rightarrow> s' = s
         | Inr view \<Rightarrow> key \<in> set KNOWN_KEYS \<and> cv_value view = Some v
             \<and> (\<exists>u. find_user userId s = Some u \<and> config_reads (u_organizationId u) key s' = Some v
                  \<and> (\<forall>org k. (org, k) \<noteq> (u_organizationId u, key) \<longrightarrow> config_reads org k s' = config_reads org k s))
             \<and> s' = s\<lparr>systemConfig := systemConfig s'\<rparr>"
  using wp_update_config[of userId key v s] assms by (simp add: wp_def split: sum.splits)

lemma config_runs: "returns (update_config 3 ''spike_threshold'' 4) sample_store"
  by code_simp

theorem config_update_roundtrip_witness:
  "config_reads ''org'' ''spike_threshold'' (final (update_config 3 ''spike_threshold'' 4) sample_store) = Some 4"
proof -
  have "map_option u_organizationId (find_user 3 sample_store) = Some ''org''" by code_simp
  with config_update_roundtrip[OF returns_run[OF config_runs]] show ?thesis by auto
qed

section \<open>Sessions\<close>



text \<open>
  The rotation is not atomic: when two requests with the same token have both read it as usable
  before either writes, both end in new tokens, each valid on its own.
\<close>

theorem racing_refreshes_both_succeed:
  assumes "usable_token (sha256 raw) s = Some x"
    and "find_token (sha256 a) s = None" and "find_token (sha256 b) s = None" and "sha256 a \<noteq> sha256 b"
  shows "\<exists>s' s''. refresh_writes sha256 sign a x agent ip s
             = (Inr \<lparr>tk_accessToken = sign (payload_for (snd x)), tk_refreshToken = a\<rparr>, s')
         \<and> refresh_writes sha256 sign b x agent' ip' s'
             = (Inr \<lparr>tk_accessToken = sign (payload_for (snd x)), tk_refreshToken = b\<rparr>, s'')"
proof -
  have kept: "List.find (\<lambda>r. rt_tokenHash r = h) rows = None \<Longrightarrow>
      List.find (\<lambda>r. rt_tokenHash r = h) (update_where P (rt_revokedAt_update (\<lambda>_. t)) rows) = None" for h P t rows
    by (induction rows) (auto split: if_splits)
  show ?thesis
    using assms(2-4)
    by (simp add: kept refresh_writes_def revoke_tokens_where_def issue_tokens_def insert_refresh_token_def now_def
          nextval_def prog_defs find_token_def find_append new_refresh_token_def)
qed

theorem racing_refreshes_both_succeed_witness:
  "\<exists>x s' s''. usable_token (plain_hash ''u1'') session = Some x
     \<and> refresh_writes plain_hash sign_sub ''a'' x ''ua'' ''ip'' session
         = (Inr \<lparr>tk_accessToken = ''1'', tk_refreshToken = ''a''\<rparr>, s')
     \<and> refresh_writes plain_hash sign_sub ''b'' x ''ub'' ''iq'' s'
         = (Inr \<lparr>tk_accessToken = ''1'', tk_refreshToken = ''b''\<rparr>, s'')"
proof -
  have "map_option (\<lambda>x. sign_sub (payload_for (snd x))) (usable_token (plain_hash ''u1'') session) = Some ''1''"
    "find_token (plain_hash ''a'') session = None" "find_token (plain_hash ''b'') session = None"
    "plain_hash ''a'' \<noteq> plain_hash ''b''"
    by code_simp+
  then obtain x where "usable_token (plain_hash ''u1'') session = Some x" "sign_sub (payload_for (snd x)) = ''1''"
    "find_token (plain_hash ''a'') session = None" "find_token (plain_hash ''b'') session = None"
    "plain_hash ''a'' \<noteq> plain_hash ''b''"
    by auto
  with racing_refreshes_both_succeed[of plain_hash "''u1''" session x "''a''" "''b''" sign_sub "''ua''" "''ip''" "''ub''" "''iq''"] show ?thesis by metis
qed

end
