(* ===== verification/Health.thy ===== *)
theory Health
  imports Schema
begin

text \<open>
  \<^verbatim>\<open>HealthService\<close> and \<^verbatim>\<open>HealthController\<close> (\<^verbatim>\<open>modules/health\<close>), the probes of the deployment.  What the data
  base and Redis answer is an argument: \<open>None\<close>, or the message of the error.
\<close>

record health_report =
  h_postgres :: bool
  h_redis :: bool

definition checkLive :: "bool service" where
  "checkLive = ret True"

definition ping :: "string option \<Rightarrow> unit service" where
  "ping answer = (case answer of None \<Rightarrow> ret () | Some m \<Rightarrow> throw (LibraryError m))"

definition checkReady :: "string option \<Rightarrow> string option \<Rightarrow> health_report service" where
  "checkReady postgres redis =
     andThen (ping postgres) (andThen (ping redis) (ret \<lparr>h_postgres = True, h_redis = True\<rparr>))"

definition ready :: "string option \<Rightarrow> string option \<Rightarrow> health_report service" where
  "ready postgres redis =
     tryCatch (checkReady postgres redis) (\<lambda>err. throw (ServiceUnavailableException (exn_message err)))"

text \<open>The probe answers \<^verbatim>\<open>200\<close> exactly when both answer, and otherwise \<^verbatim>\<open>503\<close> with the first error; it changes nothing.\<close>

lemma ready_run:
  "ready postgres redis s =
     (case postgres of
        Some m \<Rightarrow> (Inl (ServiceUnavailableException m), s)
      | None \<Rightarrow> (case redis of
          Some m \<Rightarrow> (Inl (ServiceUnavailableException m), s)
        | None \<Rightarrow> (Inr \<lparr>h_postgres = True, h_redis = True\<rparr>, s)))"
  by (simp add: ready_def checkReady_def ping_def prog_defs tryCatch_def split: option.splits)

end
