(* ===== verification/Api.thy ===== *)
theory Api
  imports Period_Service Zero_Report Sync Boq_Service Objects Auth Health
begin

text \<open>
  The HTTP interface: one type of request and one dispatcher per controller, the global guards
  (\<^verbatim>\<open>JwtAuthGuard\<close>, \<^verbatim>\<open>RolesGuard\<close>, provided as \<^verbatim>\<open>APP_GUARD\<close> by \<^verbatim>\<open>app.module.ts\<close>) and the validation of the
  request bodies (\<^verbatim>\<open>ValidationPipe\<close> over the decorators of the DTO classes), in the order in which the
  framework runs them.

  A request is what the framework has parsed: integers in paths (\<^verbatim>\<open>ParseIntPipe\<close>) and the types of the
  fields of a body (\<^verbatim>\<open>@IsString()\<close>, \<^verbatim>\<open>@IsNumber()\<close>, \<^verbatim>\<open>@IsInt()\<close>) are the types of the model, so that the
  validation that is left concerns lengths, ranges and admitted values.  The token of a request carries
  the organization of its user, so the tenant filter of the Prisma client, which repeats that
  organization in the queries on users, configuration and audit log, changes none of them.
\<close>

section \<open>The environment of a request\<close>

text \<open>
  What the services take from outside: the error code of the advisory lock (\<open>None\<close>: acquired), fresh
  identifiers, the parser of dates, the object store, the collation, the answers of the data base to a
  refresh of the view, the cryptography, two validators of the library, and the answers to the probes.
\<close>

record env =
  e_lock :: "string option"
  e_uuid :: string
  e_lineage :: "int \<Rightarrow> string"
  e_parseDate :: "string \<Rightarrow> date option"
  e_s3 :: "string \<Rightarrow> bool"
  e_rank :: "string \<Rightarrow> int"
  e_acquired :: bool
  e_refreshed :: bool
  e_compare :: "string \<Rightarrow> string \<Rightarrow> bool"
  e_sha256 :: "string \<Rightarrow> string"
  e_sign :: "jwt_payload \<Rightarrow> string"
  e_verify :: "string \<Rightarrow> jwt_payload option"
  e_isEmail :: "string \<Rightarrow> bool"
  e_isDate :: "string \<Rightarrow> bool"
  e_postgres :: "string option"
  e_redis :: "string option"

text \<open>\<^verbatim>\<open>parseInt(text, 10)\<close>: the whole number at the beginning of a text, \<open>None\<close> for \<^verbatim>\<open>NaN\<close>.\<close>

definition parseInt :: "string \<Rightarrow> int option" where
  "parseInt text =
     (let t = dropWhile js_space text;
          neg = (take 1 t = ''-'');
          u = (if neg \<or> take 1 t = ''+'' then drop 1 t else t);
          ds = takeWhile is_digit u;
          v = int (digits_value ds)
      in if ds = [] then None else Some (if neg then - v else v))"

text \<open>\<^verbatim>\<open>parseInt(req.user.id, 10)\<close>; Prisma refuses \<^verbatim>\<open>NaN\<close> as a key.\<close>

definition as_actor :: "jwt_payload \<Rightarrow> (int \<Rightarrow> 'a service) \<Rightarrow> 'a service" where
  "as_actor u k = (case parseInt (jp_sub u) of None \<Rightarrow> throw (PrismaError InvalidArgument) | Some i \<Rightarrow> k i)"

definition max_len :: "nat \<Rightarrow> string \<Rightarrow> bool" where
  "max_len n x \<longleftrightarrow> length x \<le> n"

definition if_given :: "'a option \<Rightarrow> ('a \<Rightarrow> bool) \<Rightarrow> bool" where
  "if_given x P \<longleftrightarrow> (case x of None \<Rightarrow> True | Some v \<Rightarrow> P v)"

datatype answer =
    NoContent
  | APeriod period
  | APeriods "period list"
  | APeriodFacts period "period_fact list"
  | ADetail period_detail
  | AGpForm gp_form
  | AFact period_fact
  | AZeroReport zero_report_view
  | AZeroItems zero_report_view "zero_item_view list"
  | AZeroItem zero_item_view
  | ABoq created_boq
  | AActiveBoq active_boq
  | AVersions "version_summary list"
  | ABaseline baseline_view
  | AApproval int baseline_status int string
  | AObject object_passport date
  | AObjects "object_row list"
  | AObjectDetail object_detail
  | AParticipant participant_view
  | ADocument document_view
  | AConfig "config_view list"
  | AConfigEntry config_view
  | ARefreshed date
  | ADashboard dashboard
  | AResults "sync_result list"
  | AResolution int sync_status number
  | APhoto photo_result
  | AToken string cookie_change
  | ACookie cookie_change
  | AAlive bool
  | AReady health_report

definition reply :: "('a \<Rightarrow> answer) \<Rightarrow> 'a service \<Rightarrow> answer service" where
  "reply f m = bind m (\<lambda>x. ret (f x))"

section \<open>PeriodController\<close>

datatype period_request =
    POpenFor int
  | PDetail int
  | PGpForm string
  | PFind int
  | PClose int
  | PByObject int
  | PSubmitGp string string "gp_item list"
  | PFact int int number

text \<open>\<open>None\<close>: no \<^verbatim>\<open>@Roles\<close>.\<close>

fun period_roles :: "period_request \<Rightarrow> user_role list option" where
  "period_roles (POpenFor _) = Some [Stroycontrol, Admin]"
| "period_roles (PDetail _) = Some [Director, Stroycontrol, Admin]"
| "period_roles (PGpForm _) = None"
| "period_roles (PFind _) = Some [Director, Stroycontrol, Admin]"
| "period_roles (PClose _) = Some [Stroycontrol, Admin]"
| "period_roles (PByObject _) = Some [Director, Stroycontrol, Admin]"
| "period_roles (PSubmitGp _ _ _) = None"
| "period_roles (PFact _ _ _) = Some [Stroycontrol, Admin]"

fun period_valid :: "period_request \<Rightarrow> bool" where
  "period_valid (POpenFor objectId) = (0 < objectId)"
| "period_valid (PSubmitGp _ _ items) = list_all (\<lambda>i. extra_keys i = []) items"
| "period_valid _ = True"

fun period_controller :: "env \<Rightarrow> jwt_payload \<Rightarrow> period_request \<Rightarrow> answer service" where
  "period_controller e u (POpenFor objectId) =
     as_actor u (\<lambda>i. reply APeriod (openPeriod (e_lock e) (e_uuid e) objectId i None))"
| "period_controller e u (PDetail periodId) = as_actor u (\<lambda>i. reply ADetail (getDetail periodId i))"
| "period_controller e u (PGpForm token) = reply AGpForm (getGpFormData token)"
| "period_controller e u (PFind periodId) =
     as_actor u (\<lambda>i. reply (\<lambda>x. APeriodFacts (fst x) (snd x)) (findById periodId i))"
| "period_controller e u (PClose periodId) = as_actor u (\<lambda>i. reply APeriod (closePeriod periodId i))"
| "period_controller e u (PByObject objectId) = reply APeriods (findByObject objectId)"
| "period_controller e u (PSubmitGp token gpSubmittedByName items) =
     reply APeriod (submitGp token gpSubmittedByName items)"
| "period_controller e u (PFact periodId boqItemId scVolume) =
     as_actor u (\<lambda>i. reply AFact (upsertPeriodFact periodId boqItemId scVolume i no_opts))"

section \<open>ZeroReportController\<close>

datatype zero_request =
    ZCreate int int "string option"
  | ZGet int
  | ZItem int zero_item_dto
  | ZSubmit int
  | ZApprove int

fun zero_roles :: "zero_request \<Rightarrow> user_role list option" where
  "zero_roles (ZCreate _ _ _) = Some [Engineer, Admin]"
| "zero_roles (ZGet _) = Some [Director, Engineer, Admin]"
| "zero_roles (ZItem _ _) = Some [Engineer, Admin]"
| "zero_roles (ZSubmit _) = Some [Engineer, Admin]"
| "zero_roles (ZApprove _) = Some [Director]"

fun zero_valid :: "zero_request \<Rightarrow> bool" where
  "zero_valid (ZCreate _ boqVersionId _) = (0 < boqVersionId)"
| "zero_valid (ZItem _ dto) = (0 < zd_boqItemId dto \<and> 0 < zd_factVolume dto \<and> max_len 50 (zd_source dto))"
| "zero_valid _ = True"

fun zero_controller :: "jwt_payload \<Rightarrow> zero_request \<Rightarrow> answer service" where
  "zero_controller u (ZCreate objectId boqVersionId nts) =
     as_actor u (\<lambda>i. reply AZeroReport (create_report i objectId boqVersionId nts))"
| "zero_controller u (ZGet objectId) =
     as_actor u (\<lambda>i. reply (\<lambda>x. AZeroItems (fst x) (snd x)) (getByObject i objectId))"
| "zero_controller u (ZItem objectId dto) = as_actor u (\<lambda>i. reply AZeroItem (upsertItem i objectId dto))"
| "zero_controller u (ZSubmit objectId) = as_actor u (\<lambda>i. reply AZeroReport (submit_report i objectId))"
| "zero_controller u (ZApprove objectId) = as_actor u (\<lambda>i. reply AZeroReport (approve_report i objectId))"

section \<open>BoqController and BaselineController\<close>

datatype boq_request =
    BCreate int "string option" "boq_item_dto list"
  | BGetActive int
  | BVersions int

fun boq_roles :: "boq_request \<Rightarrow> user_role list option" where
  "boq_roles (BCreate _ _ _) = Some [Admin]"
| "boq_roles _ = Some [Director, Stroycontrol, Admin]"

definition boq_item_valid :: "boq_item_dto \<Rightarrow> bool" where
  "boq_item_valid d \<longleftrightarrow> max_len 100 (bd_workCode d) \<and> if_given (bd_unit d) (max_len 50)
     \<and> 0 < bd_planVolume d \<and> 0 < bd_contractValue d"

fun boq_valid :: "boq_request \<Rightarrow> bool" where
  "boq_valid (BCreate _ _ items) = (items \<noteq> [] \<and> list_all boq_item_valid items)"
| "boq_valid _ = True"

fun boq_controller :: "env \<Rightarrow> jwt_payload \<Rightarrow> boq_request \<Rightarrow> answer service" where
  "boq_controller e u (BCreate objectId changeReason items) =
     as_actor u (\<lambda>i. reply ABoq (createInitial (e_lineage e) i objectId changeReason items))"
| "boq_controller e u (BGetActive objectId) = as_actor u (\<lambda>i. reply AActiveBoq (getActive i objectId))"
| "boq_controller e u (BVersions objectId) = as_actor u (\<lambda>i. reply AVersions (listVersions i objectId))"

datatype baseline_http =
    BLCreate int baseline_dto
  | BLApprove int "string option" "int option"

fun baseline_roles :: "baseline_http \<Rightarrow> user_role list option" where
  "baseline_roles (BLCreate _ _) = Some [Stroycontrol, Admin]"
| "baseline_roles (BLApprove _ _ _) = Some [Admin]"

fun baseline_valid :: "baseline_http \<Rightarrow> bool" where
  "baseline_valid (BLCreate _ dto) =
     (0 < bl_newPlanVolume dto \<and> if_given (bl_supportingDocument dto) (max_len 500))"
| "baseline_valid (BLApprove _ _ _) = True"

fun baseline_controller :: "jwt_payload \<Rightarrow> baseline_http \<Rightarrow> answer service" where
  "baseline_controller u (BLCreate objectId dto) =
     as_actor u (\<lambda>i. reply ABaseline (createRequest i objectId dto))"
| "baseline_controller u (BLApprove requestId reviewNotes appliesFromPeriodId) =
     as_actor u (\<lambda>i. reply (\<lambda>(r, st, v, number). AApproval r st v number)
       (approveRequest i requestId reviewNotes appliesFromPeriodId))"

section \<open>ObjectsController and DocumentsController\<close>

datatype objects_request =
    OCreate object_dto
  | OList
  | ODetail int
  | OParticipant int participant_dto
  | OContractor int contractor_dto

fun objects_roles :: "objects_request \<Rightarrow> user_role list option" where
  "objects_roles (OCreate _) = Some [Admin]"
| "objects_roles OList = Some [Director, Stroycontrol, Admin]"
| "objects_roles (ODetail _) = Some [Director, Stroycontrol, Admin]"
| "objects_roles (OParticipant _ _) = Some [Admin]"
| "objects_roles (OContractor _ _) = Some [Admin]"

definition object_valid :: "env \<Rightarrow> object_dto \<Rightarrow> bool" where
  "object_valid e d \<longleftrightarrow> max_len 500 (od_name d) \<and> if_given (od_objectClass d) (max_len 100)
     \<and> if_given (od_permitNumber d) (max_len 100)
     \<and> if_given (od_permitDate d) (e_isDate e) \<and> if_given (od_connectionDate d) (e_isDate e)"

definition participant_valid :: "env \<Rightarrow> participant_dto \<Rightarrow> bool" where
  "participant_valid e d \<longleftrightarrow> max_len 50 (pd_participantRole d) \<and> max_len 500 (pd_orgName d)
     \<and> if_given (pd_contactPerson d) (max_len 255) \<and> if_given (pd_contactEmail d) (max_len 255)
     \<and> e_isDate e (pd_validFrom d)"

definition contractor_valid :: "env \<Rightarrow> contractor_dto \<Rightarrow> bool" where
  "contractor_valid e d \<longleftrightarrow> max_len 500 (gc_orgName d)
     \<and> if_given (gc_contactPerson d) (max_len 255) \<and> if_given (gc_contactEmail d) (max_len 255)
     \<and> e_isDate e (gc_validFrom d)"

fun objects_valid :: "env \<Rightarrow> objects_request \<Rightarrow> bool" where
  "objects_valid e (OCreate dto) = object_valid e dto"
| "objects_valid e (OParticipant _ dto) = participant_valid e dto"
| "objects_valid e (OContractor _ dto) = contractor_valid e dto"
| "objects_valid e _ = True"

fun objects_controller :: "env \<Rightarrow> jwt_payload \<Rightarrow> objects_request \<Rightarrow> answer service" where
  "objects_controller e u (OCreate dto) =
     as_actor u (\<lambda>i. reply (\<lambda>x. AObject (fst x) (snd x)) (create_object (e_parseDate e) i dto))"
| "objects_controller e u OList = as_actor u (\<lambda>i. reply AObjects (list_objects i))"
| "objects_controller e u (ODetail objectId) = as_actor u (\<lambda>i. reply AObjectDetail (get_object_detail i objectId))"
| "objects_controller e u (OParticipant objectId dto) =
     as_actor u (\<lambda>i. reply AParticipant (addParticipant (e_parseDate e) i objectId dto))"
| "objects_controller e u (OContractor objectId dto) =
     as_actor u (\<lambda>i. reply AParticipant (changeGeneralContractor (e_parseDate e) i objectId dto))"

text \<open>A document: the object, type, version, and the name of the file, if there is one.\<close>

datatype document_request = DUpload int string string "string option"

definition document_roles :: "document_request \<Rightarrow> user_role list option" where
  "document_roles _ = Some [Admin]"

definition ALLOWED_DOC_TYPES :: "string list" where
  "ALLOWED_DOC_TYPES = [''ssr'', ''rdc'', ''kalplan'']"

fun document_valid :: "document_request \<Rightarrow> bool" where
  "document_valid (DUpload _ docType version _) = (docType \<in> set ALLOWED_DOC_TYPES \<and> max_len 20 version)"

fun document_controller :: "env \<Rightarrow> jwt_payload \<Rightarrow> document_request \<Rightarrow> answer service" where
  "document_controller e u (DUpload objectId docType version file) =
     (case file of
        None \<Rightarrow> throw (BadRequestException ''FILE_REQUIRED'')
      | Some originalname \<Rightarrow>
          as_actor u (\<lambda>i. reply ADocument (upload_document (e_s3 e) i objectId docType version originalname)))"

section \<open>SystemConfigController, AdminController and AnalyticsController\<close>

datatype config_request = CList | CUpdate string number

fun config_roles :: "config_request \<Rightarrow> user_role list option" where
  "config_roles CList = Some [Director, Stroycontrol, Admin]"
| "config_roles (CUpdate _ _) = Some [Admin]"

fun config_controller :: "env \<Rightarrow> jwt_payload \<Rightarrow> config_request \<Rightarrow> answer service" where
  "config_controller e u CList = as_actor u (\<lambda>i. reply AConfig (list_config (e_rank e) i))"
| "config_controller e u (CUpdate key v) = as_actor u (\<lambda>i. reply AConfigEntry (update_config i key v))"

datatype admin_request = ARefresh | ACorrectFact int number number string

definition admin_roles :: "admin_request \<Rightarrow> user_role list option" where
  "admin_roles _ = Some [Admin]"

fun admin_valid :: "admin_request \<Rightarrow> bool" where
  "admin_valid ARefresh = True"
| "admin_valid (ACorrectFact _ scVolume accepted reason) = (0 \<le> scVolume \<and> 0 \<le> accepted \<and> max_len 500 reason)"

fun admin_controller :: "env \<Rightarrow> jwt_payload \<Rightarrow> admin_request \<Rightarrow> answer service" where
  "admin_controller e u ARefresh = reply ARefreshed (refreshDashboard (e_acquired e) (e_refreshed e))"
| "admin_controller e u (ACorrectFact factId scVolume accepted reason) =
     as_actor u (\<lambda>i. reply (\<lambda>_. NoContent) (adminCorrectFact factId scVolume accepted i reason))"

definition STATUS_OPTIONS :: "string list" where
  "STATUS_OPTIONS = [''active'', ''paused'', ''closed'']"

definition dashboard_valid :: "dashboard_query \<Rightarrow> bool" where
  "dashboard_valid q \<longleftrightarrow> if_given (dq_status q) (\<lambda>x. x \<in> set STATUS_OPTIONS)
     \<and> if_given (dq_page q) (\<lambda>n. 1 \<le> n) \<and> if_given (dq_pageSize q) (\<lambda>n. 1 \<le> n \<and> n \<le> 200)"

definition analytics_roles :: "dashboard_query \<Rightarrow> user_role list option" where
  "analytics_roles _ = Some [Director, Stroycontrol, Admin]"

definition analytics_controller :: "env \<Rightarrow> jwt_payload \<Rightarrow> dashboard_query \<Rightarrow> answer service" where
  "analytics_controller e u q = as_actor u (\<lambda>i. reply ADashboard (getDashboard (e_rank e) i q))"

section \<open>SyncController\<close>

text \<open>The last component of \<open>SPhoto\<close> tells whether there is a file.\<close>

datatype sync_request =
    SOperations string "json list"
  | SResolve int number string
  | SPhoto string string int "int option" "string option" bool

definition sync_roles :: "sync_request \<Rightarrow> user_role list option" where
  "sync_roles _ = Some [Stroycontrol, Admin]"

fun sync_valid :: "env \<Rightarrow> sync_request \<Rightarrow> bool" where
  "sync_valid e (SOperations deviceId operations) =
     (deviceId \<noteq> [] \<and> max_len 255 deviceId \<and> operations \<noteq> [] \<and> length operations \<le> 100)"
| "sync_valid e (SResolve _ _ nt) = (nt \<noteq> [])"
| "sync_valid e (SPhoto deviceId clientOpId _ _ takenAt _) =
     (deviceId \<noteq> [] \<and> max_len 255 deviceId \<and> clientOpId \<noteq> [] \<and> max_len 64 clientOpId
      \<and> if_given takenAt (e_isDate e))"

fun sync_controller :: "env \<Rightarrow> jwt_payload \<Rightarrow> sync_request \<Rightarrow> answer service" where
  "sync_controller e u (SOperations deviceId operations) =
     as_actor u (\<lambda>i. reply AResults (processOperations (e_parseDate e) i deviceId operations))"
| "sync_controller e u (SResolve syncQueueId chosenValue nt) =
     as_actor u (\<lambda>i. reply (\<lambda>(q, st, v). AResolution q st v) (resolveConflict i syncQueueId chosenValue nt))"
| "sync_controller e u (SPhoto deviceId clientOpId periodId boqItemId takenAt file) =
     (if \<not> file then throw (BadRequestException ''FILE_REQUIRED'')
      else as_actor u (\<lambda>i. reply APhoto
             (uploadPhoto (e_parseDate e) (e_s3 e) i deviceId clientOpId periodId boqItemId takenAt)))"

section \<open>AuthController\<close>

datatype auth_request = ALogin string string | ARefreshToken | ALogout

fun auth_public :: "auth_request \<Rightarrow> bool" where
  "auth_public (ALogin _ _) = True"
| "auth_public ARefreshToken = True"
| "auth_public ALogout = False"

fun auth_valid :: "env \<Rightarrow> auth_request \<Rightarrow> bool" where
  "auth_valid e (ALogin email password) = (e_isEmail e email \<and> 8 \<le> length password)"
| "auth_valid e _ = True"

fun auth_controller :: "env \<Rightarrow> string option \<Rightarrow> string \<Rightarrow> string \<Rightarrow> auth_request \<Rightarrow> answer service" where
  "auth_controller e cookie agent ip (ALogin email password) =
     reply (\<lambda>x. AToken (fst x) (snd x))
       (auth_login (e_compare e) (e_sha256 e) (e_sign e) (e_uuid e) email password agent ip)"
| "auth_controller e cookie agent ip ARefreshToken =
     reply (\<lambda>x. AToken (fst x) (snd x)) (auth_refresh (e_sha256 e) (e_sign e) (e_uuid e) cookie agent ip)"
| "auth_controller e cookie agent ip ALogout = reply ACookie (auth_logout (e_sha256 e) cookie)"

section \<open>HealthController\<close>

datatype health_request = HLive | HReady

fun health_controller :: "env \<Rightarrow> health_request \<Rightarrow> answer service" where
  "health_controller e HLive = reply AAlive checkLive"
| "health_controller e HReady = reply AReady (ready (e_postgres e) (e_redis e))"

section \<open>The guards and the pipeline\<close>

datatype route =
    RAuth auth_request
  | RPeriods period_request
  | RZero zero_request
  | RBoq boq_request
  | RBaseline baseline_http
  | RObjects objects_request
  | RDocuments document_request
  | RConfig config_request
  | RAdmin admin_request
  | RAnalytics dashboard_query
  | RSync sync_request
  | RHealth health_request

text \<open>The metadata the decorators leave: \<^verbatim>\<open>@Public()\<close>, \<^verbatim>\<open>@Roles(\<dots>)\<close>.\<close>

fun is_public :: "route \<Rightarrow> bool" where
  "is_public (RAuth r) = auth_public r"
| "is_public (RHealth _) = True"
| "is_public _ = False"

fun roles_of :: "route \<Rightarrow> user_role list option" where
  "roles_of (RAuth _) = None"
| "roles_of (RPeriods r) = period_roles r"
| "roles_of (RZero r) = zero_roles r"
| "roles_of (RBoq r) = boq_roles r"
| "roles_of (RBaseline r) = baseline_roles r"
| "roles_of (RObjects r) = objects_roles r"
| "roles_of (RDocuments r) = document_roles r"
| "roles_of (RConfig r) = config_roles r"
| "roles_of (RAdmin r) = admin_roles r"
| "roles_of (RAnalytics r) = analytics_roles r"
| "roles_of (RSync r) = sync_roles r"
| "roles_of (RHealth _) = None"

fun body_valid :: "env \<Rightarrow> route \<Rightarrow> bool" where
  "body_valid e (RAuth r) = auth_valid e r"
| "body_valid e (RPeriods r) = period_valid r"
| "body_valid e (RZero r) = zero_valid r"
| "body_valid e (RBoq r) = boq_valid r"
| "body_valid e (RBaseline r) = baseline_valid r"
| "body_valid e (RObjects r) = objects_valid e r"
| "body_valid e (RDocuments r) = document_valid r"
| "body_valid e (RConfig r) = True"
| "body_valid e (RAdmin r) = admin_valid r"
| "body_valid e (RAnalytics r) = dashboard_valid r"
| "body_valid e (RSync r) = sync_valid e r"
| "body_valid e (RHealth _) = True"

record http_request =
  hr_bearer :: "string option"
  hr_cookie :: "string option"
  hr_agent :: string
  hr_ip :: string
  hr_route :: route

text \<open>\<^verbatim>\<open>AuthGuard('jwt')\<close> verifies the bearer token and makes its payload the user of the request.\<close>

definition jwt_guard :: "env \<Rightarrow> http_request \<Rightarrow> jwt_payload option service" where
  "jwt_guard e req =
     (if is_public (hr_route req) then ret None
      else case Option.bind (hr_bearer req) (e_verify e) of
             None \<Rightarrow> throw (UnauthorizedException ''Unauthorized'')
           | Some u \<Rightarrow> ret (Some u))"

definition roles_guard :: "user_role list option \<Rightarrow> jwt_payload option \<Rightarrow> bool" where
  "roles_guard required user =
     (case required of
        None \<Rightarrow> True
      | Some roles \<Rightarrow> (case user of None \<Rightarrow> False | Some u \<Rightarrow> jp_role u \<in> set roles))"

text \<open>Behind the guards, a request that is not public has a user.\<close>

definition signed_in :: "jwt_payload option \<Rightarrow> (jwt_payload \<Rightarrow> 'a service) \<Rightarrow> 'a service" where
  "signed_in user k = (case user of None \<Rightarrow> throw (UnauthorizedException ''Unauthorized'') | Some u \<Rightarrow> k u)"

fun dispatch :: "env \<Rightarrow> http_request \<Rightarrow> jwt_payload option \<Rightarrow> route \<Rightarrow> answer service" where
  "dispatch e req user (RAuth r) = auth_controller e (hr_cookie req) (hr_agent req) (hr_ip req) r"
| "dispatch e req user (RPeriods r) = signed_in user (\<lambda>u. period_controller e u r)"
| "dispatch e req user (RZero r) = signed_in user (\<lambda>u. zero_controller u r)"
| "dispatch e req user (RBoq r) = signed_in user (\<lambda>u. boq_controller e u r)"
| "dispatch e req user (RBaseline r) = signed_in user (\<lambda>u. baseline_controller u r)"
| "dispatch e req user (RObjects r) = signed_in user (\<lambda>u. objects_controller e u r)"
| "dispatch e req user (RDocuments r) = signed_in user (\<lambda>u. document_controller e u r)"
| "dispatch e req user (RConfig r) = signed_in user (\<lambda>u. config_controller e u r)"
| "dispatch e req user (RAdmin r) = signed_in user (\<lambda>u. admin_controller e u r)"
| "dispatch e req user (RAnalytics r) = signed_in user (\<lambda>u. analytics_controller e u r)"
| "dispatch e req user (RSync r) = signed_in user (\<lambda>u. sync_controller e u r)"
| "dispatch e req user (RHealth r) = health_controller e r"

definition handle :: "env \<Rightarrow> http_request \<Rightarrow> answer service" where
  "handle e req =
     bind (jwt_guard e req) (\<lambda>user.
     andThen (guard (roles_guard (roles_of (hr_route req)) user) (ForbiddenException ''Forbidden resource''))
    (andThen (guard (body_valid e (hr_route req)) (BadRequestException ''Bad Request''))
       (dispatch e req user (hr_route req))))"

section \<open>The identity of a user\<close>

lemma show_nat_head: "\<exists>c cs. show_nat n = c # cs \<and> is_digit c"
proof (induction n rule: show_nat.induct)
  case (1 n)
  show ?case
  proof (cases "n < 10")
    case True
    then show ?thesis by (subst show_nat.simps) (simp add: is_digit_def)
  next
    case False
    with 1 show ?thesis by (subst show_nat.simps) auto
  qed
qed

lemma takeWhile_show_nat: "takeWhile is_digit (show_nat n) = show_nat n"
  by (rule takeWhile_eq_all_conv[THEN iffD2]) (use show_nat_digits in \<open>auto simp: is_digit_def\<close>)

lemma parseInt_nat: "parseInt (show_nat n) = Some (int n)"
proof -
  obtain c cs where n: "show_nat n = c # cs" "is_digit c" using show_nat_head by blast
  then have "c \<noteq> CHR ''-''" "c \<noteq> CHR ''+''" by (auto simp: is_digit_def)
  moreover have tw: "takeWhile is_digit cs = cs"
    using takeWhile_show_nat[of n] n by (metis list.inject takeWhile.simps(2))
  ultimately show ?thesis
    using n digit_not_space[OF n(2)] digits_value_show[of n]
    by (simp add: parseInt_def Let_def tw del: digits_value.simps takeWhile_eq_all_conv)
qed

text \<open>The id of a user, written into the token at log-in, is read back as the same number.\<close>

lemma parseInt_show_int: "parseInt (show_int i) = Some i"
proof (cases "i < 0")
  case False
  then show ?thesis by (simp add: show_int_def parseInt_nat)
next
  case True
  have "\<not> js_space (CHR ''-'')" by (simp add: js_space_def)
  moreover obtain c cs where "show_nat (nat (- i)) = c # cs" using show_nat_head by blast
  ultimately show ?thesis
    using True takeWhile_show_nat[of "nat (- i)"] digits_value_show[of "nat (- i)"]
    by (simp add: show_int_def parseInt_def Let_def del: digits_value.simps)
qed

section \<open>What the guards let through\<close>

text \<open>A request is admitted when it is public or carries a token that verifies, with one of the roles.\<close>

definition admitted :: "env \<Rightarrow> http_request \<Rightarrow> bool" where
  "admitted e req \<longleftrightarrow> is_public (hr_route req)
     \<or> (\<exists>t u. hr_bearer req = Some t \<and> e_verify e t = Some u
          \<and> (case roles_of (hr_route req) of None \<Rightarrow> True | Some roles \<Rightarrow> jp_role u \<in> set roles))"

lemma handle_refused:
  assumes "\<not> (admitted e req \<and> body_valid e (hr_route req))"
  shows "\<exists>x. handle e req s = (Inl x, s) \<and> isHttpException x"
  using assms
  by (auto simp: handle_def jwt_guard_def roles_guard_def admitted_def bind_def andThen_def guard_def ret_def throw_def
        bind_eq_Some_conv split: option.splits)

text \<open>The routes of the general contractor, whose token is in the path, need a log-in all the same.\<close>

lemma gp_routes_need_login:
  assumes "hr_bearer req = None" and "hr_route req = RPeriods (PGpForm token) \<or> hr_route req = RPeriods (PSubmitGp token name items)"
  shows "handle e req s = (Inl (UnauthorizedException ''Unauthorized''), s)"
  using assms by (auto simp: handle_def jwt_guard_def bind_def throw_def)

end
