(* ===== verification/Period_Cycle.thy ===== *)
theory Period_Cycle
  imports Period_Lifecycle Zero_Lifecycle Period_Props
begin

text \<open>
  The abstract specification of the reporting cycle: which periods an object may have and how they may
  change, without facts, tokens, dates or tables; and the simulation lemmas with which the services are
  shown to refine it.
\<close>

section \<open>The abstract machine\<close>

text \<open>
  A state holds, for the key of a period, its object, number and status, and the set of the objects whose
  zero report is approved.
\<close>

type_synonym cycle_periods = "int \<Rightarrow> (int \<times> int \<times> period_status) option"
type_synonym cycle_state = "cycle_periods \<times> int set"

definition no_open :: "cycle_periods \<Rightarrow> int \<Rightarrow> bool" where
  "no_open m ob \<longleftrightarrow> (\<forall>i n st. m i = Some (ob, n, st) \<longrightarrow> st \<noteq> POpen)"

text \<open>The numbers of the periods of an object are consecutive.\<close>

definition next_number :: "cycle_periods \<Rightarrow> int \<Rightarrow> int \<Rightarrow> bool" where
  "next_number m ob n \<longleftrightarrow> (\<forall>i k st. m i = Some (ob, k, st) \<longrightarrow> k < n)
     \<and> (n = 1 \<or> (\<exists>i st. m i = Some (ob, n - 1, st)))"

inductive cycle :: "cycle_state \<Rightarrow> cycle_state \<Rightarrow> bool" where
  approve: "cycle (m, A) (m, insert ob A)"
| start: "m i = None \<Longrightarrow> ob \<in> A \<Longrightarrow> no_open m ob \<Longrightarrow> next_number m ob n \<Longrightarrow>
     cycle (m, A) (m(i \<mapsto> (ob, n, POpen)), A)"
| advance: "m i = Some (ob, n, a) \<Longrightarrow> period_step a b \<Longrightarrow> cycle (m, A) (m(i \<mapsto> (ob, n, b)), A)"

text \<open>
  What the machine keeps: periods only for objects with an approved report, numbered from 1 without gaps,
  and at most one open period for an object.
\<close>

definition has_number :: "cycle_periods \<Rightarrow> int \<Rightarrow> int \<Rightarrow> bool" where
  "has_number m ob n \<longleftrightarrow> (\<exists>i st. m i = Some (ob, n, st))"

definition cycle_inv :: "cycle_state \<Rightarrow> bool" where
  "cycle_inv c \<longleftrightarrow>
     (\<forall>ob n. has_number (fst c) ob n \<longrightarrow> ob \<in> snd c \<and> 1 \<le> n \<and> (n = 1 \<or> has_number (fst c) ob (n - 1)))
     \<and> (\<forall>i j ob k n. fst c i = Some (ob, k, POpen) \<longrightarrow> fst c j = Some (ob, n, POpen) \<longrightarrow> i = j)"

lemma has_number_upd:
  assumes "m i = None \<or> (\<exists>a. m i = Some (ob, n, a))"
  shows "has_number (m(i \<mapsto> (ob, n, st))) o' k \<longleftrightarrow> has_number m o' k \<or> o' = ob \<and> k = n"
proof
  assume "has_number (m(i \<mapsto> (ob, n, st))) o' k"
  then obtain j x where "(m(i \<mapsto> (ob, n, st))) j = Some (o', k, x)" by (auto simp: has_number_def)
  then show "has_number m o' k \<or> o' = ob \<and> k = n"
    unfolding has_number_def by (cases "j = i") auto
next
  assume "has_number m o' k \<or> o' = ob \<and> k = n"
  then show "has_number (m(i \<mapsto> (ob, n, st))) o' k"
  proof
    assume "has_number m o' k"
    then obtain j x where "m j = Some (o', k, x)" by (auto simp: has_number_def)
    then have "\<exists>x. (m(i \<mapsto> (ob, n, st))) j = Some (o', k, x)" using assms by (cases "j = i") auto
    then show ?thesis unfolding has_number_def by blast
  next
    assume "o' = ob \<and> k = n"
    then have "(m(i \<mapsto> (ob, n, st))) i = Some (o', k, st)" by simp
    then show ?thesis unfolding has_number_def by blast
  qed
qed

lemma cycle_inv_start:
  assumes inv: "cycle_inv (m, A)" and new: "m i = None" "ob \<in> A" "no_open m ob" "next_number m ob n"
  shows "cycle_inv (m(i \<mapsto> (ob, n, POpen)), A)"
proof -
  have upd: "has_number (m(i \<mapsto> (ob, n, POpen))) o' k \<longleftrightarrow> has_number m o' k \<or> o' = ob \<and> k = n" for o' k
    by (rule has_number_upd) (simp add: new(1))
  have "n = 1 \<or> has_number m ob (n - 1)" using new(4) by (auto simp: next_number_def has_number_def)
  moreover have "1 \<le> k" if "has_number m ob k" for k using inv that by (simp add: cycle_inv_def)
  then have "has_number m ob (n - 1) \<longrightarrow> 1 \<le> n - 1" by blast
  ultimately have "1 \<le> n" "n = 1 \<or> has_number m ob (n - 1)" by linarith+
  moreover have "j = j'"
    if "(m(i \<mapsto> (ob, n, POpen))) j = Some (o', k, POpen)" "(m(i \<mapsto> (ob, n, POpen))) j' = Some (o', k', POpen)"
    for j j' o' k k'
  proof (cases "j = i \<or> j' = i")
    case True
    with that new(3) show ?thesis by (auto simp: no_open_def split: if_splits)
  next
    case False
    with that have "m j = Some (o', k, POpen)" "m j' = Some (o', k', POpen)" by simp_all
    then show ?thesis using inv unfolding cycle_inv_def fst_conv by metis
  qed
  ultimately show ?thesis
    using inv new(2) unfolding cycle_inv_def fst_conv snd_conv upd by metis
qed

lemma cycle_inv_advance:
  assumes inv: "cycle_inv (m, A)" and at: "m i = Some (ob, n, a)" "period_step a b"
  shows "cycle_inv (m(i \<mapsto> (ob, n, b)), A)"
proof -
  have b: "b \<noteq> POpen" using at(2) by (auto elim: period_step_from)
  have "has_number m ob n" using at(1) by (auto simp: has_number_def)
  then have same: "has_number (m(i \<mapsto> (ob, n, b))) o' k \<longleftrightarrow> has_number m o' k" for o' k
    using has_number_upd[of m i ob n b o' k] at(1) by blast
  have "j = j'"
    if "(m(i \<mapsto> (ob, n, b))) j = Some (o', k, POpen)" "(m(i \<mapsto> (ob, n, b))) j' = Some (o', k', POpen)" for j j' o' k k'
  proof -
    have "m j = Some (o', k, POpen)" "m j' = Some (o', k', POpen)" using that b by (auto split: if_splits)
    then show ?thesis using inv unfolding cycle_inv_def fst_conv by metis
  qed
  then show ?thesis using inv unfolding cycle_inv_def fst_conv snd_conv same by blast
qed

lemma cycle_inv_step: "cycle c c' \<Longrightarrow> cycle_inv c \<Longrightarrow> cycle_inv c'"
proof (induction rule: cycle.induct)
  case (approve m A ob)
  then show ?case unfolding cycle_inv_def fst_conv snd_conv by blast
qed (blast intro: cycle_inv_start cycle_inv_advance)+

lemma cycle_inv_steps: "cycle\<^sup>*\<^sup>* c c' \<Longrightarrow> cycle_inv c \<Longrightarrow> cycle_inv c'"
  by (induction rule: rtranclp_induct) (auto intro: cycle_inv_step)

section \<open>Simulation\<close>

definition abs_period :: "period \<Rightarrow> int \<times> int \<times> period_status" where
  "abs_period p = (p_objectId p, p_periodNumber p, p_status p)"

definition abs_cycle :: "db \<Rightarrow> cycle_state" where
  "abs_cycle s =
     ((\<lambda>i. map_option abs_period (find_period i s)),
      zr_objectId ` set (filter (\<lambda>z. zr_status z = ZApproved) (zeroReports s)))"

lemma cycle_approvals: "finite B \<Longrightarrow> cycle\<^sup>*\<^sup>* (m, A) (m, A \<union> B)"
proof (induction B rule: finite_induct)
  case (insert x B)
  have "cycle (m, A \<union> B) (m, insert x (A \<union> B))" by (rule cycle.approve)
  with insert.IH show ?case by simp
qed simp

lemma cycle_advances:
  assumes "period_step\<^sup>*\<^sup>* a b" and "m i = Some (ob, n, a)"
  shows "cycle\<^sup>*\<^sup>* (m, A) (m(i \<mapsto> (ob, n, b)), A)"
  using assms(1)
proof (induction rule: rtranclp_induct)
  case base
  have "m(i \<mapsto> (ob, n, a)) = m" using assms(2) by auto
  then show ?case by simp
next
  case (step b c)
  have "cycle (m(i \<mapsto> (ob, n, b)), A) ((m(i \<mapsto> (ob, n, b)))(i \<mapsto> (ob, n, c)), A)"
    using step(2) by (intro cycle.advance) simp_all
  with step.IH show ?case by (metis fun_upd_upd rtranclp.rtrancl_into_rtrancl)
qed

lemma cycle_pointwise:
  assumes "finite D" and "\<And>i. i \<notin> D \<Longrightarrow> m' i = m i"
    and "\<And>i. i \<in> D \<Longrightarrow> \<exists>ob n a b. m i = Some (ob, n, a) \<and> m' i = Some (ob, n, b) \<and> period_step\<^sup>*\<^sup>* a b"
  shows "cycle\<^sup>*\<^sup>* (m, A) (m', A)"
  using assms
proof (induction D arbitrary: m' rule: finite_induct)
  case empty
  then have "m' = m" by auto
  then show ?case by simp
next
  case (insert x D)
  let ?m = "m'(x := m x)"
  obtain ob n a b where x: "m x = Some (ob, n, a)" "m' x = Some (ob, n, b)" "period_step\<^sup>*\<^sup>* a b"
    using insert.prems(2)[of x] by blast
  have "cycle\<^sup>*\<^sup>* (m, A) (?m, A)"
    by (rule insert.IH) (use insert.prems insert.hyps in \<open>auto split: if_splits\<close>)
  also have "cycle\<^sup>*\<^sup>* (?m, A) (?m(x \<mapsto> (ob, n, b)), A)"
    by (rule cycle_advances[OF x(3)]) (simp add: x(1))
  also have "?m(x \<mapsto> (ob, n, b)) = m'" using x(2) by auto
  finally show ?case .
qed

definition periods_next :: "db \<Rightarrow> db \<Rightarrow> bool" where
  "periods_next s s' \<longleftrightarrow> (\<forall>p \<in> set (periods s). \<exists>p' \<in> set (periods s'). period_next (clock s) p p')"

lemma approved_kept: "reports_next s s' \<Longrightarrow> snd (abs_cycle s) \<subseteq> snd (abs_cycle s')"
  by (fastforce simp: reports_next_def abs_cycle_def report_next_def zero_next_def)

text \<open>A step that adds no period follows the machine.\<close>

lemma refines_no_new:
  assumes ok: "db_ok s" "db_ok s'" and nxt: "periods_next s s'" and reports: "reports_next s s'"
    and ids: "map p_id (periods s') = map p_id (periods s)"
  shows "cycle\<^sup>*\<^sup>* (abs_cycle s) (abs_cycle s')"
proof -
  let ?m = "fst (abs_cycle s)" and ?m' = "fst (abs_cycle s')" and ?A = "snd (abs_cycle s)" and ?A' = "snd (abs_cycle s')"
  have "cycle\<^sup>*\<^sup>* (?m, ?A) (?m, ?A \<union> ?A')"
    by (rule cycle_approvals) (simp add: abs_cycle_def)
  also have "?A \<union> ?A' = ?A'" using approved_kept[OF reports] by blast
  also have "cycle\<^sup>*\<^sup>* (?m, ?A') (?m', ?A')"
  proof (rule cycle_pointwise[where D = "p_id ` set (periods s)"])
    fix i assume "i \<notin> p_id ` set (periods s)"
    moreover have "p_id ` set (periods s') = p_id ` set (periods s)" using ids by (metis set_map)
    ultimately have "find_period i s = None" "find_period i s' = None"
      by (auto simp: find_period_def find_None_iff_all)
    then show "?m' i = ?m i" by (simp add: abs_cycle_def)
  next
    fix i assume "i \<in> p_id ` set (periods s)"
    then obtain p where p: "p \<in> set (periods s)" "p_id p = i" by blast
    then obtain p' where p': "p' \<in> set (periods s')" "period_next (clock s) p p'"
      using nxt by (auto simp: periods_next_def)
    then have "find_period i s' = Some p'" "find_period i s = Some p"
      using ok p by (simp_all add: find_period_iff period_next_def)
    then show "\<exists>ob n a b. ?m i = Some (ob, n, a) \<and> ?m' i = Some (ob, n, b) \<and> period_step\<^sup>*\<^sup>* a b"
      using p'(2) by (simp add: abs_cycle_def abs_period_def period_next_def period_key_def)
  qed simp
  finally show ?thesis by simp
qed

text \<open>Opening a period is one step of the machine.\<close>

lemma refines_open:
  assumes ok: "db_ok s" "db_ok s'" and zero: "same_zero s s'" and opened: "opened_ok uuid ob actor s p s'"
  shows "cycle (abs_cycle s) (abs_cycle s')"
proof -
  let ?m = "fst (abs_cycle s)"
  have per: "periods s' = periods s @ [p]" "p_objectId p = ob" "p_status p = POpen"
      "p_periodNumber p = next_period_number ob s"
    using opened by (simp_all add: opened_ok_def)
  have "keyed p_id (periods s') (seq s' TPeriods)" using ok(2) by (simp add: db_ok_defs)
  then have fresh: "p_id q \<noteq> p_id p" if "q \<in> set (periods s)" for q
    using that by (auto simp: keyed_def per(1) image_iff)
  have m: "?m i = Some (ob', n, st) \<longleftrightarrow> (\<exists>q \<in> set (periods s). p_id q = i \<and> abs_period q = (ob', n, st))" for i ob' n st
    using ok(1) by (auto simp: abs_cycle_def find_period_iff)
  have none: "find_period (p_id p) s = None"
    using fresh by (auto simp: find_period_def find_None_iff_all)
  then have "?m (p_id p) = None" by (simp add: abs_cycle_def)
  moreover have "ob \<in> snd (abs_cycle s)" using opened by (auto simp: opened_ok_def abs_cycle_def)
  moreover have "no_open ?m ob" using opened by (auto simp: no_open_def m opened_ok_def abs_period_def)
  moreover have "next_number ?m ob (next_period_number ob s)"
    unfolding next_number_def
  proof
    show "\<forall>i k st. ?m i = Some (ob, k, st) \<longrightarrow> k < next_period_number ob s"
      using next_period_number_greater by (auto simp: m abs_period_def)
    show "next_period_number ob s = 1 \<or> (\<exists>i st. ?m i = Some (ob, next_period_number ob s - 1, st))"
    proof (cases "find_first_desc p_periodNumber (\<lambda>q. p_objectId q = ob) (periods s)")
      case None
      then show ?thesis by (simp add: next_period_number_def del: find_first_desc_None)
    next
      case (Some q)
      then show ?thesis
        using find_first_desc_SomeD(1,2)[OF Some] by (auto simp: m next_period_number_def abs_period_def)
    qed
  qed
  ultimately have "cycle (?m, snd (abs_cycle s)) (?m(p_id p \<mapsto> (ob, next_period_number ob s, POpen)), snd (abs_cycle s))"
    by (rule cycle.start)
  moreover have "abs_cycle s' = (?m(p_id p \<mapsto> (ob, next_period_number ob s, POpen)), snd (abs_cycle s))"
  proof -
    have "find_period i s' = (if i = p_id p then Some p else find_period i s)" for i
      using none by (cases "find_period i s") (auto simp: find_period_def per(1) find_append)
    then show ?thesis
      using zero per by (auto simp: abs_cycle_def same_zero_def abs_period_def fun_eq_iff)
  qed
  ultimately show ?thesis by simp
qed

end
