(* ===== verification/System.thy ===== *)
theory System
  imports Api Dispute Period_Cycle Catalog_Props
begin

text \<open>
  The system: the store, moved by HTTP requests, the worker of the timers, the archival of the queue,
  restarts, and time.  \<open>advances s s'\<close> collects what every one of these steps respects; it is a step
  relation in the sense of \<^verbatim>\<open>step_rel\<close>, so that each method need only be looked at once.
\<close>

section \<open>What every step respects\<close>

definition advances :: "db \<Rightarrow> db \<Rightarrow> bool" where
  "advances s s' \<longleftrightarrow> evolves s s' \<and> clock s \<le> clock s'
     \<and> (db_ok s \<longrightarrow> periods_next s s' \<and> reports_next s s' \<and> cycle\<^sup>*\<^sup>* (abs_cycle s) (abs_cycle s'))
     \<and> keeps_one_open s s' \<and> keeps_timers s s' \<and> (catalog_ok s \<longrightarrow> catalog_ok s') \<and> catalog_kept s s'"

lemma period_next_later:
  assumes "period_next t p q" "period_next u q r" "t \<le> u"
  shows "period_next t p r"
proof -
  have "frozen u p" if "frozen t p"
    using that assms(3) by (auto simp: frozen_def overdue_def split: option.splits)
  then show ?thesis
    using assms by (auto simp: period_next_def intro: rtranclp_trans)
qed

lemma periods_next_refl: "periods_next s s"
  by (auto simp: periods_next_def intro: period_next_refl)

lemma periods_next_trans:
  assumes "periods_next s t" "periods_next t u" "clock s \<le> clock t"
  shows "periods_next s u"
  unfolding periods_next_def
proof
  fix p assume "p \<in> set (periods s)"
  then obtain q where q: "q \<in> set (periods t)" "period_next (clock s) p q"
    using assms(1) by (auto simp: periods_next_def)
  then obtain r where "r \<in> set (periods u)" "period_next (clock t) q r"
    using assms(2) by (auto simp: periods_next_def)
  with q(2) assms(3) show "\<exists>r \<in> set (periods u). period_next (clock s) p r"
    by (blast intro: period_next_later)
qed

lemma advances_refl: "advances s s"
  by (auto simp: advances_def evolves_refl periods_next_refl reports_next_same same_zero_def keeps_one_open_def
        keeps_timers_def catalog_kept_refl)

lemma advances_trans: "advances s t \<Longrightarrow> advances t u \<Longrightarrow> advances s u"
  unfolding advances_def
  by (auto intro: evolves_trans periods_next_trans reports_next_trans rtranclp_trans catalog_kept_trans
        dest: evolves_db_ok simp: keeps_one_open_def keeps_timers_def)

lemma abs_cycle_frame: "periods s' = periods s \<Longrightarrow> zeroReports s' = zeroReports s \<Longrightarrow> abs_cycle s' = abs_cycle s"
  by (simp add: abs_cycle_def find_period_def)

lemma periods_next_frame: "periods s' = periods s \<Longrightarrow> periods_next s s'"
  by (auto simp: periods_next_def intro: period_next_refl)

text \<open>A step that leaves periods, zero reports and timers alone.\<close>

lemma advances_frame:
  assumes "evolves s s'" "clock s \<le> clock s'" "periods s' = periods s" "zeroReports s' = zeroReports s"
    and "zeroReportItems s' = zeroReportItems s" "slaEvents s' = slaEvents s" "slaJobs s' = slaJobs s"
    and "catalog_ok s \<Longrightarrow> catalog_ok s'" "catalog_kept s s'"
  shows "advances s s'"
proof -
  have "keeps_one_open s s'" using assms(3) by (simp add: keeps_one_open_def one_open_def)
  moreover have "keeps_timers s s'" using assms(6,7) by (simp add: keeps_timers_def timers_ok_def)
  moreover have "reports_next s s'" using assms(4,5) by (intro reports_next_same) (simp add: same_zero_def)
  moreover have "abs_cycle s' = abs_cycle s" using assms(3,4) by (rule abs_cycle_frame)
  ultimately show ?thesis using assms(1,2,8,9) periods_next_frame[OF assms(3)] by (simp add: advances_def)
qed

lemma advances_keep: "advances s s' \<Longrightarrow> advances s (keep_outside s' s)"
  using evolves_keep[of s s']
  by (intro advances_frame)
     (auto simp: advances_def keep_outside_def evolves_def catalog_kept_same intro: catalog_ok_seq_mono)

interpretation adv: step_rel advances keep_outside
  by unfold_locales (fact advances_refl, fact advances_trans, fact advances_keep)

lemma advances_catalog: "catalog_step s s' \<Longrightarrow> advances s s'"
  using catalog_step_evolves[of s s']
  by (intro advances_frame) (simp_all add: catalog_step_def same_core_def)

lemma cat_advances: "moves catalog_step m \<Longrightarrow> moves advances m"
  by (erule moves_weaken) (rule advances_catalog)

section \<open>The services of the reporting cycle\<close>

definition same_ids :: "db \<Rightarrow> db \<Rightarrow> bool" where
  "same_ids s s' \<longleftrightarrow> map p_id (periods s') = map p_id (periods s)"

interpretation ids: step_rel same_ids keep_outside
  by unfold_locales (auto simp: same_ids_def keep_outside_def)

lemma same_ids_frame: "moves same_periods m \<Longrightarrow> moves same_ids m"
  by (erule moves_weaken) (simp add: same_periods_def same_ids_def)

lemma ids_update_period: "(\<And>p. p_id (g p) = p_id p) \<Longrightarrow> moves same_ids (update_period i g)"
  by (auto simp: moves_iff_wp update_period_def wp_simps same_ids_def map_update_where split: option.split)

interpretation ids_period: period_updates same_ids
  by unfold_locales (auto intro!: same_ids_frame period_writes ids_update_period)

interpretation ids_sync: sync_writes same_ids
  by unfold_locales (auto intro!: same_ids_frame period_writes ids_period.moves_upsertPeriodFact)

interpretation one_sync: sync_writes keeps_one_open
  by unfold_locales (auto intro!: keeps_one_open_frame period_writes upsertPeriodFact_one_open)

interpretation timer_zero: zero_writes keeps_timers
  by unfold_locales (rule timer_frame)+

lemma core_advances:
  assumes "moves lifecycle m" "moves zero_life m" "moves same_static m" "moves keeps_one_open m"
    and "moves keeps_timers m" "moves same_ids m"
  shows "moves advances m"
proof (rule movesI)
  fix s
  let ?t = "snd (m s)"
  have r: "lifecycle s ?t" "zero_life s ?t" "same_static s ?t" "keeps_one_open s ?t" "keeps_timers s ?t" "same_ids s ?t"
    using assms by (simp_all add: moves_def)
  then have ev: "evolves s ?t" by (simp add: lifecycle_def)
  have "cycle\<^sup>*\<^sup>* (abs_cycle s) (abs_cycle ?t)" if "db_ok s"
    using r that evolves_db_ok[OF ev]
    by (intro refines_no_new) (auto simp: lifecycle_def zero_life_def same_ids_def periods_next_def)
  moreover have "catalog_ok s \<Longrightarrow> catalog_ok ?t"
    using static_catalog_ok[OF r(3)] ev by (simp add: evolves_def)
  ultimately show "advances s ?t"
    using r ev by (simp add: advances_def lifecycle_def zero_life_def periods_next_def static_catalog_kept)
qed

text \<open>Methods that leave the periods alone.\<close>

lemma framed_advances:
  assumes "moves evolves m" "moves same_static m" "moves same_periods m" "moves zero_life m" "moves keeps_timers m"
  shows "moves advances m"
  using assms by (intro core_advances moves_lifecycle keeps_one_open_frame same_ids_frame)

lemma openPeriod_advances: "moves advances (openPeriod lock uuid ob actor opts)"
proof (rule movesI)
  fix s
  let ?m = "openPeriod lock uuid ob actor opts"
  obtain r t where run: "?m s = (r, t)" by fastforce
  have mv: "lifecycle s t" "zero_life s t" "same_static s t" "keeps_one_open s t" "keeps_timers s t" "same_zero s t"
    using movesD[OF openPeriod_life run] movesD[OF zlife_period.moves_openPeriod run]
      movesD[OF static_period.moves_openPeriod run] movesD[OF openPeriod_one_open run]
      movesD[OF timer_period.moves_openPeriod run] movesD[OF zero_period.moves_openPeriod run]
    by blast+
  then have ev: "evolves s t" by (simp add: lifecycle_def)
  have "cycle\<^sup>*\<^sup>* (abs_cycle s) (abs_cycle t)" if ok: "db_ok s"
  proof (cases r)
    case (Inl e)
    then have "rolled_back s t" using wp_Inl[OF run[unfolded Inl] wp_openPeriod] by simp
    then have "abs_cycle t = abs_cycle s" by (intro abs_cycle_frame) (auto simp: rolled_back_def)
    then show ?thesis by simp
  next
    case (Inr p)
    then have "opened_ok uuid ob actor s p t" using wp_Inr[OF run[unfolded Inr] wp_openPeriod] by simp
    then show ?thesis using refines_open[OF ok evolves_db_ok[OF ev ok] mv(6)] by blast
  qed
  moreover have "catalog_ok s \<Longrightarrow> catalog_ok t"
    using static_catalog_ok[OF mv(3)] ev by (simp add: evolves_def)
  ultimately show "advances s (snd (?m s))"
    using mv ev run by (simp add: advances_def lifecycle_def zero_life_def periods_next_def static_catalog_kept)
qed

lemma period_advances:
  "moves advances (submitGp token name items)"
  "moves advances (upsertPeriodFact p b v actor opts)"
  "moves advances (closePeriod p actor)"
  "moves advances (adminCorrectFact i v a adm reason)"
  by (intro core_advances submitGp_life upsertPeriodFact_life closePeriod_life life_period.moves_adminCorrectFact
        zlife_period.moves_submitGp zlife_period.moves_upsertPeriodFact zlife_period.moves_closePeriod
        zlife_period.moves_adminCorrectFact static_period.moves_submitGp static_period.moves_upsertPeriodFact
        static_period.moves_closePeriod static_period.moves_adminCorrectFact submitGp_one_open
        upsertPeriodFact_one_open closePeriod_one_open one_period.moves_adminCorrectFact
        timer_period.moves_submitGp timer_period.moves_upsertPeriodFact timer_period.moves_closePeriod
        timer_period.moves_adminCorrectFact ids_period.moves_submitGp ids_period.moves_upsertPeriodFact
        ids_period.moves_closePeriod ids_period.moves_adminCorrectFact)+

lemma period_query_advances:
  "moves advances (getDetail p actor)" "moves advances (findById p actor)"
  "moves advances (findByObject ob)" "moves advances (getGpFormData token)"
  unfolding getDetail_def findById_def findByObject_def getGpFormData_def user_org_def assertGpTokenValid_def now_def
  by (intro adv.moves_rules)+

lemma zero_query_advances: "moves advances (getByObject u ob)"
  unfolding getByObject_def checkObjectAccess_def user_org_def by (intro adv.moves_rules)

lemma zero_advances:
  "moves advances (create_report u ob v nts)" "moves advances (upsertItem u ob dto)"
  "moves advances (submit_report u ob)" "moves advances (approve_report u ob)"
  by (intro framed_advances ev_zero.moves_create_report static_zero.moves_create_report pers_zero.moves_create_report
        timer_zero.moves_create_report create_report_life
        ev_zero.moves_upsertItem static_zero.moves_upsertItem pers_zero.moves_upsertItem
        timer_zero.moves_upsertItem upsertItem_life
        ev_zero.moves_submit_report static_zero.moves_submit_report pers_zero.moves_submit_report
        timer_zero.moves_submit_report submit_report_life
        ev_zero.moves_approve_report static_zero.moves_approve_report pers_zero.moves_approve_report
        timer_zero.moves_approve_report approve_report_life)+

lemma sync_advances:
  "moves advances (processOperations parseDate u dev raws)"
  "moves advances (resolveConflict u i v nt)"
  "moves advances (uploadPhoto parseDate s3 u dev c pr b taken)"
  by (intro core_advances life_sync.moves_processOperations life_sync.moves_resolveConflict life_sync.moves_uploadPhoto
        moves_zero_life ev_sync.moves_processOperations ev_sync.moves_resolveConflict ev_sync.moves_uploadPhoto
        zero_sync.moves_processOperations zero_sync.moves_resolveConflict zero_sync.moves_uploadPhoto
        static_sync.moves_processOperations static_sync.moves_resolveConflict static_sync.moves_uploadPhoto
        one_sync.moves_processOperations one_sync.moves_resolveConflict one_sync.moves_uploadPhoto
        timer_sync.moves_processOperations timer_sync.moves_resolveConflict timer_sync.moves_uploadPhoto
        ids_sync.moves_processOperations ids_sync.moves_resolveConflict ids_sync.moves_uploadPhoto)+

lemma archive_advances: "moves advances archive"
  unfolding archive_def now_def
  by (intro adv.moves_rules framed_advances moves_zero_life ev_writes static_writes period_writes zero_frame timer_frame)

lemma worker_advances:
  "moves advances (process i)" "moves advances onModuleInit"
  by (intro framed_advances moves_zero_life ev_sla.moves_process ev_sla.moves_onModuleInit
        static_sla.moves_process static_sla.moves_onModuleInit pers_sla.moves_process pers_sla.moves_onModuleInit
        zero_sla.moves_process zero_sla.moves_onModuleInit timer_sla.moves_process timer_sla.moves_onModuleInit)+

lemma dispute_advances:
  "moves advances (createDispute p b actor reason)" "moves advances (submitGpResponse d pos)"
  "moves advances (rejectGpResponse d)" "moves advances (detectSystemicFlag p b org)"
  "moves advances (clearSystemicFlag b org)"
  by (intro framed_advances moves_zero_life
        ev_dispute.moves_createDispute static_dispute.moves_createDispute pers_dispute.moves_createDispute
        zero_dispute.moves_createDispute timer_dispute.moves_createDispute
        ev_dispute.moves_submitGpResponse static_dispute.moves_submitGpResponse pers_dispute.moves_submitGpResponse
        zero_dispute.moves_submitGpResponse timer_dispute.moves_submitGpResponse
        ev_dispute.moves_rejectGpResponse static_dispute.moves_rejectGpResponse pers_dispute.moves_rejectGpResponse
        zero_dispute.moves_rejectGpResponse timer_dispute.moves_rejectGpResponse
        ev_dispute.moves_detectSystemicFlag static_dispute.moves_detectSystemicFlag
        pers_dispute.moves_detectSystemicFlag zero_dispute.moves_detectSystemicFlag
        timer_dispute.moves_detectSystemicFlag
        ev_dispute.moves_clearSystemicFlag static_dispute.moves_clearSystemicFlag
        pers_dispute.moves_clearSystemicFlag zero_dispute.moves_clearSystemicFlag
        timer_dispute.moves_clearSystemicFlag)+

section \<open>Requests\<close>

lemma moves_reply: "moves advances m \<Longrightarrow> moves advances (reply f m)"
  unfolding reply_def by (intro adv.moves_rules)

lemma moves_as_actor: "(\<And>i. moves advances (k i)) \<Longrightarrow> moves advances (as_actor u k)"
  unfolding as_actor_def by (intro adv.moves_rules)

lemma moves_signed_in: "(\<And>u. moves advances (k u)) \<Longrightarrow> moves advances (signed_in user k)"
  unfolding signed_in_def by (intro adv.moves_rules)

lemmas catalog_advances =
  createInitial_step[THEN cat_advances] boq_queries_step[THEN cat_advances] createRequest_step[THEN cat_advances]
  approveRequest_step[THEN cat_advances] create_object_step[THEN cat_advances]
  object_queries_step[THEN cat_advances] addParticipant_step[THEN cat_advances]
  changeGeneralContractor_step[THEN cat_advances] upload_document_step[THEN cat_advances]
  dashboard_queries_step[THEN cat_advances] update_config_step[THEN cat_advances]
  refreshDashboard_step[THEN cat_advances] auth_step[THEN cat_advances]

lemmas controller_rules =
  moves_reply moves_as_actor moves_signed_in openPeriod_advances period_advances period_query_advances
  zero_advances zero_query_advances sync_advances catalog_advances adv.moves_throw

lemma controller_advances:
  "moves advances (period_controller e u pr)" "moves advances (zero_controller u zr)"
  "moves advances (boq_controller e u br)" "moves advances (baseline_controller u blr)"
  "moves advances (objects_controller e u obr)" "moves advances (document_controller e u dr)"
  "moves advances (config_controller e u cr)" "moves advances (admin_controller e u adr)"
  "moves advances (analytics_controller e u q)" "moves advances (sync_controller e u sr)"
  "moves advances (auth_controller e c agent ip ar)" "moves advances (health_controller e hr)"
proof -
  show "moves advances (period_controller e u pr)" by (cases pr) (simp_all add: controller_rules)
  show "moves advances (zero_controller u zr)" by (cases zr) (simp_all add: controller_rules)
  show "moves advances (boq_controller e u br)" by (cases br) (simp_all add: controller_rules)
  show "moves advances (baseline_controller u blr)" by (cases blr) (simp_all add: controller_rules)
  show "moves advances (objects_controller e u obr)" by (cases obr) (simp_all add: controller_rules)
  show "moves advances (document_controller e u dr)"
    by (cases dr) (simp add: controller_rules split: option.split)
  show "moves advances (config_controller e u cr)" by (cases cr) (simp_all add: controller_rules)
  show "moves advances (admin_controller e u adr)" by (cases adr) (simp_all add: controller_rules)
  show "moves advances (analytics_controller e u q)" by (simp add: analytics_controller_def controller_rules)
  show "moves advances (sync_controller e u sr)" by (cases sr) (simp_all add: controller_rules)
  show "moves advances (auth_controller e c agent ip ar)" by (cases ar) (simp_all add: controller_rules)
  show "moves advances (health_controller e hr)"
    by (cases hr) (auto simp: checkLive_def ready_def checkReady_def ping_def intro!: moves_reply adv.moves_rules)
qed

lemma dispatch_advances: "moves advances (dispatch e req user r)"
  by (cases r) (simp_all add: controller_advances moves_signed_in)

lemma handle_advances: "moves advances (handle e req)"
  unfolding handle_def jwt_guard_def by (intro adv.moves_rules dispatch_advances)

section \<open>The steps of the system\<close>

text \<open>
  A step of the store.  The timers act when their delay is over, and possibly more than once; the methods
  of the dispute service, which no controller calls yet, are included.
\<close>

inductive sys_step :: "db \<Rightarrow> db \<Rightarrow> bool" where
  request: "handle e req s = (r, s') \<Longrightarrow> sys_step s s'"
| timer: "j \<in> set (slaJobs s) \<Longrightarrow> j_addedAt j + j_delay j \<le> clock s \<Longrightarrow>
     process (j_slaEventId j) s = (r, s') \<Longrightarrow> sys_step s s'"
| archival: "archive s = (r, s') \<Longrightarrow> sys_step s s'"
| restart: "onModuleInit s = (r, s') \<Longrightarrow> sys_step s s'"
| dispute: "createDispute p b actor reason s = (d, s') \<Longrightarrow> sys_step s s'"
| response: "submitGpResponse i pos s = (d, s') \<Longrightarrow> sys_step s s'"
| rejection: "rejectGpResponse i s = (u, s') \<Longrightarrow> sys_step s s'"
| flag: "detectSystemicFlag p b org s = (u, s') \<Longrightarrow> sys_step s s'"
| clear: "clearSystemicFlag b org s = (u, s') \<Longrightarrow> sys_step s s'"
| tick: "clock s \<le> t \<Longrightarrow> sys_step s (s\<lparr>clock := t\<rparr>)"

abbreviation sys_steps :: "db \<Rightarrow> db \<Rightarrow> bool" where
  "sys_steps \<equiv> sys_step\<^sup>*\<^sup>*"

lemma tick_advances: "clock s \<le> t \<Longrightarrow> advances s (s\<lparr>clock := t\<rparr>)"
  by (rule advances_frame)
     (auto simp: evolves_def kept_defs db_ok_defs catalog_defs catalog_kept_same)

lemma sys_step_advances: "sys_step s s' \<Longrightarrow> advances s s'"
  by (induction rule: sys_step.induct)
     (auto dest: movesD[OF handle_advances] movesD[OF worker_advances(1)] movesD[OF worker_advances(2)]
        movesD[OF archive_advances] movesD[OF dispute_advances(1)] movesD[OF dispute_advances(2)]
        movesD[OF dispute_advances(3)] movesD[OF dispute_advances(4)] movesD[OF dispute_advances(5)]
        intro: tick_advances)

lemma sys_steps_advances: "sys_steps s s' \<Longrightarrow> advances s s'"
  by (induction rule: rtranclp_induct) (auto intro: advances_refl advances_trans sys_step_advances)

section \<open>The invariant\<close>

definition sys_ok :: "db \<Rightarrow> bool" where
  "sys_ok s \<longleftrightarrow> db_ok s \<and> catalog_ok s \<and> one_open s \<and> one_report s \<and> timers_ok s"

lemma sys_ok_kept: "advances s s' \<Longrightarrow> sys_ok s \<Longrightarrow> sys_ok s'"
  by (auto simp: sys_ok_def advances_def evolves_def keeps_one_open_def keeps_timers_def reports_next_def)

end
