(* ===== verification/System_Theorems.thy ===== *)
theory System_Theorems
  imports System Sample_Store
begin

text \<open>
  The properties of the system as a whole: what holds in every state that requests, timers and time can
  lead to.  The witnesses run the request to open a period against the sample store.
\<close>

section \<open>Weights and readiness\<close>

definition weight_of :: "boq_item \<Rightarrow> number" where
  "weight_of b = (case bi_weightCoef b of None \<Rightarrow> 0 | Some w \<Rightarrow> w)"

lemma row_weight_of: "row_weight = weight_of \<circ> snd"
  by (simp add: row_weight_def weight_of_def fun_eq_iff)

lemma active_weight_sum_of: "active_weight_sum v s = sum_list (map weight_of (filter (active_in v) (boqItems s)))"
proof -
  have "sum_list (List.map_filter bi_weightCoef bs) = sum_list (map weight_of bs)" for bs
    by (induction bs) (auto simp: map_filter_simps weight_of_def split: option.split)
  then show ?thesis by (simp add: active_weight_sum_def)
qed

lemma active_weight_sum_le:
  assumes "catalog_ok s" "b \<in> set (boqItems s)" "bi_boqVersionId b = v"
  shows "active_weight_sum v s \<le> 1"
proof -
  have "v \<in> bv_id ` set (boqVersions s)"
    using assms by (auto simp: catalog_ok_def boq_ok_def list_all_iff)
  then have "shares_ok (boqItems s) v"
    using assms(1) by (auto simp: catalog_ok_def boq_ok_def list_all_iff)
  then show ?thesis using weights_sum by fastforce
qed

text \<open>The positions a period reports on belong to its BoQ version, and each is reported on once.\<close>

lemma period_positions:
  assumes ok: "db_ok s" and items: "keyed bi_id (boqItems s) n"
  shows "distinct (map snd (readiness_rows p s))"
    and "\<exists>v. \<forall>r \<in> set (readiness_rows p s). snd r \<in> set (boqItems s) \<and> bi_boqVersionId (snd r) = v"
proof -
  have rows: "fst r \<in> set (periodFacts s)" "f_periodId (fst r) = p" "snd r \<in> set (boqItems s)"
      "bi_id (snd r) = f_boqItemId (fst r)" if "r \<in> set (readiness_rows p s)" for r
    using that by (auto simp: readiness_rows_def set_map_filter with_item_Some facts_of_period_def find_boq_item_def
          dest: find_SomeD)
  have facts: "distinct (map fact_key (periodFacts s))" using ok by (simp add: db_ok_defs)
  have "distinct (map fst (List.map_filter (with_item s) fs))
      \<and> set (map fst (List.map_filter (with_item s) fs)) \<subseteq> set fs" if "distinct fs" for fs
    using that by (induction fs) (auto simp: map_filter_simps with_item_Some split: option.split)
  moreover have "distinct (facts_of_period p s)"
    using facts by (simp add: facts_of_period_def distinct_map)
  ultimately have fsts: "distinct (map fst (readiness_rows p s))" by (simp add: readiness_rows_def)
  have "fst r = fst q" if "r \<in> set (readiness_rows p s)" "q \<in> set (readiness_rows p s)" "snd r = snd q" for r q
    using that rows[of r] rows[of q] facts
    by (intro distinct_map_inj[OF facts]) (auto simp: fact_key_def)
  then have "inj_on snd (set (readiness_rows p s))"
    using fsts unfolding distinct_map by (metis inj_onD inj_onI)
  with fsts show "distinct (map snd (readiness_rows p s))" by (simp add: distinct_map)
  show "\<exists>v. \<forall>r \<in> set (readiness_rows p s). snd r \<in> set (boqItems s) \<and> bi_boqVersionId (snd r) = v"
  proof (cases "find_period p s")
    case None
    have False if r: "r \<in> set (readiness_rows p s)" for r
    proof -
      have "item_in_period_version (boqItems s) (periods s) (fst r)"
        using ok rows(1)[OF r] by (simp add: db_ok_defs list_all_iff)
      then obtain q where "q \<in> set (periods s)" "p_id q = p"
        using rows(2)[OF r] unfolding item_in_period_version_def list_ex_iff by metis
      then show False using None find_period_iff[OF ok, of p q] by simp
    qed
    then show ?thesis by blast
  next
    case (Some per)
    have "bi_boqVersionId (snd r) = p_boqVersionId per" if "r \<in> set (readiness_rows p s)" for r
    proof -
      have "item_in_period_version (boqItems s) (periods s) (fst r)"
        using ok rows(1)[OF that] by (auto simp: db_ok_defs list_all_iff)
      then obtain b q where b: "b \<in> set (boqItems s)" "bi_id b = f_boqItemId (fst r)"
          and q: "q \<in> set (periods s)" "p_id q = f_periodId (fst r)" "bi_boqVersionId b = p_boqVersionId q"
        unfolding item_in_period_version_def list_ex_iff by metis
      have "q = per"
        using q rows(2)[OF that] Some find_period_iff[OF ok] by (metis option.inject)
      moreover have "b = snd r"
        using keyed_unique[OF items b(1) rows(3)[OF that]] b(2) rows(4)[OF that] by simp
      ultimately show ?thesis using q(3) by simp
    qed
    with rows(3) show ?thesis by blast
  qed
qed

lemma readiness_weights:
  assumes ok: "db_ok s" "catalog_ok s"
  shows "sum_list (map row_weight (readiness_rows p s)) \<le> 1"
proof (cases "readiness_rows p s")
  case Nil
  then show ?thesis by simp
next
  case (Cons r0 rest)
  have items: "keyed bi_id (boqItems s) (seq s TBoqItems)"
    and idle: "list_all idle_unweighted (boqItems s)"
    using ok(2) by (simp_all add: catalog_ok_def boq_ok_def)
  obtain v where v: "\<forall>r \<in> set (readiness_rows p s). snd r \<in> set (boqItems s) \<and> bi_boqVersionId (snd r) = v"
    using period_positions(2)[OF ok(1) items] by blast
  have dist: "distinct (boqItems s)" using items by (auto simp: keyed_def distinct_map)
  have nonneg: "0 \<le> weight_of b" if "b \<in> set (boqItems s)" for b
    using that ok(1) by (auto simp: db_ok_defs list_all_iff weight_check_def weight_of_def split: option.splits)
  let ?V = "set (filter (\<lambda>b. bi_boqVersionId b = v) (boqItems s))"
  have "sum_list (map row_weight (readiness_rows p s)) = sum weight_of (set (map snd (readiness_rows p s)))"
    using sum_list_distinct_conv_sum_set[OF period_positions(1)[OF ok(1) items], of weight_of]
    by (simp add: row_weight_of)
  also have "\<dots> \<le> sum weight_of ?V"
    by (rule sum_mono2) (use v nonneg in auto)
  also have "\<dots> = sum weight_of (set (filter (active_in v) (boqItems s)))"
  proof (rule sum.mono_neutral_right)
    show "\<forall>b \<in> ?V - set (filter (active_in v) (boqItems s)). weight_of b = 0"
      using idle by (auto simp: list_all_iff idle_unweighted_def active_in_def weight_of_def)
  qed (auto simp: active_in_def)
  also have "\<dots> = active_weight_sum v s"
    unfolding active_weight_sum_of using dist by (intro sum_list_distinct_conv_sum_set[symmetric]) simp
  also have "\<dots> \<le> 1"
    using v Cons by (intro active_weight_sum_le[OF ok(2), of "snd r0"]) auto
  finally show ?thesis .
qed

section \<open>The witness run\<close>

definition engineer_payload :: jwt_payload where
  "engineer_payload = \<lparr>jp_sub = ''1'', jp_email = ''sc@x'', jp_role = Stroycontrol, jp_organizationId = ''org''\<rparr>"

definition sample_env :: env where
  "sample_env = \<lparr>e_lock = None, e_uuid = ''tok'', e_lineage = show_int, e_parseDate = (\<lambda>_. None), e_s3 = (\<lambda>_. True),
     e_rank = (\<lambda>_. 0), e_acquired = True, e_refreshed = True, e_compare = (\<lambda>_ _. False), e_sha256 = (\<lambda>x. x),
     e_sign = jp_sub, e_verify = (\<lambda>t. if t = ''1'' then Some engineer_payload else None),
     e_isEmail = (\<lambda>_. True), e_isDate = (\<lambda>_. True), e_postgres = None, e_redis = None\<rparr>"

definition open_request :: http_request where
  "open_request = \<lparr>hr_bearer = Some ''1'', hr_cookie = None, hr_agent = ''ua'', hr_ip = ''ip'',
     hr_route = RPeriods (POpenFor 10)\<rparr>"

definition opened_by_request :: db where
  "opened_by_request = final (handle sample_env open_request) sample_store"

lemma open_request_runs: "returns (handle sample_env open_request) sample_store"
  by code_simp

lemma sample_steps: "sys_steps sample_store opened_by_request"
  using returns_run[OF open_request_runs] unfolding opened_by_request_def
  by (intro r_into_rtranclp sys_step.request)

lemma sample_sys_ok: "sys_ok sample_store"
  by code_simp

section \<open>Access\<close>

text \<open>
  C12.  Nothing happens without authority: a request that returns a value, or after which the store is
  any different, is to a public route (log-in, refresh), or carries a token that verifies and whose
  role is among those of the route; and its body is valid.
\<close>

theorem only_admitted_requests_act:
  assumes "handle e req s = (r, s')" and "s' \<noteq> s \<or> (\<exists>x. r = Inr x)"
  shows "admitted e req \<and> body_valid e (hr_route req)"
  using handle_refused[of e req s] assms by auto

theorem only_admitted_requests_act_witness:
  "admitted sample_env open_request"
  using only_admitted_requests_act[OF returns_run[OF open_request_runs]] by blast

section \<open>Every reachable state\<close>

text \<open>
  C6.  The invariant of the whole store holds in every state the system can reach: keys, unique indexes
  and CHECK constraints, versions and tokens (\<open>db_ok\<close>); the registry and the exact weights of the BoQ
  (\<open>catalog_ok\<close>); at most one open period and one zero report that is not rejected per object; and a job
  in the queue for every pending timer.
\<close>

theorem reachable_invariant:
  assumes "sys_ok s" and "sys_steps s s'"
  shows "sys_ok s'"
  using assms sys_ok_kept sys_steps_advances by blast

theorem reachable_invariant_witness:
  "sys_ok opened_by_request"
  by (rule reachable_invariant[OF sample_sys_ok sample_steps])

text \<open>
  C8.  Nothing that was recorded is lost, whatever requests and timers do: the audit log only grows; a
  period keeps its identity and goes only forward from open over submitted and verification to closed,
  and is never changed again once closed; the positions of a zero report that has left the draft and an
  approved report stay as they are; versions, positions, participants, documents and tokens remain,
  with only the changes their services promise.
\<close>

theorem history_is_kept:
  assumes "sys_ok s" and "sys_steps s s'"
  shows "(\<exists>rows. auditLog s' = auditLog s @ rows)
     \<and> (\<forall>p \<in> set (periods s). \<exists>p' \<in> set (periods s'). period_next (clock s) p p')
     \<and> (\<forall>z \<in> set (zeroReports s). \<exists>z' \<in> set (zeroReports s'). report_next s s' z z')
     \<and> catalog_kept s s'"
  using sys_steps_advances[OF assms(2)] assms(1)
  by (auto simp: advances_def evolves_def sys_ok_def periods_next_def reports_next_def)

theorem history_is_kept_witness:
  "\<exists>rows. auditLog opened_by_request = auditLog sample_store @ rows"
  using history_is_kept[OF sample_sys_ok sample_steps] by blast

text \<open>
  C15.  A missed deadline blocks an object for good: an open period whose deadline has passed without a
  submission is the same in every later state, whatever anybody does, and every attempt to open another
  period of its object fails.
\<close>

theorem overdue_period_blocks_object:
  assumes "sys_ok s" and "p \<in> set (periods s)" and "overdue (clock s) p" and "sys_steps s s'"
  shows "p \<in> set (periods s') \<and> (\<exists>e t. openPeriod lock uuid (p_objectId p) actor opts s' = (Inl e, t))"
proof -
  have "advances s s'" using assms(4) by (rule sys_steps_advances)
  then obtain p' where "p' \<in> set (periods s')" "period_next (clock s) p p'"
    using assms(1,2) by (auto simp: advances_def periods_next_def sys_ok_def)
  then have p: "p \<in> set (periods s')" "p_status p = POpen"
    using assms(3) by (auto simp: period_next_def frozen_def overdue_def)
  obtain r t where run: "openPeriod lock uuid (p_objectId p) actor opts s' = (r, t)" by fastforce
  have "r \<noteq> Inr x" for x
    using wp_Inr[of _ s' x t, OF _ wp_openPeriod] run p by (auto simp: opened_ok_def)
  with run p(1) show ?thesis by (cases r) auto
qed

text \<open>The deadline of the period that was opened passes.\<close>

definition deadline_passed :: db where
  "deadline_passed = opened_by_request\<lparr>clock := 2000000000\<rparr>"

lemma deadline_passed_steps: "sys_steps sample_store deadline_passed"
proof -
  have "clock opened_by_request \<le> 2000000000" by code_simp
  then have "sys_step opened_by_request deadline_passed"
    unfolding deadline_passed_def by (rule sys_step.tick)
  with sample_steps show ?thesis by simp
qed

theorem overdue_period_blocks_object_witness:
  "\<exists>e t. openPeriod None ''tok2'' 10 1 None deadline_passed = (Inl e, t)"
proof -
  have ok: "sys_ok deadline_passed"
    using sys_ok_kept[OF sys_steps_advances[OF deadline_passed_steps] sample_sys_ok] .
  have "list_ex (\<lambda>p. overdue (clock deadline_passed) p \<and> p_objectId p = 10) (periods deadline_passed)" by code_simp
  then obtain p where "p \<in> set (periods deadline_passed)" "overdue (clock deadline_passed) p" "p_objectId p = 10"
    by (auto simp: list_ex_iff)
  from overdue_period_blocks_object[OF ok this(1,2) rtranclp.rtrancl_refl] this(3) show ?thesis by metis
qed

section \<open>Refinement\<close>

text \<open>
  C5.  Every step of the system refines the abstract machine of the reporting cycle: what it does to the
  periods and the approved zero reports is a sequence of steps of the machine, in which a period starts
  only for an object with an approved report and no open period, under the next number, and then only
  advances.
\<close>

theorem system_refines_cycle:
  assumes "sys_ok s" and "sys_step s s'"
  shows "cycle\<^sup>*\<^sup>* (abs_cycle s) (abs_cycle s')"
  using sys_step_advances[OF assms(2)] assms(1) by (simp add: advances_def sys_ok_def)

theorem system_refines_cycle_witness:
  "cycle\<^sup>*\<^sup>* (abs_cycle sample_store) (abs_cycle opened_by_request)"
  by (rule system_refines_cycle[OF sample_sys_ok])
     (use returns_run[OF open_request_runs] in \<open>unfold opened_by_request_def, rule sys_step.request\<close>)

text \<open>
  C11.  So what the abstract machine keeps holds of the code: from a store without periods the system only
  reaches states in which every period belongs to an object with an approved zero report, the numbers
  of the periods of an object run from 1 without gaps, and an object has at most one open period.
\<close>

theorem reachable_cycle_invariant:
  assumes "sys_ok s" and "periods s = []" and "sys_steps s s'"
  shows "cycle_inv (abs_cycle s')"
proof (rule cycle_inv_steps)
  show "cycle\<^sup>*\<^sup>* (abs_cycle s) (abs_cycle s')"
    using sys_steps_advances[OF assms(3)] assms(1) by (simp add: advances_def sys_ok_def)
  show "cycle_inv (abs_cycle s)"
    using assms(2) by (simp add: cycle_inv_def has_number_def abs_cycle_def find_period_def)
qed

theorem reachable_cycle_invariant_witness:
  "cycle_inv (abs_cycle opened_by_request)"
  by (rule reachable_cycle_invariant[OF sample_sys_ok _ sample_steps]) code_simp

section \<open>Readiness\<close>

text \<open>
  C7.  The readiness of a period is a percentage in every state the system can reach: the weights of the
  positions it counts, all of one BoQ version and each counted once, add up to at most 1.
\<close>

theorem readiness_is_percentage:
  assumes "sys_ok s" and "sys_steps s s'"
  shows "0 \<le> calcReadiness p s' \<and> calcReadiness p s' \<le> 100"
proof -
  have "sys_ok s'" using sys_ok_kept[OF sys_steps_advances[OF assms(2)] assms(1)] .
  then show ?thesis by (intro calcReadiness_bounds readiness_weights) (simp_all add: sys_ok_def)
qed

theorem readiness_is_percentage_witness:
  "0 \<le> calcReadiness 101 opened_by_request \<and> calcReadiness 101 opened_by_request \<le> 100"
  by (rule readiness_is_percentage[OF sample_sys_ok sample_steps])

end
