(* ===== verification/Seed.thy ===== *)
theory Seed
  imports Sample_Store System
begin

text \<open>
  The script \<^verbatim>\<open>packages/database/prisma/seed.ts\<close>, which fills the data base of a new installation: an
  organization with its configuration, four users, and one object with a BoQ.

  \<^verbatim>\<open>bcrypt.hash\<close> is an argument.  A text with letters outside ASCII is given by its bytes in UTF-8.  The
  names of the users, a column no service reads, and the messages on the console are left out.
\<close>

section \<open>The data\<close>

definition bytes :: "nat list \<Rightarrow> string" where
  "bytes = map char_of"

definition ORG_ID :: string where
  "ORG_ID = ''00000000-0000-0000-0000-000000000001''"

definition seed_organization :: organization where
  "seed_organization =
     \<lparr>g_id = ORG_ID,
      g_name = bytes [208, 158, 208, 158, 208, 158, 32, 34, 208, 161, 208, 154, 32, 208, 156, 208, 190, 208,
        189, 208, 190, 208, 187, 208, 184, 209, 130, 34],
      g_slug = ''monolit'', g_plan = ''starter'', g_isActive = True\<rparr>"

text \<open>The key, the number and the description of an entry of the configuration.\<close>

definition configEntries :: "(string \<times> number \<times> string) list" where
  "configEntries =
    [
     (''N_flag_threshold'', 3, ''Min Type-2 discrepancies to trigger systemic flag''),
     (''M_flag_window'', 5, ''Look-back window (periods) for systemic flag''),
     (''weight_threshold'', 1 / 10, ''Min weight_coef requiring cross-verification''),
     (''forecast_gap_alert'', 2, ''Gap in periods triggering gap flag on dashboard''),
     (''tolerance_threshold'', 5, bytes [79, 118, 101, 114, 114, 117, 110, 32, 37, 32, 226, 128, 148, 32, 119, 97, 114, 110, 105,
        110, 103, 32, 111, 110, 108, 121]),
     (''overrun_warning_limit'', 20, bytes [79, 118, 101, 114, 114, 117, 110, 32, 37, 32, 226, 128, 148, 32, 104, 97, 114, 100, 32,
        98, 108, 111, 99, 107, 32, 116, 104, 114, 101, 115, 104, 111, 108, 100]),
     (''avg_pace_periods'', 5, ''WMA window size for pace calculation''),
     (''decay_factor'', 9 / 10, ''Exponential decay factor for WMA''),
     (''spike_threshold'', 2, ''Multiplier vs WMA to classify as spike''),
     (''zero_report_alert_days'', 5, ''Days after connection_date before 0-report alert fires''),
     (''baseline_correction_threshold'', 5, ''Correction % requiring Director approval vs Admin-only'')]"

record seed_item =
  si_workCode :: string
  si_name :: string
  si_unit :: string
  si_planVolume :: number
  si_contractValue :: number
  si_isCritical :: bool
  si_lineageId :: string

definition seed_items :: "seed_item list" where
  "seed_items =
    [
     \<lparr>si_workCode = bytes [208, 144, 49],
      si_name = bytes [208, 163, 209, 129, 209, 130, 209, 128, 208, 190, 208, 185, 209, 129, 209, 130, 208, 178,
        208, 190, 32, 208, 188, 208, 190, 208, 189, 208, 190, 208, 187, 208, 184, 209, 130, 208, 189,
        208, 190, 208, 179, 208, 190, 32, 208, 186, 208, 176, 209, 128, 208, 186, 208, 176, 209, 129,
        208, 176],
      si_unit = bytes [208, 188, 194, 179], si_planVolume = 1200, si_contractValue = 36000000, si_isCritical = True,
      si_lineageId = ''11111111-0000-0000-0000-000000000001''\<rparr>,
     \<lparr>si_workCode = bytes [208, 144, 50],
      si_name = bytes [208, 154, 208, 187, 208, 176, 208, 180, 208, 186, 208, 176, 32, 208, 189, 208, 176, 209,
        128, 209, 131, 208, 182, 208, 189, 209, 139, 209, 133, 32, 209, 129, 209, 130, 208, 181, 208,
        189],
      si_unit = bytes [208, 188, 194, 178], si_planVolume = 3500, si_contractValue = 21000000, si_isCritical = False,
      si_lineageId = ''11111111-0000-0000-0000-000000000002''\<rparr>,
     \<lparr>si_workCode = bytes [208, 144, 51],
      si_name = bytes [208, 163, 209, 129, 209, 130, 209, 128, 208, 190, 208, 185, 209, 129, 209, 130, 208, 178,
        208, 190, 32, 208, 186, 209, 128, 208, 190, 208, 178, 208, 187, 208, 184],
      si_unit = bytes [208, 188, 194, 178], si_planVolume = 800, si_contractValue = 12000000, si_isCritical = True,
      si_lineageId = ''11111111-0000-0000-0000-000000000003''\<rparr>,
     \<lparr>si_workCode = bytes [208, 145, 49],
      si_name = bytes [208, 156, 208, 190, 208, 189, 209, 130, 208, 176, 208, 182, 32, 208, 184, 208, 189, 208,
        182, 208, 181, 208, 189, 208, 181, 209, 128, 208, 189, 209, 139, 209, 133, 32, 209, 129, 208,
        184, 209, 129, 209, 130, 208, 181, 208, 188],
      si_unit = bytes [208, 186, 208, 190, 208, 188, 208, 191, 208, 187, 46], si_planVolume = 1, si_contractValue = 15000000, si_isCritical = False,
      si_lineageId = ''11111111-0000-0000-0000-000000000004''\<rparr>,
     \<lparr>si_workCode = bytes [208, 145, 50],
      si_name = bytes [208, 158, 209, 130, 208, 180, 208, 181, 208, 187, 208, 190, 209, 135, 208, 189, 209, 139,
        208, 181, 32, 209, 128, 208, 176, 208, 177, 208, 190, 209, 130, 209, 139],
      si_unit = bytes [208, 188, 194, 178], si_planVolume = 12000, si_contractValue = 16000000, si_isCritical = False,
      si_lineageId = ''11111111-0000-0000-0000-000000000005''\<rparr>]"

definition PERMIT_NUMBER :: string where
  "PERMIT_NUMBER = ''RU77-123456-2026''"

section \<open>The script\<close>

text \<open>An \<^verbatim>\<open>upsert\<close> with an empty \<^verbatim>\<open>update\<close>, and \<^verbatim>\<open>existing ?? await create\<close>.\<close>

definition ensure :: "(db \<Rightarrow> 'r option) \<Rightarrow> 'r service \<Rightarrow> 'r service" where
  "ensure look create = bind (gets look) (\<lambda>found. case found of None \<Rightarrow> create | Some r \<Rightarrow> ret r)"

definition find_organization :: "string \<Rightarrow> db \<Rightarrow> organization option" where
  "find_organization i s = List.find (\<lambda>g. g_id g = i) (organizations s)"

definition insert_organization :: "organization \<Rightarrow> organization service" where
  "insert_organization g =
     andThen (guardS (\<lambda>s. list_all (\<lambda>h. g_slug h \<noteq> g_slug g) (organizations s)) (PrismaError UniqueViolation))
    (andThen (modify (\<lambda>s. s\<lparr>organizations := organizations s @ [g]\<rparr>)) (ret g))"

definition find_email :: "string \<Rightarrow> db \<Rightarrow> user option" where
  "find_email email s = List.find (\<lambda>u. u_email u = email) (users s)"

definition insert_user :: "(int \<Rightarrow> user) \<Rightarrow> user service" where
  "insert_user mk = bind (nextval TUsers) (\<lambda>i.
     andThen (guardS (\<lambda>s. find_organization (u_organizationId (mk i)) s \<noteq> None) (PrismaError ForeignKeyViolation))
    (andThen (modify (\<lambda>s. s\<lparr>users := users s @ [mk i]\<rparr>)) (ret (mk i))))"

definition seed_user :: "string \<Rightarrow> user_role \<Rightarrow> string \<Rightarrow> int \<Rightarrow> user" where
  "seed_user email role passwordHash i =
     \<lparr>u_id = i, u_email = email, u_role = role, u_passwordHash = passwordHash, u_isActive = True,
      u_organizationId = ORG_ID\<rparr>"

definition ensure_user :: "string \<Rightarrow> user_role \<Rightarrow> string \<Rightarrow> user service" where
  "ensure_user email role passwordHash =
     ensure (find_email email) (insert_user (seed_user email role passwordHash))"

definition seed_config :: "string \<times> number \<times> string \<Rightarrow> system_config" where
  "seed_config cfg = (case cfg of (key, v, description) \<Rightarrow>
     \<lparr>c_organizationId = ORG_ID, c_key = key, c_valueType = ''numeric'', c_valueNumeric = Some v,
      c_valueText = None, c_description = Some description, c_updatedAt = None, c_updatedBy = None\<rparr>)"

definition ensure_config :: "string \<times> number \<times> string \<Rightarrow> unit service" where
  "ensure_config cfg =
     bind (ensure (find_config ORG_ID (fst cfg)) (upsert_config ORG_ID (fst cfg) (seed_config cfg) (\<lambda>old. old)))
       (\<lambda>_. ret ())"

definition find_seed_object :: "db \<Rightarrow> construction_object option" where
  "find_seed_object s =
     List.find (\<lambda>ob. o_permitNumber ob = Some PERMIT_NUMBER \<and> o_organizationId ob = ORG_ID) (objects s)"

definition seed_object :: "int \<Rightarrow> date \<Rightarrow> int \<Rightarrow> construction_object" where
  "seed_object admin t i =
     \<lparr>o_id = i,
      o_name = bytes [208, 150, 208, 184, 208, 187, 208, 190, 208, 185, 32, 208, 186, 208, 190, 208, 188, 208,
        191, 208, 187, 208, 181, 208, 186, 209, 129, 32, 34, 208, 161, 208, 181, 208, 178, 208, 181,
        209, 128, 208, 189, 209, 139, 208, 185, 34, 32, 40, 208, 191, 208, 184, 208, 187, 208, 190, 209,
        130, 208, 189, 209, 139, 208, 185, 32, 208, 190, 208, 177, 209, 138, 208, 181, 208, 186, 209,
        130, 41],
      o_objectClass = Some (bytes [208, 150, 208, 184, 208, 187, 208, 190, 208, 181, 32, 208, 183, 208, 180, 208, 176, 208,
        189, 208, 184, 208, 181]),
      o_address = Some (bytes [208, 179, 46, 32, 208, 156, 208, 190, 209, 129, 208, 186, 208, 178, 208, 176, 44, 32,
        208, 161, 208, 181, 208, 178, 208, 181, 209, 128, 208, 189, 209, 139, 208, 185, 32, 209, 128,
        208, 176, 208, 185, 208, 190, 208, 189, 44, 32, 209, 131, 209, 135, 208, 176, 209, 129, 209,
        130, 208, 190, 208, 186, 32, 53]),
      o_permitNumber = Some PERMIT_NUMBER, o_permitDate = None, o_connectionDate = None,
      o_status = ''active'', o_createdAt = t, o_createdBy = Some admin, o_organizationId = ORG_ID\<rparr>"

definition ensure_object :: "int \<Rightarrow> construction_object service" where
  "ensure_object admin = ensure find_seed_object (bind now (\<lambda>t. insert_object (seed_object admin t)))"

definition find_version :: "int \<Rightarrow> string \<Rightarrow> db \<Rightarrow> boq_version option" where
  "find_version objectId number s =
     List.find (\<lambda>v. bv_objectId v = objectId \<and> bv_versionNumber v = number) (boqVersions s)"

definition seed_version :: "int \<Rightarrow> int \<Rightarrow> date \<Rightarrow> int \<Rightarrow> boq_version" where
  "seed_version objectId admin t i =
     \<lparr>bv_id = i, bv_objectId = objectId, bv_versionNumber = ''1.0'', bv_changeType = ''initial'',
      bv_changeReason = None, bv_changeDocument = None, bv_createdAt = t, bv_createdBy = Some admin,
      bv_approvedAt = None, bv_isActive = True\<rparr>"

definition ensure_version :: "int \<Rightarrow> int \<Rightarrow> boq_version service" where
  "ensure_version objectId admin =
     ensure (find_version objectId ''1.0'') (bind now (\<lambda>t. insert_boq_version (seed_version objectId admin t)))"

definition find_item_code :: "int \<Rightarrow> string \<Rightarrow> db \<Rightarrow> boq_item option" where
  "find_item_code v code s =
     List.find (\<lambda>b. bi_boqVersionId b = v \<and> bi_workCode b = code) (boqItems s)"

definition seed_boq_item :: "int \<Rightarrow> seed_item \<Rightarrow> int \<Rightarrow> boq_item" where
  "seed_boq_item v item i =
     \<lparr>bi_id = i, bi_boqVersionId = v, bi_workLineageId = si_lineageId item, bi_workCode = si_workCode item,
      bi_name = si_name item, bi_unit = Some (si_unit item), bi_planVolume = si_planVolume item,
      bi_contractValue = si_contractValue item, bi_weightCoef = None, bi_isCritical = si_isCritical item,
      bi_status = BActive, bi_predecessorItemId = None\<rparr>"

definition ensure_item :: "int \<Rightarrow> seed_item \<Rightarrow> unit service" where
  "ensure_item v item =
     bind (gets (find_item_code v (si_workCode item))) (\<lambda>found.
       case found of None \<Rightarrow> insert_boq_items v [seed_boq_item v item] | Some _ \<Rightarrow> ret ())"

definition seed :: "(string \<Rightarrow> string) \<Rightarrow> unit service" where
  "seed hash =
     bind (ensure (find_organization ORG_ID) (insert_organization seed_organization)) (\<lambda>_.
     andThen (forEach configEntries ensure_config)
    (bind (ensure_user ''admin@example.com'' Admin (hash ''Admin1234!'')) (\<lambda>_.
     bind (ensure_user ''admin@ccip.dev'' Admin (hash ''Ccip1234!'')) (\<lambda>admin.
     bind (ensure_user ''director@ccip.dev'' Director (hash ''Ccip1234!'')) (\<lambda>_.
     bind (ensure_user ''sc@ccip.dev'' Stroycontrol (hash ''Ccip1234!'')) (\<lambda>_.
     bind (ensure_object (u_id admin)) (\<lambda>obj.
     bind (ensure_version (o_id obj) (u_id admin)) (\<lambda>boqVersion.
     forEach seed_items (ensure_item (bv_id boqVersion))))))))))"

end
