(* ===== verification/Seed_Theorems.thy ===== *)
theory Seed_Theorems
  imports Seed Boq_Props
begin

text \<open>
  What the seed script does: on an empty data base it writes exactly the rows of \<open>seeded\<close>, which satisfy
  the invariant of the system; run again, on whatever store it left, it changes nothing.
\<close>

section \<open>Running the steps\<close>

lemma ensure_found [simp]: "look s = Some r \<Longrightarrow> ensure look create s = (Inr r, s)"
  by (simp add: ensure_def prog_defs)

lemma ensure_missing [simp]: "look s = None \<Longrightarrow> ensure look create s = create s"
  by (simp add: ensure_def prog_defs)

lemma config_check_seed: "config_check (seed_config c)"
  by (simp add: config_check_def seed_config_def split: prod.splits)

lemma seed_config_simps [simp]:
  "c_organizationId (seed_config c) = ORG_ID" "c_key (seed_config c) = fst c" "config_key (seed_config c) = (ORG_ID, fst c)"
  by (simp_all add: seed_config_def config_key_def split: prod.splits)

lemma ensure_config_new:
  assumes "find_config ORG_ID (fst c) s = None"
  shows "ensure_config c s = (Inr (), s\<lparr>systemConfig := systemConfig s @ [seed_config c]\<rparr>)"
  using assms config_check_seed[of c] by (simp add: ensure_config_def upsert_config_def prog_defs ensure_def)

lemma ensure_config_found:
  "find_config ORG_ID (fst c) s = Some r \<Longrightarrow> ensure_config c s = (Inr (), s)"
  by (simp add: ensure_config_def prog_defs ensure_def)

lemma configs_new:
  "distinct (map fst cs) \<Longrightarrow> \<forall>c \<in> set cs. find_config ORG_ID (fst c) s = None \<Longrightarrow>
   forEach cs ensure_config s = (Inr (), s\<lparr>systemConfig := systemConfig s @ map seed_config cs\<rparr>)"
proof (induction cs arbitrary: s)
  case (Cons c cs)
  let ?t = "s\<lparr>systemConfig := systemConfig s @ [seed_config c]\<rparr>"
  have "\<forall>d \<in> set cs. find_config ORG_ID (fst d) ?t = None"
    using Cons.prems by (auto simp: find_config_def find_None_iff_all image_iff)
  then have "forEach cs ensure_config ?t = (Inr (), ?t\<lparr>systemConfig := systemConfig ?t @ map seed_config cs\<rparr>)"
    using Cons.prems(1) by (intro Cons.IH) simp_all
  moreover have "ensure_config c s = (Inr (), ?t)" using Cons.prems(2) by (intro ensure_config_new) simp
  ultimately show ?case by (simp add: andThen_def)
qed (simp add: ret_run)

lemma ensure_item_found:
  "find_item_code v (si_workCode i) s = Some r \<Longrightarrow> ensure_item v i s = (Inr (), s)"
  by (simp add: ensure_item_def prog_defs)

section \<open>The positions\<close>

text \<open>The trigger run after every row leaves the weights that one run over all rows computes.\<close>

lemma contract_total_mono:
  "list_all boq_item_checks R \<Longrightarrow> contract_total v L \<le> contract_total v (L @ R)"
  using contract_total_nonneg[of R v] by (simp add: contract_total_append)

lemma recalc_append_recalc:
  assumes "list_all boq_item_checks (L @ R)"
  shows "recalc_weight_coef v (recalc_weight_coef v L @ R) = recalc_weight_coef v (L @ R)"
proof -
  let ?T = "contract_total v (L @ R)"
  have T: "contract_total v (recalc_weight_coef v L @ R) = ?T" by (simp add: contract_total_append)
  have zero: "contract_total v L = 0" if "?T = 0"
    using contract_total_mono[of R v L] contract_total_nonneg[of L v] assms that by simp
  have "reweigh v (recalc_weight_coef v L @ R) (reweigh v L b) = reweigh v (L @ R) b" for b
    using zero by (auto simp: reweigh_def new_weight_def T share_of_def active_in_def)
  moreover have "reweigh v (recalc_weight_coef v L @ R) b = reweigh v (L @ R) b" for b
    by (simp add: reweigh_def new_weight_def T)
  ultimately show ?thesis by (simp add: recalc_map[of v "_ @ R"]) (simp add: recalc_map)
qed

lemma weights_in_range:
  assumes "\<forall>b \<in> set L. active_in v b \<and> 0 < bi_contractValue b"
  shows "list_all weight_check (recalc_weight_coef v L)"
proof -
  have "0 < share_of (contract_total v L) b \<and> share_of (contract_total v L) b \<le> 1" if b: "b \<in> set L" for b
  proof -
    have "filter (active_in v) L = L" using assms by (simp add: filter_id_conv)
    then have tot: "contract_total v L = sum_list (map bi_contractValue L)" by (simp add: contract_total_def)
    have "bi_contractValue b \<le> sum_list (map bi_contractValue L)"
      using assms b by (intro member_le_sum_list) (auto intro: less_imp_le)
    moreover have "0 < bi_contractValue b" using assms b by simp
    ultimately have "0 < sum_list (map bi_contractValue L)" by linarith
    with \<open>0 < bi_contractValue b\<close> \<open>bi_contractValue b \<le> _\<close> show ?thesis by (simp add: share_of_def tot)
  qed
  moreover from this have "contract_total v L \<noteq> 0" if "b \<in> set L" for b
    using that by (force simp: share_of_def)
  ultimately show ?thesis
    using assms by (auto simp: recalc_map list_all_iff weight_check_def new_weight_def)
qed

definition item_fine :: "seed_item \<Rightarrow> bool" where
  "item_fine i \<longleftrightarrow> 0 < si_planVolume i \<and> 0 < si_contractValue i"

definition item_rows :: "int \<Rightarrow> int \<Rightarrow> seed_item list \<Rightarrow> boq_item list" where
  "item_rows v n items = number_rows n (map (seed_boq_item v) items)"

lemma item_rows_simps [simp]:
  "item_rows v n [] = []" "item_rows v n (i # items) = seed_boq_item v i (n + 1) # item_rows v (n + 1) items"
  by (simp_all add: item_rows_def)

lemma seed_boq_item_simps [simp]:
  "item_code (seed_boq_item v i n) = (v, si_workCode i)" "active_in w (seed_boq_item v i n) \<longleftrightarrow> w = v"
  "bi_contractValue (seed_boq_item v i n) = si_contractValue i"
  "boq_item_checks (seed_boq_item v i n) \<longleftrightarrow> 0 < si_planVolume i \<and> 0 \<le> si_contractValue i"
  by (auto simp: seed_boq_item_def item_code_def active_in_def boq_item_checks_def)

text \<open>The rows of the version, before the weights.\<close>

definition plain_rows :: "int \<Rightarrow> boq_item list \<Rightarrow> bool" where
  "plain_rows v L \<longleftrightarrow> (\<forall>b \<in> set L. active_in v b \<and> 0 < bi_contractValue b \<and> boq_item_checks b)"

lemma ensure_item_new:
  assumes "item_fine i" and "boqItems s = recalc_weight_coef v L" and "plain_rows v L"
    and "(v, si_workCode i) \<notin> item_code ` set L" and "\<exists>ver \<in> set (boqVersions s). bv_id ver = v"
  shows "ensure_item v i s = (Inr (), s\<lparr>seq := (seq s)(TBoqItems := seq s TBoqItems + 1),
           boqItems := recalc_weight_coef v (L @ [seed_boq_item v i (seq s TBoqItems + 1)])\<rparr>)"
proof -
  let ?r = "seed_boq_item v i (seq s TBoqItems + 1)"
  have codes: "item_code ` set (recalc_weight_coef v L) = item_code ` set L"
    by (auto simp: recalc_map image_image)
  have none: "find_item_code v (si_workCode i) s = None"
    unfolding find_item_code_def find_None_iff_all
  proof
    fix b assume "b \<in> set (boqItems s)"
    then have "item_code b \<in> item_code ` set L" using assms(2) codes by auto
    then show "\<not> (bi_boqVersionId b = v \<and> bi_workCode b = si_workCode i)"
      using assms(4) by (auto simp: item_code_def)
  qed
  have L': "plain_rows v (L @ [?r])"
    using assms(1,3) by (auto simp: plain_rows_def item_fine_def)
  have "recalc_weight_coef v (recalc_weight_coef v L @ [?r]) = recalc_weight_coef v (L @ [?r])"
    using L' by (intro recalc_append_recalc) (simp add: plain_rows_def list_all_iff)
  moreover have "list_all weight_check (recalc_weight_coef v (L @ [?r]))"
    using L' by (intro weights_in_range) (simp add: plain_rows_def)
  moreover have "boq_item_checks ?r" using assms(1) by (simp add: item_fine_def)
  moreover have "(v, si_workCode i) \<notin> item_code ` set (boqItems s)" using assms(2,4) codes by simp
  ultimately show ?thesis
    using none assms(2,5)
    by (simp add: ensure_item_def insert_boq_items_def prog_defs list_ex_iff)
qed

lemma items_new:
  assumes "\<forall>i \<in> set items. item_fine i" and "distinct (map si_workCode items)"
    and "boqItems s = recalc_weight_coef v L" and "plain_rows v L"
    and "\<forall>i \<in> set items. (v, si_workCode i) \<notin> item_code ` set L"
    and "\<exists>ver \<in> set (boqVersions s). bv_id ver = v"
  shows "forEach items (ensure_item v) s =
    (Inr (), s\<lparr>seq := (seq s)(TBoqItems := seq s TBoqItems + int (length items)),
        boqItems := recalc_weight_coef v (L @ item_rows v (seq s TBoqItems) items)\<rparr>)"
  using assms
proof (induction items arbitrary: s L)
  case Nil
  then show ?case by (simp add: ret_run)
next
  case (Cons i items)
  let ?r = "seed_boq_item v i (seq s TBoqItems + 1)"
  let ?t = "s\<lparr>seq := (seq s)(TBoqItems := seq s TBoqItems + 1), boqItems := recalc_weight_coef v (L @ [?r])\<rparr>"
  have one: "ensure_item v i s = (Inr (), ?t)"
    using Cons.prems by (intro ensure_item_new) auto
  have "forEach items (ensure_item v) ?t =
    (Inr (), ?t\<lparr>seq := (seq ?t)(TBoqItems := seq ?t TBoqItems + int (length items)),
        boqItems := recalc_weight_coef v ((L @ [?r]) @ item_rows v (seq ?t TBoqItems) items)\<rparr>)"
  proof (rule Cons.IH)
    show "plain_rows v (L @ [?r])" using Cons.prems by (auto simp: plain_rows_def item_fine_def)
    show "\<forall>i \<in> set items. (v, si_workCode i) \<notin> item_code ` set (L @ [?r])"
      using Cons.prems by (auto simp: image_iff)
  qed (use Cons.prems in auto)
  then show ?case using one by (simp add: andThen_def add.assoc fun_upd_def cong: if_cong)
qed

section \<open>The seeded store\<close>

definition seeded :: "(string \<Rightarrow> string) \<Rightarrow> db" where
  "seeded hash = empty_db
     \<lparr>organizations := [seed_organization], systemConfig := map seed_config configEntries,
      users := [seed_user ''admin@example.com'' Admin (hash ''Admin1234!'') 1,
                seed_user ''admin@ccip.dev'' Admin (hash ''Ccip1234!'') 2,
                seed_user ''director@ccip.dev'' Director (hash ''Ccip1234!'') 3,
                seed_user ''sc@ccip.dev'' Stroycontrol (hash ''Ccip1234!'') 4],
      objects := [seed_object 2 0 1], boqVersions := [seed_version 1 2 0 1],
      boqItems := recalc_weight_coef 1 (item_rows 1 0 seed_items),
      seq := (\<lambda>_. 0)(TUsers := 4, TObjects := 1, TBoqVersions := 1, TBoqItems := 5)\<rparr>"

lemma seed_data:
  "distinct (map fst configEntries)" "distinct (map si_workCode seed_items)" "\<forall>i \<in> set seed_items. item_fine i"
  "length seed_items = 5" "''initial'' \<in> set CHANGE_TYPES"
  by (simp_all add: configEntries_def seed_items_def bytes_def item_fine_def CHANGE_TYPES_def)

lemma seed_rows_simps [simp]:
  "u_id (seed_user e r h i) = i" "u_email (seed_user e r h i) = e" "u_organizationId (seed_user e r h i) = ORG_ID"
  "g_id seed_organization = ORG_ID" "o_id (seed_object a t i) = i" "bv_id (seed_version ob a t i) = i"
  "bv_objectId (seed_version ob a t i) = ob" "bv_changeType (seed_version ob a t i) = ''initial''"
  "bv_versionNumber (seed_version ob a t i) = ''1.0''" "bv_isActive (seed_version ob a t i)"
  "bi_id (seed_boq_item v it i) = i" "bi_boqVersionId (seed_boq_item v it i) = v"
  "bi_weightCoef (seed_boq_item v it i) = None" "bi_workCode (seed_boq_item v it i) = si_workCode it"
  by (simp_all add: seed_user_def seed_organization_def seed_object_def seed_version_def seed_boq_item_def)

lemma ensure_user_run:
  assumes "find_email email s = None" and "organizations s = [seed_organization]"
  shows "ensure_user email role h s = (Inr (seed_user email role h (seq s TUsers + 1)),
     s\<lparr>seq := (seq s)(TUsers := seq s TUsers + 1), users := users s @ [seed_user email role h (seq s TUsers + 1)]\<rparr>)"
  using assms by (simp add: ensure_user_def insert_user_def nextval_def prog_defs find_organization_def ensure_def)

lemma ensure_object_run:
  assumes "objects s = []"
  shows "ensure_object admin s = (Inr (seed_object admin (clock s) (seq s TObjects + 1)),
     s\<lparr>seq := (seq s)(TObjects := seq s TObjects + 1), objects := [seed_object admin (clock s) (seq s TObjects + 1)]\<rparr>)"
  using assms by (simp add: ensure_object_def insert_object_def nextval_def now_def prog_defs find_seed_object_def ensure_def)

lemma ensure_version_run:
  assumes "boqVersions s = []"
  shows "ensure_version ob admin s = (Inr (seed_version ob admin (clock s) (seq s TBoqVersions + 1)),
     s\<lparr>seq := (seq s)(TBoqVersions := seq s TBoqVersions + 1),
       boqVersions := [seed_version ob admin (clock s) (seq s TBoqVersions + 1)]\<rparr>)"
  using assms seed_data(5)
  by (simp add: ensure_version_def insert_boq_version_def nextval_def now_def prog_defs find_version_def
        active_version_def ensure_def)

lemma seed_run: "seed hash empty_db = (Inr (), seeded hash)"
proof -
  define U where "U = [seed_user ''admin@example.com'' Admin (hash ''Admin1234!'') 1,
    seed_user ''admin@ccip.dev'' Admin (hash ''Ccip1234!'') 2, seed_user ''director@ccip.dev'' Director (hash ''Ccip1234!'') 3,
    seed_user ''sc@ccip.dev'' Stroycontrol (hash ''Ccip1234!'') 4]"
  define s1 where "s1 = empty_db\<lparr>organizations := [seed_organization]\<rparr>"
  define s2 where "s2 = s1\<lparr>systemConfig := map seed_config configEntries\<rparr>"
  define st where "st = (\<lambda>k::nat. s2\<lparr>seq := (\<lambda>_. 0)(TUsers := int k), users := take k U\<rparr>)"
  define s7 where "s7 = (st 4)\<lparr>seq := (seq (st 4))(TObjects := 1), objects := [seed_object 2 0 1]\<rparr>"
  define s8 where "s8 = s7\<lparr>seq := (seq s7)(TBoqVersions := 1), boqVersions := [seed_version 1 2 0 1]\<rparr>"
  have 1: "ensure (find_organization ORG_ID) (insert_organization seed_organization) empty_db = (Inr seed_organization, s1)"
    by (simp add: ensure_def find_organization_def insert_organization_def prog_defs empty_db_def s1_def)
  have 2: "forEach configEntries ensure_config s1 = (Inr (), s2)"
    using configs_new[OF seed_data(1), of s1] by (simp add: find_config_def empty_db_def s1_def s2_def)
  have "s2 = st 0" by (simp add: st_def s2_def s1_def empty_db_def fun_eq_iff)
  note 2 = 2[unfolded this]
  have u: "ensure_user email role h (st k) = (Inr (U ! k), st (Suc k))"
    if "find_email email (st k) = None" "k < 4" "U ! k = seed_user email role h (int k + 1)" for email role h k
  proof -
    have "k < length U" using that(2) by (simp add: U_def)
    then have "take (Suc k) U = take k U @ [U ! k]" by (rule take_Suc_conv_app_nth)
    then show ?thesis
      using ensure_user_run[OF that(1), of role h] that(3)
      by (simp add: st_def s2_def s1_def algebra_simps)
  qed
  have 3: "ensure_user ''admin@example.com'' Admin (hash ''Admin1234!'') (st 0) = (Inr (U ! 0), st 1)"
    using u[of _ 0] by (simp add: U_def find_email_def st_def)
  have 4: "ensure_user ''admin@ccip.dev'' Admin (hash ''Ccip1234!'') (st 1) = (Inr (U ! 1), st 2)"
    using u[of _ 1] by (simp add: U_def find_email_def st_def numeral_2_eq_2)
  have 5: "ensure_user ''director@ccip.dev'' Director (hash ''Ccip1234!'') (st 2) = (Inr (U ! 2), st 3)"
    using u[of _ 2] by (simp add: U_def find_email_def st_def numeral_3_eq_3 numeral_2_eq_2)
  have 6: "ensure_user ''sc@ccip.dev'' Stroycontrol (hash ''Ccip1234!'') (st 3) = (Inr (U ! 3), st 4)"
    using u[of _ 3] by (simp add: U_def find_email_def st_def numeral_3_eq_3 numeral_2_eq_2 eval_nat_numeral)
  have 7: "ensure_object 2 (st 4) = (Inr (seed_object 2 0 1), s7)"
    using ensure_object_run[of "st 4" 2] by (simp add: s7_def st_def s2_def s1_def empty_db_def)
  have 8: "ensure_version 1 2 s7 = (Inr (seed_version 1 2 0 1), s8)"
    using ensure_version_run[of s7 1 2] by (simp add: s8_def s7_def st_def s2_def s1_def empty_db_def)
  have 9: "forEach seed_items (ensure_item 1) s8 = (Inr (), s8\<lparr>seq := (seq s8)(TBoqItems := 5),
      boqItems := recalc_weight_coef 1 (item_rows 1 0 seed_items)\<rparr>)"
    using items_new[OF seed_data(3,2), of s8 1 "[]"] seed_data(4)
    by (simp add: s8_def s7_def st_def s2_def s1_def empty_db_def plain_rows_def recalc_map)
  have "u_id (U ! 1) = 2" by (simp add: U_def)
  then have "seed hash empty_db = (Inr (), s8\<lparr>seq := (seq s8)(TBoqItems := 5),
      boqItems := recalc_weight_coef 1 (item_rows 1 0 seed_items)\<rparr>)"
    by (simp add: seed_def andThen_def bind_def 1 2 3 4 5 6 7 8 9 del: One_nat_def)
  then show ?thesis
    by (simp add: s8_def s7_def st_def s2_def s1_def seeded_def U_def)
qed

section \<open>Running the script again\<close>

text \<open>The script only adds rows.\<close>

definition grows :: "db \<Rightarrow> db \<Rightarrow> bool" where
  "grows s t \<longleftrightarrow> (\<exists>g c u ob v. organizations t = organizations s @ g \<and> systemConfig t = systemConfig s @ c
     \<and> users t = users s @ u \<and> objects t = objects s @ ob \<and> boqVersions t = boqVersions s @ v)
     \<and> item_code ` set (boqItems s) \<subseteq> item_code ` set (boqItems t)"

interpretation grow: step_rel grows keep_outside
  by unfold_locales (auto simp: grows_def keep_outside_def)

lemma ensure_grows: "moves grows create \<Longrightarrow> moves grows (ensure look create)"
  unfolding ensure_def by (intro grow.moves_rules)

lemma writes_grow:
  "moves grows (insert_organization g)" "moves grows (insert_user mk)" "moves grows (insert_object mk2)"
  "moves grows (insert_boq_version mk3)"
  by (auto simp: moves_iff_wp insert_organization_def insert_user_def insert_object_def insert_boq_version_def
        wp_simps grows_def)

lemma config_grows: "moves grows (ensure_config c)"
proof (rule movesI)
  fix s :: db
  show "grows s (snd (ensure_config c s))"
    using ensure_config_new[of c s] ensure_config_found[of c s] grow.R_refl
    by (cases "find_config ORG_ID (fst c) s") (auto simp: grows_def)
qed

lemma item_grows: "moves grows (ensure_item v i)"
  unfolding moves_iff_wp ensure_item_def insert_boq_items_def
  by (auto simp: wp_simps grows_def recalc_map image_image split: option.splits)

lemma seed_rows_grow:
  "moves grows (ensure_user e r h)" "moves grows (ensure_object a)" "moves grows (ensure_version ob a)"
  unfolding ensure_user_def ensure_object_def ensure_version_def now_def
  by (intro ensure_grows grow.moves_rules writes_grow)+

text \<open>What was found once is found later.\<close>

lemma found_later:
  assumes "grows s t"
  shows "find_organization i s = Some g \<Longrightarrow> find_organization i t = Some g"
    "find_email e s = Some u \<Longrightarrow> find_email e t = Some u"
    "find_seed_object s = Some ob \<Longrightarrow> find_seed_object t = Some ob"
    "find_version o' n s = Some v \<Longrightarrow> find_version o' n t = Some v"
    "find_config o2 k s = Some c \<Longrightarrow> find_config o2 k t = Some c"
    "find_item_code w code s \<noteq> None \<Longrightarrow> find_item_code w code t \<noteq> None"
proof -
  show "find_item_code w code s \<noteq> None \<Longrightarrow> find_item_code w code t \<noteq> None"
    using assms unfolding find_item_code_def find_None_iff_all grows_def item_code_def by (auto simp: image_subset_iff, fastforce)
qed (use assms in \<open>auto simp: grows_def find_organization_def find_email_def find_seed_object_def find_version_def
       find_config_def find_append\<close>)

text \<open>What a step ensures.\<close>

lemma ensure_user_result: "ensure_user e r h s = (Inr u, t) \<Longrightarrow> find_email e t = Some u"
  by (cases "find_email e s")
     (auto simp: ensure_user_def insert_user_def nextval_def prog_defs find_email_def find_append
       split: if_splits)

lemma ensure_object_result: "ensure_object a s = (Inr ob, t) \<Longrightarrow> find_seed_object t = Some ob"
  by (cases "find_seed_object s")
     (auto simp: ensure_object_def insert_object_def now_def nextval_def prog_defs find_seed_object_def
       find_append seed_object_def)

lemma ensure_version_result: "ensure_version ob a s = (Inr v, t) \<Longrightarrow> find_version ob ''1.0'' t = Some v"
  by (cases "find_version ob ''1.0'' s")
     (auto simp: ensure_version_def insert_boq_version_def now_def nextval_def prog_defs find_version_def
       find_append split: if_splits)

lemma ensure_organization_result:
  "ensure (find_organization ORG_ID) (insert_organization seed_organization) s = (Inr g, t) \<Longrightarrow>
   find_organization ORG_ID t = Some g"
  by (cases "find_organization ORG_ID s")
     (auto simp: insert_organization_def prog_defs find_organization_def find_append split: if_splits)

lemma ensure_config_result: "ensure_config c s = (Inr x, t) \<Longrightarrow> find_config ORG_ID (fst c) t \<noteq> None"
  using ensure_config_new[of c s] ensure_config_found[of c s]
  by (cases "find_config ORG_ID (fst c) s") (auto simp: find_config_def find_append)

lemma ensure_item_result: "ensure_item v i s = (Inr x, t) \<Longrightarrow> find_item_code v (si_workCode i) t \<noteq> None"
proof (cases "find_item_code v (si_workCode i) s")
  case None
  assume "ensure_item v i s = (Inr x, t)"
  with None have "(v, si_workCode i) \<in> item_code ` set (boqItems t)"
    by (auto simp: ensure_item_def insert_boq_items_def prog_defs recalc_map image_image split: if_splits)
  then show ?thesis by (auto simp: find_item_code_def find_None_iff_all item_code_def)
qed (auto simp: ensure_item_def prog_defs)

lemma forEach_result:
  assumes "forEach xs f s = (Inr (), t)"
    and "\<And>x s t. x \<in> set xs \<Longrightarrow> f x s = (Inr (), t) \<Longrightarrow> Q x t"
    and keep: "\<And>x s t. Q x s \<Longrightarrow> R s t \<Longrightarrow> Q x t" and moves: "\<And>xs. moves R (forEach xs f)"
  shows "\<forall>x \<in> set xs. Q x t"
  using assms(1,2)
proof (induction xs arbitrary: s)
  case (Cons x xs)
  then obtain u where u: "f x s = (Inr (), u)" "forEach xs f u = (Inr (), t)"
    by (auto simp: andThen_def bind_eq_Inr)
  have "Q x u" using u(1) Cons.prems(2) by simp
  then have "Q x t" using movesD[OF moves u(2)] by (rule keep)
  moreover have "\<forall>y \<in> set xs. Q y t" using u(2) Cons.prems(2) by (intro Cons.IH) auto
  ultimately show ?case by simp
qed simp

text \<open>The store after the script holds everything it looks for.\<close>

definition settled :: "db \<Rightarrow> bool" where
  "settled s \<longleftrightarrow> find_organization ORG_ID s \<noteq> None
     \<and> (\<forall>c \<in> set configEntries. find_config ORG_ID (fst c) s \<noteq> None)
     \<and> (\<forall>e \<in> {''admin@example.com'', ''admin@ccip.dev'', ''director@ccip.dev'', ''sc@ccip.dev''}. find_email e s \<noteq> None)
     \<and> (\<exists>ob v. find_seed_object s = Some ob \<and> find_version (o_id ob) ''1.0'' s = Some v
          \<and> (\<forall>i \<in> set seed_items. find_item_code (bv_id v) (si_workCode i) s \<noteq> None))"

lemma forEach_found: "(\<And>x. x \<in> set xs \<Longrightarrow> f x s = (Inr (), s)) \<Longrightarrow> forEach xs f s = (Inr (), s)"
  by (induction xs) (simp_all add: ret_run andThen_def bind_def)

lemma settled_run: "settled s \<Longrightarrow> seed hash s = (Inr (), s)"
proof -
  assume "settled s"
  then obtain g ob v where found: "find_organization ORG_ID s = Some g" "find_seed_object s = Some ob"
      "find_version (o_id ob) ''1.0'' s = Some v"
    and configs: "\<And>c. c \<in> set configEntries \<Longrightarrow> find_config ORG_ID (fst c) s \<noteq> None"
    and mails: "find_email ''admin@example.com'' s \<noteq> None" "find_email ''admin@ccip.dev'' s \<noteq> None"
      "find_email ''director@ccip.dev'' s \<noteq> None" "find_email ''sc@ccip.dev'' s \<noteq> None"
    and items: "\<And>i. i \<in> set seed_items \<Longrightarrow> find_item_code (bv_id v) (si_workCode i) s \<noteq> None"
    by (auto simp: settled_def)
  obtain u1 u2 u3 u4 where users: "find_email ''admin@example.com'' s = Some u1" "find_email ''admin@ccip.dev'' s = Some u2"
      "find_email ''director@ccip.dev'' s = Some u3" "find_email ''sc@ccip.dev'' s = Some u4"
    using mails by auto
  have "forEach configEntries ensure_config s = (Inr (), s)"
    using configs ensure_config_found by (intro forEach_found) fast
  moreover have "forEach seed_items (ensure_item (bv_id v)) s = (Inr (), s)"
    using items ensure_item_found by (intro forEach_found) fast
  ultimately show ?thesis
    using found users
    by (simp add: seed_def andThen_def ensure_user_def ensure_object_def ensure_version_def bind_def)
qed

lemma seed_settles:
  assumes "seed hash s = (Inr (), t)"
  shows "settled t"
proof -
  obtain g s1 s2 u1 s3 u2 s4 u3 s5 u4 s6 ob s7 v s8 where
    run: "ensure (find_organization ORG_ID) (insert_organization seed_organization) s = (Inr g, s1)"
      "forEach configEntries ensure_config s1 = (Inr (), s2)"
      "ensure_user ''admin@example.com'' Admin (hash ''Admin1234!'') s2 = (Inr u1, s3)"
      "ensure_user ''admin@ccip.dev'' Admin (hash ''Ccip1234!'') s3 = (Inr u2, s4)"
      "ensure_user ''director@ccip.dev'' Director (hash ''Ccip1234!'') s4 = (Inr u3, s5)"
      "ensure_user ''sc@ccip.dev'' Stroycontrol (hash ''Ccip1234!'') s5 = (Inr u4, s6)"
      "ensure_object (u_id u2) s6 = (Inr ob, s7)" "ensure_version (o_id ob) (u_id u2) s7 = (Inr v, s8)"
      "forEach seed_items (ensure_item (bv_id v)) s8 = (Inr (), t)"
    using assms unfolding seed_def andThen_def bind_eq_Inr by auto
  have g9: "grows s8 t" by (rule movesD[OF grow.moves_forEach run(9)]) (rule item_grows)
  have g8: "grows s7 t" by (rule grow.R_trans[OF movesD[OF seed_rows_grow(3) run(8)] g9])
  have g7: "grows s6 t" by (rule grow.R_trans[OF movesD[OF seed_rows_grow(2) run(7)] g8])
  have g6: "grows s5 t" by (rule grow.R_trans[OF movesD[OF seed_rows_grow(1) run(6)] g7])
  have g5: "grows s4 t" by (rule grow.R_trans[OF movesD[OF seed_rows_grow(1) run(5)] g6])
  have g4: "grows s3 t" by (rule grow.R_trans[OF movesD[OF seed_rows_grow(1) run(4)] g5])
  have g3: "grows s2 t" by (rule grow.R_trans[OF movesD[OF seed_rows_grow(1) run(3)] g4])
  have "grows s1 s2" by (rule movesD[OF grow.moves_forEach run(2)]) (rule config_grows)
  then have g2: "grows s1 t" using g3 by (rule grow.R_trans)
  have "\<forall>c \<in> set configEntries. find_config ORG_ID (fst c) s2 \<noteq> None"
  proof (rule forEach_result[OF run(2), where R = grows])
    show "find_config ORG_ID (fst c) b \<noteq> None" if "find_config ORG_ID (fst c) a \<noteq> None" "grows a b" for c a b
      using that found_later(5) by blast
  qed (erule ensure_config_result, rule grow.moves_forEach, rule config_grows)
  moreover have "\<forall>i \<in> set seed_items. find_item_code (bv_id v) (si_workCode i) t \<noteq> None"
  proof (rule forEach_result[OF run(9), where R = grows])
    show "find_item_code (bv_id v) (si_workCode i) b \<noteq> None"
      if "find_item_code (bv_id v) (si_workCode i) a \<noteq> None" "grows a b" for i a b
      using that by (rule found_later(6)[rotated])
  qed (erule ensure_item_result, rule grow.moves_forEach, rule item_grows)
  moreover have "find_organization ORG_ID t \<noteq> None"
    using found_later(1)[OF g2 ensure_organization_result[OF run(1)]] by simp
  moreover have "find_seed_object t = Some ob" "find_version (o_id ob) ''1.0'' t = Some v"
    using found_later(3)[OF g8 ensure_object_result[OF run(7)]]
      found_later(4)[OF g9 ensure_version_result[OF run(8)]] by simp_all
  ultimately show ?thesis
    using found_later(2)[OF g4 ensure_user_result[OF run(3)]] found_later(2)[OF g5 ensure_user_result[OF run(4)]]
      found_later(2)[OF g6 ensure_user_result[OF run(5)]] found_later(2)[OF g7 ensure_user_result[OF run(6)]]
      found_later(5)[OF g3]
    unfolding settled_def by fastforce
qed

section \<open>The properties\<close>

lemma seed_total: "contract_total 1 (item_rows 1 0 seed_items) = 100000000"
  by (simp add: contract_total_def seed_items_def)

lemma seeded_weights:
  "boqItems (seeded hash) =
     map (\<lambda>b. b\<lparr>bi_weightCoef := Some (bi_contractValue b / 100000000)\<rparr>) (item_rows 1 0 seed_items)"
proof -
  have "\<forall>b \<in> set (item_rows 1 0 seed_items). active_in 1 b" by (simp add: seed_items_def)
  then show ?thesis
    by (simp add: seeded_def recalc_map reweigh_def new_weight_def share_of_def seed_total)
qed

lemma seeded_ok: "sys_ok (seeded hash)"
proof -
  let ?s = "seeded hash"
  have empty: "periods ?s = []" "periodFacts ?s = []" "discrepancies ?s = []" "photos ?s = []" "slaEvents ?s = []"
    "slaJobs ?s = []" "notifications ?s = []" "zeroReports ?s = []" "zeroReportItems ?s = []" "syncQueue ?s = []"
    "readinessSnapshots ?s = []" "workPaces ?s = []" "participants ?s = []" "documents ?s = []"
    "baselineRequests ?s = []" "refreshTokens ?s = []" "distinct (map ml_viewName (mvRefreshLog ?s))"
    by (simp_all add: seeded_def empty_db_def)
  have rows: "boqVersions ?s = [seed_version 1 2 0 1]" "objects ?s = [seed_object 2 0 1]"
    "systemConfig ?s = map seed_config configEntries" "seq ?s TBoqVersions = 1" "seq ?s TBoqItems = 5" "seq ?s TObjects = 1"
    by (simp_all add: seeded_def)
  have plain: "\<forall>b \<in> set (item_rows 1 0 seed_items). active_in 1 b \<and> 0 < bi_contractValue b \<and> boq_item_checks b"
    by (simp add: seed_items_def)
  have weights: "list_all weight_check (boqItems ?s)"
    unfolding seeded_def using weights_in_range[of "item_rows 1 0 seed_items" 1] plain by simp
  have items: "boqItems ?s = recalc_weight_coef 1 (item_rows 1 0 seed_items)" by (simp add: seeded_def)
  have "db_ok ?s" using weights by (simp add: db_ok_defs empty keyed_def)
  moreover have "boq_ok ?s"
  proof -
    have "keyed bi_id (boqItems ?s) 5" "distinct (map item_code (boqItems ?s))"
      using seed_data(2)
      by (simp_all add: items recalc_map keyed_def comp_def list_all_iff) (simp_all add: seed_items_def bytes_def)
    moreover have "shares_ok (boqItems ?s) 1"
    proof -
      have "contract_total 1 (boqItems ?s) = 100000000" by (simp add: items seed_total)
      then show ?thesis by (auto simp: shares_ok_def seeded_weights list_all_iff share_of_def)
    qed
    moreover have "\<forall>b \<in> set (boqItems ?s). bi_boqVersionId b = 1 \<and> boq_item_checks b \<and> bi_status b = BActive"
      by (simp add: seeded_weights seed_items_def seed_boq_item_def boq_item_checks_def)
    ultimately show ?thesis
      by (auto simp: boq_ok_def rows list_all_iff keyed_def idle_unweighted_def)
  qed
  moreover have "registry_ok ?s"
    using seed_data(1) config_check_seed
    by (simp add: registry_ok_def rows empty keyed_def current_keys_def)
       (auto simp: distinct_map comp_def list_all_iff inj_on_def)
  ultimately show ?thesis
    by (simp add: sys_ok_def catalog_ok_def one_open_def one_report_def timers_ok_def empty)
qed

text \<open>With a hash that \<^verbatim>\<open>bcrypt.compare\<close> recognizes, the printed accounts can log in.\<close>

lemma seeded_log_in:
  assumes "\<And>pw. compare pw (hash pw)"
    and "(email, pw) \<in> {(''admin@example.com'', ''Admin1234!''), (''admin@ccip.dev'', ''Ccip1234!''),
           (''director@ccip.dev'', ''Ccip1234!''), (''sc@ccip.dev'', ''Ccip1234!'')}"
  shows "returns (login compare sha256 sign uuid email pw agent ip) (seeded hash)"
proof -
  obtain u where u: "List.find (\<lambda>u. u_email u = email) (users (seeded hash)) = Some u" "u_isActive u" "u_passwordHash u = hash pw"
    using assms(2) by (auto simp: seeded_def seed_user_def)
  have "refreshTokens (seeded hash) = []" by (simp add: seeded_def empty_db_def)
  with u assms(1)[of pw] show ?thesis
    by (simp add: returns_def login_def issue_tokens_def insert_refresh_token_def find_token_def now_def nextval_def prog_defs)
qed

text \<open>
  On an empty data base the seed script returns and writes exactly the rows of \<open>seeded\<close>: the
  organization, its eleven configuration entries, four users, the object, version 1.0 and five positions,
  each with its contract value over 100 million as its weight, although the trigger recomputes the
  weights after every single row.  That store satisfies the invariant of the system, and so does every
  store that any history from there leads to.
\<close>

theorem seed_correct:
  "seed hash empty_db = (Inr (), seeded hash)
   \<and> boqItems (seeded hash) =
       map (\<lambda>b. b\<lparr>bi_weightCoef := Some (bi_contractValue b / 100000000)\<rparr>) (item_rows 1 0 seed_items)
   \<and> {t. sys_steps (seeded hash) t} \<subseteq> {t. sys_ok t}"
  using sys_ok_kept[OF sys_steps_advances seeded_ok] seed_run seeded_weights by blast

text \<open>
  C38.  The seed script is idempotent: on whatever store it ran, with whatever passwords hashed then or
  now, running it again returns and changes nothing.
\<close>

theorem seed_idempotent:
  assumes "seed hash s = (Inr (), s')"
  shows "seed hash' s' = (Inr (), s')"
  using assms by (rule settled_run[OF seed_settles])

theorem seed_idempotent_witness:
  "seed (\<lambda>pw. ''other '' @ pw) (seeded (\<lambda>pw. pw)) = (Inr (), seeded (\<lambda>pw. pw))"
  by (rule seed_idempotent[OF seed_run])

end
