(* ===== verification/Web_Client.thy ===== *)
theory Web_Client
  imports Api
begin

text \<open>
  The browser side of \<^verbatim>\<open>apps/web\<close> that the pages share: the storage with the signed-in user
  (\<^verbatim>\<open>store/auth.ts\<close>), the requests of the API client (\<^verbatim>\<open>services/api.ts\<close>) and what comes back from the
  server, and the keys under which the hooks cache it (\<^verbatim>\<open>hooks\<close>).

  axios and the query cache are libraries: a call of the API client is a request handled by the server
  model, its outcome the answer or the status and message of the exception, as the exception filter of
  the framework writes them.
\<close>

section \<open>The storage\<close>

text \<open>A text in \<^verbatim>\<open>localStorage\<close> as \<^verbatim>\<open>JSON.parse\<close> reads it; \<open>Unreadable\<close> makes it throw.\<close>

datatype stored = Unreadable | Stored json

record browser =
  br_access_token :: "string option"
  br_auth_user :: "stored option"
  br_cookie :: "string option"
  br_agent :: string
  br_ip :: string

fun truthy :: "json \<Rightarrow> bool" where
  "truthy JNull = False"
| "truthy (JBool b) = b"
| "truthy (JNum x) = (x \<noteq> 0)"
| "truthy (JStr t) = (t \<noteq> [])"
| "truthy (JDate _) = True"
| "truthy (JArr _) = True"
| "truthy (JObj _) = True"

definition getAuthUser :: "browser \<Rightarrow> json" where
  "getAuthUser b = (case br_auth_user b of Some (Stored j) \<Rightarrow> j | _ \<Rightarrow> JNull)"

text \<open>\<^verbatim>\<open>user?.role\<close>\<close>

definition user_role_is :: "browser \<Rightarrow> string \<Rightarrow> bool" where
  "user_role_is b role \<longleftrightarrow> json_field (getAuthUser b) ''role'' = Some (JStr role)"

text \<open>\<^verbatim>\<open>RoleGate\<close>, and the test of the buttons that act on periods.\<close>

definition role_gate :: "browser \<Rightarrow> string list \<Rightarrow> bool" where
  "role_gate b allow \<longleftrightarrow> truthy (getAuthUser b) \<and> list_ex (user_role_is b) allow"

definition canAct :: "browser \<Rightarrow> bool" where
  "canAct b \<longleftrightarrow> user_role_is b ''stroycontrol'' \<or> user_role_is b ''admin''"

section \<open>Requests\<close>

text \<open>The interceptor: the access token, unless it is absent or empty, becomes the bearer token.\<close>

definition bearer_of :: "browser \<Rightarrow> string option" where
  "bearer_of b = (case br_access_token b of None \<Rightarrow> None | Some t \<Rightarrow> if t = [] then None else Some t)"

definition api_request :: "browser \<Rightarrow> route \<Rightarrow> http_request" where
  "api_request b r = \<lparr>hr_bearer = bearer_of b, hr_cookie = br_cookie b, hr_agent = br_agent b,
     hr_ip = br_ip b, hr_route = r\<rparr>"

text \<open>The status of an exception; anything but an \<^verbatim>\<open>HttpException\<close> is an internal error.\<close>

fun http_status :: "exn \<Rightarrow> int" where
  "http_status (BadRequestException _) = 400"
| "http_status (UnauthorizedException _) = 401"
| "http_status (ForbiddenException _) = 403"
| "http_status (NotFoundException _) = 404"
| "http_status (ConflictException _) = 409"
| "http_status (VersionConflictException _) = 409"
| "http_status (UnprocessableEntityException _) = 422"
| "http_status (InternalServerErrorException _) = 500"
| "http_status (ServiceUnavailableException _) = 503"
| "http_status (PrismaError _) = 500"
| "http_status (LibraryError _) = 500"

text \<open>What a failed call leaves in the browser: no response at all, or a status and a message.\<close>

datatype failure = NoResponse | HttpError int string

definition failure_of :: "exn \<Rightarrow> failure" where
  "failure_of x = HttpError (http_status x) (if isHttpException x then exn_message x else ''Internal server error'')"

definition call :: "env \<Rightarrow> browser \<Rightarrow> route \<Rightarrow> db \<Rightarrow> (failure + answer) \<times> db" where
  "call e b r s =
     (case handle e (api_request b r) s of (Inl x, s') \<Rightarrow> (Inl (failure_of x), s') | (Inr a, s') \<Rightarrow> (Inr a, s'))"

section \<open>The API client\<close>

definition dashboard_list :: "dashboard_query \<Rightarrow> route" where
  "dashboard_list params = RAnalytics params"

definition dashboard_refresh :: route where
  "dashboard_refresh = RAdmin ARefresh"

definition object_detail_call :: "int \<Rightarrow> route" where
  "object_detail_call i = RObjects (ODetail i)"

definition period_detail_call :: "int \<Rightarrow> route" where
  "period_detail_call i = RPeriods (PDetail i)"

definition period_open_call :: "int \<Rightarrow> route" where
  "period_open_call objectId = RPeriods (POpenFor objectId)"

definition upsert_fact_call :: "int \<Rightarrow> int \<Rightarrow> number \<Rightarrow> route" where
  "upsert_fact_call periodId boqItemId scVolume = RPeriods (PFact periodId boqItemId scVolume)"

definition period_close_call :: "int \<Rightarrow> route" where
  "period_close_call periodId = RPeriods (PClose periodId)"

definition gp_form_call :: "string \<Rightarrow> route" where
  "gp_form_call token = RPeriods (PGpForm token)"

text \<open>\<^verbatim>\<open>GpSubmitPayload\<close>: the name, and the position and volume of each item.\<close>

type_synonym gp_payload = "string \<times> (int \<times> number) list"

definition payload_item :: "int \<times> number \<Rightarrow> gp_item" where
  "payload_item x = \<lparr>gi_boqItemId = fst x, gi_gpVolume = snd x, gi_gpNote = None, gi_keys = [''boqItemId'', ''gpVolume'']\<rparr>"

definition gp_submit_call :: "string \<Rightarrow> gp_payload \<Rightarrow> route" where
  "gp_submit_call token payload = RPeriods (PSubmitGp token (fst payload) (map payload_item (snd payload)))"

section \<open>The cache\<close>

text \<open>
  The state of a query: disabled, waiting for its first answer, failed, or answered.  A repeated attempt
  after a failure sends the same request again, so a query ends as its last attempt does.
\<close>

datatype 'a query = Idle | Loading | Failed failure | Ready 'a

definition query_of :: "(answer \<Rightarrow> 'a option) \<Rightarrow> failure + answer \<Rightarrow> 'a query" where
  "query_of sel r = (case r of Inl f \<Rightarrow> Failed f | Inr a \<Rightarrow> (case sel a of None \<Rightarrow> Idle | Some x \<Rightarrow> Ready x))"

datatype key_part = KText string | KId int | KParams dashboard_query

definition dashboard_key :: "dashboard_query \<Rightarrow> key_part list" where
  "dashboard_key params = [KText ''dashboard'', KParams params]"

definition object_key :: "int \<Rightarrow> key_part list" where
  "object_key i = [KText ''objectDetail'', KId i]"

definition period_key_of :: "int \<Rightarrow> key_part list" where
  "period_key_of i = [KText ''period'', KId i]"

definition gp_key :: "string \<Rightarrow> key_part list" where
  "gp_key token = [KText ''gp-form'', KText token]"

text \<open>What the mutations invalidate on success: every query whose key starts with one of these.\<close>

definition close_invalidates :: "int \<Rightarrow> key_part list list" where
  "close_invalidates periodId = [[KText ''period'', KId periodId], [KText ''objectDetail''], [KText ''dashboard'']]"

definition open_invalidates :: "key_part list list" where
  "open_invalidates = [[KText ''objectDetail''], [KText ''dashboard'']]"

definition fact_invalidates :: "int \<Rightarrow> key_part list list" where
  "fact_invalidates periodId = [[KText ''period'', KId periodId]]"

definition refresh_invalidates :: "key_part list list" where
  "refresh_invalidates = [[KText ''dashboard''], [KText ''objectDetail'']]"

definition invalidated :: "key_part list list \<Rightarrow> key_part list \<Rightarrow> bool" where
  "invalidated ps key \<longleftrightarrow> list_ex (\<lambda>p. take (length p) key = p) ps"

section \<open>Calls and the server\<close>

lemma call_error: "handle e (api_request b r) s = (Inl x, s') \<Longrightarrow> call e b r s = (Inl (failure_of x), s')"
  by (simp add: call_def)

lemma call_answer: "handle e (api_request b r) s = (Inr a, s') \<Longrightarrow> call e b r s = (Inr a, s')"
  by (simp add: call_def)

lemma call_Inr: "call e b r s = (Inr a, s') \<Longrightarrow> handle e (api_request b r) s = (Inr a, s')"
  by (auto simp: call_def split: prod.splits sum.splits)

text \<open>A browser whose access token verifies as that of \<open>u\<close>.\<close>

definition signed_in_as :: "env \<Rightarrow> browser \<Rightarrow> jwt_payload \<Rightarrow> bool" where
  "signed_in_as e b u \<longleftrightarrow> Option.bind (bearer_of b) (e_verify e) = Some u"

lemma call_signed_in:
  assumes "signed_in_as e b u" and "\<not> is_public r" and "\<forall>rs. roles_of r = Some rs \<longrightarrow> jp_role u \<in> set rs"
    and "body_valid e r"
  shows "handle e (api_request b r) = dispatch e (api_request b r) (Some u) r"
  using assms
  by (auto simp: handle_def jwt_guard_def signed_in_as_def api_request_def roles_guard_def andThen_def guard_def
      split: option.splits)

lemma call_anonymous:
  assumes "bearer_of b = None" and "\<not> is_public r"
  shows "call e b r s = (Inl (HttpError 401 ''Unauthorized''), s)"
proof -
  have "handle e (api_request b r) s = (Inl (UnauthorizedException ''Unauthorized''), s)"
    using assms by (simp add: handle_def jwt_guard_def api_request_def bind_def throw_def)
  then show ?thesis by (simp add: call_error failure_of_def)
qed

end
