(* ===== verification/Gp_Form_Page.thy ===== *)
theory Gp_Form_Page
  imports Web_Client
begin

text \<open>
  The form in which the general contractor enters the volumes of a period, \<^verbatim>\<open>pages/GpFormPage.tsx\<close> with
  \<^verbatim>\<open>hooks/useGpForm.ts\<close>: the state of the page, its events, and what it shows, as a value: the texts in
  Russian are constructors, of the style only what depends on the state is kept.
\<close>

section \<open>Errors\<close>

datatype gp_error = GpErrExpired | GpErrSubmitted | GpErrNetwork

definition getGpError :: "failure \<Rightarrow> gp_error" where
  "getGpError err =
     (case err of
        NoResponse \<Rightarrow> GpErrNetwork
      | HttpError st msg \<Rightarrow>
          if st = 403 \<and> msg = ''GP_ALREADY_SUBMITTED'' then GpErrSubmitted
          else if st = 401 \<or> st = 403 then GpErrExpired
          else GpErrNetwork)"

section \<open>The state\<close>

record gp_page =
  gp_values :: "int \<Rightarrow> string option"
  gp_name :: string
  gp_touched :: bool
  gp_success :: bool

definition gp_initial :: gp_page where
  "gp_initial = \<lparr>gp_values = Map.empty, gp_name = [], gp_touched = False, gp_success = False\<rparr>"

definition isValid :: "gp_page \<Rightarrow> int \<Rightarrow> bool" where
  "isValid pg i =
     (let v = (case gp_values pg i of None \<Rightarrow> [] | Some t \<Rightarrow> js_trim t)
      in v \<noteq> [] \<and> (case parseFloat v of None \<Rightarrow> False | Some x \<Rightarrow> 0 \<le> x))"

definition filledCount :: "gp_form \<Rightarrow> gp_page \<Rightarrow> nat" where
  "filledCount data pg = length (filter (\<lambda>item. isValid pg (gf_boqItemId item)) (gf_items data))"

definition allFilled :: "gp_form \<Rightarrow> gp_page \<Rightarrow> bool" where
  "allFilled data pg \<longleftrightarrow> filledCount data pg = length (gf_items data)"

definition canSubmit :: "gp_form \<Rightarrow> gp_page \<Rightarrow> bool" where
  "canSubmit data pg \<longleftrightarrow> allFilled data pg \<and> js_trim (gp_name pg) \<noteq> []"

section \<open>The events\<close>

text \<open>\<^verbatim>\<open>parseFloat(values[id])\<close>, on an entry that is a number.\<close>

definition volume_of :: "gp_page \<Rightarrow> int \<Rightarrow> number" where
  "volume_of pg i =
     (case gp_values pg i of None \<Rightarrow> 0 | Some t \<Rightarrow> (case parseFloat t of None \<Rightarrow> 0 | Some x \<Rightarrow> x))"

definition handleSubmit :: "gp_form \<Rightarrow> gp_page \<Rightarrow> gp_page \<times> gp_payload option" where
  "handleSubmit data pg =
     (let pg' = pg\<lparr>gp_touched := True\<rparr>
      in if \<not> canSubmit data pg then (pg', None)
         else (pg', Some (js_trim (gp_name pg),
                 map (\<lambda>item. (gf_boqItemId item, volume_of pg (gf_boqItemId item))) (gf_items data))))"

definition onVolume :: "int \<Rightarrow> string \<Rightarrow> gp_page \<Rightarrow> gp_page" where
  "onVolume i t pg = pg\<lparr>gp_values := (gp_values pg)(i \<mapsto> t)\<rparr>"

definition onName :: "string \<Rightarrow> gp_page \<Rightarrow> gp_page" where
  "onName t pg = pg\<lparr>gp_name := t\<rparr>"

definition onSubmitted :: "gp_page \<Rightarrow> gp_page" where
  "onSubmitted pg = pg\<lparr>gp_success := True\<rparr>"

section \<open>What the page shows\<close>

definition C_text :: string where "C_text = ''#3d1f08''"
definition C_brown :: string where "C_brown = ''#7a5030''"
definition C_brown2 :: string where "C_brown2 = ''#9a6040''"
definition C_accent :: string where "C_accent = ''#d4824a''"
definition C_err :: string where "C_err = ''#c84a2a''"
definition C_green :: string where "C_green = ''#4a8a50''"

definition daysUntil :: "date \<Rightarrow> date \<Rightarrow> int" where
  "daysUntil deadline t = max 0 \<lceil>(of_int (deadline - t) :: number) / of_int MS_PER_DAY\<rceil>"

definition progressPct :: "gp_form \<Rightarrow> gp_page \<Rightarrow> int" where
  "progressPct data pg =
     (if 0 < length (gf_items data)
      then js_round (of_nat (filledCount data pg) / of_nat (length (gf_items data)) * 100) else 0)"

definition progressColor :: "gp_form \<Rightarrow> gp_page \<Rightarrow> string" where
  "progressColor data pg =
     (if gp_touched pg \<and> \<not> allFilled data pg then C_err
      else if progressPct data pg = 100 then C_green else C_accent)"

text \<open>The second line of a position: \<^emph>\<open>must be filled in\<close>, or the planned volume with its unit.\<close>

datatype gp_caption = MustFill | Planned number string

record gp_row =
  gr_boqItemId :: int
  gr_error :: bool
  gr_ruled :: bool
  gr_nameColor :: string
  gr_name :: string
  gr_captionColor :: string
  gr_caption :: gp_caption
  gr_value :: string
  gr_inputColor :: string
  gr_unit :: string

definition gp_row_of :: "gp_form \<Rightarrow> gp_page \<Rightarrow> nat \<Rightarrow> gp_form_item \<Rightarrow> gp_row" where
  "gp_row_of data pg idx item =
     (let hasError = gp_touched pg \<and> \<not> isValid pg (gf_boqItemId item);
          isFilled = isValid pg (gf_boqItemId item)
      in \<lparr>gr_boqItemId = gf_boqItemId item, gr_error = hasError, gr_ruled = (idx + 1 < length (gf_items data)),
          gr_nameColor = (if hasError then C_err else if isFilled then C_brown else C_text),
          gr_name = gf_name item,
          gr_captionColor = (if hasError then C_err else C_brown),
          gr_caption = (if hasError then MustFill else Planned (gf_planVolume item) (gf_unit item)),
          gr_value = (case gp_values pg (gf_boqItemId item) of None \<Rightarrow> [] | Some t \<Rightarrow> t),
          gr_inputColor = (if hasError then C_err else if isFilled then C_brown else C_accent),
          gr_unit = gf_unit item\<rparr>)"

text \<open>The line beside the button: how many positions are missing, or \<^emph>\<open>the data are sent once only\<close>.\<close>

datatype gp_hint = MissingPositions nat | SentOnce

record gp_view =
  gv_today :: date
  gv_periodNumber :: int
  gv_objectName :: string
  gv_deadline :: "date option"
  gv_days :: "int option"
  gv_count :: nat
  gv_rows :: "gp_row list"
  gv_counterColor :: string
  gv_filled :: nat
  gv_tick :: bool
  gv_barColor :: string
  gv_barPct :: int
  gv_name :: string
  gv_hintColor :: string
  gv_hint :: gp_hint
  gv_disabled :: bool

definition gp_view_of :: "date \<Rightarrow> gp_form \<Rightarrow> gp_page \<Rightarrow> gp_view" where
  "gp_view_of t data pg =
     \<lparr>gv_today = t - t mod MS_PER_DAY, gv_periodNumber = gf_periodNumber data, gv_objectName = gf_objectName data,
      gv_deadline = gf_gpTokenExpiresAt data, gv_days = map_option (\<lambda>d. daysUntil d t) (gf_gpTokenExpiresAt data),
      gv_count = length (gf_items data),
      gv_rows = map (\<lambda>idx. gp_row_of data pg idx (gf_items data ! idx)) [0..<length (gf_items data)],
      gv_counterColor = (if gp_touched pg \<and> \<not> allFilled data pg then C_err
                         else if progressPct data pg = 100 then C_green else C_brown2),
      gv_filled = filledCount data pg, gv_tick = (progressPct data pg = 100),
      gv_barColor = progressColor data pg, gv_barPct = progressPct data pg,
      gv_name = gp_name pg,
      gv_hintColor = (if gp_touched pg \<and> \<not> canSubmit data pg then C_err else C_brown),
      gv_hint = (if gp_touched pg \<and> \<not> canSubmit data pg
                 then MissingPositions (length (gf_items data) - filledCount data pg) else SentOnce),
      gv_disabled = (\<not> canSubmit data pg)\<rparr>"

datatype gp_screen =
    GpLoading
  | GpExpired
  | GpAlreadySubmitted
  | GpBlank
  | GpSuccess string int string
  | GpForm gp_view

definition gp_screen_of :: "date \<Rightarrow> gp_form query \<Rightarrow> gp_page \<Rightarrow> gp_screen" where
  "gp_screen_of t q pg =
     (case q of
        Loading \<Rightarrow> GpLoading
      | Failed err \<Rightarrow> (if getGpError err = GpErrSubmitted then GpAlreadySubmitted else GpExpired)
      | Idle \<Rightarrow> GpBlank
      | Ready data \<Rightarrow>
          if gp_success pg then GpSuccess (gp_name pg) (gf_periodNumber data) (gf_objectName data)
          else GpForm (gp_view_of t data pg))"

text \<open>\<^verbatim>\<open>useGpFormData\<close>: the query is enabled when there is a token in the path.\<close>

definition gp_form_data :: "env \<Rightarrow> browser \<Rightarrow> string \<Rightarrow> db \<Rightarrow> gp_form query" where
  "gp_form_data e b token s =
     (if token = [] then Idle
      else query_of (\<lambda>a. case a of AGpForm d \<Rightarrow> Some d | _ \<Rightarrow> None) (fst (call e b (gp_form_call token) s)))"

text \<open>The screen behind a link, when the answer has come.\<close>

definition gp_link :: "env \<Rightarrow> browser \<Rightarrow> string \<Rightarrow> db \<Rightarrow> gp_page \<Rightarrow> gp_screen" where
  "gp_link e b token s pg = gp_screen_of (clock s) (gp_form_data e b token s) pg"

section \<open>Filling in the form\<close>

lemma isValid_parse:
  "isValid pg i \<longleftrightarrow> (\<exists>t x. gp_values pg i = Some t \<and> parseFloat t = Some x \<and> 0 \<le> x)"
proof (cases "gp_values pg i")
  case (Some t)
  have "parseFloat [] = None" by code_simp
  then have "js_trim t = [] \<Longrightarrow> parseFloat t = None" using parseFloat_trim[of t] by simp
  then show ?thesis using Some by (cases "parseFloat t") (auto simp: isValid_def Let_def parseFloat_trim)
qed (simp add: isValid_def)

lemma allFilled_iff: "allFilled data pg \<longleftrightarrow> (\<forall>item \<in> set (gf_items data). isValid pg (gf_boqItemId item))"
proof -
  have "length (filter P xs) = length xs \<longleftrightarrow> (\<forall>x \<in> set xs. P x)" for P and xs :: "gp_form_item list"
  proof (induction xs)
    case (Cons x xs)
    have "length (filter P xs) \<noteq> Suc (length xs)" using length_filter_le[of P xs] by linarith
    with Cons show ?case by auto
  qed simp
  then show ?thesis by (simp add: allFilled_def filledCount_def)
qed

lemma filledCount_le: "filledCount data pg \<le> length (gf_items data)"
  by (simp add: filledCount_def)

lemma volume_of_valid: "isValid pg i \<Longrightarrow> \<exists>t. gp_values pg i = Some t \<and> parseFloat t = Some (volume_of pg i) \<and> 0 \<le> volume_of pg i"
  by (auto simp: isValid_parse volume_of_def)

lemma progress_bounds: "0 \<le> progressPct data pg \<and> progressPct data pg \<le> 100"
proof -
  let ?n = "of_nat (length (gf_items data)) :: number" and ?k = "of_nat (filledCount data pg) :: number"
  have "?k \<le> ?n" using filledCount_le by simp
  then have "0 \<le> ?k / ?n * 100 \<and> ?k / ?n * 100 \<le> 100" by (cases "?n = 0") (simp_all add: divide_le_eq)
  then show ?thesis
    using js_round_mono[of 0 "?k / ?n * 100"] js_round_mono[of "?k / ?n * 100" 100]
      js_round_of_int[of 0] js_round_of_int[of 100] by (simp add: progressPct_def)
qed

end
