(* ===== verification/Period_Page.thy ===== *)
theory Period_Page
  imports Web_Client
begin

text \<open>
  The page of a period, \<^verbatim>\<open>pages/PeriodPage.tsx\<close> with \<^verbatim>\<open>hooks/usePeriodDetail.ts\<close>, \<^verbatim>\<open>useUpsertFact.ts\<close> and
  \<^verbatim>\<open>useClosePeriod.ts\<close>, and the small components pages share (\<^verbatim>\<open>components\<close>).  Russian texts are
  constructors.
\<close>

section \<open>Components\<close>

text \<open>\<^verbatim>\<open>StepperTabs\<close>: the state and the number of every step; \<^verbatim>\<open>indexOf\<close> is \<open>- 1\<close> when the step is not there.\<close>

datatype step_state = StepDone | StepActive | StepAhead

definition index_of :: "'a \<Rightarrow> 'a list \<Rightarrow> int" where
  "index_of x xs = (if x \<in> set xs then int (length (takeWhile (\<lambda>y. y \<noteq> x) xs)) else - 1)"

definition stepper_tabs :: "'a list \<Rightarrow> 'a \<Rightarrow> (string \<times> step_state \<times> 'a) list" where
  "stepper_tabs steps current =
     map (\<lambda>i. (pad_left 2 (show_nat (i + 1)),
               if int i < index_of current steps then StepDone
               else if int i = index_of current steps then StepActive else StepAhead,
               steps ! i)) [0..<length steps]"

text \<open>\<^verbatim>\<open>ProgressBar\<close>: nothing, or the width of the bar and the number beside it.\<close>

definition progress_bar :: "number option \<Rightarrow> (number \<times> int) option" where
  "progress_bar value =
     (case value of None \<Rightarrow> None | Some v \<Rightarrow> let pct = min 100 (max 0 v) in Some (pct, js_round pct))"

text \<open>\<^verbatim>\<open>StaleBanner\<close>: no banner, or the age of the data in minutes or hours, or an unknown age.\<close>

datatype age = MinutesAgo int | HoursAgo int | UnknownAge

definition formatAge :: "date \<Rightarrow> date \<Rightarrow> age" where
  "formatAge t refreshedAt =
     (let mins = (t - refreshedAt) div 60000 in if mins < 60 then MinutesAgo mins else HoursAgo (mins div 60))"

definition stale_banner :: "date \<Rightarrow> staleness_meta option \<Rightarrow> age option" where
  "stale_banner t meta =
     (case meta of
        None \<Rightarrow> None
      | Some m \<Rightarrow>
          if \<not> sm_isStale m then None
          else Some (case sm_refreshedAt m of None \<Rightarrow> UnknownAge | Some r \<Rightarrow> formatAge t r))"

section \<open>The period\<close>

datatype step = StepOpen | StepGpSubmitted | StepVerification | StepClosed

definition STEPS :: "step list" where
  "STEPS = [StepOpen, StepGpSubmitted, StepVerification, StepClosed]"

text \<open>The status as the server writes it, and \<^verbatim>\<open>STATUS_TO_STEP[status]\<close>.\<close>

fun period_status_text :: "period_status \<Rightarrow> string" where
  "period_status_text POpen = ''open''"
| "period_status_text PGpSubmitted = ''gp_submitted''"
| "period_status_text PVerification = ''verification''"
| "period_status_text PClosed = ''closed''"
| "period_status_text PForceClosed = ''force_closed''"

definition STATUS_TO_STEP :: "string \<Rightarrow> step option" where
  "STATUS_TO_STEP st =
     (if st = ''open'' then Some StepOpen
      else if st = ''gp_submitted'' then Some StepGpSubmitted
      else if st = ''verification'' then Some StepVerification
      else if st = ''closed'' then Some StepClosed else None)"

definition currentStep :: "string \<Rightarrow> step" where
  "currentStep st = (case STATUS_TO_STEP st of None \<Rightarrow> StepOpen | Some x \<Rightarrow> x)"

section \<open>Errors\<close>

datatype error_text =
    PeriodAlreadyOpenText | ZeroReportText | OpenDiscrepanciesText | WrongStatusText | LockTimeoutText
  | OtherText string | SomeErrorText

definition ERROR_LABELS :: "string \<Rightarrow> error_text option" where
  "ERROR_LABELS msg =
     (if msg = ''PERIOD_ALREADY_OPEN'' then Some PeriodAlreadyOpenText
      else if msg = ''ZERO_REPORT_NOT_APPROVED'' then Some ZeroReportText
      else if msg = ''OPEN_DISCREPANCIES_EXIST'' then Some OpenDiscrepanciesText
      else if msg = ''PERIOD_WRONG_STATUS'' then Some WrongStatusText
      else if msg = ''PERIOD_LOCK_TIMEOUT'' then Some LockTimeoutText else None)"

definition extractError :: "failure \<Rightarrow> error_text" where
  "extractError err =
     (case err of
        NoResponse \<Rightarrow> SomeErrorText
      | HttpError _ msg \<Rightarrow> (case ERROR_LABELS msg of None \<Rightarrow> OtherText msg | Some t \<Rightarrow> t))"

section \<open>What may be done\<close>

definition canEdit :: "period_detail \<Rightarrow> bool" where
  "canEdit d \<longleftrightarrow> period_status_text (pd_status d) = ''gp_submitted'' \<or> period_status_text (pd_status d) = ''verification''"

definition showEdit :: "browser \<Rightarrow> period_detail \<Rightarrow> bool" where
  "showEdit b d \<longleftrightarrow> canAct b \<and> canEdit d"

definition canClose :: "period_detail \<Rightarrow> bool" where
  "canClose d \<longleftrightarrow> period_status_text (pd_status d) = ''verification'' \<and> pd_openDiscrepancyCount d = 0"

text \<open>The entries being typed, and the request that \<^verbatim>\<open>OK\<close> sends, if the entry is a number.\<close>

type_synonym edit_values = "int \<Rightarrow> string option"

definition handleFactSubmit :: "int \<Rightarrow> edit_values \<Rightarrow> int \<Rightarrow> route option" where
  "handleFactSubmit periodId editValues boqItemId =
     (case parseFloat (case editValues boqItemId of None \<Rightarrow> [] | Some t \<Rightarrow> t) of
        None \<Rightarrow> None
      | Some scVolume \<Rightarrow> Some (upsert_fact_call periodId boqItemId scVolume))"

definition onFactSaved :: "int \<Rightarrow> edit_values \<Rightarrow> edit_values" where
  "onFactSaved boqItemId editValues = editValues(boqItemId \<mapsto> [])"

section \<open>What the page shows\<close>

datatype close_hint = OpenDiscrepanciesHint nat | OnlyInVerificationHint

record close_bar =
  cb_pending :: bool
  cb_disabled :: bool
  cb_hint :: "close_hint option"

definition close_bar_of :: "bool \<Rightarrow> period_detail \<Rightarrow> close_bar" where
  "close_bar_of pending d =
     \<lparr>cb_pending = pending, cb_disabled = (\<not> canClose d \<or> pending),
      cb_hint =
        (if period_status_text (pd_status d) = ''verification'' \<and> 0 < pd_openDiscrepancyCount d
         then Some (OpenDiscrepanciesHint (pd_openDiscrepancyCount d))
         else if period_status_text (pd_status d) \<noteq> ''verification'' \<and> period_status_text (pd_status d) \<noteq> ''closed''
         then Some OnlyInVerificationHint else None)\<rparr>"

datatype discrepancy_pill = NoPill | ConfirmedPill | DiscrepancyPill

record position_row =
  pr_boqItemId :: int
  pr_marked :: bool
  pr_workCode :: string
  pr_name :: string
  pr_unit :: string
  pr_planVolume :: number
  pr_gpVolume :: "number option"
  pr_scVolume :: "number option"
  pr_pill :: discrepancy_pill
  pr_input :: "(string \<times> bool) option"

definition position_row_of :: "bool \<Rightarrow> bool \<Rightarrow> edit_values \<Rightarrow> detail_position \<Rightarrow> position_row" where
  "position_row_of edit pending editValues pos =
     (let st = map_option discrepancy_status_text (dp_discrepancyStatus pos)
      in \<lparr>pr_boqItemId = dp_boqItemId pos, pr_marked = (st = Some ''discrepancy''),
          pr_workCode = dp_workCode pos, pr_name = dp_name pos, pr_unit = dp_unit pos,
          pr_planVolume = dp_planVolume pos, pr_gpVolume = dp_gpVolume pos, pr_scVolume = dp_scVolume pos,
          pr_pill = (if st = None then NoPill
                     else if st = Some ''confirmed'' then ConfirmedPill else DiscrepancyPill),
          pr_input = (if edit
                      then Some (case editValues (dp_boqItemId pos) of None \<Rightarrow> [] | Some t \<Rightarrow> t, pending)
                      else None)\<rparr>)"

record period_view =
  pv_backTo :: int
  pv_periodNumber :: int
  pv_status :: string
  pv_steps :: "(string \<times> step_state \<times> step) list"
  pv_closeBar :: "close_bar option"
  pv_errors :: "error_text list"
  pv_rows :: "position_row list"

datatype period_screen = PeriodLoading | PeriodNotFound | PeriodShown period_view

text \<open>The mutations: whether one is under way, and the error of the last one.\<close>

record mutation =
  mu_pending :: bool
  mu_error :: "failure option"

definition error_lines :: "mutation \<Rightarrow> error_text list" where
  "error_lines m = (case mu_error m of None \<Rightarrow> [] | Some err \<Rightarrow> [extractError err])"

definition period_screen_of ::
  "browser \<Rightarrow> period_detail query \<Rightarrow> mutation \<Rightarrow> mutation \<Rightarrow> edit_values \<Rightarrow> period_screen" where
  "period_screen_of b q closing saving editValues =
     (case q of
        Loading \<Rightarrow> PeriodLoading
      | Failed _ \<Rightarrow> PeriodNotFound
      | Idle \<Rightarrow> PeriodNotFound
      | Ready d \<Rightarrow> PeriodShown
          \<lparr>pv_backTo = pd_objectId d, pv_periodNumber = pd_periodNumber d, pv_status = period_status_text (pd_status d),
           pv_steps = stepper_tabs STEPS (currentStep (period_status_text (pd_status d))),
           pv_closeBar = (if canAct b then Some (close_bar_of (mu_pending closing) d) else None),
           pv_errors = error_lines closing @ error_lines saving,
           pv_rows = map (position_row_of (showEdit b d) (mu_pending saving) editValues) (pd_positions d)\<rparr>)"

text \<open>\<^verbatim>\<open>usePeriodDetail\<close>\<close>

definition period_data :: "env \<Rightarrow> browser \<Rightarrow> int \<Rightarrow> db \<Rightarrow> period_detail query" where
  "period_data e b i s =
     query_of (\<lambda>a. case a of ADetail d \<Rightarrow> Some d | _ \<Rightarrow> None) (fst (call e b (period_detail_call i) s))"

end
