(* ===== verification/Object_Pages.thy ===== *)
theory Object_Pages
  imports Period_Page
begin

text \<open>
  The pages of the portfolio and of an object, \<^verbatim>\<open>pages/DashboardPage.tsx\<close> and \<^verbatim>\<open>ObjectDetailPage.tsx\<close>, with
  \<^verbatim>\<open>hooks/useDashboard.ts\<close>, \<^verbatim>\<open>useObjectDetail.ts\<close>, \<^verbatim>\<open>useOpenPeriod.ts\<close> and \<^verbatim>\<open>useRefreshDashboard.ts\<close>.
  A date is kept where the page writes it in Russian.
\<close>

section \<open>The portfolio\<close>

datatype refreshed_text = NoDate | JustNow | RefreshedMinutes int | RefreshedHours int

definition formatRefreshed :: "date \<Rightarrow> date option \<Rightarrow> refreshed_text" where
  "formatRefreshed t refreshedAt =
     (case refreshedAt of
        None \<Rightarrow> NoDate
      | Some d \<Rightarrow>
          let mins = (t - d) div 60000
          in if mins < 1 then JustNow else if mins < 60 then RefreshedMinutes mins else RefreshedHours (mins div 60))"

definition initial_query :: dashboard_query where
  "initial_query =
     \<lparr>dq_search = None, dq_status = None, dq_objectClass = None, dq_gapOnly = None, dq_sort = Some GapFirst,
      dq_page = Some 1, dq_pageSize = Some 50\<rparr>"

text \<open>The events: the checkbox and the order go back to the first page.\<close>

definition onGapOnly :: "bool \<Rightarrow> dashboard_query \<Rightarrow> dashboard_query" where
  "onGapOnly checked q = q\<lparr>dq_gapOnly := (if checked then Some True else None), dq_page := Some 1\<rparr>"

definition onSort :: "dashboard_sort \<Rightarrow> dashboard_query \<Rightarrow> dashboard_query" where
  "onSort srt q = q\<lparr>dq_sort := Some srt, dq_page := Some 1\<rparr>"

definition page_number :: "dashboard_query \<Rightarrow> nat" where
  "page_number q = (case dq_page q of None \<Rightarrow> 1 | Some n \<Rightarrow> n)"

definition onBack :: "dashboard_query \<Rightarrow> dashboard_query" where
  "onBack q = q\<lparr>dq_page := Some (page_number q - 1)\<rparr>"

definition onForward :: "dashboard_query \<Rightarrow> dashboard_query" where
  "onForward q = q\<lparr>dq_page := Some (page_number q + 1)\<rparr>"

definition page_size :: "dashboard_query \<Rightarrow> nat" where
  "page_size q = (case dq_pageSize q of None \<Rightarrow> 50 | Some n \<Rightarrow> n)"

definition totalPages :: "dashboard_query \<Rightarrow> dashboard option \<Rightarrow> nat" where
  "totalPages q data =
     (case data of None \<Rightarrow> 1 | Some d \<Rightarrow> nat \<lceil>(of_nat (da_total d) :: number) / of_nat (page_size q)\<rceil>)"

text \<open>The disabled buttons; they are shown below a table with rows only.\<close>

definition backDisabled :: "dashboard_query \<Rightarrow> bool" where
  "backDisabled q \<longleftrightarrow> page_number q \<le> 1"

definition forwardDisabled :: "dashboard_query \<Rightarrow> dashboard option \<Rightarrow> bool" where
  "forwardDisabled q data \<longleftrightarrow> totalPages q data \<le> page_number q"

text \<open>The figures: how many rows show a gap, in two digits, and the mean of the readiness there is.\<close>

definition gap_figure :: "dashboard \<Rightarrow> string" where
  "gap_figure d = pad_left 2 (show_nat (length (filter di_gapFlag (da_items d))))"

definition mean_readiness :: "dashboard \<Rightarrow> int option" where
  "mean_readiness d =
     (let ps = List.map_filter di_objReadinessPct (da_items d)
      in if ps = [] then None else Some (js_round (sum_list ps / of_nat (length ps))))"

datatype gap_pill = NoGapCell | GapPill | InPlanPill

datatype object_status_text = ActiveText | PausedText | ClosedText | RawStatus string

definition STATUS_LABELS :: "string \<Rightarrow> object_status_text" where
  "STATUS_LABELS st =
     (if st = ''active'' then ActiveText else if st = ''paused'' then PausedText
      else if st = ''closed'' then ClosedText else RawStatus st)"

record dashboard_row =
  dr_link :: int
  dr_marked :: bool
  dr_name :: string
  dr_class :: string
  dr_status :: object_status_text
  dr_readiness :: "(number \<times> int) option"
  dr_forecast :: "(date \<times> date option) option"
  dr_gap :: gap_pill

definition dashboard_row_of :: "dashboard_item \<Rightarrow> dashboard_row" where
  "dashboard_row_of r =
     \<lparr>dr_link = di_objectId r, dr_marked = di_gapFlag r, dr_name = di_name r,
      dr_class = (case di_objectClass r of None \<Rightarrow> [] | Some c \<Rightarrow> c), dr_status = STATUS_LABELS (di_status r),
      dr_readiness = (if di_hasAnalytics r then progress_bar (di_objReadinessPct r) else None),
      dr_forecast = (if di_hasAnalytics r
                     then map_option (\<lambda>d. (d, di_criticalPathForecastDate r)) (di_weightedForecastDate r) else None),
      dr_gap = (if di_hasAnalytics r then if di_gapFlag r then GapPill else InPlanPill else NoGapCell)\<rparr>"

datatype dashboard_body = BodyLoading | BodyError | BodyEmpty | BodyRows "dashboard_row list" bool bool

record dashboard_view =
  dv_banner :: "age option"
  dv_total :: "nat option"
  dv_refreshed :: "refreshed_text option"
  dv_refreshButton :: bool
  dv_figures :: "(nat \<times> string \<times> int option) option"
  dv_gapOnly :: bool
  dv_sort :: dashboard_sort
  dv_body :: dashboard_body

definition data_of :: "'a query \<Rightarrow> 'a option" where
  "data_of q = (case q of Ready d \<Rightarrow> Some d | _ \<Rightarrow> None)"

definition dashboard_view_of :: "date \<Rightarrow> browser \<Rightarrow> dashboard_query \<Rightarrow> dashboard query \<Rightarrow> dashboard_view" where
  "dashboard_view_of t b q res =
     (let data = data_of res
      in \<lparr>dv_banner = stale_banner t (map_option da_meta data), dv_total = map_option da_total data,
          dv_refreshed = map_option (\<lambda>d. formatRefreshed t (sm_refreshedAt (da_meta d))) data,
          dv_refreshButton = role_gate b [''admin''],
          dv_figures = map_option (\<lambda>d. (da_total d, gap_figure d, mean_readiness d)) data,
          dv_gapOnly = (case dq_gapOnly q of None \<Rightarrow> False | Some g \<Rightarrow> g),
          dv_sort = (case dq_sort q of None \<Rightarrow> GapFirst | Some x \<Rightarrow> x),
          dv_body =
            (case res of
               Loading \<Rightarrow> BodyLoading
             | Failed _ \<Rightarrow> BodyError
             | Idle \<Rightarrow> BodyLoading
             | Ready d \<Rightarrow>
                 if da_items d = [] then BodyEmpty
                 else BodyRows (map dashboard_row_of (da_items d)) (backDisabled q) (forwardDisabled q data))\<rparr>)"

definition dashboard_data :: "env \<Rightarrow> browser \<Rightarrow> dashboard_query \<Rightarrow> db \<Rightarrow> dashboard query" where
  "dashboard_data e b q s =
     query_of (\<lambda>a. case a of ADashboard d \<Rightarrow> Some d | _ \<Rightarrow> None) (fst (call e b (dashboard_list q) s))"

section \<open>The page of an object\<close>

definition PERIOD_STATUS_LABELS :: "string \<Rightarrow> step option" where
  "PERIOD_STATUS_LABELS st =
     (if st = ''open'' then Some StepOpen
      else if st = ''gp_submitted'' then Some StepGpSubmitted
      else if st = ''verification'' then Some StepVerification
      else if st = ''closed'' then Some StepClosed else None)"

text \<open>A status with its label, or the raw status where there is none.\<close>

datatype status_label = Labelled step | RawPeriodStatus string

definition period_label :: "string \<Rightarrow> status_label" where
  "period_label st = (case PERIOD_STATUS_LABELS st of None \<Rightarrow> RawPeriodStatus st | Some l \<Rightarrow> Labelled l)"

record object_kpis =
  ok_readiness :: "(number \<times> int) option option"
  ok_weighted :: "date option"
  ok_critical :: "date option"
  ok_late :: bool
  ok_gap :: bool

text \<open>\<open>ok_readiness\<close> is \<open>None\<close> where the page says that there are no data before a first period is closed.\<close>

definition object_kpis_of :: "object_detail \<Rightarrow> object_kpis" where
  "object_kpis_of d =
     (let cur = ob_current d;
          gap = (case cur of None \<Rightarrow> False | Some c \<Rightarrow> dc_gapFlag c)
      in \<lparr>ok_readiness = (if ob_hasAnalytics d then Some (progress_bar (Option.bind cur dc_objReadinessPct)) else None),
          ok_weighted = Option.bind cur dc_weightedForecastDate,
          ok_critical = Option.bind cur dc_criticalPathForecastDate, ok_late = gap, ok_gap = gap\<rparr>)"

record history_line =
  hl_periodNumber :: int
  hl_closedAt :: "date option"
  hl_readiness :: "(number \<times> int) option"
  hl_forecast :: "date option"
  hl_gap :: bool
  hl_boqVersion :: string

definition history_line_of :: "detail_history \<Rightarrow> history_line" where
  "history_line_of h =
     \<lparr>hl_periodNumber = dh_periodNumber h, hl_closedAt = dh_closedAt h,
      hl_readiness = progress_bar (Some (dh_objectReadinessPct h)), hl_forecast = dh_weightedForecastDate h,
      hl_gap = dh_gapFlag h, hl_boqVersion = dh_boqVersionNumber h\<rparr>"

text \<open>The line under the title: class, address and permit number, those that are given.\<close>

datatype meta_part = PlainPart string | PermitPart string

definition hero_meta :: "object_passport \<Rightarrow> meta_part list" where
  "hero_meta obj =
     map PlainPart (filter (\<lambda>t. t \<noteq> []) (List.map_filter (\<lambda>x. x) [pp_objectClass obj, pp_address obj]))
     @ map PermitPart (filter (\<lambda>t. t \<noteq> []) (List.map_filter (\<lambda>x. x) [pp_permitNumber obj]))"

record current_period_view =
  cp_number :: int
  cp_openedAt :: date
  cp_label :: status_label
  cp_link :: int

record object_view =
  ov_banner :: "age option"
  ov_name :: string
  ov_statusOk :: bool
  ov_status :: object_status_text
  ov_meta :: "meta_part list"
  ov_kpis :: object_kpis
  ov_current :: "current_period_view option"
  ov_openButton :: "bool option"
  ov_boq :: "(string \<times> nat) option"
  ov_participants :: "detail_participant list"
  ov_history :: "history_line list"

datatype object_screen = ObjectLoading | ObjectNotFound | ObjectShown object_view

text \<open>\<open>ov_openButton\<close>: no button, or a button that is disabled or not.\<close>

definition object_view_of :: "date \<Rightarrow> browser \<Rightarrow> mutation \<Rightarrow> object_detail \<Rightarrow> object_view" where
  "object_view_of t b opening d =
     \<lparr>ov_banner = stale_banner t (Some (ob_meta d)),
      ov_name = pp_name (ob_object d), ov_statusOk = (pp_status (ob_object d) = ''active''),
      ov_status = STATUS_LABELS (pp_status (ob_object d)), ov_meta = hero_meta (ob_object d),
      ov_kpis = object_kpis_of d,
      ov_current = map_option (\<lambda>p. \<lparr>cp_number = dper_periodNumber p, cp_openedAt = dper_openedAt p,
                       cp_label = period_label (period_status_text (dper_status p)), cp_link = dper_id p\<rparr>)
                     (ob_currentPeriod d),
      ov_openButton = (if ob_currentPeriod d = None \<and> canAct b then Some (mu_pending opening) else None),
      ov_boq = map_option (\<lambda>v. (db_versionNumber v, db_itemsCount v)) (ob_activeBoq d),
      ov_participants = ob_participants d, ov_history = map history_line_of (ob_history d)\<rparr>"

definition object_screen_of :: "date \<Rightarrow> browser \<Rightarrow> mutation \<Rightarrow> object_detail query \<Rightarrow> object_screen" where
  "object_screen_of t b opening q =
     (case q of
        Loading \<Rightarrow> ObjectLoading
      | Failed _ \<Rightarrow> ObjectNotFound
      | Idle \<Rightarrow> ObjectNotFound
      | Ready d \<Rightarrow> ObjectShown (object_view_of t b opening d))"

definition object_data :: "env \<Rightarrow> browser \<Rightarrow> int \<Rightarrow> db \<Rightarrow> object_detail query" where
  "object_data e b i s =
     query_of (\<lambda>a. case a of AObjectDetail d \<Rightarrow> Some d | _ \<Rightarrow> None) (fst (call e b (object_detail_call i) s))"

end
