(* ===== verification/Web_Routes.thy ===== *)
theory Web_Routes
  imports Web_Client
begin

text \<open>
  The routes of the client (\<^verbatim>\<open>main.tsx\<close>) and the frame around its pages (\<^verbatim>\<open>components/AppShell.tsx\<close>).  A path is
  the list of its segments, which the router compares without regard to case.
\<close>

section \<open>Routes\<close>

datatype page =
    DashboardAt
  | ObjectAt string
  | PeriodAt string
  | GpAt string
  | ForbiddenAt

type_synonym path = "string list"

text \<open>\<^verbatim>\<open>ProtectedRoute\<close>\<close>

definition protected_open :: "browser \<Rightarrow> bool" where
  "protected_open b \<longleftrightarrow> truthy (getAuthUser b) \<and> \<not> user_role_is b ''gp''"

text \<open>What a path leads to: a page, or a redirection (\<^verbatim>\<open><Navigate to=\<dots> replace />\<close>).\<close>

datatype target = Show page | GoTo path

definition guarded :: "browser \<Rightarrow> page \<Rightarrow> target" where
  "guarded b pg = (if protected_open b then Show pg else GoTo [''forbidden''])"

definition lower :: "string \<Rightarrow> string" where
  "lower t = map to_lower t"

definition match_route :: "browser \<Rightarrow> path \<Rightarrow> target" where
  "match_route b segs =
     (case segs of
        [] \<Rightarrow> GoTo [''dashboard'']
      | [a] \<Rightarrow>
          if lower a = ''dashboard'' then guarded b DashboardAt
          else if lower a = ''forbidden'' then Show ForbiddenAt
          else GoTo [''dashboard'']
      | [a, c] \<Rightarrow>
          if lower a = ''objects'' then guarded b (ObjectAt c)
          else if lower a = ''periods'' then guarded b (PeriodAt c)
          else if lower a = ''gp'' then Show (GpAt c)
          else GoTo [''dashboard'']
      | _ \<Rightarrow> GoTo [''dashboard''])"

lemma lower_segments [simp]:
  "lower ''dashboard'' = ''dashboard''" "lower ''forbidden'' = ''forbidden''" "lower ''objects'' = ''objects''"
  "lower ''periods'' = ''periods''" "lower ''discrepancies'' = ''discrepancies''" "lower ''settings'' = ''settings''"
  by code_simp+

text \<open>How far a path is from a page: \<^verbatim>\<open>/forbidden\<close> is open to all, and the dashboard redirects only there.\<close>

definition redirects_left :: "path \<Rightarrow> nat" where
  "redirects_left segs = (if segs = [''forbidden''] then 0 else if segs = [''dashboard''] then 1 else 2)"

lemma redirect_closer: "match_route b segs = GoTo segs' \<Longrightarrow> redirects_left segs' < redirects_left segs"
  by (auto simp: match_route_def guarded_def redirects_left_def split: list.splits if_splits)

text \<open>The router follows redirections until a page is shown.\<close>

function navigate :: "browser \<Rightarrow> path \<Rightarrow> page" where
  "navigate b segs = (case match_route b segs of Show pg \<Rightarrow> pg | GoTo segs' \<Rightarrow> navigate b segs')"
  by pat_completeness auto
termination
  by (relation "measure (\<lambda>(b, segs). redirects_left segs)") (auto dest: redirect_closer)

declare navigate.simps [simp del]

text \<open>The same with the number of redirections bounded: \<open>None\<close> when the bound is used up.\<close>

fun navigate_within :: "nat \<Rightarrow> browser \<Rightarrow> path \<Rightarrow> page option" where
  "navigate_within k b segs =
     (case match_route b segs of
        Show pg \<Rightarrow> Some pg
      | GoTo segs' \<Rightarrow> (case k of 0 \<Rightarrow> None | Suc n \<Rightarrow> navigate_within n b segs'))"

declare navigate_within.simps [simp del]

lemma navigate_show: "match_route b segs = Show pg \<Longrightarrow> navigate b segs = pg"
  by (simp add: navigate.simps)

lemma navigate_redirect: "match_route b segs = GoTo segs' \<Longrightarrow> navigate b segs = navigate b segs'"
  by (subst navigate.simps) simp

lemma navigate_enough: "redirects_left segs \<le> k \<Longrightarrow> navigate_within k b segs = Some (navigate b segs)"
proof (induction k arbitrary: segs)
  case 0
  then show ?case
    using redirect_closer[of b segs]
    by (cases "match_route b segs") (auto simp: navigate_within.simps navigate_show)
next
  case (Suc k)
  show ?case
  proof (cases "match_route b segs")
    case (Show pg)
    then show ?thesis by (simp add: navigate_within.simps navigate_show)
  next
    case (GoTo segs')
    then have "redirects_left segs' \<le> k" using redirect_closer[of b segs segs'] Suc.prems by simp
    then show ?thesis using GoTo Suc.IH by (simp add: navigate_within.simps[of "Suc k"] navigate_redirect)
  qed
qed

section \<open>The frame\<close>

text \<open>The entries of the navigation, by the path they link to, and whether one is shown as active.\<close>

definition NAV :: "path list" where
  "NAV = [[''dashboard''], [''objects''], [''periods''], [''discrepancies''], [''settings'']]"

definition nav_active :: "path \<Rightarrow> path \<Rightarrow> bool" where
  "nav_active to pathname \<longleftrightarrow> map lower (take (length to) pathname) = to"

text \<open>The signed-in user in the corner: e-mail and role.\<close>

definition who :: "browser \<Rightarrow> (json option \<times> json option) option" where
  "who b = (if truthy (getAuthUser b)
            then Some (json_field (getAuthUser b) ''email'', json_field (getAuthUser b) ''role'') else None)"

end
