(* ===== verification/Web_Props.thy ===== *)
theory Web_Props
  imports Gp_Form_Page Object_Pages Web_Routes System
begin

text \<open>
  The pages against the server: that the requests the pages send are carried out, what the server refuses,
  and which values can come back.
\<close>

section \<open>When a fact can be written\<close>

lemma upsert_fact_runs:
  assumes ok: "db_ok s"
    and mk: "\<And>i. f_periodId (mk i) = p \<and> f_boqItemId (mk i) = b \<and> fact_checks (mk i)"
    and g: "\<And>f. fact_key (g f) = fact_key f" "\<And>f. fact_checks f \<Longrightarrow> fact_checks (g f)"
    and item: "bi \<in> set (boqItems s)" "bi_id bi = b"
    and per: "q \<in> set (periods s)" "p_id q = p" "p_boqVersionId q = bi_boqVersionId bi"
  shows "\<exists>f t. upsert_fact p b mk g s = (Inr f, t)"
proof -
  have in_version: "item_in_period_version (boqItems s) (periods s) f" if "f_periodId f = p" "f_boqItemId f = b" for f
    using item per that by (auto simp: item_in_period_version_def list_ex_iff)
  show ?thesis
  proof (cases "find_fact p b s")
    case None
    then show ?thesis
      using mk in_version by (simp add: upsert_fact_def insert_fact_def check_fact_def nextval_def prog_defs find_fact_def)
  next
    case (Some old)
    then have old: "old \<in> set (periodFacts s)" "f_periodId old = p" "f_boqItemId old = b"
      using find_fact_iff[OF ok] by auto
    have found: "List.find (\<lambda>f. f_id f = f_id old) (periodFacts s) = Some old"
      using ok old(1) by (auto simp: db_ok_defs dest: keyed_find)
    have "fact_checks old" using ok old(1) by (auto simp: db_ok_defs list_all_iff)
    then have "fact_checks (bump_version old (g old))" using g(2) by (simp add: bump_version_def fact_checks_def)
    moreover have "f_periodId (bump_version old (g old)) = p" "f_boqItemId (bump_version old (g old)) = b"
      using g(1)[of old] old by (simp_all add: bump_version_def fact_key_def)
    ultimately show ?thesis
      using Some found in_version by (simp add: upsert_fact_def update_fact_def check_fact_def prog_defs)
  qed
qed

section \<open>The submission of the general contractor\<close>

definition item_writable :: "db \<Rightarrow> period \<Rightarrow> gp_item \<Rightarrow> bool" where
  "item_writable s p item \<longleftrightarrow> 0 \<le> gi_gpVolume item \<and> extra_keys item = []
     \<and> (\<exists>bi \<in> set (boqItems s). bi_id bi = gi_boqItemId item \<and> bi_boqVersionId bi = p_boqVersionId p)"

lemma upsert_gp_item_runs:
  assumes "db_ok s" "p \<in> set (periods s)" "item_writable s p item"
  shows "\<exists>t. upsert_gp_item (p_id p) item s = (Inr (), t) \<and> db_ok t \<and> only_facts s t"
proof -
  obtain bi where bi: "bi \<in> set (boqItems s)" "bi_id bi = gi_boqItemId item" "bi_boqVersionId bi = p_boqVersionId p"
    using assms(3) by (auto simp: item_writable_def)
  have "0 \<le> gi_gpVolume item" using assms(3) by (simp add: item_writable_def)
  then have "\<exists>f t. upsert_fact (p_id p) (gi_boqItemId item)
     (\<lambda>i. (empty_fact i (p_id p) (gi_boqItemId item))\<lparr>f_gpVolume := Some (gi_gpVolume item), f_gpNote := gi_gpNote item\<rparr>)
     (\<lambda>f. f\<lparr>f_gpVolume := Some (gi_gpVolume item), f_gpNote := gi_gpNote item\<rparr>) s = (Inr f, t)"
    using bi(3) by (intro upsert_fact_runs[OF assms(1) _ _ _ bi(1,2) assms(2)])
      (auto simp: empty_fact_def fact_checks_def nonneg_def fact_key_def)
  then obtain t where run: "upsert_gp_item (p_id p) item s = (Inr (), t)"
    by (auto simp: upsert_gp_item_def prog_defs)
  with wp_Inr[OF run wp_upsert_gp_item[OF assms(1)]] show ?thesis by blast
qed

lemma upsert_gp_items_run:
  assumes "db_ok s" "p \<in> set (periods s)" "\<forall>item \<in> set items. item_writable s p item"
  shows "\<exists>t. forEach items (upsert_gp_item (p_id p)) s = (Inr (), t) \<and> only_facts s t"
  using assms
proof (induction items arbitrary: s)
  case (Cons item items)
  then obtain t where t: "upsert_gp_item (p_id p) item s = (Inr (), t)" "db_ok t" "only_facts s t"
    using upsert_gp_item_runs[of s p item] by auto
  have "\<forall>i \<in> set items. item_writable t p i" "p \<in> set (periods t)"
    using Cons.prems only_factsD[OF t(3)] by (simp_all add: item_writable_def)
  then obtain u where "forEach items (upsert_gp_item (p_id p)) t = (Inr (), u)" "only_facts t u"
    using Cons.IH[OF t(2)] by blast
  then show ?case using t only_facts_trans[OF t(3)] by (auto simp: andThen_def)
qed (simp add: ret_run)

lemma forEach_guard_ok: "\<forall>x \<in> set xs. b x \<Longrightarrow> forEach xs (\<lambda>x. guard (b x) e) s = (Inr (), s)"
  by (induction xs) (simp_all add: prog_defs)

lemma submitGp_runs:
  assumes ok: "db_ok s" and live: "token_live token p s"
    and items: "\<forall>item \<in> set items. item_writable s p item"
    and ob: "find_object (p_objectId p) s = Some ob" and audit: "''gp_submitted'' \<in> set (audit_actions s)"
  shows "\<exists>q s'. submitGp token name items s = (Inr q, s')"
proof -
  have p: "p \<in> set (periods s)" "p_gpSubmissionToken p = Some token" using live by (simp_all add: token_live_def)
  have found: "find_by_token token s = Some p"
    using ok p by (simp add: find_by_token_iff)
  have per: "find_period (p_id p) s = Some p" using ok p(1) by (simp add: find_period_iff)
  obtain t where t: "forEach items (upsert_gp_item (p_id p)) s = (Inr (), t)" "only_facts s t"
    using upsert_gp_items_run[OF ok p(1) items] by blast
  have "find_period (p_id p) t = Some p"
    using per only_factsD[OF t(2)] by (simp add: find_period_def)
  moreover have "assertGpTokenValid (Some p) s = (Inr p, s)"
    using live by (auto simp: assertGpTokenValid_def token_live_def now_def prog_defs split: option.splits)
  moreover have "forEach items (\<lambda>item. guard (extra_keys item = []) (ConflictException ''PROTECTED_FIELD'')) s = (Inr (), s)"
    using items by (intro forEach_guard_ok) (simp add: item_writable_def)
  moreover have "objects t = objects s" "audit_actions t = audit_actions s" using only_factsD[OF t(2)] by simp_all
  ultimately show ?thesis
    using found t(1) live ob audit
    by (simp add: submitGp_def transaction_def transactionally_def bind_def andThen_def guard_def ret_def now_def
          update_period_def getsOr_def modify_def gets_def period_org_def find_object_def audit_log_def guardS_def
          token_live_def)
qed

section \<open>What comes back from the server\<close>

text \<open>The guards do not touch the store: an answer is that of the controller.\<close>

lemma handle_Inr:
  assumes "handle e req s = (Inr a, s')"
  obtains user where "dispatch e req user (hr_route req) s = (Inr a, s')"
proof -
  from assms have "\<exists>user. dispatch e req user (hr_route req) s = (Inr a, s')"
    by (auto simp: handle_def jwt_guard_def bind_def andThen_def guard_def ret_def throw_def
        split: option.splits if_splits)
  then show thesis using that by blast
qed

lemma query_Ready:
  assumes "query_of sel (fst (call e b r s)) = Ready x"
  obtains a user s' where "sel a = Some x" "dispatch e (api_request b r) user r s = (Inr a, s')"
proof (cases "fst (call e b r s)")
  case (Inr a)
  then have "call e b r s = (Inr a, snd (call e b r s))" by (metis prod.collapse)
  from handle_Inr[OF call_Inr[OF this]] obtain user where
    "dispatch e (api_request b r) user r s = (Inr a, snd (call e b r s))"
    by (auto simp: api_request_def)
  with assms Inr that show thesis by (auto simp: query_of_def split: option.splits)
qed (use assms in \<open>simp add: query_of_def\<close>)

lemma signed_in_Inr: "signed_in user k s = (Inr a, s') \<Longrightarrow> \<exists>u. k u s = (Inr a, s')"
  by (auto simp: signed_in_def throw_def split: option.splits)

lemma as_actor_Inr: "as_actor u k s = (Inr a, s') \<Longrightarrow> \<exists>i. k i s = (Inr a, s')"
  by (auto simp: as_actor_def throw_def split: option.splits)

lemma reply_Inr: "reply f m s = (Inr a, s') \<Longrightarrow> \<exists>x. m s = (Inr x, s') \<and> a = f x"
  by (auto simp: reply_def bind_eq_Inr ret_def)

text \<open>The form, and the period and object it is about.\<close>

definition gp_form_of :: "period \<Rightarrow> construction_object \<Rightarrow> db \<Rightarrow> gp_form" where
  "gp_form_of p ob s =
     \<lparr>gf_periodNumber = p_periodNumber p, gf_objectName = o_name ob, gf_gpTokenExpiresAt = p_gpTokenExpiresAt p,
      gf_items = map (\<lambda>item. \<lparr>gf_boqItemId = bi_id item, gf_name = bi_name item,
                        gf_unit = (case bi_unit item of None \<Rightarrow> [] | Some u \<Rightarrow> u), gf_planVolume = bi_planVolume item\<rparr>)
                   (Period_Service.version_items (p_boqVersionId p) s)\<rparr>"

definition token_fresh :: "period \<Rightarrow> db \<Rightarrow> bool" where
  "token_fresh p s \<longleftrightarrow> (case p_gpTokenExpiresAt p of None \<Rightarrow> False | Some e \<Rightarrow> clock s \<le> e)"

lemma getGpFormData_run:
  "getGpFormData token s =
     (case find_by_token token s of
        None \<Rightarrow> (Inl (NotFoundException ''GP_TOKEN_NOT_FOUND''), s)
      | Some p \<Rightarrow>
          if \<not> token_fresh p s then (Inl (ForbiddenException ''GP_TOKEN_EXPIRED''), s)
          else if p_gpSubmittedAt p \<noteq> None then (Inl (ForbiddenException ''GP_ALREADY_SUBMITTED''), s)
          else (case find_object (p_objectId p) s of
                  None \<Rightarrow> (Inl (PrismaError RecordNotFound), s)
                | Some ob \<Rightarrow> (Inr (gp_form_of p ob s), s)))"
  by (auto simp: getGpFormData_def assertGpTokenValid_def now_def prog_defs token_fresh_def gp_form_of_def
      split: option.splits)

lemma gp_data_Ready:
  assumes "gp_form_data e b token s = Ready data"
  obtains p ob where "find_by_token token s = Some p" "find_object (p_objectId p) s = Some ob" "data = gp_form_of p ob s"
proof -
  have "query_of (\<lambda>a. case a of AGpForm d \<Rightarrow> Some d | _ \<Rightarrow> None) (fst (call e b (gp_form_call token) s)) = Ready data"
    using assms by (simp add: gp_form_data_def split: if_splits)
  then obtain a user s' where a: "(case a of AGpForm d \<Rightarrow> Some d | _ \<Rightarrow> None) = Some data"
      "dispatch e (api_request b (gp_form_call token)) user (gp_form_call token) s = (Inr a, s')"
    by (rule query_Ready)
  then have "getGpFormData token s = (Inr data, s')"
    by (auto simp: gp_form_call_def dest!: signed_in_Inr reply_Inr)
  then show thesis using that by (auto simp: getGpFormData_run split: option.splits if_splits)
qed

text \<open>The screens behind a link, for a browser that is signed in.\<close>

lemma gp_data_run:
  assumes "signed_in_as e b u" and "token \<noteq> []"
  shows "gp_form_data e b token s =
     (case getGpFormData token s of (Inl x, _) \<Rightarrow> Failed (failure_of x) | (Inr d, _) \<Rightarrow> Ready d)"
  using assms call_signed_in[OF assms(1), of "gp_form_call token"]
  by (simp add: gp_form_data_def call_def gp_form_call_def signed_in_def reply_def bind_def ret_def query_of_def
      split: prod.splits sum.splits)

lemma gp_link_signed_in:
  assumes "signed_in_as e b u" and "token \<noteq> []"
  shows "gp_link e b token s pg =
     (case find_by_token token s of
        None \<Rightarrow> GpExpired
      | Some p \<Rightarrow>
          if \<not> token_fresh p s then GpExpired
          else if p_gpSubmittedAt p \<noteq> None then GpAlreadySubmitted
          else (case find_object (p_objectId p) s of
                  None \<Rightarrow> GpExpired
                | Some ob \<Rightarrow>
                    if gp_success pg then GpSuccess (gp_name pg) (p_periodNumber p) (o_name ob)
                    else GpForm (gp_view_of (clock s) (gp_form_of p ob s) pg)))"
  by (simp add: gp_link_def gp_data_run[OF assms] getGpFormData_run gp_screen_of_def failure_of_def getGpError_def
      gp_form_of_def split: option.splits)

lemma gp_link_anonymous:
  assumes "bearer_of b = None" and "token \<noteq> []"
  shows "gp_link e b token s pg = GpExpired"
  using assms call_anonymous[OF assms(1), of "gp_form_call token" e s]
  by (simp add: gp_link_def gp_form_data_def gp_form_call_def query_of_def gp_screen_of_def getGpError_def)

section \<open>A form filled in over time\<close>

text \<open>Later the period of a token is about the same object and version, and its positions are still there.\<close>

lemma later_token:
  assumes ok: "sys_ok s0" and steps: "sys_steps s0 s" and p0: "find_by_token token s0 = Some p0"
    and live: "token_live token p s"
  shows "p_objectId p = p_objectId p0" "p_boqVersionId p = p_boqVersionId p0"
proof -
  have adv: "advances s0 s" using steps by (rule sys_steps_advances)
  have oks: "db_ok s0" "db_ok s" using ok sys_ok_kept[OF adv] by (auto simp: sys_ok_def)
  have "p0 \<in> set (periods s0)" "p_gpSubmissionToken p0 = Some token" using p0 find_by_token_iff[OF oks(1)] by auto
  then obtain p1 where p1: "p1 \<in> set (periods s)" "period_next (clock s0) p0 p1"
    using adv oks(1) by (auto simp: advances_def periods_next_def)
  then have "p_gpSubmissionToken p1 = Some token" using \<open>p_gpSubmissionToken p0 = _\<close> by (simp add: period_next_def)
  then have "p1 = p" using p1(1) live find_by_token_iff[OF oks(2), of token] by (metis option.inject token_live_def)
  then show "p_objectId p = p_objectId p0" "p_boqVersionId p = p_boqVersionId p0"
    using p1(2) by (auto simp: period_next_def period_key_def)
qed

lemma later_item:
  assumes "sys_steps s0 s" and "bi \<in> set (boqItems s0)"
  shows "\<exists>bi' \<in> set (boqItems s). bi_id bi' = bi_id bi \<and> bi_boqVersionId bi' = bi_boqVersionId bi"
proof -
  obtain bi' where "bi' \<in> set (boqItems s)" "item_next bi bi'"
    using sys_steps_advances[OF assms(1)] assms(2) by (auto simp: advances_def catalog_kept_def rows_kept_def)
  then show ?thesis by (intro bexI[of _ bi']) (auto simp: item_next_def)
qed

lemma later_object:
  assumes "sys_ok s0" and "sys_steps s0 s" and "find_object i s0 = Some ob"
  shows "find_object i s = Some ob"
proof -
  have adv: "advances s0 s" using assms(2) by (rule sys_steps_advances)
  then have "registry_ok s" using sys_ok_kept[OF adv assms(1)] by (simp add: sys_ok_def catalog_ok_def)
  moreover have "ob \<in> set (objects s)" "o_id ob = i"
    using adv assms(3) by (auto simp: advances_def catalog_kept_def find_object_def dest: find_SomeD)
  ultimately show ?thesis by (auto simp: find_object_def registry_ok_def dest: keyed_find)
qed

lemma form_items:
  "item \<in> set (gf_items (gp_form_of p ob s)) \<Longrightarrow>
   \<exists>bi \<in> set (boqItems s). bi_id bi = gf_boqItemId item \<and> bi_boqVersionId bi = p_boqVersionId p"
  by (auto simp: gp_form_of_def Period_Service.version_items_def set_order_asc)

text \<open>The request of a complete form is within what the server writes.\<close>

lemma payload_writable:
  assumes ok: "sys_ok s0" and steps: "sys_steps s0 s" and data: "gp_form_data e b token s0 = Ready data"
    and live: "token_live token p s" and sent: "handleSubmit data pg = (pg', Some payload)"
  shows "\<forall>item \<in> set (map payload_item (snd payload)). item_writable s p item"
    and "\<exists>ob. find_object (p_objectId p) s = Some ob"
proof -
  obtain p0 ob where p0: "find_by_token token s0 = Some p0" "find_object (p_objectId p0) s0 = Some ob" "data = gp_form_of p0 ob s0"
    using data by (rule gp_data_Ready)
  note same = later_token[OF ok steps p0(1) live]
  have sub: "canSubmit data pg"
    and pay: "snd payload = map (\<lambda>item. (gf_boqItemId item, volume_of pg (gf_boqItemId item))) (gf_items data)"
    using sent by (auto simp: handleSubmit_def Let_def split: if_splits)
  show "\<exists>ob. find_object (p_objectId p) s = Some ob" using later_object[OF ok steps p0(2)] same by simp
  show "\<forall>item \<in> set (map payload_item (snd payload)). item_writable s p item"
  proof
    fix it assume "it \<in> set (map payload_item (snd payload))"
    then obtain item where item: "item \<in> set (gf_items data)"
        "it = payload_item (gf_boqItemId item, volume_of pg (gf_boqItemId item))" by (auto simp: pay)
    then have "isValid pg (gf_boqItemId item)" using sub by (simp add: canSubmit_def allFilled_iff)
    then have "0 \<le> volume_of pg (gf_boqItemId item)" using volume_of_valid by blast
    moreover obtain bi where "bi \<in> set (boqItems s0)" "bi_id bi = gf_boqItemId item" "bi_boqVersionId bi = p_boqVersionId p0"
      using form_items item(1) p0(3) by blast
    moreover from this obtain bi' where "bi' \<in> set (boqItems s)" "bi_id bi' = bi_id bi" "bi_boqVersionId bi' = bi_boqVersionId bi"
      using later_item[OF steps] by blast
    ultimately show "item_writable s p it"
      using item(2) same(2) by (auto simp: item_writable_def payload_item_def extra_keys_def)
  qed
qed

text \<open>The positions of a form are distinct.\<close>

lemma form_distinct:
  assumes "sys_ok s" and "gp_form_data e b token s = Ready data"
  shows "distinct (map gf_boqItemId (gf_items data))"
proof -
  obtain p ob where "data = gp_form_of p ob s" using assms(2) by (rule gp_data_Ready)
  moreover have "distinct (map bi_id (boqItems s))"
    using assms(1) by (simp add: sys_ok_def catalog_ok_def boq_ok_def keyed_def)
  ultimately show ?thesis
    by (auto simp: gp_form_of_def Period_Service.version_items_def order_asc_def comp_def distinct_map intro: inj_on_subset)
qed

end
