(* ===== verification/Web_Period_Props.thy ===== *)
theory Web_Period_Props
  imports Web_Props
begin

text \<open>
  The page of a period against the server: what its two buttons send and how the server answers, and the
  values of the status that can come back.
\<close>

section \<open>Errors of the data base\<close>

text \<open>A method that can only fail in the data base: the framework answers with an internal error.\<close>

definition internal :: "'a service \<Rightarrow> bool" where
  "internal m \<longleftrightarrow> (\<forall>s x t. m s = (Inl x, t) \<longrightarrow> (\<exists>p. x = PrismaError p))"

named_theorems internal_rules \<open>methods that only fail in the data base\<close>

lemma internal_basics [internal_rules]:
  "internal (ret y)" "internal (gets f)" "internal (modify g)" "internal (throw (PrismaError p))"
  "internal (guard c (PrismaError p))" "internal (guardS C (PrismaError p))" "internal (getsOr h (PrismaError p))"
  by (auto simp: internal_def prog_defs split: option.splits if_splits)

lemma internal_bind [internal_rules]: "internal m \<Longrightarrow> (\<And>x. internal (k x)) \<Longrightarrow> internal (bind m k)"
  by (fastforce simp: internal_def bind_def split: prod.splits sum.splits)

lemma internal_andThen [internal_rules]: "internal m \<Longrightarrow> internal k \<Longrightarrow> internal (andThen m k)"
  unfolding andThen_def by (rule internal_bind)

lemma internal_whenM [internal_rules]: "internal m \<Longrightarrow> internal (whenM c m)"
  by (simp add: whenM_def internal_basics)

lemma internal_if [internal_rules]: "internal m \<Longrightarrow> internal k \<Longrightarrow> internal (if c then m else k)"
  by simp

lemma internal_option [internal_rules]:
  "internal m \<Longrightarrow> (\<And>x. internal (k x)) \<Longrightarrow> internal (case y of None \<Rightarrow> m | Some x \<Rightarrow> k x)"
  by (simp split: option.split)

lemma internal_forEach [internal_rules]: "(\<And>x. internal (f x)) \<Longrightarrow> internal (forEach xs f)"
  by (induction xs) (simp_all add: internal_rules)

lemma internal_foldEach [internal_rules]: "(\<And>x a. internal (f x a)) \<Longrightarrow> internal (foldEach xs acc f)"
  by (induction xs arbitrary: acc) (simp_all add: internal_rules)

lemma internal_transaction [internal_rules]: "internal m \<Longrightarrow> internal (transaction m)"
  by (fastforce simp: internal_def transaction_def transactionally_def split: prod.splits sum.splits)

lemma internal_record_snapshot: "internal (record_snapshot p ob)"
  unfolding record_snapshot_def recordWorkPaceDeltas_def calcObjectForecast_def create_snapshot_def calcItemPace_def
    adjust_for_spike_def item_forecast_def notify_users_def insert_snapshot_def upsert_work_pace_def now_def Let_def
    update_fact_def check_fact_def insert_notification_def nextval_def
  by (intro internal_rules)

lemma internal_update_period: "internal (update_period i g)"
  unfolding update_period_def by (intro internal_rules)

lemma internal_audit_log: "internal (audit_log ps)"
  unfolding audit_log_def by (intro internal_rules)

section \<open>Closing a period\<close>

definition close_refusals :: "(int \<times> string) set" where
  "close_refusals = {(403, ''PERIOD_ALREADY_CLOSED''), (409, ''PERIOD_WRONG_STATUS''), (409, ''OPEN_DISCREPANCIES_EXIST'')}"

lemma closePeriod_refused:
  assumes "find_period i s = Some p" "period_org p s = Some org"
    and "p_status p \<noteq> PVerification \<or> open_discrepancies i s \<noteq> []"
  shows "\<exists>x. closePeriod i actor s = (Inl x, s) \<and> isHttpException x \<and> (http_status x, exn_message x) \<in> close_refusals"
  using assms
  by (auto simp: closePeriod_def transaction_def transactionally_def keep_outside_def assertPeriodEditable_def
      bind_def andThen_def guard_def guardS_def getsOr_def ret_def throw_def now_def close_refusals_def)

lemma closePeriod_internal:
  assumes "find_period i s = Some p" "period_org p s = Some org" "p_status p = PVerification"
    and "open_discrepancies i s = []" and "closePeriod i actor s = (Inl x, s')"
  shows "\<exists>e. x = PrismaError e"
proof -
  let ?tail = "\<lambda>t. bind (update_period i (\<lambda>p. p\<lparr>p_status := PClosed, p_closedAt := Some t, p_closedBy := Some actor\<rparr>)) (\<lambda>updated.
     andThen (record_snapshot i (p_objectId p))
    (andThen (audit_log
       \<lparr>ap_tableName = ''periods'', ap_recordId = i, ap_action = ''period_closed'',
        ap_oldData = None, ap_newData = None, ap_reason = None, ap_performedBy = Some actor,
        ap_organizationId = org\<rparr>)
       (ret updated)))"
  have int: "internal (transaction (?tail (clock s)))"
    by (intro internal_rules internal_update_period internal_record_snapshot internal_audit_log)
  have eq: "closePeriod i actor s = transaction (?tail (clock s)) s"
    using assms(1-4)
    by (simp add: closePeriod_def transaction_def transactionally_def assertPeriodEditable_def bind_def andThen_def
        guard_def guardS_def getsOr_def ret_def now_def)
  show ?thesis using int assms(5) unfolding eq internal_def by blast
qed

text \<open>What the page knows of the period.\<close>

lemma period_data_Ready:
  assumes "period_data e b i s = Ready d"
  obtains org p where "visible_period i org s = Some p" "pd_status d = p_status p"
    "pd_openDiscrepancyCount d = length (open_discrepancies i s)"
proof -
  have "query_of (\<lambda>a. case a of ADetail x \<Rightarrow> Some x | _ \<Rightarrow> None) (fst (call e b (period_detail_call i) s)) = Ready d"
    using assms by (simp add: period_data_def)
  then obtain a user s' where a: "(case a of ADetail x \<Rightarrow> Some x | _ \<Rightarrow> None) = Some d"
      "dispatch e (api_request b (period_detail_call i)) user (period_detail_call i) s = (Inr a, s')"
    by (rule query_Ready)
  then obtain actor where "getDetail i actor s = (Inr d, s')"
    by (auto simp: period_detail_call_def dest!: signed_in_Inr as_actor_Inr reply_Inr)
  then show thesis using that
    by (auto simp: getDetail_def bind_eq_Inr user_org_def prog_defs split: option.splits)
qed

text \<open>A user who may act, as the role guard of the two requests sees it.\<close>

definition may_act :: "jwt_payload \<Rightarrow> bool" where
  "may_act u \<longleftrightarrow> jp_role u = Stroycontrol \<or> jp_role u = Admin"

lemma close_call_run:
  assumes "signed_in_as e b u" "may_act u" "parseInt (jp_sub u) = Some actor"
  shows "call e b (period_close_call i) s =
     (case closePeriod i actor s of (Inl x, s') \<Rightarrow> (Inl (failure_of x), s') | (Inr p, s') \<Rightarrow> (Inr (APeriod p), s'))"
  using assms call_signed_in[OF assms(1), of "period_close_call i"]
  by (auto simp: call_def period_close_call_def signed_in_def reply_def bind_def ret_def may_act_def as_actor_def
      split: prod.splits sum.splits)

section \<open>Entering a fact\<close>

lemma fact_call_run:
  assumes "signed_in_as e b u" "may_act u" "parseInt (jp_sub u) = Some actor"
  shows "call e b (upsert_fact_call p bq v) s =
     (case upsertPeriodFact p bq v actor no_opts s of
        (Inl x, s') \<Rightarrow> (Inl (failure_of x), s') | (Inr f, s') \<Rightarrow> (Inr (AFact f), s'))"
  using assms call_signed_in[OF assms(1), of "upsert_fact_call p bq v"]
  by (auto simp: call_def upsert_fact_call_def signed_in_def reply_def bind_def ret_def may_act_def as_actor_def
      split: prod.splits sum.splits)

lemma fact_call_Inr:
  assumes "call e b (upsert_fact_call p bq v) s = (Inr (AFact f), s')"
  obtains actor where "upsertPeriodFact p bq v actor no_opts s = (Inr f, s')"
proof -
  obtain user where "dispatch e (api_request b (upsert_fact_call p bq v)) user (upsert_fact_call p bq v) s = (Inr (AFact f), s')"
    using handle_Inr[OF call_Inr[OF assms]] by (auto simp: api_request_def)
  then show thesis using that by (auto simp: upsert_fact_call_def dest!: signed_in_Inr as_actor_Inr reply_Inr)
qed

lemma commitFact_action:
  assumes "commitFact p b v actor opts plan s = (Inr f, s')"
  shows "ap_action (fact_audit p b v actor plan 0) \<in> set (audit_actions s)"
proof -
  let ?w = "whenM (fp_status plan = PGpSubmitted)
      (bind (update_period p (\<lambda>p. p\<lparr>p_status := PVerification\<rparr>)) (\<lambda>_. ret ()))"
  obtain g t u where run: "upsert_fact p b (\<lambda>i. fill_fact v opts plan (empty_fact i p b)) (fill_fact v opts plan) s = (Inr g, t)"
      "?w t = (Inr (), u)" "andThen (audit_log (fact_audit p b v actor plan (f_id g))) (ret g) u = (Inr f, s')"
    using assms by (auto simp: commitFact_def bind_eq_Inr andThen_def)
  have "same_static s t" using movesD[OF static_period.moves_write_fact run(1)] .
  moreover have "audit_actions u = audit_actions t"
    using run(2) by (auto simp: prog_defs update_period_def split: if_splits option.splits)
  moreover have "ap_action (fact_audit p b v actor plan (f_id g)) \<in> set (audit_actions u)"
    using run(3) by (auto simp: audit_log_def andThen_def bind_eq_Inr guardS_def split: if_splits)
  ultimately show ?thesis by (simp add: same_static_def fact_audit_def)
qed

text \<open>The server takes another figure for the same position, from anybody.\<close>

lemma upsertPeriodFact_again:
  assumes ok: "db_ok s" and run: "upsertPeriodFact p b v actor no_opts s = (Inr f, s')" and w: "0 \<le> w"
  shows "\<exists>g t. upsertPeriodFact p b w actor2 no_opts s' = (Inr g, t)"
proof -
  obtain plan where plan: "readFact p b v no_opts s = (Inr plan, s)" "commitFact p b v actor no_opts plan s = (Inr f, s')"
    using run by (auto simp: upsertPeriodFact_def transaction_Inr bind_eq_Inr readFact_spec)
  obtain per org where per: "admits_fact p b no_opts per s" "period_org per s = Some org" "plan = plan_of p b v per org s"
    using plan(1) by (auto simp: readFact_spec)
  have ent: "fact_entered p b v actor no_opts per s f s'"
    using wp_Inr[OF plan(2)[unfolded per(3)] wp_commitFact[OF ok per(1)]] .
  have action: "ap_action (fact_audit p b v actor plan 0) \<in> set (audit_actions s)" using commitFact_action[OF plan(2)] .
  have static: "same_static s s'" using static_period.moves_upsertPeriodFact run by (rule movesD)
  have ok': "db_ok s'" using movesD[OF upsertPeriodFact_life run] evolves_db_ok[OF _ ok] by (auto simp: lifecycle_def)
  define per' where "per' = (if p_status per = PGpSubmitted then per\<lparr>p_status := PVerification\<rparr> else per)"
  have found: "find_period p s' = Some per'"
    using per(1) ent find_period_update[of "\<lambda>q. q\<lparr>p_status := PVerification\<rparr>" s' p s per]
    by (auto simp: per'_def admits_fact_def fact_entered_def find_period_def)
  have admit: "admits_fact p b no_opts per' s'"
    using found per(1) static
    by (auto simp: admits_fact_def per'_def no_opts_def no_template_input_def same_static_def)
  have org: "period_org per' s' = Some org"
    using static per(2) by (simp add: per'_def period_org_def find_object_def same_static_def)
  let ?plan = "plan_of p b w per' org s'"
  have read: "readFact p b w no_opts s' = (Inr ?plan, s')" using admit org by (auto simp: readFact_spec)
  have status: "fp_status ?plan \<noteq> PGpSubmitted" by (simp add: plan_of_def per'_def)
  have action': "ap_action (fact_audit p b w actor2 ?plan i) \<in> set (audit_actions s')" for i
    using action static
    by (auto simp: fact_audit_def per(3) plan_of_def per'_def same_static_def no_template_input_def split: if_splits)
  have "find_fact p b s' = Some f" using ent by (auto simp: fact_entered_def facts_map_def fun_eq_iff split: if_splits)
  then have f: "f \<in> set (periodFacts s')" "f_periodId f = p" "f_boqItemId f = b" using find_fact_iff[OF ok'] by auto
  then have "item_in_period_version (boqItems s') (periods s') f"
    using ok' by (auto simp: db_ok_defs list_all_iff)
  then obtain bi q where bi: "bi \<in> set (boqItems s')" "bi_id bi = b" "q \<in> set (periods s')" "p_id q = p"
      "p_boqVersionId q = bi_boqVersionId bi"
    using f(2,3) unfolding item_in_period_version_def list_ex_iff by metis
  have checks: "fact_checks (fill_fact w no_opts ?plan h)" if "fact_checks h" for h
    using that w by (auto simp: fill_fact_def fact_checks_def nonneg_def plan_of_def classify_iff no_opts_def)
  have key: "f_periodId (fill_fact w no_opts ?plan h) = f_periodId h" "f_boqItemId (fill_fact w no_opts ?plan h) = f_boqItemId h" for h
    by (simp_all add: fill_fact_def split: prod.split)
  have "fact_checks (empty_fact i p b)" for i by (simp add: empty_fact_def fact_checks_def nonneg_def)
  then have mk: "f_periodId (fill_fact w no_opts ?plan (empty_fact i p b)) = p
      \<and> f_boqItemId (fill_fact w no_opts ?plan (empty_fact i p b)) = b
      \<and> fact_checks (fill_fact w no_opts ?plan (empty_fact i p b))" for i
    using checks by (simp add: key) (simp add: empty_fact_def)
  have "\<exists>g t. upsert_fact p b (\<lambda>i. fill_fact w no_opts ?plan (empty_fact i p b)) (fill_fact w no_opts ?plan) s' = (Inr g, t)"
    by (rule upsert_fact_runs[OF ok' mk _ checks bi]) (simp_all add: fact_key_def key)
  then obtain g t where "upsert_fact p b (\<lambda>i. fill_fact w no_opts ?plan (empty_fact i p b)) (fill_fact w no_opts ?plan) s' = (Inr g, t)"
    by blast
  moreover from movesD[OF static_period.moves_write_fact this] have "audit_actions t = audit_actions s'"
    by (simp add: same_static_def)
  ultimately show ?thesis
    using read status action'
    by (simp add: upsertPeriodFact_def transaction_Inr bind_eq_Inr commitFact_def bind_def[of "upsert_fact p b m h" for m h]
        whenM_def andThen_def audit_log_def guardS_def ret_def modify_def bind_def)
qed

section \<open>The status of a period\<close>

text \<open>The machine of the reporting cycle never closes a period by force.\<close>

definition never_forced :: "cycle_state \<Rightarrow> bool" where
  "never_forced c \<longleftrightarrow> (\<forall>i ob n st. fst c i = Some (ob, n, st) \<longrightarrow> st \<noteq> PForceClosed)"

lemma never_forced_step: "cycle c c' \<Longrightarrow> never_forced c \<Longrightarrow> never_forced c'"
  by (induction rule: cycle.induct) (auto simp: never_forced_def elim: period_step.cases)

lemma never_forced_steps: "cycle\<^sup>*\<^sup>* c c' \<Longrightarrow> never_forced c \<Longrightarrow> never_forced c'"
  by (induction rule: rtranclp_induct) (auto intro: never_forced_step)

lemma never_forced_periods:
  assumes "db_ok s"
  shows "never_forced (abs_cycle s) \<longleftrightarrow> (\<forall>p \<in> set (periods s). p_status p \<noteq> PForceClosed)"
proof
  assume all: "\<forall>p \<in> set (periods s). p_status p \<noteq> PForceClosed"
  then show "never_forced (abs_cycle s)"
    using find_period_iff[OF assms] by (auto simp: never_forced_def abs_cycle_def abs_period_def)
next
  assume nf: "never_forced (abs_cycle s)"
  show "\<forall>p \<in> set (periods s). p_status p \<noteq> PForceClosed"
  proof
    fix p assume "p \<in> set (periods s)"
    then have "find_period (p_id p) s = Some p" using find_period_iff[OF assms] by simp
    then have "fst (abs_cycle s) (p_id p) = Some (p_objectId p, p_periodNumber p, p_status p)"
      by (simp add: abs_cycle_def abs_period_def)
    then show "p_status p \<noteq> PForceClosed" using nf unfolding never_forced_def by metis
  qed
qed

end
