(* ===== verification/Client_Types.thy ===== *)
theory Client_Types
  imports Web_Period_Props
begin

text \<open>
  The types the client declares for what it sends and receives (\<^verbatim>\<open>apps/web/src/services/api.ts\<close>), as values of a
  small language of types, and the answers of the server as JSON.  A date is sent as its text.
\<close>

section \<open>Types of TypeScript\<close>

text \<open>A field of an object has a name, may be optional, and has a type; a value may have further fields.\<close>

datatype ts_type =
    TNumber
  | TString
  | TBoolean
  | TNull
  | TLiteral string
  | TUnion "ts_type list"
  | TArray ts_type
  | TObject "(string \<times> bool \<times> ts_type) list"

fun has_type :: "ts_type \<Rightarrow> json \<Rightarrow> bool" and has_fields :: "(string \<times> bool \<times> ts_type) list \<Rightarrow> (string \<times> json) list \<Rightarrow> bool" where
  "has_type TNumber v = (case v of JNum _ \<Rightarrow> True | _ \<Rightarrow> False)"
| "has_type TString v = (case v of JStr _ \<Rightarrow> True | JDate _ \<Rightarrow> True | _ \<Rightarrow> False)"
| "has_type TBoolean v = (case v of JBool _ \<Rightarrow> True | _ \<Rightarrow> False)"
| "has_type TNull v = (v = JNull)"
| "has_type (TLiteral t) v = (v = JStr t)"
| "has_type (TUnion ts) v = list_ex (\<lambda>t. has_type t v) ts"
| "has_type (TArray t) v = (case v of JArr vs \<Rightarrow> list_all (has_type t) vs | _ \<Rightarrow> False)"
| "has_type (TObject fs) v = (case v of JObj kvs \<Rightarrow> has_fields fs kvs | _ \<Rightarrow> False)"
| "has_fields [] kvs = True"
| "has_fields ((k, optional, t) # fs) kvs =
     ((case map_of kvs k of None \<Rightarrow> optional | Some v \<Rightarrow> has_type t v) \<and> has_fields fs kvs)"

abbreviation required :: "string \<Rightarrow> ts_type \<Rightarrow> string \<times> bool \<times> ts_type" where
  "required k t \<equiv> (k, False, t)"

abbreviation optionally :: "string \<Rightarrow> ts_type \<Rightarrow> string \<times> bool \<times> ts_type" where
  "optionally k t \<equiv> (k, True, t)"

abbreviation nullable :: "ts_type \<Rightarrow> ts_type" where
  "nullable t \<equiv> TUnion [t, TNull]"

section \<open>The declarations\<close>

definition OBJECT_STATUSES :: "string list" where
  "OBJECT_STATUSES = [''active'', ''paused'', ''closed'']"

definition declared_statuses :: "string list" where
  "declared_statuses = [''open'', ''gp_submitted'', ''verification'', ''closed'']"

definition DashboardRow :: ts_type where
  "DashboardRow = TObject
     [required ''objectId'' TNumber, required ''name'' TString, required ''objectClass'' (nullable TString),
      required ''status'' (TUnion (map TLiteral OBJECT_STATUSES)), required ''hasAnalytics'' TBoolean,
      required ''objReadinessPct'' (nullable TNumber), required ''weightedForecastDate'' (nullable TString),
      required ''criticalPathForecastDate'' (nullable TString), required ''gapFlag'' TBoolean]"

definition StalenessMeta :: ts_type where
  "StalenessMeta = TObject
     [required ''isStale'' TBoolean, required ''refreshedAt'' (nullable TString),
      required ''staleReason'' (TUnion [TLiteral ''mv_refresh_failed'', TLiteral ''older_than_30min'', TNull])]"

definition DashboardResponse :: ts_type where
  "DashboardResponse = TObject
     [required ''items'' (TArray DashboardRow),
      required ''pagination'' (TObject [required ''page'' TNumber, required ''pageSize'' TNumber, required ''total'' TNumber]),
      required ''meta'' StalenessMeta]"

definition DashboardQuery :: ts_type where
  "DashboardQuery = TObject
     [optionally ''search'' TString, optionally ''status'' (TUnion (map TLiteral OBJECT_STATUSES)),
      optionally ''objectClass'' TString, optionally ''gapOnly'' TBoolean,
      optionally ''sort'' (TUnion (map TLiteral
        [''gapFirst'', ''readinessAsc'', ''readinessDesc'', ''forecastAsc'', ''forecastDesc'', ''nameAsc''])),
      optionally ''page'' TNumber, optionally ''pageSize'' TNumber]"

definition ObjectDetailResponse :: ts_type where
  "ObjectDetailResponse = TObject
     [required ''object'' (TObject
        [required ''id'' TNumber, required ''name'' TString, required ''objectClass'' (nullable TString),
         required ''address'' (nullable TString), required ''permitNumber'' (nullable TString),
         required ''permitDate'' (nullable TString), required ''connectionDate'' (nullable TString),
         required ''status'' TString]),
      required ''participants'' (TArray (TObject
        [required ''role'' TString, required ''orgName'' TString, required ''contactPerson'' (nullable TString),
         required ''contactEmail'' (nullable TString), required ''validFrom'' TString])),
      required ''activeBoq'' (nullable (TObject
        [required ''id'' TNumber, required ''versionNumber'' TString, required ''itemsCount'' TNumber])),
      required ''currentPeriod'' (nullable (TObject
        [required ''id'' TNumber, required ''periodNumber'' TNumber, required ''status'' TString,
         required ''openedAt'' TString, required ''closedAt'' (nullable TString)])),
      required ''hasAnalytics'' TBoolean,
      required ''current'' (nullable (TObject
        [required ''objReadinessPct'' (nullable TNumber), required ''weightedForecastDate'' (nullable TString),
         required ''criticalPathForecastDate'' (nullable TString), required ''gapFlag'' TBoolean])),
      required ''history'' (TArray (TObject
        [required ''periodId'' TNumber, required ''periodNumber'' TNumber, required ''closedAt'' (nullable TString),
         required ''objectReadinessPct'' TNumber, required ''weightedForecastDate'' (nullable TString),
         required ''criticalPathForecastDate'' (nullable TString), required ''gapFlag'' TBoolean,
         required ''boqVersionNumber'' TString])),
      required ''meta'' StalenessMeta]"

definition PeriodPosition :: ts_type where
  "PeriodPosition = TObject
     [required ''boqItemId'' TNumber, required ''workCode'' TString, required ''name'' TString, required ''unit'' TString,
      required ''planVolume'' TNumber, required ''gpVolume'' (nullable TNumber), required ''scVolume'' (nullable TNumber),
      required ''discrepancyType'' (nullable TNumber), required ''discrepancyStatus'' (nullable TString),
      required ''acceptedVolume'' (nullable TNumber)]"

definition PeriodDetailResponse :: ts_type where
  "PeriodDetailResponse = TObject
     [required ''id'' TNumber, required ''periodNumber'' TNumber,
      required ''status'' (TUnion (map TLiteral declared_statuses)), required ''openedAt'' TString,
      required ''closedAt'' (nullable TString), required ''objectId'' TNumber, required ''boqVersionId'' TNumber,
      required ''positions'' (TArray PeriodPosition), required ''openDiscrepancyCount'' TNumber]"

definition GpFormItem :: ts_type where
  "GpFormItem = TObject
     [required ''boqItemId'' TNumber, required ''name'' TString, required ''unit'' TString, required ''planVolume'' TNumber]"

definition GpFormResponse :: ts_type where
  "GpFormResponse = TObject
     [required ''periodNumber'' TNumber, required ''objectName'' TString, required ''gpTokenExpiresAt'' TString,
      required ''items'' (TArray GpFormItem)]"

definition GpSubmitPayload :: ts_type where
  "GpSubmitPayload = TObject
     [required ''gpSubmittedByName'' TString,
      required ''items'' (TArray (TObject [required ''boqItemId'' TNumber, required ''gpVolume'' TNumber]))]"

section \<open>The answers as JSON\<close>

definition json_int :: "int \<Rightarrow> json" where
  "json_int n = JNum (of_int n)"

definition json_date :: "date option \<Rightarrow> json" where
  "json_date d = json_opt JDate d"

definition json_meta :: "staleness_meta \<Rightarrow> json" where
  "json_meta m = JObj
     [(''isStale'', JBool (sm_isStale m)), (''refreshedAt'', json_date (sm_refreshedAt m)),
      (''staleReason'', case sm_staleReason m of None \<Rightarrow> JNull | Some MvRefreshFailed \<Rightarrow> JStr ''mv_refresh_failed''
         | Some OlderThan30min \<Rightarrow> JStr ''older_than_30min'')]"

definition json_dashboard_item :: "dashboard_item \<Rightarrow> json" where
  "json_dashboard_item d = JObj
     [(''objectId'', json_int (di_objectId d)), (''name'', JStr (di_name d)),
      (''objectClass'', json_opt JStr (di_objectClass d)), (''status'', JStr (di_status d)),
      (''hasAnalytics'', JBool (di_hasAnalytics d)), (''objReadinessPct'', json_opt JNum (di_objReadinessPct d)),
      (''weightedForecastDate'', json_date (di_weightedForecastDate d)),
      (''criticalPathForecastDate'', json_date (di_criticalPathForecastDate d)), (''gapFlag'', JBool (di_gapFlag d))]"

definition json_dashboard :: "dashboard \<Rightarrow> json" where
  "json_dashboard d = JObj
     [(''items'', JArr (map json_dashboard_item (da_items d))),
      (''pagination'', JObj [(''page'', json_int (int (da_page d))), (''pageSize'', json_int (int (da_pageSize d))),
         (''total'', json_int (int (da_total d)))]),
      (''meta'', json_meta (da_meta d))]"

definition json_passport :: "object_passport \<Rightarrow> json" where
  "json_passport p = JObj
     [(''id'', json_int (pp_id p)), (''name'', JStr (pp_name p)), (''objectClass'', json_opt JStr (pp_objectClass p)),
      (''address'', json_opt JStr (pp_address p)), (''permitNumber'', json_opt JStr (pp_permitNumber p)),
      (''permitDate'', json_date (pp_permitDate p)), (''connectionDate'', json_date (pp_connectionDate p)),
      (''status'', JStr (pp_status p))]"

definition json_participant :: "detail_participant \<Rightarrow> json" where
  "json_participant p = JObj
     [(''role'', JStr (dp_role p)), (''orgName'', JStr (dp_orgName p)), (''contactPerson'', json_opt JStr (dp_contactPerson p)),
      (''contactEmail'', json_opt JStr (dp_contactEmail p)), (''validFrom'', JDate (dp_validFrom p))]"

definition json_boq :: "detail_boq \<Rightarrow> json" where
  "json_boq v = JObj
     [(''id'', json_int (db_id v)), (''versionNumber'', JStr (db_versionNumber v)), (''itemsCount'', json_int (int (db_itemsCount v)))]"

definition json_period :: "detail_period \<Rightarrow> json" where
  "json_period p = JObj
     [(''id'', json_int (dper_id p)), (''periodNumber'', json_int (dper_periodNumber p)),
      (''status'', JStr (period_status_text (dper_status p))), (''openedAt'', JDate (dper_openedAt p)),
      (''closedAt'', json_date (dper_closedAt p))]"

definition json_current :: "detail_current \<Rightarrow> json" where
  "json_current c = JObj
     [(''objReadinessPct'', json_opt JNum (dc_objReadinessPct c)), (''weightedForecastDate'', json_date (dc_weightedForecastDate c)),
      (''criticalPathForecastDate'', json_date (dc_criticalPathForecastDate c)), (''gapFlag'', JBool (dc_gapFlag c))]"

definition json_history :: "detail_history \<Rightarrow> json" where
  "json_history h = JObj
     [(''periodId'', json_int (dh_periodId h)), (''periodNumber'', json_int (dh_periodNumber h)),
      (''closedAt'', json_date (dh_closedAt h)), (''objectReadinessPct'', JNum (dh_objectReadinessPct h)),
      (''weightedForecastDate'', json_date (dh_weightedForecastDate h)),
      (''criticalPathForecastDate'', json_date (dh_criticalPathForecastDate h)), (''gapFlag'', JBool (dh_gapFlag h)),
      (''boqVersionNumber'', JStr (dh_boqVersionNumber h))]"

definition json_object_detail :: "object_detail \<Rightarrow> json" where
  "json_object_detail d = JObj
     [(''object'', json_passport (ob_object d)), (''participants'', JArr (map json_participant (ob_participants d))),
      (''activeBoq'', json_opt json_boq (ob_activeBoq d)), (''currentPeriod'', json_opt json_period (ob_currentPeriod d)),
      (''hasAnalytics'', JBool (ob_hasAnalytics d)), (''current'', json_opt json_current (ob_current d)),
      (''history'', JArr (map json_history (ob_history d))), (''meta'', json_meta (ob_meta d))]"

definition json_position :: "detail_position \<Rightarrow> json" where
  "json_position p = JObj
     [(''boqItemId'', json_int (dp_boqItemId p)), (''workCode'', JStr (dp_workCode p)), (''name'', JStr (dp_name p)),
      (''unit'', JStr (dp_unit p)), (''planVolume'', JNum (dp_planVolume p)), (''gpVolume'', json_opt JNum (dp_gpVolume p)),
      (''scVolume'', json_opt JNum (dp_scVolume p)), (''discrepancyType'', json_opt json_int (dp_discrepancyType p)),
      (''discrepancyStatus'', json_opt (\<lambda>x. JStr (discrepancy_status_text x)) (dp_discrepancyStatus p)),
      (''acceptedVolume'', json_opt JNum (dp_acceptedVolume p))]"

definition json_period_detail :: "period_detail \<Rightarrow> json" where
  "json_period_detail d = JObj
     [(''id'', json_int (pd_id d)), (''periodNumber'', json_int (pd_periodNumber d)),
      (''status'', JStr (period_status_text (pd_status d))), (''openedAt'', JDate (pd_openedAt d)),
      (''closedAt'', json_date (pd_closedAt d)), (''objectId'', json_int (pd_objectId d)),
      (''boqVersionId'', json_int (pd_boqVersionId d)), (''positions'', JArr (map json_position (pd_positions d))),
      (''openDiscrepancyCount'', json_int (int (pd_openDiscrepancyCount d)))]"

definition json_form_item :: "gp_form_item \<Rightarrow> json" where
  "json_form_item i = JObj
     [(''boqItemId'', json_int (gf_boqItemId i)), (''name'', JStr (gf_name i)), (''unit'', JStr (gf_unit i)),
      (''planVolume'', JNum (gf_planVolume i))]"

definition json_form :: "gp_form \<Rightarrow> json" where
  "json_form d = JObj
     [(''periodNumber'', json_int (gf_periodNumber d)), (''objectName'', JStr (gf_objectName d)),
      (''gpTokenExpiresAt'', json_date (gf_gpTokenExpiresAt d)), (''items'', JArr (map json_form_item (gf_items d)))]"

text \<open>What the client sends.\<close>

definition json_payload :: "gp_payload \<Rightarrow> json" where
  "json_payload p = JObj
     [(''gpSubmittedByName'', JStr (fst p)),
      (''items'', JArr (map (\<lambda>(i, v). JObj [(''boqItemId'', json_int i), (''gpVolume'', JNum v)]) (snd p)))]"

section \<open>Typing\<close>

lemma has_type_opt [simp]: "(\<And>v. has_type t (f v)) \<Longrightarrow> has_type (nullable t) (json_opt f x)"
  by (cases x) (simp_all add: json_opt_def)

lemma has_type_basic [simp]:
  "has_type TNumber (JNum x)" "has_type TNumber (json_int n)" "has_type TString (JStr t)" "has_type TString (JDate d)"
  "has_type TBoolean (JBool b)" "has_type (TObject fs) (JObj kvs) \<longleftrightarrow> has_fields fs kvs"
  by (simp_all add: json_int_def)

lemma has_type_date [simp]: "has_type (nullable TString) (json_date day)"
  unfolding json_date_def by (rule has_type_opt) simp

lemma has_type_literals [simp]: "has_type (TUnion (map TLiteral ts)) (JStr t) \<longleftrightarrow> t \<in> set ts"
  by (induction ts) auto

lemma has_type_array [simp]: "has_type (TArray t) (JArr (map f xs)) \<longleftrightarrow> list_all (\<lambda>x. has_type t (f x)) xs"
  by (simp add: list.pred_map comp_def)

declare has_type.simps(1-3,6-8) [simp del] list.pred_True [simp]

lemma meta_typed [simp]: "has_type StalenessMeta (json_meta m)"
proof -
  have "has_type (TUnion [TLiteral ''mv_refresh_failed'', TLiteral ''older_than_30min'', TNull])
     (case sm_staleReason m of None \<Rightarrow> JNull | Some MvRefreshFailed \<Rightarrow> JStr ''mv_refresh_failed''
         | Some OlderThan30min \<Rightarrow> JStr ''older_than_30min'')"
    by (simp add: has_type.simps(6) split: option.split stale_reason.split)
  then show ?thesis unfolding StalenessMeta_def json_meta_def by simp
qed

lemma dashboard_item_typed: "has_type DashboardRow (json_dashboard_item d) \<longleftrightarrow> di_status d \<in> set OBJECT_STATUSES"
  unfolding DashboardRow_def json_dashboard_item_def by simp

text \<open>The portfolio has its type exactly when the status of every object in it is one of the three declared.\<close>

lemma dashboard_typed:
  "has_type DashboardResponse (json_dashboard d) \<longleftrightarrow> list_all (\<lambda>i. di_status i \<in> set OBJECT_STATUSES) (da_items d)"
  unfolding DashboardResponse_def json_dashboard_def by (simp add: dashboard_item_typed)

lemma object_parts_typed:
  "has_type (TObject
        [required ''role'' TString, required ''orgName'' TString, required ''contactPerson'' (nullable TString),
         required ''contactEmail'' (nullable TString), required ''validFrom'' TString]) (json_participant p)"
  "has_type (TObject
        [required ''id'' TNumber, required ''versionNumber'' TString, required ''itemsCount'' TNumber]) (json_boq v)"
  "has_type (TObject
        [required ''id'' TNumber, required ''periodNumber'' TNumber, required ''status'' TString,
         required ''openedAt'' TString, required ''closedAt'' (nullable TString)]) (json_period per)"
  "has_type (TObject
        [required ''objReadinessPct'' (nullable TNumber), required ''weightedForecastDate'' (nullable TString),
         required ''criticalPathForecastDate'' (nullable TString), required ''gapFlag'' TBoolean]) (json_current c)"
  "has_type (TObject
        [required ''periodId'' TNumber, required ''periodNumber'' TNumber, required ''closedAt'' (nullable TString),
         required ''objectReadinessPct'' TNumber, required ''weightedForecastDate'' (nullable TString),
         required ''criticalPathForecastDate'' (nullable TString), required ''gapFlag'' TBoolean,
         required ''boqVersionNumber'' TString]) (json_history h)"
  by (simp_all add: json_participant_def json_boq_def json_period_def json_current_def json_history_def)

text \<open>An object always has its type.\<close>

lemma object_detail_typed: "has_type ObjectDetailResponse (json_object_detail d)"
  unfolding ObjectDetailResponse_def json_object_detail_def
  by (simp add: object_parts_typed json_passport_def)

lemma position_typed: "has_type PeriodPosition (json_position p)"
  unfolding PeriodPosition_def json_position_def by simp

lemma period_detail_typed:
  "has_type PeriodDetailResponse (json_period_detail d) \<longleftrightarrow> period_status_text (pd_status d) \<in> set declared_statuses"
  unfolding PeriodDetailResponse_def json_period_detail_def by (simp add: position_typed)

lemma form_typed: "has_type GpFormResponse (json_form d) \<longleftrightarrow> gf_gpTokenExpiresAt d \<noteq> None"
proof -
  have "has_type GpFormItem (json_form_item i)" for i
    unfolding GpFormItem_def json_form_item_def by simp
  then show ?thesis unfolding GpFormResponse_def json_form_def
    by (cases "gf_gpTokenExpiresAt d") (simp_all add: json_date_def json_opt_def has_type.simps(2))
qed

lemma payload_typed: "has_type GpSubmitPayload (json_payload p)"
  unfolding GpSubmitPayload_def json_payload_def by (simp add: list_all_iff split: prod.split)

end
