(* ===== verification/Web_Theorems.thy ===== *)
theory Web_Theorems
  imports Client_Types System_Theorems
begin

text \<open>
  The properties of the web client with its server: what the pages send, what becomes of it, and what
  they show.  The witnesses use a browser that is signed in as the engineer of the sample store, and
  an open period of its object.
\<close>

section \<open>The witness run\<close>

definition sample_browser :: browser where
  "sample_browser = \<lparr>br_access_token = Some ''1'', br_auth_user = Some (Stored (JObj [(''role'', JStr ''stroycontrol'')])),
     br_cookie = None, br_agent = ''ua'', br_ip = ''ip''\<rparr>"

definition contractor_browser :: browser where
  "contractor_browser = sample_browser\<lparr>br_access_token := None, br_auth_user := None\<rparr>"

definition sample_form :: gp_form where
  "sample_form = \<lparr>gf_periodNumber = 1, gf_objectName = ''House'', gf_gpTokenExpiresAt = Some 1209601000,
     gf_items = [\<lparr>gf_boqItemId = 30, gf_name = ''W-1'', gf_unit = ''m3'', gf_planVolume = 100\<rparr>,
                 \<lparr>gf_boqItemId = 31, gf_name = ''W-2'', gf_unit = ''m3'', gf_planVolume = 50\<rparr>]\<rparr>"

definition sample_page :: gp_page where
  "sample_page = onName '' Ivanov '' (onVolume 31 ''12.5 m'' (onVolume 30 ''5'' gp_initial))"

definition sample_open_period :: period where
  "sample_open_period = (sample_period POpen)\<lparr>p_gpSubmittedAt := None, p_gpSubmittedByName := None\<rparr>"

lemma sample_page_sends:
  "handleSubmit sample_form sample_page
     = (sample_page\<lparr>gp_touched := True\<rparr>, Some (''Ivanov'', [(30, 5), (31, 25 / 2)]))"
proof -
  have "canSubmit sample_form sample_page" by code_simp
  moreover have "map (\<lambda>item. (gf_boqItemId item, volume_of sample_page (gf_boqItemId item))) (gf_items sample_form)
      = [(30, 5), (31, 25 / 2)]" by code_simp
  moreover have "js_trim (gp_name sample_page) = ''Ivanov''" by code_simp
  ultimately show ?thesis by (simp add: handleSubmit_def)
qed

text \<open>The sample store with an open period.\<close>

definition sample_open_store :: db where
  "sample_open_store = sample_store\<lparr>periods := [sample_open_period], seq := sample_seq\<rparr>"

lemma sample_signed_in: "signed_in_as sample_env sample_browser engineer_payload"
  by code_simp

lemma sample_open_ok: "sys_ok sample_open_store"
  by code_simp

lemma sample_form_data: "gp_form_data sample_env sample_browser ''tok'' sample_open_store = Ready sample_form"
proof -
  have "fst (getGpFormData ''tok'' sample_open_store) = Inr sample_form" by code_simp
  then show ?thesis
    using gp_data_run[OF sample_signed_in, of "''tok''" sample_open_store]
    by (cases "getGpFormData ''tok'' sample_open_store") simp
qed

section \<open>The form of the general contractor\<close>

text \<open>
  C29.  The form sends what was typed, or nothing: \<^emph>\<open>Submit\<close> sends a request just when a name is given and
  every entry is a number that is not negative; then the request has the name without the white space around
  it, every position of the form once and in its order, and for each the number that was typed.
\<close>

theorem gp_form_sends_what_was_typed:
  "case handleSubmit data pg of
     (pg', None) \<Rightarrow> js_trim (gp_name pg) = []
       \<or> (\<exists>item \<in> set (gf_items data). \<forall>t x. gp_values pg (gf_boqItemId item) = Some t \<longrightarrow> parseFloat t = Some x \<longrightarrow> x < 0)
   | (pg', Some (name, volumes)) \<Rightarrow> name = js_trim (gp_name pg) \<and> name \<noteq> []
       \<and> map fst volumes = map gf_boqItemId (gf_items data)
       \<and> (\<forall>(i, v) \<in> set volumes. 0 \<le> v \<and> (\<exists>t. gp_values pg i = Some t \<and> parseFloat t = Some v))"
proof (cases "canSubmit data pg")
  case True
  then have "isValid pg (gf_boqItemId item)" if "item \<in> set (gf_items data)" for item
    using that by (simp add: canSubmit_def allFilled_iff)
  then show ?thesis
    using True by (auto simp: handleSubmit_def Let_def canSubmit_def dest!: volume_of_valid)
next
  case False
  then show ?thesis
    by (auto simp: handleSubmit_def Let_def canSubmit_def allFilled_iff isValid_parse not_le)
qed

theorem gp_form_sends_what_was_typed_witness:
  "''Ivanov'' = js_trim (gp_name sample_page)
   \<and> (\<exists>t. gp_values sample_page 31 = Some t \<and> parseFloat t = Some (25 / 2))"
proof -
  have "''Ivanov'' = js_trim (gp_name sample_page)
     \<and> (\<forall>(i, v) \<in> set [(30, 5), (31, 25 / 2)]. 0 \<le> v \<and> (\<exists>t. gp_values sample_page i = Some t \<and> parseFloat t = Some v))"
    using gp_form_sends_what_was_typed[where data = sample_form and pg = sample_page]
    unfolding sample_page_sends prod.case option.case by blast
  then show ?thesis by auto
qed




text \<open>
  C31.  The contractor, who has a link and no account, cannot use it: for a browser without an access token the link
  shows \<^emph>\<open>the link has expired\<close>, whatever the token and the period, and the request of the form is refused.
\<close>

theorem contractor_without_login_sees_expired:
  assumes "bearer_of b = None" and "token \<noteq> []"
  shows "gp_link e b token s pg = GpExpired
     \<and> call e b (gp_submit_call token payload) s = (Inl (HttpError 401 ''Unauthorized''), s)"
  using gp_link_anonymous[OF assms] call_anonymous[OF assms(1)] by (simp add: gp_submit_call_def)

theorem contractor_without_login_sees_expired_witness:
  "gp_link sample_env contractor_browser ''tok'' sample_open_store gp_initial = GpExpired"
proof -
  have "bearer_of contractor_browser = None" by code_simp
  from contractor_without_login_sees_expired[OF this] show ?thesis by blast
qed

section \<open>The page of a period\<close>

lemma period_data_run:
  assumes "signed_in_as e b u" "may_act u" "parseInt (jp_sub u) = Some actor"
  shows "period_data e b i s =
     (case getDetail i actor s of (Inl x, _) \<Rightarrow> Failed (failure_of x) | (Inr d, _) \<Rightarrow> Ready d)"
  using assms call_signed_in[OF assms(1), of "period_detail_call i"]
  by (auto simp: period_data_def call_def period_detail_call_def signed_in_def reply_def bind_def ret_def query_of_def
      may_act_def as_actor_def split: prod.splits sum.splits)

lemma engineer_acts: "may_act engineer_payload" "parseInt (jp_sub engineer_payload) = Some 1"
  by code_simp+

definition measured_detail :: period_detail where
  "measured_detail = result_of (getDetail 101 1) measured"

lemma measured_data: "period_data sample_env sample_browser 101 measured = Ready measured_detail"
proof -
  have "returns (getDetail 101 1) measured" by code_simp
  then show ?thesis
    unfolding period_data_run[OF sample_signed_in engineer_acts] by (simp add: returns_run measured_detail_def)
qed

text \<open>
  C32.  The button that closes a period is right about the server: for a user who may act and what the page
  has just loaded, it is enabled exactly when the server would close the period (or fail inside, with status 500),
  and when it is disabled the request would be refused for one of the three reasons the service checks,
  without a trace in the store.
\<close>

theorem close_button_matches_server:
  assumes ok: "db_ok s" and user: "signed_in_as e b u" "may_act u" "parseInt (jp_sub u) = Some actor"
    and data: "period_data e b i s = Ready d"
  shows "if cb_disabled (close_bar_of False d)
     then \<exists>st msg. call e b (period_close_call i) s = (Inl (HttpError st msg), s) \<and> (st, msg) \<in> close_refusals
     else (case fst (call e b (period_close_call i) s) of
             Inl err \<Rightarrow> err = HttpError 500 ''Internal server error'' | Inr a \<Rightarrow> \<exists>p. a = APeriod p \<and> p_status p = PClosed)"
proof -
  obtain org p where p: "visible_period i org s = Some p" "pd_status d = p_status p"
      "pd_openDiscrepancyCount d = length (open_discrepancies i s)"
    using data by (rule period_data_Ready)
  then have find: "find_period i s = Some p" "period_org p s = Some org"
    using find_period_iff[OF ok] by (auto simp: visible_period_def dest: find_SomeD)
  have verif: "period_status_text st = ''verification'' \<longleftrightarrow> st = PVerification" for st by (cases st) simp_all
  have off: "cb_disabled (close_bar_of False d) \<longleftrightarrow> p_status p \<noteq> PVerification \<or> open_discrepancies i s \<noteq> []"
    using p by (auto simp: close_bar_of_def canClose_def verif)
  show ?thesis
  proof (cases "cb_disabled (close_bar_of False d)")
    case True
    then obtain x where "closePeriod i actor s = (Inl x, s)" "isHttpException x" "(http_status x, exn_message x) \<in> close_refusals"
      using closePeriod_refused[OF find] off by blast
    then show ?thesis using True by (simp add: close_call_run[OF user] failure_of_def)
  next
    case False
    then have *: "p_status p = PVerification" "open_discrepancies i s = []" using off by auto
    show ?thesis
    proof (cases "closePeriod i actor s")
      case (Pair r s')
      show ?thesis
      proof (cases r)
        case (Inl x)
        then obtain y where "x = PrismaError y" using closePeriod_internal[OF find *] Pair by blast
        then show ?thesis using False Pair Inl by (simp add: close_call_run[OF user] failure_of_def)
      next
        case (Inr q)
        then obtain per where "q = closed_by actor (clock s) per" using closePeriod_success[OF ok] Pair by blast
        then show ?thesis using False Pair Inr by (simp add: close_call_run[OF user] closed_by_def)
      qed
    qed
  qed
qed

theorem close_button_matches_server_witness:
  "\<not> cb_disabled (close_bar_of False measured_detail)
   \<and> (case fst (call sample_env sample_browser (period_close_call 101) measured) of
        Inl err \<Rightarrow> err = HttpError 500 ''Internal server error'' | Inr a \<Rightarrow> \<exists>p. a = APeriod p \<and> p_status p = PClosed)"
proof -
  have "db_ok measured" by code_simp
  moreover have "\<not> cb_disabled (close_bar_of False measured_detail)" by code_simp
  ultimately show ?thesis
    using close_button_matches_server[OF _ sample_signed_in engineer_acts measured_data] by simp
qed

text \<open>
  Two people who enter figures for the same position through the page overwrite each other without a
  warning: the page sends no version, so after one figure was accepted any other figure, from any user
  who may act, is accepted too and replaces it.
\<close>

theorem web_figures_overwrite:
  assumes ok: "db_ok s" and first: "call e b (upsert_fact_call p bq v) s = (Inr (AFact f), s')"
    and user: "signed_in_as e2 b2 u" "may_act u" "parseInt (jp_sub u) = Some actor" and w: "0 \<le> w"
  shows "\<exists>g t. call e2 b2 (upsert_fact_call p bq w) s' = (Inr (AFact g), t)
     \<and> map_option f_scVolume (find_fact p bq t) = Some (Some w)"
proof -
  obtain a where run: "upsertPeriodFact p bq v a no_opts s = (Inr f, s')" using first by (rule fact_call_Inr)
  obtain g t where again: "upsertPeriodFact p bq w actor no_opts s' = (Inr g, t)"
    using upsertPeriodFact_again[OF ok run w] by blast
  have "db_ok s'" using movesD[OF upsertPeriodFact_life run] evolves_db_ok[OF _ ok] by (auto simp: lifecycle_def)
  then obtain per where "fact_entered p bq w actor no_opts per s' g t"
    using upsertPeriodFact_success[OF _ again] by blast
  then have "facts_map t (p, bq) = Some g" "f_scVolume g = Some w" by (auto simp: fact_entered_def)
  then show ?thesis using again by (auto simp: fact_call_run[OF user] facts_map_def)
qed

lemma first_figure_runs: "returns (upsertPeriodFact 101 30 5 1 no_opts) submitted_store"
  by code_simp

theorem web_figures_overwrite_witness:
  "\<exists>g t. call sample_env sample_browser (upsert_fact_call 101 30 7)
         (final (upsertPeriodFact 101 30 5 1 no_opts) submitted_store) = (Inr (AFact g), t)
     \<and> map_option f_scVolume (find_fact 101 30 t) = Some (Some 7)"
proof -
  have "db_ok submitted_store" by code_simp
  moreover have "call sample_env sample_browser (upsert_fact_call 101 30 5) submitted_store
      = (Inr (AFact (result_of (upsertPeriodFact 101 30 5 1 no_opts) submitted_store)),
         final (upsertPeriodFact 101 30 5 1 no_opts) submitted_store)"
    unfolding fact_call_run[OF sample_signed_in engineer_acts] by (simp add: returns_run[OF first_figure_runs])
  ultimately show ?thesis
    using web_figures_overwrite[OF _ _ sample_signed_in engineer_acts, of submitted_store] by simp
qed

text \<open>
  C33.  The answers have the types the client declares for them: whatever requests and timers have done to a
  store without periods closed by force, a period the server sends is a \<^verbatim>\<open>PeriodDetailResponse\<close> (its status is one
  of the four declared, and so has a step on the page), and the form of the contractor is a \<^verbatim>\<open>GpFormResponse\<close>
  (it always has a deadline).
\<close>

theorem answers_have_declared_types:
  assumes ok: "sys_ok s0" and start: "\<forall>p \<in> set (periods s0). p_status p \<noteq> PForceClosed" and steps: "sys_steps s0 s"
  shows "(\<forall>d. period_data e b i s = Ready d \<longrightarrow>
            has_type PeriodDetailResponse (json_period_detail d) \<and> STATUS_TO_STEP (period_status_text (pd_status d)) \<noteq> None)
     \<and> (\<forall>data. gp_form_data e b token s = Ready data \<longrightarrow> has_type GpFormResponse (json_form data))"
  unfolding period_detail_typed form_typed
proof (intro conjI allI impI)
  fix d assume "period_data e b i s = Ready d"
  then obtain org p where p: "visible_period i org s = Some p" "pd_status d = p_status p" by (rule period_data_Ready)
  have adv: "advances s0 s" using steps by (rule sys_steps_advances)
  have oks: "db_ok s0" "db_ok s" using ok sys_ok_kept[OF adv ok] by (simp_all add: sys_ok_def)
  have "never_forced (abs_cycle s0)" using start never_forced_periods[OF oks(1)] by simp
  moreover have "cycle\<^sup>*\<^sup>* (abs_cycle s0) (abs_cycle s)" using adv oks(1) by (simp add: advances_def)
  ultimately have "never_forced (abs_cycle s)" by (rule never_forced_steps[rotated])
  moreover have "p \<in> set (periods s)" using p(1) by (auto simp: visible_period_def dest: find_SomeD)
  ultimately have "p_status p \<noteq> PForceClosed" using never_forced_periods[OF oks(2)] by blast
  then show "period_status_text (pd_status d) \<in> set declared_statuses"
    "STATUS_TO_STEP (period_status_text (pd_status d)) \<noteq> None"
    using p(2) by (cases "p_status p"; simp add: declared_statuses_def STATUS_TO_STEP_def)+
next
  fix data assume "gp_form_data e b token s = Ready data"
  then have "query_of (\<lambda>a. case a of AGpForm d \<Rightarrow> Some d | _ \<Rightarrow> None) (fst (call e b (gp_form_call token) s)) = Ready data"
    by (simp add: gp_form_data_def split: if_splits)
  then obtain a user s' where "(case a of AGpForm d \<Rightarrow> Some d | _ \<Rightarrow> None) = Some data"
      "dispatch e (api_request b (gp_form_call token)) user (gp_form_call token) s = (Inr a, s')" by (rule query_Ready)
  then have "getGpFormData token s = (Inr data, s')" by (auto simp: gp_form_call_def dest!: signed_in_Inr reply_Inr)
  then show "gf_gpTokenExpiresAt data \<noteq> None"
    by (auto simp: getGpFormData_run gp_form_of_def token_fresh_def split: option.splits if_splits)
qed

theorem answers_have_declared_types_witness:
  "has_type GpFormResponse (json_form sample_form)"
proof -
  have "\<forall>p \<in> set (periods sample_open_store). p_status p \<noteq> PForceClosed" by code_simp
  from answers_have_declared_types[OF sample_open_ok this rtranclp.rtrancl_refl] sample_form_data show ?thesis by blast
qed

section \<open>The pages of the portfolio\<close>

text \<open>
  C34.  Under the columns the migrations give the view, the two pages that lead everywhere else never show
  anything: the portfolio says that the data could not be loaded, whatever filter and order are chosen, and
  every object that it could not be found, whoever is signed in.
\<close>

theorem portfolio_pages_always_fail:
  assumes "mv_columns s = migrated_mv_columns"
  shows "dv_body (dashboard_view_of t b q (dashboard_data e b q s)) = BodyError
     \<and> object_screen_of t b m (object_data e b i s) = ObjectNotFound"
proof -
  have "''obj_readiness_pct'' \<notin> set (mv_columns s)" by (simp add: assms migrated_mv_columns_def)
  note fails = wp_fails[OF dashboard_fails(1)[OF this]] wp_fails[OF dashboard_fails(2)[OF this]]
  have "call e b (dashboard_list q) s \<noteq> (Inr a, s')" for a s'
  proof
    assume "call e b (dashboard_list q) s = (Inr a, s')"
    from handle_Inr[OF call_Inr[OF this]] obtain user where
      "dispatch e (api_request b (dashboard_list q)) user (dashboard_list q) s = (Inr a, s')" by (auto simp: api_request_def)
    then obtain u k where "getDashboard (e_rank e) u q s = (Inr k, s')"
      by (auto simp: dashboard_list_def analytics_controller_def dest!: signed_in_Inr as_actor_Inr reply_Inr)
    then show False using fails(1)[of "e_rank e" u q] by auto
  qed
  then obtain f where dash: "fst (call e b (dashboard_list q) s) = Inl f"
    by (cases "call e b (dashboard_list q) s"; cases "fst (call e b (dashboard_list q) s)") auto
  have "call e b (object_detail_call i) s \<noteq> (Inr a, s')" for a s'
  proof
    assume "call e b (object_detail_call i) s = (Inr a, s')"
    from handle_Inr[OF call_Inr[OF this]] obtain user where
      "dispatch e (api_request b (object_detail_call i)) user (object_detail_call i) s = (Inr a, s')" by (auto simp: api_request_def)
    then obtain u k where "get_object_detail u i s = (Inr k, s')"
      by (auto simp: object_detail_call_def dest!: signed_in_Inr as_actor_Inr reply_Inr)
    then show False using fails(2)[of u i] by auto
  qed
  then obtain f' where "fst (call e b (object_detail_call i) s) = Inl f'"
    by (cases "call e b (object_detail_call i) s"; cases "fst (call e b (object_detail_call i) s)") auto
  with dash show ?thesis
    by (simp add: dashboard_data_def object_data_def query_of_def dashboard_view_of_def object_screen_of_def Let_def)
qed

theorem portfolio_pages_always_fail_witness:
  "object_screen_of 1000 sample_browser \<lparr>mu_pending = False, mu_error = None\<rparr>
     (object_data sample_env sample_browser 10 sample_store) = ObjectNotFound"
proof -
  have "mv_columns sample_store = migrated_mv_columns" by code_simp
  from portfolio_pages_always_fail[OF this] show ?thesis by blast
qed

section \<open>Navigation\<close>

text \<open>
  C35.  Navigation ends: from any path at most two redirections lead to a page, and a browser that is not
  admitted (nobody signed in, or a contractor) only ever gets to the contractor's form or to the page
  that says that access is forbidden.
\<close>

theorem navigation_ends_at_admitted_page:
  "navigate_within 2 b segs = Some (navigate b segs)
   \<and> (navigate b segs \<notin> insert ForbiddenAt (range GpAt) \<longrightarrow> protected_open b)"
proof
  show "navigate_within 2 b segs = Some (navigate b segs)"
    by (rule navigate_enough) (simp add: redirects_left_def)
  show "navigate b segs \<notin> insert ForbiddenAt (range GpAt) \<longrightarrow> protected_open b"
  proof (induction b segs rule: navigate.induct)
    case (1 b segs)
    show ?case
    proof (cases "match_route b segs")
      case (Show pg)
      then show ?thesis
        by (auto simp: navigate_show match_route_def guarded_def split: list.splits if_splits)
    next
      case (GoTo segs')
      then show ?thesis using 1 by (simp add: navigate_redirect)
    qed
  qed
qed

theorem navigation_ends_at_admitted_page_witness:
  "protected_open sample_browser"
proof -
  have "navigate_within 2 sample_browser [] = Some DashboardAt" by code_simp
  then show ?thesis using navigation_ends_at_admitted_page[of sample_browser "[]"] by auto
qed

section \<open>Details of the pages\<close>

text \<open>
  The events of the form: typing, \<^emph>\<open>Submit\<close> while the button is enabled, and the answer to a request.  The
  first component tells whether anything has been sent yet.
\<close>

inductive gp_event :: "gp_form \<Rightarrow> bool \<times> gp_page \<Rightarrow> bool \<times> gp_page \<Rightarrow> bool" for data where
  volume: "gp_event data (sent, pg) (sent, onVolume i t pg)"
| name: "gp_event data (sent, pg) (sent, onName t pg)"
| submit: "\<not> gv_disabled (gp_view_of t data pg) \<Longrightarrow> handleSubmit data pg = (pg', r) \<Longrightarrow>
     gp_event data (sent, pg) (sent \<or> r \<noteq> None, pg')"
| answered: "gp_event data (True, pg) (True, onSubmitted pg)"

text \<open>Before the form has been sent once, no field is ever marked as missing: the button is disabled instead.\<close>

lemma untouched_until_sent:
  assumes "(gp_event data)\<^sup>*\<^sup>* (False, gp_initial) (sent, pg)" and "\<not> sent"
  shows "\<not> gp_touched pg"
proof -
  have "\<not> sent \<longrightarrow> \<not> gp_touched pg"
    using assms(1)
  proof (induction "(sent, pg)" arbitrary: sent pg rule: rtranclp_induct)
    case base
    then show ?case by (simp add: gp_initial_def)
  next
    case (step st)
    obtain u pg0 where "st = (u, pg0)" by (cases st)
    with step show ?case
      by (auto simp: onVolume_def onName_def handleSubmit_def Let_def gp_view_of_def elim!: gp_event.cases split: if_splits)
  qed
  then show ?thesis using assms(2) by simp
qed

theorem marks_only_after_sending:
  assumes "(gp_event data)\<^sup>*\<^sup>* (False, gp_initial) (False, pg)"
  shows "\<forall>row \<in> set (gv_rows (gp_view_of t data pg)). \<not> gr_error row"
  using untouched_until_sent[OF assms] by (auto simp: gp_view_of_def gp_row_of_def Let_def)

text \<open>The tick of the form appears before the last of two hundred positions is filled in.\<close>

theorem tick_before_complete:
  assumes "length (gf_items data) = 200" and "filledCount data pg = 199"
  shows "gv_tick (gp_view_of t data pg) \<and> gv_disabled (gp_view_of t data pg)"
proof -
  have "progressPct data pg = js_round (199 / 200 * 100)" using assms by (simp add: progressPct_def)
  also have "js_round (199 / 200 * 100 :: number) = 100" by (simp add: js_round_def)
  finally show ?thesis using assms by (simp add: gp_view_of_def canSubmit_def allFilled_def)
qed

text \<open>The events of the table of objects, with the buttons as they are enabled.\<close>

inductive dashboard_event :: "dashboard_query \<Rightarrow> dashboard_query \<Rightarrow> bool" where
  gap: "dashboard_event q (onGapOnly c q)"
| order: "dashboard_event q (onSort srt q)"
| previous: "\<not> backDisabled q \<Longrightarrow> dashboard_event q (onBack q)"
| forward: "\<not> forwardDisabled q res \<Longrightarrow> dashboard_event q (onForward q)"

text \<open>Whatever is clicked, the query passes the validation of the server.\<close>

theorem dashboard_query_valid:
  assumes "dashboard_event\<^sup>*\<^sup>* initial_query q"
  shows "dashboard_valid q"
proof -
  have "dashboard_valid q \<and> dq_page q \<noteq> None"
    using assms
  proof (induction rule: rtranclp_induct)
    case base
    then show ?case by (simp add: initial_query_def dashboard_valid_def if_given_def)
  next
    case (step q r)
    then show ?case
      by (auto simp: dashboard_valid_def if_given_def onGapOnly_def onSort_def onBack_def onForward_def backDisabled_def
          page_number_def elim!: dashboard_event.cases)
  qed
  then show ?thesis ..
qed

text \<open>The button that opens a period is there only as long as the object has had none.\<close>

lemma object_data_Ready:
  assumes "object_data e b i s = Ready d"
  shows "ob_currentPeriod d = detail_period_of i s"
proof -
  have "query_of (\<lambda>a. case a of AObjectDetail x \<Rightarrow> Some x | _ \<Rightarrow> None) (fst (call e b (object_detail_call i) s)) = Ready d"
    using assms by (simp add: object_data_def)
  then obtain a user s' where "(case a of AObjectDetail x \<Rightarrow> Some x | _ \<Rightarrow> None) = Some d"
      "dispatch e (api_request b (object_detail_call i)) user (object_detail_call i) s = (Inr a, s')"
    by (rule query_Ready)
  then obtain actor where "get_object_detail actor i s = (Inr d, s')"
    by (auto simp: object_detail_call_def dest!: signed_in_Inr as_actor_Inr reply_Inr)
  then show ?thesis
    by (auto simp: get_object_detail_def require_object_def user_org_def query_columns_def getStalenessMeta_def
        bind_eq_Inr prog_defs split: option.splits if_splits)
qed

theorem open_button_only_before_first_period:
  assumes "object_data e b i s = Ready d" and "ov_openButton (object_view_of t b m d) \<noteq> None"
  shows "canAct b \<and> (\<forall>p \<in> set (periods s). p_objectId p \<noteq> i)"
proof -
  have "detail_period_of i s = None" "canAct b"
    using assms object_data_Ready[OF assms(1)] by (auto simp: object_view_of_def split: if_splits)
  then show ?thesis by (auto simp: detail_period_of_def)
qed

text \<open>Four of the five entries of the navigation lead to the portfolio, as no route has their paths.\<close>

theorem nav_entries_lead_to_dashboard:
  "\<forall>entry \<in> set NAV. navigate b entry = (if protected_open b then DashboardAt else ForbiddenAt)"
  by (auto simp: NAV_def navigate.simps match_route_def guarded_def)

end
