(* ===== verification/Shared_Types.thy ===== *)
theory Shared_Types
  imports Period_Page Dashboard
begin

text \<open>
  The enumerations of \<^verbatim>\<open>packages/shared\<close> (\<^verbatim>\<open>types.ts\<close>), each as the object it is at run time: its names with their
  values.  Server and client declare the package as a dependency, but keep lists of their own, with which
  these are compared at the end.
\<close>

type_synonym enumeration = "(string \<times> string) list"

definition values_of :: "enumeration \<Rightarrow> string list" where
  "values_of en = map snd en"

definition UserRole :: enumeration where
  "UserRole = [(''Stroycontrol'', ''stroycontrol''), (''Director'', ''director''), (''Admin'', ''admin'')]"

definition ObjectStatus :: enumeration where
  "ObjectStatus = [(''Active'', ''active''), (''Completed'', ''completed''), (''Suspended'', ''suspended'')]"

definition ParticipantRole :: enumeration where
  "ParticipantRole =
     [(''GeneralContractor'', ''general_contractor''), (''Developer'', ''developer''), (''Designer'', ''designer''),
      (''StroycontrolOrg'', ''stroycontrol_org'')]"

definition BoqChangeType :: enumeration where
  "BoqChangeType =
     [(''Initial'', ''initial''), (''Volume'', ''volume''), (''Cost'', ''cost''), (''Structural'', ''structural'')]"

definition BoqItemStatus :: enumeration where
  "BoqItemStatus = [(''Active'', ''active''), (''ExcludedFromScope'', ''excluded_from_scope'')]"

definition ZeroReportStatus :: enumeration where
  "ZeroReportStatus =
     [(''Draft'', ''draft''), (''PendingApproval'', ''pending_approval''), (''Approved'', ''approved''),
      (''Rejected'', ''rejected'')]"

definition ZeroReportItemSource :: enumeration where
  "ZeroReportItemSource =
     [(''FieldMeasurement'', ''field_measurement''), (''ExecDocs'', ''exec_docs''), (''Ks2'', ''ks2'')]"

definition PeriodStatus :: enumeration where
  "PeriodStatus =
     [(''Open'', ''open''), (''WaitingGp'', ''waiting_gp''), (''Verifying'', ''verifying''), (''Closed'', ''closed''),
      (''ForceClosed'', ''force_closed'')]"

definition ZeroPeriodReason :: enumeration where
  "ZeroPeriodReason =
     [(''Weather'', ''weather''), (''DesignChange'', ''design_change''), (''PermitSuspension'', ''permit_suspension''),
      (''FinancingPause'', ''financing_pause''), (''ForceMajeure'', ''force_majeure''), (''Seasonal'', ''seasonal'')]"

text \<open>The one enumeration of numbers; at run time it also maps the numbers back to the names.\<close>

definition DiscrepancyType :: "(string \<times> int) list" where
  "DiscrepancyType = [(''Type1'', 1), (''Type2'', 2)]"

definition DiscrepancyStatus :: enumeration where
  "DiscrepancyStatus =
     [(''Open'', ''open''), (''ScOverride'', ''sc_override''), (''DirectorResolved'', ''director_resolved''),
      (''ForcedScFigure'', ''forced_sc_figure''), (''Cancelled'', ''cancelled'')]"

definition SpikeResponse :: enumeration where
  "SpikeResponse =
     [(''PlannedConcentration'', ''planned_concentration''), (''InputError'', ''input_error''),
      (''NoReaction'', ''no_reaction'')]"

definition SyncOperation :: enumeration where
  "SyncOperation =
     [(''SubmitFact'', ''submit_fact''), (''UploadPhoto'', ''upload_photo''),
      (''SubmitGpTemplate'', ''submit_gp_template''), (''AddDiscrepancyNote'', ''add_discrepancy_note''),
      (''OpenPeriod'', ''open_period''), (''ClosePeriod'', ''close_period'')]"

definition SyncStatus :: enumeration where
  "SyncStatus =
     [(''Pending'', ''pending''), (''Applied'', ''applied''), (''Conflict'', ''conflict''), (''Rejected'', ''rejected'')]"

definition AuditAction :: enumeration where
  "AuditAction =
     [(''Insert'', ''insert''), (''Update'', ''update''), (''Delete'', ''delete''),
      (''AdminCorrection'', ''admin_correction''), (''ForceClose'', ''force_close'')]"

definition BaselineUpdateStatus :: enumeration where
  "BaselineUpdateStatus = [(''Pending'', ''pending''), (''Approved'', ''approved''), (''Rejected'', ''rejected'')]"

definition L2DocumentType :: enumeration where
  "L2DocumentType =
     [(''Ssr'', ''ssr''), (''Rdc'', ''rdc''), (''CalendarPlan'', ''calendar_plan''), (''Other'', ''other'')]"

definition SystemConfigValueType :: enumeration where
  "SystemConfigValueType = [(''Numeric'', ''numeric''), (''Text'', ''text''), (''Boolean'', ''boolean'')]"

definition SystemConfigKey :: enumeration where
  "SystemConfigKey =
     [(''NFlagThreshold'', ''N_flag_threshold''), (''MFlagWindow'', ''M_flag_window''),
      (''WeightThreshold'', ''weight_threshold''), (''ForecastGapAlert'', ''forecast_gap_alert''),
      (''ToleranceThreshold'', ''tolerance_threshold''), (''OverrunWarningLimit'', ''overrun_warning_limit''),
      (''AvgPacePeriods'', ''avg_pace_periods''), (''DecayFactor'', ''decay_factor''),
      (''SpikeThreshold'', ''spike_threshold''), (''ZeroReportAlertDays'', ''zero_report_alert_days''),
      (''BaselineCorrectionThreshold'', ''baseline_correction_threshold'')]"

definition DevicePlatform :: enumeration where
  "DevicePlatform = [(''Android'', ''android''), (''Ios'', ''ios'')]"

definition OrgPlan :: enumeration where
  "OrgPlan = [(''Starter'', ''starter''), (''Professional'', ''professional''), (''Enterprise'', ''enterprise'')]"

section \<open>Against the lists in use\<close>

text \<open>
  Of the five statuses a period can have in the data base the shared enumeration has three, of the statuses
  of a discrepancy all but the one of a confirmed fact, and of the actions of the audit log the first five;
  the keys of the configuration and the answers to the spike question are the same.
\<close>

theorem shared_period_status_diverges:
  "period_status_text st \<in> set (values_of PeriodStatus) \<longleftrightarrow> st \<in> {POpen, PClosed, PForceClosed}"
proof -
  have "values_of PeriodStatus = [''open'', ''waiting_gp'', ''verifying'', ''closed'', ''force_closed'']" by code_simp
  then show ?thesis by (cases st) simp_all
qed

theorem shared_discrepancy_status_diverges:
  "discrepancy_status_text st \<in> set (values_of DiscrepancyStatus) \<longleftrightarrow> st \<noteq> DConfirmed"
proof -
  have "values_of DiscrepancyStatus
      = [''open'', ''sc_override'', ''director_resolved'', ''forced_sc_figure'', ''cancelled'']" by code_simp
  then show ?thesis by (cases st) (simp_all add: discrepancy_status_text_def)
qed

theorem shared_spike_responses: "set (values_of SpikeResponse) = set spike_responses"
  by (simp add: values_of_def SpikeResponse_def spike_responses_def)

theorem shared_config_keys: "values_of SystemConfigKey = KNOWN_KEYS"
  by (simp add: values_of_def SystemConfigKey_def KNOWN_KEYS_def)

theorem shared_audit_actions: "values_of AuditAction = take 5 migrated_audit_actions"
  by (simp add: values_of_def AuditAction_def migrated_audit_actions_def)

text \<open>The values of every enumeration are distinct, so that a value determines its name.\<close>

theorem enumerations_invertible:
  "list_all (\<lambda>en. distinct (map fst en) \<and> distinct (values_of en))
     [UserRole, ObjectStatus, ParticipantRole, BoqChangeType, BoqItemStatus, ZeroReportStatus, ZeroReportItemSource,
      PeriodStatus, ZeroPeriodReason, DiscrepancyStatus, SpikeResponse, SyncOperation, SyncStatus, AuditAction,
      BaselineUpdateStatus, L2DocumentType, SystemConfigValueType, SystemConfigKey, DevicePlatform, OrgPlan]"
  by code_simp

end
