(* ===== verification/Serial_Guard.thy ===== *)
theory Serial_Guard
  imports JS_Text
begin

text \<open>
  The lock between test processes that write the same files (\<^verbatim>\<open>tools/audit/_lib/serial-guard.js\<close>): the steps
  of \<^verbatim>\<open>acquireSerialGuard\<close> on a file system that several processes share, one step for every call that
  reads or changes it.  A file that was created has an inode, so that a process writes to its own file even
  when another one has removed the name.
\<close>

section \<open>Processes and the lock file\<close>

datatype guard_pc =
    Start
  | Exists
  | Found nat
  | Stale
  | Reopen
  | Opened nat
  | Holding nat
  | Released
  | Refused
  | Failed

record guard_state =
  gd_lock :: "(nat \<times> string) option"
  gd_next :: nat
  gd_pc :: "nat \<Rightarrow> guard_pc"
  gd_alive :: "nat \<Rightarrow> bool"

definition set_pc :: "nat \<Rightarrow> guard_pc \<Rightarrow> guard_state \<Rightarrow> guard_state" where
  "set_pc p c s = s\<lparr>gd_pc := (gd_pc s)(p := c)\<rparr>"

text \<open>
  \<^verbatim>\<open>Number(text.trim()) || 0\<close>, on the texts that are ever written: digits.  Anything else is not a
  number, and 0.
\<close>

definition holder_of :: "string \<Rightarrow> nat" where
  "holder_of t = (let d = js_trim t in if d \<noteq> [] \<and> list_all is_digit d then digits_value d else 0)"

definition pidAlive :: "guard_state \<Rightarrow> nat \<Rightarrow> bool" where
  "pidAlive s pid \<longleftrightarrow> pid \<noteq> 0 \<and> gd_alive s pid"

text \<open>\<^verbatim>\<open>openSync(lockFile, 'wx')\<close> when there is no such file.\<close>

definition create_lock :: "nat \<Rightarrow> guard_state \<Rightarrow> guard_state" where
  "create_lock p s = set_pc p (Opened (gd_next s)) (s\<lparr>gd_lock := Some (gd_next s, []), gd_next := Suc (gd_next s)\<rparr>)"

definition guard_step :: "nat \<Rightarrow> guard_state \<Rightarrow> guard_state" where
  "guard_step p s =
     (case gd_pc s p of
        Start \<Rightarrow> (case gd_lock s of None \<Rightarrow> create_lock p s | Some _ \<Rightarrow> set_pc p Exists s)
      | Exists \<Rightarrow> (case gd_lock s of None \<Rightarrow> set_pc p Failed s | Some f \<Rightarrow> set_pc p (Found (holder_of (snd f))) s)
      | Found holder \<Rightarrow> set_pc p (if pidAlive s holder then Refused else Stale) s
      | Stale \<Rightarrow> set_pc p Reopen (s\<lparr>gd_lock := None\<rparr>)
      | Reopen \<Rightarrow> (case gd_lock s of None \<Rightarrow> create_lock p s | Some _ \<Rightarrow> set_pc p Failed s)
      | Opened n \<Rightarrow> set_pc p (Holding n)
          (case gd_lock s of
             None \<Rightarrow> s
           | Some f \<Rightarrow> if fst f = n then s\<lparr>gd_lock := Some (n, show_nat p)\<rparr> else s)
      | _ \<Rightarrow> s)"

text \<open>\<^verbatim>\<open>release\<close>, which also runs when the process exits: it removes the file of that name, whosoever it is.\<close>

definition release_guard :: "nat \<Rightarrow> guard_state \<Rightarrow> guard_state" where
  "release_guard p s =
     (case gd_pc s p of Holding n \<Rightarrow> set_pc p Released (s\<lparr>gd_lock := None\<rparr>) | _ \<Rightarrow> s)"

definition crash :: "nat \<Rightarrow> guard_state \<Rightarrow> guard_state" where
  "crash p s = s\<lparr>gd_alive := (gd_alive s)(p := False)\<rparr>"

text \<open>The whole call by one process, when nothing comes in between: it ends within six steps.\<close>

definition acquireSerialGuard :: "nat \<Rightarrow> guard_state \<Rightarrow> guard_state" where
  "acquireSerialGuard p = guard_step p ^^ 6"

definition holds :: "guard_state \<Rightarrow> nat \<Rightarrow> bool" where
  "holds s p \<longleftrightarrow> gd_alive s p \<and> (\<exists>n. gd_pc s p = Holding n)"

text \<open>Nobody has started; the file may be left over from an earlier run.\<close>

definition guard_initial :: "(nat \<times> string) option \<Rightarrow> guard_state" where
  "guard_initial left_over = \<lparr>gd_lock = left_over, gd_next = 1, gd_pc = (\<lambda>_. Start), gd_alive = (\<lambda>p. p \<noteq> 0)\<rparr>"

section \<open>One call after the other\<close>

lemma holder_of_empty [simp]: "holder_of [] = 0"
  by (simp add: holder_of_def js_trim_def)

lemma js_trim_digits: "list_all is_digit d \<Longrightarrow> js_trim d = d"
proof -
  assume d: "list_all is_digit d"
  have "dropWhile js_space xs = xs" if "list_all is_digit xs" for xs
    using that by (cases xs) (auto dest: digit_not_space)
  with d show ?thesis by (simp add: js_trim_def list_all_iff)
qed

lemma holder_of_show [simp]: "holder_of (show_nat p) = p"
proof -
  have "list_all is_digit (show_nat p)"
    using show_nat_digits[of _ p] by (auto simp: list_all_iff is_digit_def)
  moreover have "show_nat p \<noteq> []" by (subst show_nat.simps) simp
  ultimately show ?thesis by (simp add: holder_of_def Let_def js_trim_digits del: digits_value.simps)
qed

lemmas guard_simps = guard_step_def set_pc_def create_lock_def

text \<open>What the call does, in one go.\<close>

lemma acquire_run:
  assumes "gd_pc s p = Start"
  shows "acquireSerialGuard p s =
     (case gd_lock s of
        Some f \<Rightarrow>
          if pidAlive s (holder_of (snd f)) then set_pc p Refused s
          else set_pc p (Holding (gd_next s))
                 (s\<lparr>gd_lock := Some (gd_next s, show_nat p), gd_next := Suc (gd_next s)\<rparr>)
      | None \<Rightarrow> set_pc p (Holding (gd_next s))
                 (s\<lparr>gd_lock := Some (gd_next s, show_nat p), gd_next := Suc (gd_next s)\<rparr>))"
proof -
  have six: "acquireSerialGuard p s
      = guard_step p (guard_step p (guard_step p (guard_step p (guard_step p (guard_step p s)))))"
    by (simp add: acquireSerialGuard_def numeral_eq_Suc)
  have opened: "guard_step p (guard_step p (guard_step p t)) = t'" "guard_step p t' = t'"
    if "gd_pc t p = Start \<or> gd_pc t p = Reopen" "gd_lock t = None"
      "t' = set_pc p (Holding (gd_next t)) (t\<lparr>gd_lock := Some (gd_next t, show_nat p), gd_next := Suc (gd_next t)\<rparr>)"
    for t t'
    using that by (auto simp: guard_simps)
  show ?thesis
  proof (cases "gd_lock s")
    case None
    then show ?thesis using opened[of s] assms by (simp add: six)
  next
    case (Some f)
    let ?found = "set_pc p (Found (holder_of (snd f))) s"
    have "guard_step p (guard_step p s) = ?found" using assms Some by (simp add: guard_simps)
    moreover have "guard_step p ?found = set_pc p (if pidAlive s (holder_of (snd f)) then Refused else Stale) s"
      by (simp add: guard_simps pidAlive_def)
    moreover have "guard_step p (set_pc p Refused s) = set_pc p Refused s" by (simp add: guard_simps)
    moreover have "guard_step p (set_pc p Stale s) = set_pc p Reopen (s\<lparr>gd_lock := None\<rparr>)" by (simp add: guard_simps)
    moreover have "guard_step p (guard_step p (set_pc p Reopen (s\<lparr>gd_lock := None\<rparr>)))
        = set_pc p (Holding (gd_next s)) (s\<lparr>gd_lock := Some (gd_next s, show_nat p), gd_next := Suc (gd_next s)\<rparr>)"
      by (simp add: guard_simps)
    ultimately show ?thesis using Some by (simp add: six)
  qed
qed

datatype guard_event = Acquire nat | Release nat | Crash nat

fun guard_act :: "guard_event \<Rightarrow> guard_state \<Rightarrow> guard_state option" where
  "guard_act (Acquire p) s = (if gd_alive s p \<and> gd_pc s p = Start then Some (acquireSerialGuard p s) else None)"
| "guard_act (Release p) s = (if gd_alive s p then Some (release_guard p s) else None)"
| "guard_act (Crash p) s = Some (crash p s)"

inductive serial_run :: "guard_state \<Rightarrow> guard_state \<Rightarrow> bool" where
  refl: "serial_run s s"
| step: "serial_run s t \<Longrightarrow> guard_act ev t = Some u \<Longrightarrow> serial_run s u"

text \<open>The lock file names every process that holds the lock, so that there is at most one.\<close>

definition guard_inv :: "guard_state \<Rightarrow> bool" where
  "guard_inv s \<longleftrightarrow> \<not> gd_alive s 0 \<and> (\<forall>p. holds s p \<longrightarrow> (\<exists>n. gd_lock s = Some (n, show_nat p)))"

lemma guard_inv_unique: "guard_inv s \<Longrightarrow> holds s p \<Longrightarrow> holds s q \<Longrightarrow> p = q"
  unfolding guard_inv_def by (metis option.inject prod.inject show_nat_inj)

lemma guard_inv_event:
  assumes inv: "guard_inv s" and ev: "guard_act ev s = Some t"
  shows "guard_inv t"
proof (cases ev)
  case (Acquire p)
  then have p: "gd_alive s p" "gd_pc s p = Start" "t = acquireSerialGuard p s"
    using ev by (auto split: if_splits)
  have other: "\<not> holds s q" if "case gd_lock s of None \<Rightarrow> True | Some f \<Rightarrow> \<not> pidAlive s (holder_of (snd f))" for q
    using inv that by (auto simp: guard_inv_def holds_def pidAlive_def split: option.splits)
  show ?thesis
  proof (cases "\<exists>f. gd_lock s = Some f \<and> pidAlive s (holder_of (snd f))")
    case True
    then have "t = set_pc p Refused s" using p by (auto simp: acquire_run)
    then show ?thesis using inv p by (auto simp: guard_inv_def holds_def set_pc_def)
  next
    case False
    then have "t = set_pc p (Holding (gd_next s))
        (s\<lparr>gd_lock := Some (gd_next s, show_nat p), gd_next := Suc (gd_next s)\<rparr>)"
      using p by (auto simp: acquire_run split: option.split)
    moreover have "\<not> holds s q" for q using other False by (auto split: option.split)
    ultimately show ?thesis using inv by (auto simp: guard_inv_def holds_def set_pc_def)
  qed
next
  case (Release p)
  then have p: "gd_alive s p" "t = release_guard p s" using ev by (auto split: if_splits)
  show ?thesis
  proof (cases "gd_pc s p")
    case (Holding n)
    then have "holds s p" using p by (simp add: holds_def)
    then have "\<not> holds s q" if "q \<noteq> p" for q using guard_inv_unique[OF inv] that by blast
    then show ?thesis using Holding p inv by (auto simp: guard_inv_def holds_def release_guard_def set_pc_def)
  qed (use p inv in \<open>simp_all add: release_guard_def\<close>)
next
  case (Crash p)
  then have "t = crash p s" using ev by simp
  then show ?thesis using inv by (auto simp: guard_inv_def holds_def crash_def split: if_splits)
qed

lemma guard_inv_run: "serial_run s t \<Longrightarrow> guard_inv s \<Longrightarrow> guard_inv t"
  by (induction rule: serial_run.induct) (auto intro: guard_inv_event)

lemma guard_inv_initial: "guard_inv (guard_initial left_over)"
  by (simp add: guard_inv_def guard_initial_def holds_def)

text \<open>
  As long as the calls do not overlap, the guard does what it is for: at most one process that is still
  running holds the lock; a second one is refused while the first is running, and only then; and after the first has
  released the lock, or has crashed without doing so, the next one gets it.
\<close>

theorem serial_guard_excludes:
  assumes "serial_run (guard_initial left_over) s"
  shows "(holds s p \<longrightarrow> holds s q \<longrightarrow> p = q)
     \<and> (gd_alive s p \<longrightarrow> gd_pc s p = Start \<longrightarrow>
          (\<exists>q. holds s q) \<longrightarrow> gd_pc (acquireSerialGuard p s) p = Refused \<and> gd_lock (acquireSerialGuard p s) = gd_lock s)
     \<and> (gd_alive s p \<longrightarrow> gd_pc s p = Start \<longrightarrow>
          (case gd_lock s of None \<Rightarrow> True | Some f \<Rightarrow> \<not> pidAlive s (holder_of (snd f))) \<longrightarrow>
          holds (acquireSerialGuard p s) p)"
proof (intro conjI impI)
  have inv: "guard_inv s" using guard_inv_run[OF assms guard_inv_initial] .
  show "p = q" if "holds s p" "holds s q" using guard_inv_unique[OF inv] that by blast
  show "gd_pc (acquireSerialGuard p s) p = Refused" "gd_lock (acquireSerialGuard p s) = gd_lock s"
    if start: "gd_pc s p = Start" and held: "\<exists>q. holds s q"
  proof -
    obtain q n where q: "holds s q" "gd_lock s = Some (n, show_nat q)" using held inv by (auto simp: guard_inv_def)
    have "gd_alive s q" "\<not> gd_alive s 0" using q(1) inv by (simp_all add: holds_def guard_inv_def)
    then have "pidAlive s q" unfolding pidAlive_def by (cases "q = 0") simp_all
    then have "acquireSerialGuard p s = set_pc p Refused s" using start q(2) by (simp add: acquire_run)
    then show "gd_pc (acquireSerialGuard p s) p = Refused" "gd_lock (acquireSerialGuard p s) = gd_lock s"
      by (simp_all add: set_pc_def)
  qed
  show "holds (acquireSerialGuard p s) p"
    if "gd_alive s p" "gd_pc s p = Start"
      "case gd_lock s of None \<Rightarrow> True | Some f \<Rightarrow> \<not> pidAlive s (holder_of (snd f))"
    using that by (auto simp: acquire_run holds_def set_pc_def split: option.splits)
qed

section \<open>Overlapping calls\<close>

text \<open>
  The file is created before the number of the process is written into it.  A process that reads it in
  between finds no number, takes the lock for a left-over, removes it and creates its own: both hold it.
\<close>

theorem overlapping_guards_both_hold:
  assumes "gd_lock s = None" and "gd_pc s p = Start" "gd_alive s p" and "gd_pc s q = Start" "gd_alive s q" and "p \<noteq> q"
  shows "let created = guard_step p s; other = acquireSerialGuard q created; both = guard_step p other
     in holds both p \<and> holds both q"
proof -
  let ?created = "create_lock p s"
  have one: "guard_step p s = ?created" using assms(1,2) by (simp add: guard_step_def)
  let ?other = "set_pc q (Holding (gd_next ?created))
      (?created\<lparr>gd_lock := Some (gd_next ?created, show_nat q), gd_next := Suc (gd_next ?created)\<rparr>)"
  have "gd_pc ?created q = Start" using assms(4,6) by (simp add: guard_simps)
  then have two: "acquireSerialGuard q ?created = ?other"
    by (simp add: acquire_run) (simp add: guard_simps pidAlive_def)
  have "gd_pc ?other p = Opened (gd_next s)" using assms(6) by (simp add: guard_simps)
  then have "guard_step p ?other = set_pc p (Holding (gd_next s)) ?other"
    by (simp add: guard_step_def) (simp add: guard_simps)
  then show ?thesis using assms(3,5,6) by (simp add: one two Let_def holds_def) (simp add: guard_simps)
qed

end
