(* ===== verification/Token_Rules.thy ===== *)
theory Token_Rules
  imports JS_Text Schema
begin

text \<open>
  The life cycle of the rules of the token auditor (\<^verbatim>\<open>tools/audit\<close>): the working sets and how they are
  written (\<^verbatim>\<open>_lib/rules-io.js\<close>), their validation (\<^verbatim>\<open>audit-rules.js\<close>), the counters of a session
  (\<^verbatim>\<open>token-rules-count.js\<close>), the proposals (\<^verbatim>\<open>token-rules-propose.js\<close>) and their application
  (\<^verbatim>\<open>token-rules-apply.js\<close>).

  The parser of YAML and SHA-256 are arguments.  What the scripts read of a rule file are records: a field
  that is absent or no number (no text) is \<open>None\<close>, an id that is no text is empty, and so is a list that is
  none; \<open>rd_synced\<close> is the date as a template string shows it.  The calls on files may fail (\<open>disk_calls\<close>).  A
  script ends with an exit: \<open>Inl\<close> where its status is 1; what it prints is left out but for the counts.
\<close>

section \<open>Rule files\<close>

record rule_entry =
  re_id :: string
  re_status :: "string option"
  re_hit_count :: "number option"
  re_tp :: "number option"
  re_fp :: "number option"
  re_precision :: "number option"
  re_sessions_observed :: "number option"
  re_sessions_in_quarantine :: "number option"
  re_requires_transcript_access :: bool
  re_blocked_reason :: "string option"
  re_reason :: "string option"
  re_deprecated_at :: "string option"

definition blank_entry :: "string \<Rightarrow> rule_entry" where
  "blank_entry i =
     \<lparr>re_id = i, re_status = None, re_hit_count = None, re_tp = None, re_fp = None, re_precision = None,
      re_sessions_observed = None, re_sessions_in_quarantine = None, re_requires_transcript_access = False,
      re_blocked_reason = None, re_reason = None, re_deprecated_at = None\<rparr>"

text \<open>What a rule file holds for the reader: the lists under their keys, an absent one empty.\<close>

record rule_doc =
  rd_rules :: "string list"
  rd_active :: "rule_entry list"
  rd_quarantine :: "rule_entry list"
  rd_deprecated :: "rule_entry list"
  rd_synced :: "string option"

datatype rule_file = ActiveFile | QuarantineFile | DeprecatedFile | BaselineFile | LockFile

type_synonym rule_files = "rule_file \<Rightarrow> string option"
type_synonym rule_reader = "string \<Rightarrow> rule_doc"

section \<open>rules-io\<close>

text \<open>What the parser makes of a text, and what the scripts read of it.\<close>

datatype yaml =
    YNull
  | YBool bool
  | YNum number
  | YText string
  | YSeq "yaml list"
  | YMap "(string \<times> yaml) list"

definition yaml_get :: "string \<Rightarrow> yaml \<Rightarrow> yaml" where
  "yaml_get k v = (case v of YMap m \<Rightarrow> (case map_of m k of Some x \<Rightarrow> x | None \<Rightarrow> YNull) | _ \<Rightarrow> YNull)"

definition text_of :: "yaml \<Rightarrow> string option" where
  "text_of v = (case v of YText t \<Rightarrow> Some t | _ \<Rightarrow> None)"

definition number_of :: "yaml \<Rightarrow> number option" where
  "number_of v = (case v of YNum x \<Rightarrow> Some x | _ \<Rightarrow> None)"

definition list_of :: "yaml \<Rightarrow> yaml list" where
  "list_of v = (case v of YSeq vs \<Rightarrow> vs | _ \<Rightarrow> [])"

definition id_of :: "yaml \<Rightarrow> string" where
  "id_of v = (case text_of (yaml_get ''id'' v) of Some i \<Rightarrow> i | None \<Rightarrow> [])"

definition entry_of :: "yaml \<Rightarrow> rule_entry" where
  "entry_of v =
     \<lparr>re_id = id_of v, re_status = text_of (yaml_get ''status'' v),
      re_hit_count = number_of (yaml_get ''hit_count'' v), re_tp = number_of (yaml_get ''tp'' v),
      re_fp = number_of (yaml_get ''fp'' v), re_precision = number_of (yaml_get ''precision'' v),
      re_sessions_observed = number_of (yaml_get ''sessions_observed'' v),
      re_sessions_in_quarantine = number_of (yaml_get ''sessions_in_quarantine'' v),
      re_requires_transcript_access = (yaml_get ''requires_transcript_access'' v = YBool True),
      re_blocked_reason = text_of (yaml_get ''blocked_reason'' v), re_reason = text_of (yaml_get ''reason'' v),
      re_deprecated_at = text_of (yaml_get ''deprecated_at'' v)\<rparr>"

definition parseYaml :: "(string \<Rightarrow> yaml) \<Rightarrow> rule_reader" where
  "parseYaml parse raw =
     (let v = parse raw
      in \<lparr>rd_rules = map id_of (list_of (yaml_get ''rules'' v)),
          rd_active = map entry_of (list_of (yaml_get ''active'' v)),
          rd_quarantine = map entry_of (list_of (yaml_get ''quarantine'' v)),
          rd_deprecated = map entry_of (list_of (yaml_get ''deprecated'' v)),
          rd_synced = text_of (yaml_get ''synced_from_baseline'' v)\<rparr>)"

definition newline :: string where
  "newline = [CHR 0x0A]"

fun split_lines :: "string \<Rightarrow> string list" where
  "split_lines [] = [[]]"
| "split_lines (c # cs) =
     (if c = CHR 0x0A then [] # split_lines cs
      else (case split_lines cs of [] \<Rightarrow> [[c]] | l # ls \<Rightarrow> (c # l) # ls))"

fun join_lines :: "string list \<Rightarrow> string" where
  "join_lines [] = []"
| "join_lines [l] = l"
| "join_lines (l # ls) = l @ newline @ join_lines ls"

text \<open>The lines at the beginning that are blank or comments.\<close>

definition comment_line :: "string \<Rightarrow> bool" where
  "comment_line l \<longleftrightarrow> js_trim l = [] \<or> take 1 (dropWhile js_space l) = ''#''"

definition header :: "string \<Rightarrow> string" where
  "header raw =
     (let h = join_lines (takeWhile comment_line (split_lines raw))
      in if h \<noteq> [] then rev (dropWhile (\<lambda>c. c = CHR 0x0A) (rev h)) @ newline else [])"

definition num :: "number option \<Rightarrow> number" where
  "num x = (case x of None \<Rightarrow> 0 | Some v \<Rightarrow> v)"

text \<open>\<^verbatim>\<open>+x.toFixed(f)\<close>\<close>

definition fixed :: "nat \<Rightarrow> number \<Rightarrow> number" where
  "fixed f x = (let n = of_int (js_round (\<bar>x\<bar> * 10 ^ f)) / 10 ^ f in if x < 0 then - n else n)"

definition derivePrecision :: "number \<Rightarrow> number \<Rightarrow> number option" where
  "derivePrecision tp fp = (if 0 < tp + fp then Some (fixed 4 (tp / (tp + fp))) else None)"

text \<open>A number in a template string; those that are written have at most four decimals.\<close>

definition show_number :: "number \<Rightarrow> string" where
  "show_number x =
     (let n = js_round (\<bar>x\<bar> * 10000); whole = nat (n div 10000);
          digits = rev (dropWhile (\<lambda>c. c = CHR ''0'') (rev (pad_left 4 (show_nat (nat (n mod 10000))))))
      in (if x < 0 then ''-'' else []) @ show_nat whole @ (if digits = [] then [] else ''.'' @ digits))"

definition numOrNull :: "number option \<Rightarrow> string" where
  "numOrNull x = (case x of None \<Rightarrow> ''null'' | Some v \<Rightarrow> show_number v)"

text \<open>\<^verbatim>\<open>JSON.stringify\<close> of a text.\<close>

definition hex_digit :: "nat \<Rightarrow> char" where
  "hex_digit n = char_of (if n < 10 then 48 + n else 87 + n)"

definition json_char :: "char \<Rightarrow> string" where
  "json_char c =
     (let n = of_char c :: nat
      in if n = 34 then [CHR 0x5C, CHR 0x22] else if n = 92 then [CHR 0x5C, CHR 0x5C]
         else if n = 8 then [CHR 0x5C, CHR ''b''] else if n = 9 then [CHR 0x5C, CHR ''t'']
         else if n = 10 then [CHR 0x5C, CHR ''n''] else if n = 12 then [CHR 0x5C, CHR ''f'']
         else if n = 13 then [CHR 0x5C, CHR ''r'']
         else if n < 32 then [CHR 0x5C, CHR ''u'', CHR ''0'', CHR ''0'', hex_digit (n div 16), hex_digit (n mod 16)]
         else [c])"

definition json_text :: "string \<Rightarrow> string" where
  "json_text t = [CHR 0x22] @ concat (map json_char t) @ [CHR 0x22]"

definition active_line :: "rule_entry \<Rightarrow> string" where
  "active_line e =
     ''  - { id: '' @ re_id e @ '', status: active, hit_count: '' @ show_number (num (re_hit_count e))
     @ '', tp: '' @ show_number (num (re_tp e)) @ '', fp: '' @ show_number (num (re_fp e))
     @ '', precision: '' @ numOrNull (re_precision e)
     @ '', sessions_observed: '' @ show_number (num (re_sessions_observed e)) @ '' }''"

definition emitActive :: "string \<Rightarrow> rule_entry list \<Rightarrow> string \<Rightarrow> string" where
  "emitActive hdr entries syncedDate =
     hdr @ ''version: 1'' @ newline @ ''synced_from_baseline: '' @ syncedDate @ newline @ ''active:'' @ newline
     @ join_lines (map active_line entries) @ newline"

definition show_bool :: "bool \<Rightarrow> string" where
  "show_bool b = (if b then ''true'' else ''false'')"

definition quarantine_lines :: "rule_entry \<Rightarrow> string" where
  "quarantine_lines e =
     join_lines
       ([''  - id: '' @ re_id e, ''    status: quarantine'',
         ''    requires_transcript_access: '' @ show_bool (re_requires_transcript_access e)]
        @ (case re_blocked_reason e of
             None \<Rightarrow> [] | Some r \<Rightarrow> if r = [] then [] else [''    blocked_reason: '' @ json_text r])
        @ [''    sessions_in_quarantine: '' @ show_number (num (re_sessions_in_quarantine e)),
           ''    hit_count: '' @ show_number (num (re_hit_count e)), ''    tp: '' @ show_number (num (re_tp e)),
           ''    fp: '' @ show_number (num (re_fp e)), ''    precision: '' @ numOrNull (re_precision e)])"

text \<open>\<^verbatim>\<open>.join('\n\n')\<close>\<close>

fun join_blocks :: "string list \<Rightarrow> string" where
  "join_blocks [] = []"
| "join_blocks [b] = b"
| "join_blocks (b # bs) = b @ newline @ newline @ join_blocks bs"

definition emitQuarantine :: "string \<Rightarrow> rule_entry list \<Rightarrow> string" where
  "emitQuarantine hdr entries =
     (if entries = [] then hdr @ ''version: 1'' @ newline @ ''quarantine: []'' @ newline
      else hdr @ ''version: 1'' @ newline @ ''quarantine:'' @ newline
           @ join_blocks (map quarantine_lines entries) @ newline)"

definition deprecated_lines :: "string \<Rightarrow> rule_entry \<Rightarrow> string" where
  "deprecated_lines isoNow e =
     join_lines
       [''  - id: '' @ re_id e, ''    status: deprecated'',
        ''    reason: '' @ json_text (case re_reason e of None \<Rightarrow> [] | Some r \<Rightarrow> r),
        ''    deprecated_at: '' @ json_text
          (case re_deprecated_at e of None \<Rightarrow> isoNow | Some d \<Rightarrow> if d = [] then isoNow else d)]"

definition emitDeprecated :: "string \<Rightarrow> string \<Rightarrow> rule_entry list \<Rightarrow> string" where
  "emitDeprecated isoNow hdr entries =
     (if entries = [] then hdr @ ''version: 1'' @ newline @ ''deprecated: []'' @ newline
      else hdr @ ''version: 1'' @ newline @ ''deprecated:'' @ newline
           @ join_blocks (map (deprecated_lines isoNow) entries) @ newline)"

text \<open>Whether the calls on files succeed: replacing a file with its new text or with its old one, appending to
  the change log, removing the file of proposals.\<close>

record disk_calls =
  di_write :: "rule_file \<Rightarrow> bool"
  di_restore :: "rule_file \<Rightarrow> bool"
  di_append :: bool
  di_unlink :: bool

text \<open>The two loops over the files; a write that fails throws, one that removes a file is in a \<^verbatim>\<open>try\<close>.\<close>

fun write_files :: "disk_calls \<Rightarrow> (rule_file \<times> string) list \<Rightarrow> rule_files \<Rightarrow> bool \<times> rule_files" where
  "write_files d [] fs = (True, fs)"
| "write_files d ((f, c) # ws) fs = (if di_write d f then write_files d ws (fs(f \<mapsto> c)) else (False, fs))"

fun restore_files :: "disk_calls \<Rightarrow> (rule_file \<times> string option) list \<Rightarrow> rule_files \<Rightarrow> rule_files" where
  "restore_files d [] fs = fs"
| "restore_files d ((f, c) # snap) fs =
     (if di_restore d f then restore_files d snap (fs(f := c))
      else (case c of None \<Rightarrow> restore_files d snap fs | Some _ \<Rightarrow> fs))"

text \<open>\<^verbatim>\<open>commitFiles\<close>: snapshot, write, validate; restore when the validation fails.  A write that throws ends it
  before that: then, as after a failed validation, there is no success to go on from.\<close>

definition commitFiles ::
  "disk_calls \<Rightarrow> (rule_files \<Rightarrow> bool) \<Rightarrow> (rule_file \<times> string) list \<Rightarrow> rule_files \<Rightarrow> bool \<times> rule_files" where
  "commitFiles d audit writes fs =
     (let snap = map (\<lambda>(f, c). (f, fs f)) writes
      in case write_files d writes fs of
           (False, fs') \<Rightarrow> (False, fs')
         | (True, fs') \<Rightarrow> if audit fs' then (True, fs') else (False, restore_files d snap fs'))"

section \<open>audit-rules\<close>

datatype violation =
    LockMissing
  | HashMismatch
  | BadId string
  | MissingStatus string
  | NotInBaseline string
  | InBoth string
  | NotPlaced string

text \<open>\<^verbatim>\<open>content.replace(/\r\n/g, '\n')\<close>\<close>

fun unix_lines :: "string \<Rightarrow> string" where
  "unix_lines (c # d # cs) =
     (if c = CHR 0x0D \<and> d = CHR 0x0A then d # unix_lines cs else c # unix_lines (d # cs))"
| "unix_lines cs = cs"

definition normHash :: "(string \<Rightarrow> string) \<Rightarrow> string \<Rightarrow> string" where
  "normHash sha256 content = sha256 (unix_lines content)"

text \<open>\<^verbatim>\<open>/^R-\d{3}$/\<close>\<close>

definition rule_id :: "string \<Rightarrow> bool" where
  "rule_id i \<longleftrightarrow> take 2 i = ''R-'' \<and> length i = 5 \<and> list_all is_digit (drop 2 i)"

definition check_entry :: "string list \<Rightarrow> rule_entry \<Rightarrow> violation list" where
  "check_entry baselineIds e =
     (if \<not> rule_id (re_id e) then [BadId (re_id e)]
      else (case re_status e of None \<Rightarrow> [MissingStatus (re_id e)] | Some st \<Rightarrow> if st = [] then [MissingStatus (re_id e)] else [])
           @ (if re_id e \<in> set baselineIds then [] else [NotInBaseline (re_id e)]))"

text \<open>The members of a \<^verbatim>\<open>Set\<close>, in the order of insertion.\<close>

definition js_set :: "string list \<Rightarrow> string list" where
  "js_set xs = rev (remdups (rev xs))"

definition check_disjoint :: "string list \<Rightarrow> string list \<Rightarrow> violation list" where
  "check_disjoint xs ys = map InBoth (filter (\<lambda>i. i \<in> set ys) (js_set xs))"

definition lock_violations :: "(string \<Rightarrow> string) \<Rightarrow> string \<Rightarrow> string option \<Rightarrow> violation list" where
  "lock_violations sha256 baseline lock =
     (case lock of None \<Rightarrow> [LockMissing]
      | Some l \<Rightarrow> if js_trim l \<noteq> normHash sha256 baseline then [HashMismatch] else [])"

definition set_violations ::
  "string list \<Rightarrow> rule_entry list \<Rightarrow> rule_entry list \<Rightarrow> rule_entry list \<Rightarrow> violation list" where
  "set_violations baselineIds activeList quarList deprList =
     (let aIds = map re_id activeList; qIds = map re_id quarList; dIds = map re_id deprList
      in concat (map (check_entry baselineIds) activeList) @ concat (map (check_entry baselineIds) quarList)
         @ concat (map (check_entry baselineIds) deprList)
         @ check_disjoint aIds qIds @ check_disjoint aIds dIds @ check_disjoint qIds dIds
         @ map NotPlaced (filter (\<lambda>i. i \<notin> set aIds \<and> i \<notin> set qIds \<and> i \<notin> set dIds) (js_set baselineIds)))"

text \<open>The exit status: \<open>True\<close> for 0.  A file that is missing is an error of parsing.\<close>

definition audit_rules :: "rule_reader \<Rightarrow> (string \<Rightarrow> string) \<Rightarrow> rule_files \<Rightarrow> bool" where
  "audit_rules yaml sha256 fs =
     (case (fs BaselineFile, fs ActiveFile, fs QuarantineFile, fs DeprecatedFile) of
        (Some b, Some a, Some q, Some d) \<Rightarrow>
          lock_violations sha256 b (fs LockFile)
          @ set_violations (rd_rules (yaml b)) (rd_active (yaml a)) (rd_quarantine (yaml q)) (rd_deprecated (yaml d)) = []
      | _ \<Rightarrow> False)"

text \<open>\<^verbatim>\<open>--write-lock\<close>\<close>

definition write_lock :: "(string \<Rightarrow> string) \<Rightarrow> rule_files \<Rightarrow> rule_files option" where
  "write_lock sha256 fs =
     (case fs BaselineFile of None \<Rightarrow> None | Some b \<Rightarrow> Some (fs(LockFile \<mapsto> normHash sha256 b @ newline)))"

section \<open>token-rules-count\<close>

record rule_stat =
  st_hits :: "number option"
  st_tp :: "number option"
  st_fp :: "number option"

definition no_stat :: rule_stat where
  "no_stat = \<lparr>st_hits = None, st_tp = None, st_fp = None\<rparr>"

datatype session_field = SessionsObserved | SessionsInQuarantine

definition bump_sessions :: "session_field \<Rightarrow> rule_entry \<Rightarrow> rule_entry" where
  "bump_sessions sessionField e =
     (case sessionField of
        SessionsObserved \<Rightarrow> e\<lparr>re_sessions_observed := Some (num (re_sessions_observed e) + 1)\<rparr>
      | SessionsInQuarantine \<Rightarrow> e\<lparr>re_sessions_in_quarantine := Some (num (re_sessions_in_quarantine e) + 1)\<rparr>)"

definition applyStats :: "rule_entry \<Rightarrow> rule_stat option \<Rightarrow> session_field \<Rightarrow> rule_entry" where
  "applyStats entry stat sessionField =
     (let s = (case stat of None \<Rightarrow> no_stat | Some x \<Rightarrow> x);
          tp = num (re_tp entry) + num (st_tp s); fp = num (re_fp entry) + num (st_fp s)
      in (bump_sessions sessionField entry)
           \<lparr>re_hit_count := Some (num (re_hit_count entry) + num (st_hits s)), re_tp := Some tp, re_fp := Some fp,
            re_precision := derivePrecision tp fp\<rparr>)"

type_synonym session_stats = "string \<Rightarrow> rule_stat option"

definition synced_date :: "rule_doc \<Rightarrow> string \<Rightarrow> string" where
  "synced_date doc today = (case rd_synced doc of None \<Rightarrow> today | Some d \<Rightarrow> if d = [] then today else d)"

text \<open>The two files as they are written.\<close>

definition count_writes ::
  "rule_reader \<Rightarrow> string \<Rightarrow> session_stats \<Rightarrow> string \<Rightarrow> string \<Rightarrow> (rule_file \<times> string) list" where
  "count_writes yaml today session aRaw qRaw =
     [(ActiveFile,
       emitActive (header aRaw) (map (\<lambda>e. applyStats e (session (re_id e)) SessionsObserved) (rd_active (yaml aRaw)))
         (synced_date (yaml aRaw) today)),
      (QuarantineFile,
       emitQuarantine (header qRaw)
         (map (\<lambda>e. applyStats e (session (re_id e)) SessionsInQuarantine) (rd_quarantine (yaml qRaw))))]"

datatype count_outcome = CountDryRun nat nat | Counted nat nat

definition count_main ::
  "disk_calls \<Rightarrow> rule_reader \<Rightarrow> (rule_files \<Rightarrow> bool) \<Rightarrow> string \<Rightarrow> bool \<Rightarrow> session_stats \<Rightarrow> rule_files
   \<Rightarrow> (unit + count_outcome) \<times> rule_files" where
  "count_main disk yaml audit today dryRun session fs =
     (case (fs ActiveFile, fs QuarantineFile) of
        (Some aRaw, Some qRaw) \<Rightarrow>
          let m = length (rd_active (yaml aRaw)); n = length (rd_quarantine (yaml qRaw))
          in if dryRun then (Inr (CountDryRun m n), fs)
             else (case commitFiles disk audit (count_writes yaml today session aRaw qRaw) fs of
                     (True, fs') \<Rightarrow> (Inr (Counted m n), fs')
                   | (False, fs') \<Rightarrow> (Inl (), fs'))
      | _ \<Rightarrow> (Inl (), fs))"

section \<open>token-rules-propose\<close>

definition PROMOTE_MIN_SESSIONS :: number where "PROMOTE_MIN_SESSIONS = 3"
definition PROMOTE_MIN_PRECISION :: number where "PROMOTE_MIN_PRECISION = 7 / 10"
definition PROMOTE_MIN_SAVINGS_PCT :: number where "PROMOTE_MIN_SAVINGS_PCT = 5"
definition PROMOTE_MIN_E_RESP :: number where "PROMOTE_MIN_E_RESP = 6 / 10"
definition DEPRECATE_NOHIT_SESSIONS :: number where "DEPRECATE_NOHIT_SESSIONS = 20"
definition DEPRECATE_MAX_PRECISION :: number where "DEPRECATE_MAX_PRECISION = 4 / 10"

text \<open>Cyrillic letters are the bytes of their UTF-8 encoding.\<close>

definition utf8 :: "nat list \<Rightarrow> string" where
  "utf8 = map char_of"

text \<open>A proposal, with the numbers it is based on.\<close>

record proposal =
  pr_id :: string
  pr_from :: string
  pr_to :: string
  pr_reason :: string
  pr_metrics :: json
  pr_q_estimated :: bool

record rule_delta =
  rd_promote :: "proposal list"
  rd_deprecate :: "proposal list"

text \<open>The two aggregates of the rolling window that the gates look at.\<close>

record gates =
  ga_delta_T_trend :: "number option"
  ga_E_resp_mean :: "number option"

definition savingsGate :: "gates \<Rightarrow> bool" where
  "savingsGate g = (case ga_delta_T_trend g of None \<Rightarrow> False | Some d \<Rightarrow> d \<le> - PROMOTE_MIN_SAVINGS_PCT)"

definition qualityGate :: "gates \<Rightarrow> bool" where
  "qualityGate g = (case ga_E_resp_mean g of None \<Rightarrow> True | Some e \<Rightarrow> PROMOTE_MIN_E_RESP \<le> e)"

definition promotable :: "gates \<Rightarrow> rule_entry \<Rightarrow> bool" where
  "promotable g r \<longleftrightarrow> \<not> re_requires_transcript_access r
     \<and> PROMOTE_MIN_SESSIONS \<le> num (re_sessions_in_quarantine r)
     \<and> (case re_precision r of None \<Rightarrow> False | Some p \<Rightarrow> PROMOTE_MIN_PRECISION \<le> p)
     \<and> savingsGate g \<and> qualityGate g"

definition no_hit :: "rule_entry \<Rightarrow> bool" where
  "no_hit r \<longleftrightarrow> DEPRECATE_NOHIT_SESSIONS \<le> num (re_sessions_observed r) \<and> num (re_hit_count r) = 0"

definition low_precision :: "rule_entry \<Rightarrow> bool" where
  "low_precision r \<longleftrightarrow> (case re_precision r of None \<Rightarrow> False | Some p \<Rightarrow> p < DEPRECATE_MAX_PRECISION)"

definition promotion :: "gates \<Rightarrow> rule_entry \<Rightarrow> proposal" where
  "promotion g r =
     \<lparr>pr_id = re_id r, pr_from = ''quarantine'', pr_to = ''active'',
      pr_reason = ''G8: seasoned + precise + global savings trend'',
      pr_metrics = JObj [(''sessions_in_quarantine'', json_opt JNum (re_sessions_in_quarantine r)),
                         (''precision'', json_opt JNum (re_precision r)),
                         (''delta_T_trend'', json_opt JNum (ga_delta_T_trend g)),
                         (''E_resp_mean'', json_opt JNum (ga_E_resp_mean g))],
      pr_q_estimated = True\<rparr>"

definition deprecation :: "rule_entry \<Rightarrow> proposal" where
  "deprecation r =
     \<lparr>pr_id = re_id r, pr_from = ''active'', pr_to = ''deprecated'',
      pr_reason =
        (if no_hit r
         then ''G9: hit_count==0 '' @ utf8 [0xD0, 0xB7, 0xD0, 0xB0] @ '' '' @ show_number (num (re_sessions_observed r))
              @ '' '' @ utf8 [0xD1, 0x81, 0xD0, 0xB5, 0xD1, 0x81, 0xD1, 0x81, 0xD0, 0xB8, 0xD0, 0xB9]
         else ''G9: precision '' @ show_number (num (re_precision r)) @ '' < '' @ show_number DEPRECATE_MAX_PRECISION),
      pr_metrics = JObj [(''sessions_observed'', json_opt JNum (re_sessions_observed r)),
                         (''hit_count'', json_opt JNum (re_hit_count r)),
                         (''precision'', json_opt JNum (re_precision r))],
      pr_q_estimated = False\<rparr>"

definition computeProposals :: "rule_entry list \<Rightarrow> rule_entry list \<Rightarrow> gates \<Rightarrow> rule_delta" where
  "computeProposals active quarantine rolling =
     \<lparr>rd_promote = map (promotion rolling) (filter (promotable rolling) quarantine),
      rd_deprecate = map deprecation (filter (\<lambda>r. no_hit r \<or> low_precision r) active)\<rparr>"

text \<open>The main program on the file of proposals: nothing to propose removes an old file.\<close>

datatype propose_outcome = ProposeDryRun nat nat | NoProposals | Proposed nat nat

definition propose_main ::
  "rule_reader \<Rightarrow> gates \<Rightarrow> bool \<Rightarrow> rule_files \<Rightarrow> rule_delta option \<Rightarrow> (unit + propose_outcome) \<times> rule_delta option" where
  "propose_main yaml rolling dryRun fs delta =
     (case (fs ActiveFile, fs QuarantineFile) of
        (Some aRaw, Some qRaw) \<Rightarrow>
          let p = computeProposals (rd_active (yaml aRaw)) (rd_quarantine (yaml qRaw)) rolling;
              m = length (rd_promote p); n = length (rd_deprecate p)
          in if dryRun then (Inr (ProposeDryRun m n), delta)
             else if m + n = 0 then (Inr NoProposals, None)
             else (Inr (Proposed m n), Some p)
      | _ \<Rightarrow> (Inl (), delta))"

section \<open>token-rules-apply\<close>

definition byId :: "rule_entry list \<Rightarrow> string \<Rightarrow> rule_entry option" where
  "byId list i = List.find (\<lambda>e. re_id e = i) list"

datatype apply_error = DuplicateId string | NotInQuarantine string | NeedsTranscript string | NotInActive string

fun promote_errors :: "rule_entry list \<Rightarrow> string list \<Rightarrow> proposal list \<Rightarrow> apply_error list \<times> string list" where
  "promote_errors quar seen [] = ([], seen)"
| "promote_errors quar seen (p # ps) =
     (let rest = promote_errors quar (pr_id p # seen) ps
      in ((if pr_id p \<in> set seen then [DuplicateId (pr_id p)] else [])
          @ (case byId quar (pr_id p) of
               None \<Rightarrow> [NotInQuarantine (pr_id p)]
             | Some q \<Rightarrow> if re_requires_transcript_access q then [NeedsTranscript (pr_id p)] else [])
          @ fst rest, snd rest))"

fun deprecate_errors :: "rule_entry list \<Rightarrow> string list \<Rightarrow> proposal list \<Rightarrow> apply_error list" where
  "deprecate_errors active seen [] = []"
| "deprecate_errors active seen (d # ds) =
     (if pr_id d \<in> set seen then [DuplicateId (pr_id d)] else [])
     @ (case byId active (pr_id d) of None \<Rightarrow> [NotInActive (pr_id d)] | Some _ \<Rightarrow> [])
     @ deprecate_errors active (pr_id d # seen) ds"

definition apply_errors :: "rule_entry list \<Rightarrow> rule_entry list \<Rightarrow> rule_delta \<Rightarrow> apply_error list" where
  "apply_errors active quar delta =
     (let p = promote_errors quar [] (rd_promote delta) in fst p @ deprecate_errors active (snd p) (rd_deprecate delta))"

text \<open>A promoted rule takes its counters along and starts its sessions anew.\<close>

definition promoted :: "rule_entry list \<Rightarrow> string \<Rightarrow> rule_entry" where
  "promoted quar i =
     (case byId quar i of
        None \<Rightarrow> blank_entry i
      | Some q \<Rightarrow> (blank_entry i)\<lparr>re_status := Some ''active'', re_hit_count := Some (num (re_hit_count q)),
           re_tp := Some (num (re_tp q)), re_fp := Some (num (re_fp q)), re_precision := re_precision q,
           re_sessions_observed := Some 0\<rparr>)"

definition new_active :: "rule_entry list \<Rightarrow> rule_entry list \<Rightarrow> rule_delta \<Rightarrow> rule_entry list" where
  "new_active active quar delta =
     filter (\<lambda>e. re_id e \<notin> pr_id ` set (rd_deprecate delta)) active
     @ map (\<lambda>p. promoted quar (pr_id p)) (rd_promote delta)"

definition new_quarantine :: "rule_entry list \<Rightarrow> rule_delta \<Rightarrow> rule_entry list" where
  "new_quarantine quar delta = filter (\<lambda>e. re_id e \<notin> pr_id ` set (rd_promote delta)) quar"

definition new_deprecated :: "string \<Rightarrow> rule_entry list \<Rightarrow> rule_delta \<Rightarrow> rule_entry list" where
  "new_deprecated isoNow depr delta =
     depr @ map (\<lambda>d. (blank_entry (pr_id d))\<lparr>re_status := Some ''deprecated'',
               re_reason := Some (pr_reason d), re_deprecated_at := Some isoNow\<rparr>) (rd_deprecate delta)"

text \<open>A line of the change log.\<close>

record change =
  ch_ts :: string
  ch_action :: string
  ch_id :: string
  ch_from :: string
  ch_to :: string
  ch_reason :: string
  ch_metrics :: json

definition changes_of :: "string \<Rightarrow> rule_delta \<Rightarrow> change list" where
  "changes_of ts delta =
     map (\<lambda>p. \<lparr>ch_ts = ts, ch_action = ''promote'', ch_id = pr_id p, ch_from = ''quarantine'', ch_to = ''active'',
              ch_reason = pr_reason p, ch_metrics = pr_metrics p\<rparr>) (rd_promote delta)
     @ map (\<lambda>d. \<lparr>ch_ts = ts, ch_action = ''deprecate'', ch_id = pr_id d, ch_from = ''active'', ch_to = ''deprecated'',
              ch_reason = pr_reason d, ch_metrics = pr_metrics d\<rparr>) (rd_deprecate delta)"

text \<open>The three files as they are written.\<close>

definition apply_writes ::
  "rule_reader \<Rightarrow> string \<Rightarrow> string \<Rightarrow> rule_delta \<Rightarrow> string \<Rightarrow> string \<Rightarrow> string \<Rightarrow> (rule_file \<times> string) list" where
  "apply_writes yaml today isoNow delta aRaw qRaw dRaw =
     (let active = rd_active (yaml aRaw); quar = rd_quarantine (yaml qRaw); depr = rd_deprecated (yaml dRaw)
      in [(ActiveFile, emitActive (header aRaw) (new_active active quar delta) (synced_date (yaml aRaw) today)),
          (QuarantineFile, emitQuarantine (header qRaw) (new_quarantine quar delta)),
          (DeprecatedFile, emitDeprecated isoNow (header dRaw) (new_deprecated isoNow depr delta))])"

datatype apply_outcome = NoDelta | EmptyDelta | ApplyDryRun | Applied

record audit_state =
  as_files :: rule_files
  as_delta :: "rule_delta option"
  as_changelog :: "change list"

definition apply_main ::
  "disk_calls \<Rightarrow> rule_reader \<Rightarrow> (rule_files \<Rightarrow> bool) \<Rightarrow> string \<Rightarrow> string \<Rightarrow> bool \<Rightarrow> audit_state
   \<Rightarrow> (unit + apply_outcome) \<times> audit_state" where
  "apply_main disk yaml audit today isoNow dryRun s =
     (case as_delta s of
        None \<Rightarrow> (Inr NoDelta, s)
      | Some delta \<Rightarrow>
          if length (rd_promote delta) + length (rd_deprecate delta) = 0 then (Inr EmptyDelta, s)
          else (case (as_files s ActiveFile, as_files s QuarantineFile, as_files s DeprecatedFile) of
                  (Some aRaw, Some qRaw, Some dRaw) \<Rightarrow>
                    if apply_errors (rd_active (yaml aRaw)) (rd_quarantine (yaml qRaw)) delta \<noteq> [] then (Inl (), s)
                    else if dryRun then (Inr ApplyDryRun, s)
                    else (case commitFiles disk audit (apply_writes yaml today isoNow delta aRaw qRaw dRaw) (as_files s) of
                            (True, fs') \<Rightarrow>
                              if \<not> di_append disk then (Inl (), s\<lparr>as_files := fs'\<rparr>)
                              else (Inr Applied,
                                \<lparr>as_files = fs', as_delta = (if di_unlink disk then None else Some delta),
                                 as_changelog = as_changelog s @ changes_of isoNow delta\<rparr>)
                          | (False, fs') \<Rightarrow> (Inl (), s\<lparr>as_files := fs'\<rparr>))
                | _ \<Rightarrow> (Inl (), s)))"

end
