(* ===== verification/Token_Rules_Props.thy ===== *)
theory Token_Rules_Props
  imports Token_Rules
begin

text \<open>
  The rules of the token auditor: the header of a rule file survives being written again, a validated write
  is all or nothing, what the audit accepts is a partition of the baseline, and every step of the life cycle
  keeps it.
\<close>

section \<open>Lines and the header\<close>

abbreviation line_end :: char where
  "line_end \<equiv> CHR 0x0A"

lemma split_lines_nonempty [simp]: "split_lines t \<noteq> []"
  by (induction t) (auto split: list.splits)

lemma split_lines_free:
  assumes "l \<in> set (split_lines t)"
  shows "line_end \<notin> set l"
  using assms by (induction t arbitrary: l) (auto split: list.splits if_splits)

lemma join_lines_Cons: "ls \<noteq> [] \<Longrightarrow> join_lines (l # ls) = l @ newline @ join_lines ls"
  by (cases ls) simp_all

lemma join_split_lines [simp]: "join_lines (split_lines t) = t"
proof (induction t)
  case (Cons c t)
  obtain l ls where s: "split_lines t = l # ls" by (cases "split_lines t") auto
  have "join_lines ((c # l) # ls) = c # join_lines (l # ls)" by (cases ls) simp_all
  then show ?case using Cons s by (auto simp: join_lines_Cons newline_def)
qed simp

lemma split_lines_append: "split_lines (u @ newline @ v) = split_lines u @ split_lines v"
proof (induction u)
  case (Cons c u)
  obtain l ls where s: "split_lines u = l # ls" by (cases "split_lines u") auto
  show ?case using Cons s by (simp add: newline_def)
qed (simp add: newline_def)

lemma split_lines_line: "line_end \<notin> set l \<Longrightarrow> split_lines l = [l]"
  by (induction l) auto

lemma split_join_lines: "\<lbrakk>ls \<noteq> []; \<forall>l \<in> set ls. line_end \<notin> set l\<rbrakk> \<Longrightarrow> split_lines (join_lines ls) = ls"
proof (induction ls)
  case (Cons l ls)
  show ?case
  proof (cases "ls = []")
    case True
    then show ?thesis using Cons.prems by (simp add: split_lines_line)
  next
    case False
    then show ?thesis using Cons by (simp add: join_lines_Cons split_lines_append split_lines_line)
  qed
qed simp

definition strip_end :: "string \<Rightarrow> string" where
  "strip_end t = rev (dropWhile (\<lambda>c. c = line_end) (rev t))"

lemma strip_end_append: "\<exists>k. t = strip_end t @ replicate k line_end"
proof -
  have "rev t = takeWhile (\<lambda>c. c = line_end) (rev t) @ rev (strip_end t)" by (simp add: strip_end_def)
  moreover have "takeWhile (\<lambda>c. c = line_end) (rev t)
      = replicate (length (takeWhile (\<lambda>c. c = line_end) (rev t))) line_end"
    by (rule replicate_eqI) (auto dest: set_takeWhileD)
  ultimately have "t = strip_end t @ rev (replicate (length (takeWhile (\<lambda>c. c = line_end) (rev t))) line_end)"
    by (metis rev_append rev_rev_ident)
  then show ?thesis by (metis rev_replicate)
qed

lemma strip_end_last: "strip_end t \<noteq> [] \<Longrightarrow> last (strip_end t) \<noteq> line_end"
  using hd_dropWhile [of "\<lambda>c. c = line_end" "rev t"] by (simp add: strip_end_def last_rev)

lemma strip_end_id: "t \<noteq> [] \<Longrightarrow> last t \<noteq> line_end \<Longrightarrow> strip_end t = t"
  by (cases t rule: rev_cases) (simp_all add: strip_end_def)

lemma split_lines_replicate: "split_lines (u @ replicate k line_end) = split_lines u @ replicate k []"
proof (induction k arbitrary: u)
  case (Suc k)
  have "split_lines (u @ replicate (Suc k) line_end) = split_lines ((u @ newline) @ replicate k line_end)"
    by (simp add: newline_def)
  also have "\<dots> = split_lines (u @ newline @ []) @ replicate k []" using Suc [of "u @ newline"] by simp
  also have "\<dots> = split_lines u @ replicate (Suc k) []" by (subst split_lines_append) simp
  finally show ?case .
qed simp

text \<open>The header in terms of its lines.\<close>

lemma header_eq:
  "header raw = (let h = join_lines (takeWhile comment_line (split_lines raw))
                 in if h \<noteq> [] then strip_end h @ newline else [])"
  unfolding header_def strip_end_def by (rule refl)

lemma header_of_comment:
  assumes "c \<noteq> []" "last c \<noteq> line_end" "\<forall>l \<in> set (split_lines c). comment_line l" "\<not> comment_line (hd (split_lines v))"
  shows "header (c @ newline @ v) = c @ newline"
proof -
  obtain l ls where v: "split_lines v = l # ls" by (cases "split_lines v") auto
  have "takeWhile comment_line (split_lines (c @ newline @ v)) = split_lines c"
    using assms(3,4) v by (simp only: split_lines_append) (simp add: takeWhile_append)
  then show ?thesis using assms(1,2) by (simp add: header_eq strip_end_id)
qed

lemma header_cases:
  obtains "header raw = []" | "header raw = newline"
  | c where "header raw = c @ newline" "c \<noteq> []" "last c \<noteq> line_end" "\<forall>l \<in> set (split_lines c). comment_line l"
proof -
  define ls where "ls = takeWhile comment_line (split_lines raw)"
  define h where "h = join_lines ls"
  have hd: "header raw = (if h \<noteq> [] then strip_end h @ newline else [])" by (simp add: header_eq h_def ls_def Let_def)
  show ?thesis
  proof (cases "h = [] \<or> strip_end h = []")
    case True
    then show ?thesis using that(1,2) hd by (auto split: if_splits)
  next
    case False
    then have "ls \<noteq> []" by (auto simp: h_def)
    moreover have "\<forall>l \<in> set ls. line_end \<notin> set l"
      by (auto simp: ls_def dest: set_takeWhileD split_lines_free)
    ultimately have "split_lines h = ls" by (simp add: h_def split_join_lines)
    moreover obtain k where "h = strip_end h @ replicate k line_end" using strip_end_append by blast
    ultimately have "set (split_lines (strip_end h)) \<subseteq> set ls"
      using split_lines_replicate [of "strip_end h" k] by (metis Un_iff set_append subsetI)
    then have "\<forall>l \<in> set (split_lines (strip_end h)). comment_line l"
      by (auto simp: ls_def dest: set_takeWhileD)
    then show ?thesis using that(3) [of "strip_end h"] False hd strip_end_last by simp
  qed
qed

lemma version_line: "\<not> comment_line (hd (split_lines (''version: 1'' @ newline @ rest)))"
  by (simp only: split_lines_append) (simp add: comment_line_def js_trim_def js_space_def)

lemma header_stable_before:
  assumes "header raw \<noteq> newline" "\<not> comment_line (hd (split_lines v))"
  shows "header (header raw @ v) = header raw"
proof (cases raw rule: header_cases)
  case 1
  obtain l ls where v: "split_lines v = l # ls" by (cases "split_lines v") auto
  then show ?thesis using 1 assms(2) by (simp add: header_eq)
next
  case 2
  then show ?thesis using assms by simp
next
  case (3 c)
  then show ?thesis using header_of_comment [of c v, OF _ _ _ assms(2)] by simp
qed

lemmas header_stable = header_stable_before [OF _ version_line]

text \<open>A header of blank lines only is lost in the second write.\<close>

lemma blank_header_lost:
  "header (newline @ newline @ ''version: 1'') = newline"
  "header (newline @ ''version: 1'') = []"
  by code_simp+

lemma emitted_headers:
  assumes "header raw \<noteq> newline"
  shows "header (emitActive (header raw) es d) = header raw"
    and "header (emitQuarantine (header raw) es) = header raw"
    and "header (emitDeprecated isoNow (header raw) es) = header raw"
  unfolding emitActive_def emitQuarantine_def emitDeprecated_def
  using header_stable [OF assms] by (simp_all only: if_cancel append_assoc split: if_split) simp_all

section \<open>Validated writes\<close>

text \<open>The files with all new texts, and a disk on which some call fails.\<close>

fun written :: "(rule_file \<times> string) list \<Rightarrow> rule_files \<Rightarrow> rule_files" where
  "written [] fs = fs"
| "written ((f, c) # ws) fs = written ws (fs(f \<mapsto> c))"

definition disk_fails :: "disk_calls \<Rightarrow> bool" where
  "disk_fails d \<longleftrightarrow>
     list_ex (\<lambda>f. \<not> di_write d f \<or> \<not> di_restore d f) [ActiveFile, QuarantineFile, DeprecatedFile] \<or> \<not> di_append d"

definition sound_disk :: disk_calls where
  "sound_disk = \<lparr>di_write = \<lambda>_. True, di_restore = \<lambda>_. True, di_append = True, di_unlink = True\<rparr>"

lemma sound_disk_calls [simp]: "di_write sound_disk f" "di_restore sound_disk f" "di_append sound_disk" "di_unlink sound_disk"
  by (simp_all add: sound_disk_def)

lemma disk_sound: "\<not> disk_fails d \<Longrightarrow> f \<in> {ActiveFile, QuarantineFile, DeprecatedFile} \<Longrightarrow> di_write d f \<and> di_restore d f"
  by (auto simp: disk_fails_def)

lemma write_files_True:
  "write_files d ws fs = (True, fs') \<longleftrightarrow> list_all (di_write d \<circ> fst) ws \<and> fs' = written ws fs"
  by (induction d ws fs rule: write_files.induct) (auto simp del: fun_upd_apply)

lemma written_other: "f \<notin> fst ` set ws \<Longrightarrow> written ws fs f = fs f"
  by (induction ws fs rule: written.induct) auto

lemma restore_files_at:
  "list_all (di_restore d \<circ> fst) ws \<Longrightarrow>
   restore_files d (map (\<lambda>(f, c). (f, fs f)) ws) fs' g = (if g \<in> fst ` set ws then fs g else fs' g)"
  by (induction ws arbitrary: fs') (auto simp: rev_image_eqI)

lemma restore_snapshot:
  "list_all (di_restore d \<circ> fst) ws \<Longrightarrow> restore_files d (map (\<lambda>(f, c). (f, fs f)) ws) (written ws fs) = fs"
  by (rule ext) (simp add: restore_files_at written_other)

lemma commitFiles_True:
  "commitFiles d audit ws fs = (True, fs') \<longleftrightarrow>
     list_all (di_write d \<circ> fst) ws \<and> fs' = written ws fs \<and> audit (written ws fs)"
proof (cases "list_all (di_write d \<circ> fst) ws")
  case True
  then have "write_files d ws fs = (True, written ws fs)" by (simp only: write_files_True)
  then show ?thesis using True by (auto simp: commitFiles_def Let_def)
next
  case False
  then obtain g where "write_files d ws fs = (False, g)"
    using write_files_True [of d ws fs] by (cases "write_files d ws fs") (metis (full_types))
  then show ?thesis using False by (simp add: commitFiles_def Let_def)
qed

lemma commitFiles_False:
  assumes "commitFiles d audit ws fs = (False, fs')" "list_all (di_write d \<circ> fst) ws" "list_all (di_restore d \<circ> fst) ws"
  shows "fs' = fs"
proof -
  have "write_files d ws fs = (True, written ws fs)" using assms(2) by (simp add: write_files_True)
  then show ?thesis using assms(1,3) restore_snapshot by (simp add: commitFiles_def Let_def split: if_splits)
qed

section \<open>What the audit accepts\<close>

definition has_status :: "rule_entry \<Rightarrow> bool" where
  "has_status e \<longleftrightarrow> re_status e \<noteq> None \<and> re_status e \<noteq> Some []"

definition ids :: "rule_entry list \<Rightarrow> string set" where
  "ids es = re_id ` set es"

lemma ids_simps [simp]:
  "ids [] = {}" "ids (e # es) = insert (re_id e) (ids es)" "ids (xs @ ys) = ids xs \<union> ids ys"
  by (auto simp: ids_def)

lemma ids_map: "set (map re_id es) = ids es"
  by (simp add: ids_def)

definition entry_ok :: "rule_entry \<Rightarrow> bool" where
  "entry_ok e \<longleftrightarrow> rule_id (re_id e) \<and> has_status e"

text \<open>The three sets divide the baseline among them.\<close>

definition partition :: "string list \<Rightarrow> rule_entry list \<Rightarrow> rule_entry list \<Rightarrow> rule_entry list \<Rightarrow> bool" where
  "partition baseline A Q D \<longleftrightarrow>
     list_all entry_ok (A @ Q @ D)
     \<and> ids A \<inter> ids Q = {} \<and> ids A \<inter> ids D = {} \<and> ids Q \<inter> ids D = {}
     \<and> set baseline = ids A \<union> ids Q \<union> ids D"

lemma set_js_set [simp]: "set (js_set xs) = set xs"
  by (simp add: js_set_def)

lemma check_entry_nil:
  "check_entry baseline e = [] \<longleftrightarrow> rule_id (re_id e) \<and> has_status e \<and> re_id e \<in> set baseline"
  by (auto simp: check_entry_def has_status_def split: option.splits)

lemma check_disjoint_nil: "check_disjoint (map re_id xs) (map re_id ys) = [] \<longleftrightarrow> ids xs \<inter> ids ys = {}"
  unfolding check_disjoint_def map_is_Nil_conv filter_empty_conv set_js_set ids_map by blast

lemma set_violations_nil: "set_violations baseline A Q D = [] \<longleftrightarrow> partition baseline A Q D"
  unfolding set_violations_def partition_def Let_def
  by (simp add: entry_ok_def check_entry_nil check_disjoint_nil filter_empty_conv ids_map list_all_iff) (auto simp: ids_def)

section \<open>A delta on the sets\<close>

lemma byId_None: "byId es i = None \<longleftrightarrow> i \<notin> ids es"
  by (auto simp: byId_def find_None_iff ids_def)

lemma byId_Some: "byId es i = Some e \<Longrightarrow> e \<in> set es \<and> re_id e = i"
  by (auto simp: byId_def find_Some_iff)

lemma byId_distinct: "distinct (map re_id es) \<Longrightarrow> e \<in> set es \<Longrightarrow> byId es (re_id e) = Some e"
  by (induction es) (auto simp: byId_def)

lemma promote_errors_seen: "snd (promote_errors Q seen ps) = rev (map pr_id ps) @ seen"
  by (induction ps arbitrary: seen) (simp_all add: Let_def)

lemma promote_errors_nil:
  "fst (promote_errors Q seen ps) = [] \<longleftrightarrow>
     distinct (map pr_id ps) \<and> pr_id ` set ps \<inter> set seen = {}
     \<and> list_all (\<lambda>p. \<exists>q. byId Q (pr_id p) = Some q \<and> \<not> re_requires_transcript_access q) ps"
  by (induction ps arbitrary: seen) (auto simp: Let_def split: option.splits)

lemma deprecate_errors_nil:
  "deprecate_errors A seen ds = [] \<longleftrightarrow>
     distinct (map pr_id ds) \<and> pr_id ` set ds \<inter> set seen = {} \<and> list_all (\<lambda>d. pr_id d \<in> ids A) ds"
  by (induction ds arbitrary: seen) (auto simp: byId_None [symmetric] split: option.splits)

lemma apply_errors_nil:
  "apply_errors A Q delta = [] \<longleftrightarrow>
     distinct (map pr_id (rd_promote delta @ rd_deprecate delta))
     \<and> list_all (\<lambda>p. \<exists>q. byId Q (pr_id p) = Some q \<and> \<not> re_requires_transcript_access q) (rd_promote delta)
     \<and> list_all (\<lambda>d. pr_id d \<in> ids A) (rd_deprecate delta)"
  unfolding apply_errors_def Let_def
  by (auto simp: promote_errors_nil deprecate_errors_nil promote_errors_seen)

lemma byId_ids: "byId es i = Some e \<Longrightarrow> i \<in> ids es"
  using byId_None [of es i] by auto

lemma apply_errors_ids:
  assumes "apply_errors A Q delta = []"
  shows "pr_id ` set (rd_promote delta) \<subseteq> ids Q" "pr_id ` set (rd_deprecate delta) \<subseteq> ids A"
    "pr_id ` set (rd_promote delta) \<inter> pr_id ` set (rd_deprecate delta) = {}"
proof -
  note e = assms [unfolded apply_errors_nil list_all_iff]
  show "pr_id ` set (rd_promote delta) \<subseteq> ids Q" using e byId_ids by blast
  show "pr_id ` set (rd_deprecate delta) \<subseteq> ids A" using e by blast
  show "pr_id ` set (rd_promote delta) \<inter> pr_id ` set (rd_deprecate delta) = {}"
    using e by (simp only: map_append distinct_append set_map)
qed

lemma promoted_id [simp]: "re_id (promoted Q i) = i"
  by (simp add: promoted_def blank_entry_def split: option.split)

lemma promoted_status: "i \<in> ids Q \<Longrightarrow> has_status (promoted Q i)"
  by (cases "byId Q i") (simp_all add: byId_None promoted_def has_status_def)

lemma new_ids:
  "ids (new_active A Q delta) = (ids A - pr_id ` set (rd_deprecate delta)) \<union> pr_id ` set (rd_promote delta)"
  "ids (new_quarantine Q delta) = ids Q - pr_id ` set (rd_promote delta)"
  "ids (new_deprecated isoNow D delta) = ids D \<union> pr_id ` set (rd_deprecate delta)"
proof -
  have filtered: "ids (filter (\<lambda>e. re_id e \<notin> S) es) = ids es - S" for S es
    by (auto simp: ids_def)
  show "ids (new_active A Q delta) = (ids A - pr_id ` set (rd_deprecate delta)) \<union> pr_id ` set (rd_promote delta)"
    unfolding new_active_def ids_simps filtered by (simp add: ids_def image_image)
  show "ids (new_quarantine Q delta) = ids Q - pr_id ` set (rd_promote delta)"
    unfolding new_quarantine_def filtered by (rule refl)
  show "ids (new_deprecated isoNow D delta) = ids D \<union> pr_id ` set (rd_deprecate delta)"
    unfolding new_deprecated_def ids_simps by (simp add: ids_def image_image blank_entry_def)
qed

lemma entry_ok_deprecated:
  "entry_ok ((blank_entry i)\<lparr>re_status := Some ''deprecated'', re_reason := r, re_deprecated_at := d\<rparr>) = rule_id i"
  by (simp add: entry_ok_def has_status_def blank_entry_def)

lemma new_entries:
  assumes "list_all entry_ok (A @ Q @ D)" "apply_errors A Q delta = []"
  shows "list_all entry_ok (new_active A Q delta @ new_quarantine Q delta @ new_deprecated isoNow D delta)"
proof -
  have known: "rule_id i" if "i \<in> ids A \<union> ids Q" for i
    using assms(1) that by (auto simp: list_all_iff ids_def entry_ok_def)
  note sub = apply_errors_ids(1,2) [OF assms(2)]
  have p: "entry_ok (promoted Q (pr_id p))" if "p \<in> set (rd_promote delta)" for p
  proof -
    have "pr_id p \<in> ids Q" using that sub(1) by blast
    then show ?thesis using known promoted_status by (simp add: entry_ok_def)
  qed
  have d: "rule_id (pr_id d)" if "d \<in> set (rd_deprecate delta)" for d
    using that sub known by blast
  have "list_all entry_ok (new_active A Q delta)" "list_all entry_ok (new_quarantine Q delta)"
    using assms(1) p unfolding new_active_def new_quarantine_def list_all_iff set_append set_filter set_map by blast+
  moreover have "list_all entry_ok (new_deprecated isoNow D delta)"
    using assms(1) d unfolding new_deprecated_def list_all_append list.pred_map
    by (simp add: entry_ok_deprecated list_all_iff)
  ultimately show ?thesis by simp
qed

lemma moved_disjoint:
  fixes A Q D P R :: "string set"
  assumes "A \<inter> Q = {}" "A \<inter> D = {}" "Q \<inter> D = {}" "P \<subseteq> Q" "R \<subseteq> A" "P \<inter> R = {}"
  shows "(A - R \<union> P) \<inter> (Q - P) = {}" "(A - R \<union> P) \<inter> (D \<union> R) = {}" "(Q - P) \<inter> (D \<union> R) = {}"
    "(A - R \<union> P) \<union> (Q - P) \<union> (D \<union> R) = A \<union> Q \<union> D"
  using assms by auto

lemma apply_keeps_partition:
  assumes "partition baseline A Q D" "apply_errors A Q delta = []"
  shows "partition baseline (new_active A Q delta) (new_quarantine Q delta) (new_deprecated isoNow D delta)"
proof -
  have ok: "list_all entry_ok (A @ Q @ D)" and b: "set baseline = ids A \<union> ids Q \<union> ids D"
    and disj: "ids A \<inter> ids Q = {}" "ids A \<inter> ids D = {}" "ids Q \<inter> ids D = {}"
    using assms(1) by (simp_all add: partition_def)
  show ?thesis unfolding partition_def new_ids
    using new_entries [OF ok assms(2)] b moved_disjoint [OF disj apply_errors_ids [OF assms(2)]] by simp
qed

section \<open>The scripts\<close>

lemma audit_rules_True:
  assumes "fs BaselineFile = Some b" "fs ActiveFile = Some a" "fs QuarantineFile = Some q" "fs DeprecatedFile = Some d"
  shows "audit_rules yaml sha256 fs \<longleftrightarrow> lock_violations sha256 b (fs LockFile) = []
    \<and> partition (rd_rules (yaml b)) (rd_active (yaml a)) (rd_quarantine (yaml q)) (rd_deprecated (yaml d))"
  using assms by (simp add: audit_rules_def set_violations_nil)

lemma audit_rules_files:
  assumes "audit_rules yaml sha256 fs"
  obtains b a q d where "fs BaselineFile = Some b" "fs ActiveFile = Some a" "fs QuarantineFile = Some q"
    "fs DeprecatedFile = Some d" "lock_violations sha256 b (fs LockFile) = []"
    "partition (rd_rules (yaml b)) (rd_active (yaml a)) (rd_quarantine (yaml q)) (rd_deprecated (yaml d))"
  using assms unfolding audit_rules_def set_violations_nil append_is_Nil_conv by (simp split: option.splits)

text \<open>A list that was written and read again has the same rules, each with its status.\<close>

definition rereads :: "rule_entry list \<Rightarrow> rule_entry list \<Rightarrow> bool" where
  "rereads got given \<longleftrightarrow> map re_id got = map re_id given \<and> list_all has_status got"

lemma rereads_ids: "rereads got given \<Longrightarrow> ids got = ids given"
  unfolding rereads_def ids_def by (metis set_map)

lemma rereads_ok:
  assumes "rereads got given" "list_all entry_ok given"
  shows "list_all entry_ok got"
proof -
  have "rule_id (re_id e)" if "e \<in> set got" for e
  proof -
    have "re_id e \<in> ids given" using that rereads_ids [OF assms(1)] by (auto simp: ids_def)
    then show ?thesis using assms(2) by (auto simp: ids_def list_all_iff entry_ok_def)
  qed
  then show ?thesis using assms(1) by (simp add: list_all_iff entry_ok_def rereads_def)
qed

lemma rereads_partition:
  assumes "rereads A' A" "rereads Q' Q" "rereads D' D" "partition baseline A Q D"
  shows "partition baseline A' Q' D'"
  using assms(4) rereads_ok [OF assms(1)] rereads_ok [OF assms(2)] rereads_ok [OF assms(3)]
  unfolding partition_def rereads_ids [OF assms(1)] rereads_ids [OF assms(2)] rereads_ids [OF assms(3)]
    list_all_append by simp

lemma apply_writes_files: "fst ` set (apply_writes yaml today isoNow delta a q d) = {ActiveFile, QuarantineFile, DeprecatedFile}"
  by (simp add: apply_writes_def Let_def)

lemma apply_writes_all: "list_all (P \<circ> fst) (apply_writes yaml today isoNow delta a q d)
    \<longleftrightarrow> (\<forall>f \<in> {ActiveFile, QuarantineFile, DeprecatedFile}. P f)"
  by (simp add: apply_writes_def Let_def)

lemma apply_main_reaches_commit:
  assumes "as_delta s = Some delta" "rd_promote delta \<noteq> [] \<or> rd_deprecate delta \<noteq> []"
    "as_files s ActiveFile = Some a" "as_files s QuarantineFile = Some q" "as_files s DeprecatedFile = Some d"
    "apply_errors (rd_active (yaml a)) (rd_quarantine (yaml q)) delta = []"
  shows "apply_main disk yaml audit today isoNow False s =
    (case commitFiles disk audit (apply_writes yaml today isoNow delta a q d) (as_files s) of
       (True, fs') \<Rightarrow> if \<not> di_append disk then (Inl (), s\<lparr>as_files := fs'\<rparr>)
         else (Inr Applied, \<lparr>as_files = fs', as_delta = (if di_unlink disk then None else Some delta),
                            as_changelog = as_changelog s @ changes_of isoNow delta\<rparr>)
     | (False, fs') \<Rightarrow> (Inl (), s\<lparr>as_files := fs'\<rparr>))"
  using assms by (auto simp: apply_main_def)

text \<open>The three ends of the script: nothing was done, all was done, or a call failed on the way.\<close>

lemma apply_main_cases:
  assumes "r = apply_main disk yaml audit today isoNow dryRun s"
  obtains "snd r = s" "fst r \<noteq> Inr Applied"
  | delta a q d where "as_delta s = Some delta" "as_files s ActiveFile = Some a" "as_files s QuarantineFile = Some q"
      "as_files s DeprecatedFile = Some d" "apply_errors (rd_active (yaml a)) (rd_quarantine (yaml q)) delta = []"
      "audit (written (apply_writes yaml today isoNow delta a q d) (as_files s))"
      "r = (Inr Applied, \<lparr>as_files = written (apply_writes yaml today isoNow delta a q d) (as_files s),
              as_delta = (if di_unlink disk then None else Some delta),
              as_changelog = as_changelog s @ changes_of isoNow delta\<rparr>)"
  | fs' where "r = (Inl (), s\<lparr>as_files := fs'\<rparr>)" "disk_fails disk"
proof (cases "snd r = s \<and> fst r \<noteq> Inr Applied")
  case False
  obtain delta where delta: "as_delta s = Some delta"
    using False assms by (cases "as_delta s") (simp_all add: apply_main_def)
  obtain a q d where files: "as_files s ActiveFile = Some a" "as_files s QuarantineFile = Some q"
    "as_files s DeprecatedFile = Some d"
    using False assms delta by (simp add: apply_main_def split: option.splits if_splits)
  have some: "rd_promote delta \<noteq> [] \<or> rd_deprecate delta \<noteq> []"
    and errs: "apply_errors (rd_active (yaml a)) (rd_quarantine (yaml q)) delta = []" and dry: "\<not> dryRun"
    using False assms delta files by (auto simp: apply_main_def split: if_splits)
  let ?ws = "apply_writes yaml today isoNow delta a q d"
  note main = apply_main_reaches_commit [where disk=disk and audit=audit, OF delta some files errs]
  obtain b fs' where c: "commitFiles disk audit ?ws (as_files s) = (b, fs')"
    by (cases "commitFiles disk audit ?ws (as_files s)")
  show ?thesis
  proof (cases b)
    case True
    then have "fs' = written ?ws (as_files s)" "audit fs'" using c by (simp_all add: commitFiles_True)
    then show ?thesis
      using True that(2) [OF delta files errs] that(3) [of fs'] assms dry main [of today isoNow] c
      by (cases "di_append disk") (simp_all add: disk_fails_def)
  next
    case b: False
    have "disk_fails disk"
    proof (rule ccontr)
      assume "\<not> disk_fails disk"
      then have "fs' = as_files s"
        using commitFiles_False [of disk audit ?ws] c b by (simp add: apply_writes_all disk_sound)
      then show False using b False assms dry main [of today isoNow] c by simp
    qed
    then show ?thesis using b that(3) [of fs'] assms dry main [of today isoNow] c by simp
  qed
qed (use that(1) in blast)

lemma apply_main_applies:
  assumes "as_delta s = Some delta" "rd_promote delta \<noteq> [] \<or> rd_deprecate delta \<noteq> []"
    "as_files s ActiveFile = Some a" "as_files s QuarantineFile = Some q" "as_files s DeprecatedFile = Some d"
    "apply_errors (rd_active (yaml a)) (rd_quarantine (yaml q)) delta = []"
    "audit (written (apply_writes yaml today isoNow delta a q d) (as_files s))"
  shows "apply_main sound_disk yaml audit today isoNow False s =
    (Inr Applied, \<lparr>as_files = written (apply_writes yaml today isoNow delta a q d) (as_files s),
                   as_delta = None, as_changelog = as_changelog s @ changes_of isoNow delta\<rparr>)"
proof -
  have "commitFiles sound_disk audit (apply_writes yaml today isoNow delta a q d) (as_files s)
    = (True, written (apply_writes yaml today isoNow delta a q d) (as_files s))"
    using assms(7) by (simp add: commitFiles_True apply_writes_all)
  then show ?thesis by (simp add: apply_main_reaches_commit [OF assms(1-6)])
qed

lemma written_files:
  "written (apply_writes yaml today isoNow delta a q d) fs =
     fs(ActiveFile \<mapsto> emitActive (header a) (new_active (rd_active (yaml a)) (rd_quarantine (yaml q)) delta) (synced_date (yaml a) today),
        QuarantineFile \<mapsto> emitQuarantine (header q) (new_quarantine (rd_quarantine (yaml q)) delta),
        DeprecatedFile \<mapsto> emitDeprecated isoNow (header d) (new_deprecated isoNow (rd_deprecated (yaml d)) delta))"
  by (simp add: apply_writes_def Let_def)

text \<open>A write that fails ends the script at once; what was written before stays.\<close>

lemma failed_write_leaves_half:
  assumes "as_delta s = Some delta" "rd_promote delta \<noteq> [] \<or> rd_deprecate delta \<noteq> []"
    "as_files s ActiveFile = Some a" "as_files s QuarantineFile = Some q" "as_files s DeprecatedFile = Some d"
    "apply_errors (rd_active (yaml a)) (rd_quarantine (yaml q)) delta = []"
    "di_write disk ActiveFile" "\<not> di_write disk QuarantineFile"
  shows "apply_main disk yaml audit today isoNow False s = (Inl (), s\<lparr>as_files := (as_files s)(ActiveFile \<mapsto>
    emitActive (header a) (new_active (rd_active (yaml a)) (rd_quarantine (yaml q)) delta) (synced_date (yaml a) today))\<rparr>)"
  using assms(7,8) by (simp add: apply_main_reaches_commit [OF assms(1-6)] commitFiles_def apply_writes_def Let_def)

section \<open>The subset of YAML that is written\<close>

text \<open>A document: comments, lines with scalars, and one list of mappings, each mapping in braces on a line of its
  own or with a line for each of its fields.\<close>

datatype scalar = Plain string | Quoted string | Number number | Flag bool | Null

type_synonym fields = "(string \<times> scalar) list"

record yaml_doc =
  yd_head :: string
  yd_lines :: fields
  yd_key :: string
  yd_flow :: bool
  yd_items :: "fields list"

primrec show_scalar :: "scalar \<Rightarrow> string" where
  "show_scalar (Plain t) = t"
| "show_scalar (Quoted t) = json_text t"
| "show_scalar (Number x) = show_number x"
| "show_scalar (Flag b) = show_bool b"
| "show_scalar Null = ''null''"

primrec scalar_value :: "scalar \<Rightarrow> yaml" where
  "scalar_value (Plain t) = YText t"
| "scalar_value (Quoted t) = YText t"
| "scalar_value (Number x) = YNum x"
| "scalar_value (Flag b) = YBool b"
| "scalar_value Null = YNull"

definition show_field :: "string \<times> scalar \<Rightarrow> string" where
  "show_field f = fst f @ '': '' @ show_scalar (snd f)"

fun join_commas :: "string list \<Rightarrow> string" where
  "join_commas [] = []"
| "join_commas [t] = t"
| "join_commas (t # ts) = t @ '', '' @ join_commas ts"

definition flow_item :: "fields \<Rightarrow> string" where
  "flow_item fs = ''  - { '' @ join_commas (map show_field fs) @ '' }''"

definition block_item :: "fields \<Rightarrow> string" where
  "block_item fs =
     (case map show_field fs of [] \<Rightarrow> ''  - {}'' | l # ls \<Rightarrow> join_lines ((''  - '' @ l) # map ((@) ''    '') ls))"

definition render_doc :: "yaml_doc \<Rightarrow> string" where
  "render_doc d =
     yd_head d @ concat (map (\<lambda>f. show_field f @ newline) (yd_lines d))
     @ (if yd_flow d then yd_key d @ '':'' @ newline @ join_lines (map flow_item (yd_items d)) @ newline
        else if yd_items d = [] then yd_key d @ '': []'' @ newline
        else yd_key d @ '':'' @ newline @ join_blocks (map block_item (yd_items d)) @ newline)"

text \<open>What the document says of its list: a key with nothing behind it is null.\<close>

definition doc_list :: "yaml_doc \<Rightarrow> yaml" where
  "doc_list d =
     (if yd_flow d \<and> yd_items d = [] then YNull
      else YSeq (map (\<lambda>fs. YMap (map (apsnd scalar_value) fs)) (yd_items d)))"

text \<open>The parser reads the list of the document.\<close>

definition reads_doc :: "(string \<Rightarrow> yaml) \<Rightarrow> yaml_doc \<Rightarrow> bool" where
  "reads_doc parse d \<longleftrightarrow> yaml_get (yd_key d) (parse (render_doc d)) = doc_list d"

text \<open>The three files as documents.\<close>

definition precision_scalar :: "number option \<Rightarrow> scalar" where
  "precision_scalar x = (case x of None \<Rightarrow> Null | Some v \<Rightarrow> Number v)"

definition active_fields :: "rule_entry \<Rightarrow> fields" where
  "active_fields e =
     [(''id'', Plain (re_id e)), (''status'', Plain ''active''), (''hit_count'', Number (num (re_hit_count e))),
      (''tp'', Number (num (re_tp e))), (''fp'', Number (num (re_fp e))), (''precision'', precision_scalar (re_precision e)),
      (''sessions_observed'', Number (num (re_sessions_observed e)))]"

definition quarantine_fields :: "rule_entry \<Rightarrow> fields" where
  "quarantine_fields e =
     [(''id'', Plain (re_id e)), (''status'', Plain ''quarantine''),
      (''requires_transcript_access'', Flag (re_requires_transcript_access e))]
     @ (case re_blocked_reason e of
          None \<Rightarrow> [] | Some r \<Rightarrow> if r = [] then [] else [(''blocked_reason'', Quoted r)])
     @ [(''sessions_in_quarantine'', Number (num (re_sessions_in_quarantine e))),
        (''hit_count'', Number (num (re_hit_count e))), (''tp'', Number (num (re_tp e))), (''fp'', Number (num (re_fp e))),
        (''precision'', precision_scalar (re_precision e))]"

definition deprecated_fields :: "string \<Rightarrow> rule_entry \<Rightarrow> fields" where
  "deprecated_fields isoNow e =
     [(''id'', Plain (re_id e)), (''status'', Plain ''deprecated''),
      (''reason'', Quoted (case re_reason e of None \<Rightarrow> [] | Some r \<Rightarrow> r)),
      (''deprecated_at'', Quoted (case re_deprecated_at e of None \<Rightarrow> isoNow | Some d \<Rightarrow> if d = [] then isoNow else d))]"

definition active_doc :: "string \<Rightarrow> rule_entry list \<Rightarrow> string \<Rightarrow> yaml_doc" where
  "active_doc hdr es synced =
     \<lparr>yd_head = hdr, yd_lines = [(''version'', Number 1), (''synced_from_baseline'', Plain synced)],
      yd_key = ''active'', yd_flow = True, yd_items = map active_fields es\<rparr>"

definition quarantine_doc :: "string \<Rightarrow> rule_entry list \<Rightarrow> yaml_doc" where
  "quarantine_doc hdr es =
     \<lparr>yd_head = hdr, yd_lines = [(''version'', Number 1)], yd_key = ''quarantine'', yd_flow = False,
      yd_items = map quarantine_fields es\<rparr>"

definition deprecated_doc :: "string \<Rightarrow> string \<Rightarrow> rule_entry list \<Rightarrow> yaml_doc" where
  "deprecated_doc isoNow hdr es =
     \<lparr>yd_head = hdr, yd_lines = [(''version'', Number 1)], yd_key = ''deprecated'', yd_flow = False,
      yd_items = map (deprecated_fields isoNow) es\<rparr>"

text \<open>The emitters write these documents.\<close>

lemma show_number_one: "show_number 1 = ''1''"
  by code_simp

lemma show_precision: "show_scalar (precision_scalar x) = numOrNull x"
  by (cases x) (simp_all add: precision_scalar_def numOrNull_def)

lemma flow_item_active: "flow_item (active_fields e) = active_line e"
  by (simp add: flow_item_def active_fields_def active_line_def show_field_def show_precision)

lemma block_item_quarantine: "block_item (quarantine_fields e) = quarantine_lines e"
  by (simp add: block_item_def quarantine_fields_def quarantine_lines_def show_field_def show_precision split: option.splits)

lemma block_item_deprecated: "block_item (deprecated_fields isoNow e) = deprecated_lines isoNow e"
  by (simp add: block_item_def deprecated_fields_def deprecated_lines_def show_field_def)

lemma emitActive_renders: "emitActive hdr es synced = render_doc (active_doc hdr es synced)"
  by (simp add: emitActive_def render_doc_def active_doc_def show_field_def show_number_one flow_item_active comp_def)

lemma emitQuarantine_renders: "emitQuarantine hdr es = render_doc (quarantine_doc hdr es)"
  by (simp add: emitQuarantine_def render_doc_def quarantine_doc_def show_field_def show_number_one
      block_item_quarantine comp_def)

lemma emitDeprecated_renders: "emitDeprecated isoNow hdr es = render_doc (deprecated_doc isoNow hdr es)"
  by (simp add: emitDeprecated_def render_doc_def deprecated_doc_def show_field_def show_number_one
      block_item_deprecated comp_def)

text \<open>So what is read again are the rules that were written, with their status.\<close>

lemma entry_of_fields:
  "re_id (entry_of (YMap (map (apsnd scalar_value) (active_fields e)))) = re_id e"
  "has_status (entry_of (YMap (map (apsnd scalar_value) (active_fields e))))"
  "re_id (entry_of (YMap (map (apsnd scalar_value) (quarantine_fields e)))) = re_id e"
  "has_status (entry_of (YMap (map (apsnd scalar_value) (quarantine_fields e))))"
  "re_id (entry_of (YMap (map (apsnd scalar_value) (deprecated_fields isoNow e)))) = re_id e"
  "has_status (entry_of (YMap (map (apsnd scalar_value) (deprecated_fields isoNow e))))"
  by (simp_all add: entry_of_def id_of_def text_of_def yaml_get_def active_fields_def quarantine_fields_def
      deprecated_fields_def has_status_def)

lemma list_of_doc: "list_of (doc_list d) = map (\<lambda>fs. YMap (map (apsnd scalar_value) fs)) (yd_items d)"
  by (simp add: doc_list_def list_of_def)

lemma active_reread:
  "reads_doc parse (active_doc hdr es synced) \<Longrightarrow> rereads (rd_active (parseYaml parse (emitActive hdr es synced))) es"
  unfolding reads_doc_def emitActive_renders [symmetric]
  by (simp add: rereads_def parseYaml_def Let_def active_doc_def list_of_doc comp_def entry_of_fields list_all_iff)

lemma quarantine_reread:
  "reads_doc parse (quarantine_doc hdr es) \<Longrightarrow> rereads (rd_quarantine (parseYaml parse (emitQuarantine hdr es))) es"
  unfolding reads_doc_def emitQuarantine_renders [symmetric]
  by (simp add: rereads_def parseYaml_def Let_def quarantine_doc_def list_of_doc comp_def entry_of_fields list_all_iff)

lemma deprecated_reread:
  "reads_doc parse (deprecated_doc isoNow hdr es)
   \<Longrightarrow> rereads (rd_deprecated (parseYaml parse (emitDeprecated isoNow hdr es))) es"
  unfolding reads_doc_def emitDeprecated_renders [symmetric]
  by (simp add: rereads_def parseYaml_def Let_def deprecated_doc_def list_of_doc comp_def entry_of_fields list_all_iff)

text \<open>The documents that applying a delta is to leave.\<close>

definition written_docs :: "rule_reader \<Rightarrow> string \<Rightarrow> string \<Rightarrow> rule_delta \<Rightarrow> string \<Rightarrow> string \<Rightarrow> string \<Rightarrow> yaml_doc list" where
  "written_docs yaml today isoNow delta a q d =
     [active_doc (header a) (new_active (rd_active (yaml a)) (rd_quarantine (yaml q)) delta) (synced_date (yaml a) today),
      quarantine_doc (header q) (new_quarantine (rd_quarantine (yaml q)) delta),
      deprecated_doc isoNow (header d) (new_deprecated isoNow (rd_deprecated (yaml d)) delta)]"

lemma writes_reread:
  assumes "list_all (reads_doc parse) (written_docs (parseYaml parse) today isoNow delta a q d)"
    and "fs' = written (apply_writes (parseYaml parse) today isoNow delta a q d) fs"
  obtains a' q' d' where "fs' ActiveFile = Some a'" "fs' QuarantineFile = Some q'" "fs' DeprecatedFile = Some d'"
    "rereads (rd_active (parseYaml parse a'))
       (new_active (rd_active (parseYaml parse a)) (rd_quarantine (parseYaml parse q)) delta)"
    "rereads (rd_quarantine (parseYaml parse q')) (new_quarantine (rd_quarantine (parseYaml parse q)) delta)"
    "rereads (rd_deprecated (parseYaml parse d')) (new_deprecated isoNow (rd_deprecated (parseYaml parse d)) delta)"
  using assms active_reread quarantine_reread deprecated_reread by (simp add: written_docs_def written_files)

lemma audit_after_apply:
  assumes "audit_rules (parseYaml parse) sha256 fs"
    and f: "fs ActiveFile = Some a" "fs QuarantineFile = Some q" "fs DeprecatedFile = Some d"
    and e: "apply_errors (rd_active (parseYaml parse a)) (rd_quarantine (parseYaml parse q)) delta = []"
    and r: "list_all (reads_doc parse) (written_docs (parseYaml parse) today isoNow delta a q d)"
  shows "audit_rules (parseYaml parse) sha256 (written (apply_writes (parseYaml parse) today isoNow delta a q d) fs)"
proof -
  let ?fs = "written (apply_writes (parseYaml parse) today isoNow delta a q d) fs"
  obtain b where b: "fs BaselineFile = Some b" "lock_violations sha256 b (fs LockFile) = []"
      "partition (rd_rules (parseYaml parse b)) (rd_active (parseYaml parse a)) (rd_quarantine (parseYaml parse q))
         (rd_deprecated (parseYaml parse d))"
    using audit_rules_files [OF assms(1)] f by (metis option.inject)
  have keep: "?fs BaselineFile = Some b" "?fs LockFile = fs LockFile" using b(1) by (simp_all add: written_files)
  obtain a' q' d' where w: "?fs ActiveFile = Some a'" "?fs QuarantineFile = Some q'" "?fs DeprecatedFile = Some d'"
    and rr: "rereads (rd_active (parseYaml parse a'))
       (new_active (rd_active (parseYaml parse a)) (rd_quarantine (parseYaml parse q)) delta)"
    "rereads (rd_quarantine (parseYaml parse q')) (new_quarantine (rd_quarantine (parseYaml parse q)) delta)"
    "rereads (rd_deprecated (parseYaml parse d')) (new_deprecated isoNow (rd_deprecated (parseYaml parse d)) delta)"
    by (rule writes_reread [OF r refl, of fs])
  show ?thesis
    using b(2) keep(2) rereads_partition [OF rr apply_keeps_partition [OF b(3) e]]
    by (simp add: audit_rules_True [OF keep(1) w])
qed

text \<open>Proposals on audited sets.\<close>

lemma proposal_ids [simp]: "pr_id (promotion g r) = re_id r" "pr_id (deprecation r) = re_id r"
  by (simp_all add: promotion_def deprecation_def)

lemma computeProposals_valid:
  assumes "distinct (map re_id A)" "distinct (map re_id Q)" "ids A \<inter> ids Q = {}"
  shows "apply_errors A Q (computeProposals A Q g) = []"
proof -
  have d: "distinct (map re_id (filter (promotable g) Q))" "distinct (map re_id (filter (\<lambda>r. no_hit r \<or> low_precision r) A))"
    using assms(1,2) by (simp_all add: distinct_map_filter)
  have "re_id ` set (filter (promotable g) Q) \<inter> re_id ` set (filter (\<lambda>r. no_hit r \<or> low_precision r) A) = {}"
    using assms(3) unfolding ids_def by auto
  then show ?thesis
    unfolding apply_errors_nil computeProposals_def list_all_iff using d byId_distinct [OF assms(2)]
    by (auto simp: comp_def promotable_def ids_def)
qed

end
