(* ===== verification/Token_Rules_Theorems.thy ===== *)
theory Token_Rules_Theorems
  imports Token_Rules_Props
begin

text \<open>
  What the life cycle of the rules guarantees: a delta is applied as a whole after the audit or not at all,
  proposals on audited sets are always applicable and move exactly the proposed rules, headers survive, the
  derived precision stays between 0 and 1, and the lock notices a changed baseline.
\<close>

section \<open>Applying a delta\<close>


text \<open>
  The three files are not written as one: a write that throws comes before the validation, and nothing
  restores the files that were written already.
\<close>

theorem half_applied_rules:
  assumes "as_delta s = Some delta" "rd_promote delta \<noteq> [] \<or> rd_deprecate delta \<noteq> []"
    and "as_files s ActiveFile = Some a" "as_files s QuarantineFile = Some q" "as_files s DeprecatedFile = Some d"
    and "apply_errors (rd_active (yaml a)) (rd_quarantine (yaml q)) delta = []"
    and "di_write disk ActiveFile" "\<not> di_write disk QuarantineFile"
  shows "\<exists>s'. apply_main disk yaml audit today isoNow False s = (Inl (), s')
    \<and> as_files s' ActiveFile = Some (emitActive (header a)
        (new_active (rd_active (yaml a)) (rd_quarantine (yaml q)) delta) (synced_date (yaml a) today))
    \<and> as_files s' QuarantineFile = Some q \<and> as_files s' DeprecatedFile = Some d"
  using failed_write_leaves_half [OF assms] assms(4,5) by simp

text \<open>Where a rule is kept.\<close>

datatype working_set = InActive | InQuarantine | InDeprecated | Nowhere

definition place :: "rule_reader \<Rightarrow> rule_files \<Rightarrow> string \<Rightarrow> working_set" where
  "place yaml fs i =
     (case (fs ActiveFile, fs QuarantineFile, fs DeprecatedFile) of
        (Some a, Some q, Some d) \<Rightarrow>
          if i \<in> ids (rd_active (yaml a)) then InActive
          else if i \<in> ids (rd_quarantine (yaml q)) then InQuarantine
          else if i \<in> ids (rd_deprecated (yaml d)) then InDeprecated else Nowhere
      | _ \<Rightarrow> Nowhere)"

lemma place_after_apply:
  assumes "audit_rules (parseYaml parse) sha256 fs"
    and f: "fs ActiveFile = Some a" "fs QuarantineFile = Some q" "fs DeprecatedFile = Some d"
    and e: "apply_errors (rd_active (parseYaml parse a)) (rd_quarantine (parseYaml parse q)) delta = []"
    and r: "list_all (reads_doc parse) (written_docs (parseYaml parse) today isoNow delta a q d)"
  shows "place (parseYaml parse) (written (apply_writes (parseYaml parse) today isoNow delta a q d) fs) i =
    (if i \<in> pr_id ` set (rd_promote delta) then InActive
     else if i \<in> pr_id ` set (rd_deprecate delta) then InDeprecated else place (parseYaml parse) fs i)"
proof -
  let ?A = "ids (rd_active (parseYaml parse a))" and ?Q = "ids (rd_quarantine (parseYaml parse q))"
  let ?D = "ids (rd_deprecated (parseYaml parse d))"
  let ?fs = "written (apply_writes (parseYaml parse) today isoNow delta a q d) fs"
  have disj: "?A \<inter> ?Q = {}" "?A \<inter> ?D = {}" "?Q \<inter> ?D = {}"
    using audit_rules_files [OF assms(1)] f unfolding partition_def by (metis option.inject)+
  note sub = apply_errors_ids [OF e]
  obtain a' q' d' where w: "?fs ActiveFile = Some a'" "?fs QuarantineFile = Some q'" "?fs DeprecatedFile = Some d'"
    and rr: "rereads (rd_active (parseYaml parse a'))
       (new_active (rd_active (parseYaml parse a)) (rd_quarantine (parseYaml parse q)) delta)"
    "rereads (rd_quarantine (parseYaml parse q')) (new_quarantine (rd_quarantine (parseYaml parse q)) delta)"
    "rereads (rd_deprecated (parseYaml parse d')) (new_deprecated isoNow (rd_deprecated (parseYaml parse d)) delta)"
    by (rule writes_reread [OF r refl, of fs])
  have "place (parseYaml parse) ?fs i =
    (if i \<in> ?A - pr_id ` set (rd_deprecate delta) \<union> pr_id ` set (rd_promote delta) then InActive
     else if i \<in> ?Q - pr_id ` set (rd_promote delta) then InQuarantine
     else if i \<in> ?D \<union> pr_id ` set (rd_deprecate delta) then InDeprecated else Nowhere)"
    using rr [THEN rereads_ids] by (simp add: place_def w new_ids)
  moreover have "place (parseYaml parse) fs i =
    (if i \<in> ?A then InActive else if i \<in> ?Q then InQuarantine else if i \<in> ?D then InDeprecated else Nowhere)"
    using f by (simp add: place_def)
  ultimately show ?thesis using disj sub by (simp add: disjoint_iff subset_iff)
qed

text \<open>
  C36.  When the sets pass the audit and no file has an id twice, what \<^verbatim>\<open>token-rules-propose.js\<close> proposes
  \<^verbatim>\<open>token-rules-apply.js\<close> applies, on a disk without failures: the new files pass the audit, promoted rules are
  active, deprecated ones deprecated, and every other rule is where it was.  Of the parser of YAML it is
  assumed that it reads the list of a document as it is meant (\<open>reads_doc\<close>), for the three documents that
  are due; that the emitters write these documents, each rule with its id and its status, is proved.
\<close>

theorem proposals_are_applied:
  assumes "audit_rules (parseYaml parse) sha256 fs"
    and "fs ActiveFile = Some a" "fs QuarantineFile = Some q" "fs DeprecatedFile = Some d"
    and "distinct (map re_id (rd_active (parseYaml parse a)))" "distinct (map re_id (rd_quarantine (parseYaml parse q)))"
    and "propose_main (parseYaml parse) rolling False fs old = (Inr (Proposed m n), Some delta)"
    and "list_all (reads_doc parse) (written_docs (parseYaml parse) today isoNow delta a q d)"
  shows "\<exists>s'. apply_main sound_disk (parseYaml parse) (audit_rules (parseYaml parse) sha256) today isoNow False
                \<lparr>as_files = fs, as_delta = Some delta, as_changelog = lines\<rparr> = (Inr Applied, s')
    \<and> audit_rules (parseYaml parse) sha256 (as_files s')
    \<and> (\<forall>i. place (parseYaml parse) (as_files s') i =
          (if i \<in> pr_id ` set (rd_promote delta) then InActive
           else if i \<in> pr_id ` set (rd_deprecate delta) then InDeprecated else place (parseYaml parse) fs i))"
proof -
  let ?A = "rd_active (parseYaml parse a)" and ?Q = "rd_quarantine (parseYaml parse q)"
  have "ids ?A \<inter> ids ?Q = {}"
    using audit_rules_files [OF assms(1)] assms(2,3) unfolding partition_def by (metis option.inject)
  then have ok: "apply_errors ?A ?Q (computeProposals ?A ?Q rolling) = []"
    by (rule computeProposals_valid [OF assms(5,6)])
  have delta: "delta = computeProposals ?A ?Q rolling" "rd_promote delta \<noteq> [] \<or> rd_deprecate delta \<noteq> []"
    using assms(2,3,7) by (auto simp: propose_main_def Let_def split: if_splits)
  note e = ok [folded delta(1)]
  show ?thesis
    using apply_main_applies [of "\<lparr>as_files = fs, as_delta = Some delta, as_changelog = lines\<rparr>" delta a q d
        "parseYaml parse" "audit_rules (parseYaml parse) sha256" today isoNow] delta(2) assms(2-4) e
      audit_after_apply [OF assms(1-4) e assms(8)] place_after_apply [OF assms(1-4) e assms(8)]
    by auto
qed

text \<open>For the example a small parser, line by line: comments, keys with scalars, and lists of mappings.\<close>

fun before :: "char \<Rightarrow> string \<Rightarrow> string" where
  "before c [] = []"
| "before c (d # ds) = (if d = c then [] else d # before c ds)"

definition after :: "char \<Rightarrow> string \<Rightarrow> string" where
  "after c t = drop (Suc (length (before c t))) t"

definition read_digits :: "string \<Rightarrow> number" where
  "read_digits t = foldl (\<lambda>n c. 10 * n + of_nat (of_char c - 48)) 0 t"

definition read_scalar :: "string \<Rightarrow> yaml" where
  "read_scalar t =
     (let w = before CHR ''.'' t; f = after CHR ''.'' t
      in if t = [] \<or> t = ''null'' then YNull
         else if t = ''[]'' then YSeq []
         else if t = ''true'' \<or> t = ''false'' then YBool (t = ''true'')
         else if hd t = CHR 0x22 then YText (before CHR 0x22 (tl t))
         else if list_all is_digit (w @ f) then YNum (read_digits w + read_digits f / 10 ^ length f)
         else YText t)"

definition read_field :: "string \<Rightarrow> string \<times> yaml" where
  "read_field t = (before CHR '':'' t, read_scalar (js_trim (after CHR '':'' t)))"

fun read_commas :: "nat \<Rightarrow> string \<Rightarrow> (string \<times> yaml) list" where
  "read_commas 0 t = []"
| "read_commas (Suc n) t = (if t = [] then [] else read_field (js_trim (before CHR '','' t)) # read_commas n (after CHR '','' t))"

text \<open>The top level, the items of the list and the fields of the item that the lines further down give.\<close>

fun read_lines :: "string list \<Rightarrow> (string \<times> yaml) list \<times> yaml list \<times> (string \<times> yaml) list" where
  "read_lines [] = ([], [], [])"
| "read_lines (l # ls) =
     (let (top, items, fs) = read_lines ls
      in if comment_line l then (top, items, fs)
         else if take 4 l = ''    '' then (top, items, read_field (drop 4 l) # fs)
         else if take 5 l = ''  - {''
           then (top, YMap (read_commas (length l) (js_trim (before CHR ''}'' (drop 5 l)))) # items, [])
         else if take 4 l = ''  - '' then (top, YMap (read_field (drop 4 l) # fs) # items, [])
         else ((case read_field l of (k, v) \<Rightarrow> (k, if v = YNull \<and> items \<noteq> [] then YSeq items else v)) # top, [], []))"

definition ex_parse :: "string \<Rightarrow> yaml" where
  "ex_parse t = YMap (fst (read_lines (split_lines t)))"

abbreviation ex_yaml :: rule_reader where
  "ex_yaml \<equiv> parseYaml ex_parse"

definition ex_files :: rule_files where
  "ex_files = (\<lambda>f. Some (join_lines (case f of
       ActiveFile \<Rightarrow> [''# in use'', ''synced_from_baseline: 2026-05-14'', ''active:'',
         ''  - { id: R-001, status: active, hit_count: 0, precision: null, sessions_observed: 20 }'']
     | QuarantineFile \<Rightarrow> [''quarantine:'', ''  - id: R-002'', ''    status: quarantine'', ''    hit_count: 6'', [],
         ''    sessions_in_quarantine: 3'', ''    precision: 1'']
     | DeprecatedFile \<Rightarrow> [''deprecated: []'']
     | _ \<Rightarrow> [''rules:'', ''  - id: R-001'', ''  - id: R-002''])))"

definition ex_gates :: gates where
  "ex_gates = \<lparr>ga_delta_T_trend = Some (- 6), ga_E_resp_mean = None\<rparr>"

definition ex_delta :: rule_delta where
  "ex_delta = computeProposals (rd_active (ex_yaml (the (ex_files ActiveFile))))
     (rd_quarantine (ex_yaml (the (ex_files QuarantineFile)))) ex_gates"

lemma ex_audit: "audit_rules ex_yaml (\<lambda>t. t) ex_files"
  by code_simp

lemma ex_delta_ids: "map pr_id (rd_promote ex_delta) = [''R-002'']" "map pr_id (rd_deprecate ex_delta) = [''R-001'']"
  by code_simp+

lemma propose_main_files:
  assumes "fs ActiveFile = Some a" "fs QuarantineFile = Some q"
    and "delta = computeProposals (rd_active (yaml a)) (rd_quarantine (yaml q)) rolling"
    and "length (rd_promote delta) = m" "length (rd_deprecate delta) = n" "0 < m + n"
  shows "propose_main yaml rolling False fs old = (Inr (Proposed m n), Some delta)"
  using assms by (auto simp: propose_main_def Let_def)

lemma ex_file: "ex_files f = Some (the (ex_files f))"
  by (simp add: ex_files_def)

lemma ex_propose: "propose_main ex_yaml ex_gates False ex_files None = (Inr (Proposed 1 1), Some ex_delta)"
  using ex_delta_ids [THEN arg_cong, of length] by (intro propose_main_files [OF ex_file ex_file ex_delta_def]) simp_all

lemma ex_distinct: "distinct (map re_id (rd_active (ex_yaml (the (ex_files ActiveFile)))))"
  "distinct (map re_id (rd_quarantine (ex_yaml (the (ex_files QuarantineFile)))))"
  by code_simp+

lemma ex_reads: "list_all (reads_doc ex_parse) (written_docs ex_yaml ''2026-05-20'' ''2026-05-20T00:00:00.000Z'' ex_delta
    (the (ex_files ActiveFile)) (the (ex_files QuarantineFile)) (the (ex_files DeprecatedFile)))"
  by code_simp

theorem proposals_are_applied_witness:
  "place ex_yaml (as_files (snd (apply_main sound_disk ex_yaml (audit_rules ex_yaml (\<lambda>t. t)) ''2026-05-20''
      ''2026-05-20T00:00:00.000Z'' False \<lparr>as_files = ex_files, as_delta = Some ex_delta, as_changelog = []\<rparr>)))
     ''R-002'' = InActive"
proof -
  have "set (map pr_id (rd_promote ex_delta)) = {''R-002''}" unfolding ex_delta_ids by simp
  then have "''R-002'' \<in> pr_id ` set (rd_promote ex_delta)" by simp
  then show ?thesis
    using proposals_are_applied [OF ex_audit ex_file ex_file ex_file ex_distinct ex_propose ex_reads, of "[]"] by auto
qed

text \<open>A rule as the examples below have it.\<close>

definition ex_entry :: "string \<Rightarrow> rule_entry" where
  "ex_entry i = (blank_entry i)\<lparr>re_status := Some ''read'', re_hit_count := Some 4,
     re_precision := Some (if i = ''R-001'' then 3 / 10 else 8 / 10), re_sessions_in_quarantine := Some 3\<rparr>"

section \<open>Ids within one file\<close>

text \<open>The audit compares sets of ids: a rule that a file has twice passes it, although each rule is to lie in
  exactly one set once; the promotion that is then proposed twice is refused as a duplicate.\<close>

lemma doubled_rule_passes_audit:
  "set_violations [''R-001''] [] [ex_entry ''R-001'', ex_entry ''R-001''] [] = []"
  by code_simp

lemma distinct_count: "distinct (map f xs) \<Longrightarrow> length (filter (\<lambda>x. f x = k) xs) \<le> 1"
  by (induction xs) (auto simp: filter_empty_conv image_iff)

lemma doubled_rule_is_refused:
  assumes "r \<in> set Q" "promotable g r" "length (filter (\<lambda>e. re_id e = re_id r \<and> promotable g e) Q) \<ge> 2"
  shows "apply_errors A Q (computeProposals A Q g) \<noteq> []"
proof
  assume "apply_errors A Q (computeProposals A Q g) = []"
  then have d: "distinct (map re_id (filter (promotable g) Q))"
    by (simp add: apply_errors_nil computeProposals_def comp_def)
  let ?F = "filter (promotable g) Q"
  have "filter (\<lambda>e. re_id e = re_id r \<and> promotable g e) Q = filter (\<lambda>e. re_id e = re_id r) ?F"
    by (simp add: conj_commute)
  moreover have "length (filter (\<lambda>e. re_id e = re_id r) ?F) \<le> 1"
    using d by (rule distinct_count)
  ultimately show False using assms(3) by simp
qed

section \<open>Headers\<close>

text \<open>The comment at the head of a rule file survives each time the file is generated from the former one,
  whatever the rules are, unless it consists of blank lines only.\<close>

theorem rule_header_survives:
  assumes "header raw \<noteq> newline"
  shows "header (emitActive (header raw) es d) = header raw
    \<and> header (emitQuarantine (header raw) es) = header raw
    \<and> header (emitDeprecated isoNow (header raw) es) = header raw"
  using emitted_headers [OF assms] by blast

theorem rule_header_survives_witness:
  "header (emitQuarantine (header (''# kept'' @ newline @ ''quarantine: []'')) []) = header (''# kept'' @ newline @ ''quarantine: []'')"
  by (rule rule_header_survives [THEN conjunct2, THEN conjunct1]) code_simp

section \<open>Counting a session\<close>

lemma fixed_unit:
  assumes "0 \<le> x" "x \<le> 1"
  shows "0 \<le> fixed f x" "fixed f x \<le> 1"
proof -
  have "js_round 0 \<le> js_round (x * 10 ^ f)" using assms by (intro js_round_mono) simp
  then have lo: "0 \<le> js_round (x * 10 ^ f)" using js_round_of_int [of 0] by simp
  have "js_round (x * 10 ^ f) \<le> js_round (10 ^ f)" using assms by (intro js_round_mono) (simp add: mult_left_le_one_le)
  then have "js_round (x * 10 ^ f) \<le> 10 ^ f" using js_round_of_int [of "10 ^ f"] by simp
  then have "(of_int (js_round (x * 10 ^ f)) :: number) \<le> of_int (10 ^ f)" by (simp only: of_int_le_iff)
  then show "0 \<le> fixed f x" "fixed f x \<le> 1" using lo assms by (simp_all add: fixed_def)
qed

text \<open>Counters that are not negative stay so and never shrink, and the derived precision is between 0 and 1;
  the session is counted even for a rule without figures.\<close>

theorem session_counters_sound:
  assumes "0 \<le> num (re_tp e)" "0 \<le> num (re_fp e)" "0 \<le> num (re_hit_count e)"
    and "case stat of None \<Rightarrow> True | Some s \<Rightarrow> 0 \<le> num (st_tp s) \<and> 0 \<le> num (st_fp s) \<and> 0 \<le> num (st_hits s)"
  shows "let e' = applyStats e stat SessionsInQuarantine
    in re_id e' = re_id e \<and> re_status e' = re_status e
       \<and> num (re_sessions_in_quarantine e') = num (re_sessions_in_quarantine e) + 1
       \<and> num (re_tp e) \<le> num (re_tp e') \<and> num (re_fp e) \<le> num (re_fp e') \<and> num (re_hit_count e) \<le> num (re_hit_count e')
       \<and> (re_precision e' = None \<longleftrightarrow> num (re_tp e') = 0 \<and> num (re_fp e') = 0)
       \<and> 0 \<le> num (re_precision e') \<and> num (re_precision e') \<le> 1"
proof -
  define s' where "s' = (case stat of None \<Rightarrow> no_stat | Some x \<Rightarrow> x)"
  have s: "0 \<le> num (st_tp s')" "0 \<le> num (st_fp s')" "0 \<le> num (st_hits s')"
    using assms(4) by (cases stat; simp add: s'_def no_stat_def num_def)+
  define tp fp where "tp = num (re_tp e) + num (st_tp s')" and "fp = num (re_fp e) + num (st_fp s')"
  have nn: "0 \<le> tp" "0 \<le> fp" using assms s by (simp_all add: tp_def fp_def)
  have e': "applyStats e stat SessionsInQuarantine =
      e\<lparr>re_sessions_in_quarantine := Some (num (re_sessions_in_quarantine e) + 1),
        re_hit_count := Some (num (re_hit_count e) + num (st_hits s')), re_tp := Some tp, re_fp := Some fp,
        re_precision := derivePrecision tp fp\<rparr>"
    by (simp add: applyStats_def bump_sessions_def s'_def tp_def fp_def Let_def)
  have "0 < tp + fp \<Longrightarrow> 0 \<le> fixed 4 (tp / (tp + fp)) \<and> fixed 4 (tp / (tp + fp)) \<le> 1"
    using nn by (intro conjI fixed_unit) simp_all
  then have p: "0 \<le> num (derivePrecision tp fp)" "num (derivePrecision tp fp) \<le> 1"
    "derivePrecision tp fp = None \<longleftrightarrow> tp = 0 \<and> fp = 0"
    using nn by (auto simp: derivePrecision_def num_def)
  show ?thesis unfolding Let_def e' using p s by (simp add: tp_def fp_def) (simp add: num_def)
qed

theorem session_counters_sound_witness:
  "num (re_precision (applyStats (ex_entry ''R-001'') (Some \<lparr>st_hits = Some 3, st_tp = Some 2, st_fp = Some 1\<rparr>)
     SessionsInQuarantine)) \<le> 1"
  using session_counters_sound [of "ex_entry ''R-001''" "Some \<lparr>st_hits = Some 3, st_tp = Some 2, st_fp = Some 1\<rparr>"]
  by (simp add: ex_entry_def blank_entry_def num_def Let_def)

lemma count_keeps_ids: "map re_id (map (\<lambda>e. applyStats e (session (re_id e)) fld) es) = map re_id es"
  by (cases fld) (simp_all add: applyStats_def bump_sessions_def Let_def comp_def)

text \<open>Counting, too, is all or nothing, and it never touches the deprecated rules, the baseline or the lock.\<close>

lemma count_all_or_nothing:
  "let (r, fs') = count_main disk yaml audit today dryRun session fs
   in fs' = fs \<or> r = Inl () \<and> disk_fails disk
      \<or> (\<exists>m n. r = Inr (Counted m n)) \<and> audit fs' \<and> fs' DeprecatedFile = fs DeprecatedFile
      \<and> fs' BaselineFile = fs BaselineFile \<and> fs' LockFile = fs LockFile"
proof (cases "(fs ActiveFile, fs QuarantineFile)")
  case (Pair x y)
  show ?thesis
  proof (cases "\<exists>a q. x = Some a \<and> y = Some q \<and> \<not> dryRun")
    case True
    then obtain a q where f: "fs ActiveFile = Some a" "fs QuarantineFile = Some q" and d: "\<not> dryRun" using Pair by auto
    let ?ws = "count_writes yaml today session a q"
    have all: "list_all (P \<circ> fst) ?ws \<longleftrightarrow> P ActiveFile \<and> P QuarantineFile" for P by (simp add: count_writes_def)
    obtain b fs' where c: "commitFiles disk audit ?ws fs = (b, fs')" by (cases "commitFiles disk audit ?ws fs")
    have ok: "b \<Longrightarrow> audit fs' \<and> fs' = written ?ws fs" using c by (cases b) (simp_all add: commitFiles_True)
    have no: "\<not> b \<Longrightarrow> \<not> disk_fails disk \<Longrightarrow> fs' = fs"
      using commitFiles_False [of disk audit ?ws fs fs'] c by (simp add: all disk_sound)
    show ?thesis using ok no f d c by (cases b) (auto simp: count_main_def Let_def count_writes_def)
  qed (use Pair in \<open>auto simp: count_main_def Let_def split: option.splits\<close>)
qed

section \<open>The lock\<close>

text \<open>After \<^verbatim>\<open>--write-lock\<close> the audit reports a changed baseline, and only that: other line ends are no change.
  (The digest has no blanks, and the two texts no common one.)\<close>

theorem lock_notices_change:
  assumes "write_lock sha256 fs = Some fs'" "fs BaselineFile = Some b"
    and "list_all (\<lambda>c. \<not> js_space c) (sha256 (unix_lines b))"
    and "sha256 (unix_lines b) = sha256 (unix_lines b') \<longrightarrow> unix_lines b = unix_lines b'"
  shows "lock_violations sha256 b' (fs' LockFile) = (if unix_lines b' = unix_lines b then [] else [HashMismatch])"
proof -
  have lock: "fs' LockFile = Some (sha256 (unix_lines b) @ newline)"
    using assms(1,2) by (auto simp: write_lock_def normHash_def)
  have keep: "dropWhile js_space (xs @ ys) = xs @ ys" if "list_all (\<lambda>c. \<not> js_space c) xs" "xs \<noteq> []" for xs ys
    using that by (cases xs) simp_all
  have trim: "js_trim (h @ newline) = h" if "list_all (\<lambda>c. \<not> js_space c) h" for h
    using that keep [of h newline] keep [of "rev h" "[]"]
    by (cases "h = []") (simp_all add: js_trim_def newline_def js_space_def)
  show ?thesis using assms(4) unfolding lock by (auto simp: lock_violations_def normHash_def trim [OF assms(3)])
qed

theorem lock_notices_change_witness:
  "lock_violations (\<lambda>t. t) ''b2'' (Some (''b1'' @ newline)) = [HashMismatch]"
  using lock_notices_change [of "\<lambda>t. t" "ex_files(BaselineFile \<mapsto> ''b1'')"
      "ex_files(BaselineFile \<mapsto> ''b1'', LockFile \<mapsto> ''b1'' @ newline)" "''b1''" "''b2''"]
  by (simp add: write_lock_def normHash_def js_space_def)

end
