(* ===== verification/Token_Session.thy ===== *)
theory Token_Session
  imports "HOL-Library.Sublist" Token_Rules_Props
begin

text \<open>
  The recorder of sessions (\<^verbatim>\<open>tools/audit/token-session-record.js\<close>), the estimate of tokens
  (\<^verbatim>\<open>_lib/token-estimate.js\<close>), the governance score (\<^verbatim>\<open>rgs.js\<close>), the immutability of decisions
  (\<^verbatim>\<open>adr-immutability.js\<close>) and the suite of audits (\<^verbatim>\<open>audit-suite.js\<close>).

  The files are what the reader of JSON gives for them: a number that is no number is \<open>None\<close>, a line of the
  history that is blank or no JSON is \<open>None\<close>.  Version control, the reader of front matter and the clock are
  arguments.
\<close>

section \<open>token-session-record: the files\<close>

definition MIN_TOKENS :: number where "MIN_TOKENS = 500"
definition MIN_INLINE_CALLS :: number where "MIN_INLINE_CALLS = 5"
definition ROLLING_N :: nat where "ROLLING_N = 30"

record observation =
  ob_context_tokens :: "number option"
  ob_outcome :: string
  ob_missing_state_update :: bool

record session_state =
  ss_started_at :: "string option"
  ss_observations :: "observation list"
  ss_agent_outputs :: "string list"

record trigger_state =
  ts_session_key :: "string option"
  ts_total_calls :: "number option"
  ts_turn_index :: "number option"
  ts_read_counts :: "(string \<times> number option) list"
  ts_pending_audit :: "string option list"

record estimates =
  es_T_useful :: "number option"
  es_IDC :: "number option"
  es_R_dup :: "number option"
  es_E_resp :: "number option"

record session_row =
  hr_session_key :: "string option"
  hr_recorded_at :: string
  hr_agents :: nat
  hr_observations :: nat
  hr_T_total :: "number option"
  hr_outcomes :: "(string \<times> nat) list"
  hr_T_useful :: "number option"
  hr_IDC :: "number option"
  hr_R_dup :: "number option"
  hr_E_resp :: "number option"
  hr_estimated :: bool

record rolling =
  ro_window :: nat
  ro_sessions_count :: nat
  ro_sessions_skipped :: number
  ro_sessions_inline :: number
  ro_updated_at :: string
  ro_T_total_mean :: "number option"
  ro_IDC_mean :: "number option"
  ro_R_dup_mean :: "number option"
  ro_E_resp_mean :: "number option"
  ro_delta_T_trend :: "number option"

text \<open>The two files that are written.\<close>

record metrics =
  me_history :: "session_row option list"
  me_rolling :: "rolling option"

definition readHistory :: "session_row option list \<Rightarrow> session_row list" where
  "readHistory lines = List.map_filter (\<lambda>l. l) lines"

section \<open>token-session-record: the metrics\<close>

definition present :: "string option \<Rightarrow> bool" where
  "present t \<longleftrightarrow> t \<noteq> None \<and> t \<noteq> Some []"

definition sessionKey :: "string \<Rightarrow> trigger_state option \<Rightarrow> session_state \<Rightarrow> string" where
  "sessionKey today tstate sstate =
     (case tstate of
        Some t \<Rightarrow> if present (ts_session_key t) then the (ts_session_key t)
                 else if present (ss_started_at sstate) then ''started-'' @ the (ss_started_at sstate)
                 else ''unknown-'' @ today
      | None \<Rightarrow> if present (ss_started_at sstate) then ''started-'' @ the (ss_started_at sstate)
                else ''unknown-'' @ today)"

text \<open>\<^verbatim>\<open>m[o] = (m[o] || 0) + 1\<close>, the keys in the order of their first occurrence.\<close>

fun count_outcome_in :: "string \<Rightarrow> (string \<times> nat) list \<Rightarrow> (string \<times> nat) list" where
  "count_outcome_in o' [] = [(o', 1)]"
| "count_outcome_in o' ((k, n) # m) = (if k = o' then (k, n + 1) # m else (k, n) # count_outcome_in o' m)"

record deterministic =
  de_agents :: nat
  de_observations :: nat
  de_T_total :: number
  de_outcomes :: "(string \<times> nat) list"

definition computeDeterministic :: "session_state \<Rightarrow> deterministic" where
  "computeDeterministic sstate =
     (let obs = ss_observations sstate
      in \<lparr>de_agents = length (ss_agent_outputs sstate), de_observations = length obs,
          de_T_total = fold (\<lambda>o' s. s + num (ob_context_tokens o')) obs 0,
          de_outcomes = fold (\<lambda>o' m. count_outcome_in (ob_outcome o') m) obs []\<rparr>)"

record inline_signals =
  is_tool_calls :: number
  is_turns :: number
  is_dup_reads :: "(string \<times> number) list"
  is_triggers_fired :: "string list"

definition inlineSignals :: "trigger_state option \<Rightarrow> inline_signals option" where
  "inlineSignals tstate =
     (case tstate of None \<Rightarrow> None
      | Some t \<Rightarrow>
          let toolCalls = num (ts_total_calls t);
              dupReads = take 5 (sort_key (\<lambda>(k, n). - n)
                (map (\<lambda>(k, v). (k, num v)) (filter (\<lambda>(k, v). 2 \<le> num v) (ts_read_counts t))));
              fired = js_set (List.map_filter (\<lambda>p. if present p then p else None) (ts_pending_audit t))
          in if MIN_INLINE_CALLS \<le> toolCalls \<or> dupReads \<noteq> [] \<or> fired \<noteq> []
             then Some \<lparr>is_tool_calls = toolCalls, is_turns = num (ts_turn_index t), is_dup_reads = dupReads,
                        is_triggers_fired = fired\<rparr>
             else None)"

definition last_rows :: "nat \<Rightarrow> 'a list \<Rightarrow> 'a list" where
  "last_rows n xs = drop (length xs - n) xs"

definition mean :: "number option list \<Rightarrow> number option" where
  "mean vs = (let vals = List.map_filter (\<lambda>v. v) vs
     in if vals = [] then None else Some (fixed 4 (sum_list vals / of_nat (length vals))))"

definition delta_T_trend :: "number option list \<Rightarrow> number option" where
  "delta_T_trend vs = (let xs = List.map_filter (\<lambda>v. v) vs
     in if length xs < 2 then None
        else Some (fixed 2 ((last xs - hd xs) / (if hd xs = 0 then 1 else hd xs) * 100)))"

definition recomputeRolling :: "string \<Rightarrow> session_row list \<Rightarrow> number \<Rightarrow> number \<Rightarrow> rolling" where
  "recomputeRolling isoNow rows skippedTotal inlineTotal =
     (let window = last_rows ROLLING_N rows
      in \<lparr>ro_window = ROLLING_N, ro_sessions_count = length window, ro_sessions_skipped = skippedTotal,
          ro_sessions_inline = inlineTotal, ro_updated_at = isoNow,
          ro_T_total_mean = mean (map hr_T_total window), ro_IDC_mean = mean (map hr_IDC window),
          ro_R_dup_mean = mean (map hr_R_dup window), ro_E_resp_mean = mean (map hr_E_resp window),
          ro_delta_T_trend = delta_T_trend (map hr_T_total window)\<rparr>)"

section \<open>token-session-record: the script\<close>

datatype record_outcome =
    IdempotentSkip string
  | InlineSession string inline_signals
  | TrivialSkip string number nat
  | RecordDryRun session_row rolling
  | Recorded string number nat

definition new_row :: "string \<Rightarrow> string \<Rightarrow> deterministic \<Rightarrow> estimates \<Rightarrow> session_row" where
  "new_row isoNow key det e =
     \<lparr>hr_session_key = Some key, hr_recorded_at = isoNow, hr_agents = de_agents det,
      hr_observations = de_observations det, hr_T_total = Some (de_T_total det), hr_outcomes = de_outcomes det,
      hr_T_useful = es_T_useful e, hr_IDC = es_IDC e, hr_R_dup = es_R_dup e, hr_E_resp = es_E_resp e,
      hr_estimated = list_ex (\<lambda>v. v \<noteq> None) [es_T_useful e, es_IDC e, es_R_dup e, es_E_resp e]\<rparr>"

definition record_session ::
  "string \<Rightarrow> bool \<Rightarrow> estimates \<Rightarrow> string \<Rightarrow> trigger_state option \<Rightarrow> deterministic \<Rightarrow> metrics \<Rightarrow> record_outcome \<times> metrics" where
  "record_session isoNow dryRun e key tstate det m =
     (let rows = readHistory (me_history m);
          prevSkipped = (case me_rolling m of None \<Rightarrow> 0 | Some r \<Rightarrow> ro_sessions_skipped r);
          prevInline = (case me_rolling m of None \<Rightarrow> 0 | Some r \<Rightarrow> ro_sessions_inline r)
      in if rows \<noteq> [] \<and> hr_session_key (last rows) = Some key then (IdempotentSkip key, m)
         else (case (if de_agents det = 0 \<or> de_T_total det = 0 then inlineSignals tstate else None) of
            Some signals \<Rightarrow>
              (InlineSession key signals,
               if dryRun then m else m\<lparr>me_rolling := Some (recomputeRolling isoNow rows prevSkipped (prevInline + 1))\<rparr>)
          | None \<Rightarrow>
              if de_agents det = 0 \<or> de_T_total det < MIN_TOKENS
              then (TrivialSkip key (de_T_total det) (de_agents det),
                    if dryRun then m else m\<lparr>me_rolling := Some (recomputeRolling isoNow rows (prevSkipped + 1) prevInline)\<rparr>)
              else let row = new_row isoNow key det e; newRows = rows @ [row];
                       rolling = recomputeRolling isoNow newRows prevSkipped prevInline
                   in if dryRun then (RecordDryRun row rolling, m)
                      else (Recorded key (de_T_total det) (ro_sessions_count rolling),
                            \<lparr>me_history = map Some newRows, me_rolling = Some rolling\<rparr>)))"

definition record_main ::
  "string \<Rightarrow> string \<Rightarrow> bool \<Rightarrow> estimates \<Rightarrow> session_state option \<Rightarrow> trigger_state option \<Rightarrow> metrics
   \<Rightarrow> (unit + record_outcome) \<times> metrics" where
  "record_main today isoNow dryRun e sstate tstate m =
     (case sstate of None \<Rightarrow> (Inl (), m)
      | Some ss \<Rightarrow>
          (case record_session isoNow dryRun e (sessionKey today tstate ss) tstate (computeDeterministic ss) m of
             (r, m') \<Rightarrow> (Inr r, m')))"

text \<open>What the proposer of rule changes reads of the file (\<^verbatim>\<open>rolling.aggregates\<close>).\<close>

definition rolling_gates :: "rolling option \<Rightarrow> gates" where
  "rolling_gates r = (case r of None \<Rightarrow> \<lparr>ga_delta_T_trend = None, ga_E_resp_mean = None\<rparr>
     | Some x \<Rightarrow> \<lparr>ga_delta_T_trend = ro_delta_T_trend x, ga_E_resp_mean = ro_E_resp_mean x\<rparr>)"

section \<open>token-estimate\<close>

text \<open>A text by its code units; the divisors \<^verbatim>\<open>K_ASCII\<close> and \<^verbatim>\<open>K_CYR\<close> (4 and 3 by default) are arguments.\<close>

definition nonAsciiRatio :: "nat list \<Rightarrow> number" where
  "nonAsciiRatio units =
     (if units = [] then 0 else fixed 3 (of_nat (length (filter (\<lambda>c. 127 < c) units)) / of_nat (length units)))"

definition estimateTokens :: "number \<Rightarrow> number \<Rightarrow> number \<Rightarrow> number \<Rightarrow> int" where
  "estimateTokens kA kC bytes ratio =
     (let b = max 0 bytes; r = max 0 (min 1 ratio); k = kA - (kA - kC) * r in js_round (b / k))"

section \<open>rgs\<close>

text \<open>\<^verbatim>\<open>Number(x.toFixed(2))\<close>; an invariant of the manifest is its kind.\<close>

definition computeEC :: "string list \<Rightarrow> number" where
  "computeEC kinds =
     (if kinds = [] then 1
      else fixed 2 (of_nat (length (filter (\<lambda>k. k = ''block'' \<or> k = ''signal'') kinds)) / of_nat (length kinds)))"

definition computeCCR :: "observation list \<Rightarrow> number option" where
  "computeCCR obs =
     (if obs = [] then None
      else Some (fixed 2 (1 - of_nat (length (filter ob_missing_state_update obs)) / of_nat (length obs))))"

text \<open>Of the events only their number counts.\<close>

definition computeFC :: "nat \<Rightarrow> observation list \<Rightarrow> number option" where
  "computeFC events obs = (if obs = [] \<and> events = 0 then None else Some (if 0 < events then 1 else 0))"

datatype governance_score = Full number | Static number

definition governance :: "string list \<Rightarrow> bool \<Rightarrow> observation list option \<Rightarrow> nat option \<Rightarrow> governance_score" where
  "governance kinds triggersOk obs events =
     (let ec = computeEC kinds; ti = (if triggersOk then 1 else 0 :: number);
          ccr = (case obs of None \<Rightarrow> None | Some os \<Rightarrow> computeCCR os);
          fc = (case (obs, events) of (Some os, Some ev) \<Rightarrow> computeFC ev os | _ \<Rightarrow> None)
      in case (ccr, fc) of
           (Some c, Some f) \<Rightarrow> Full (fixed 2 ((ec * (30 / 100) + c * (25 / 100) + f * (20 / 100) + ti * (15 / 100)) / (90 / 100)))
         | _ \<Rightarrow> Static (fixed 2 ((ec + ti) / 2)))"

section \<open>adr-immutability\<close>

text \<open>The word that marks an accepted decision; a status that is missing or empty marks none.\<close>

definition accepted_word :: string where
  "accepted_word = utf8 [0xD0, 0x9F, 0xD1, 0x80, 0xD0, 0xB8, 0xD0, 0xBD, 0xD1, 0x8F, 0xD1, 0x82, 0xD0, 0xBE]"

definition accepted :: "string option \<Rightarrow> bool" where
  "accepted status = (case status of None \<Rightarrow> False | Some st \<Rightarrow> list_ex (\<lambda>t. take (length accepted_word) t = accepted_word) (suffixes st))"

text \<open>\<^verbatim>\<open>status\<close> is the reader of front matter, \<^verbatim>\<open>base\<close> and \<^verbatim>\<open>tree\<close> the contents of a file in the base and
  in the working tree.\<close>

definition adr_violation ::
  "(string \<Rightarrow> string option) \<Rightarrow> (string \<Rightarrow> string option) \<Rightarrow> (string \<Rightarrow> string option) \<Rightarrow> string \<Rightarrow> bool" where
  "adr_violation status base tree file =
     (case base file of None \<Rightarrow> False
      | Some baseContent \<Rightarrow>
          (case tree file of None \<Rightarrow> False
           | Some headContent \<Rightarrow>
               baseContent \<noteq> headContent \<and> accepted (status baseContent)
               \<and> status baseContent = status headContent))"

text \<open>The exit status of the check against the base: \<open>True\<close> for 0.  Without a base it is skipped.\<close>

definition check_changed_adrs ::
  "(string \<Rightarrow> string option) \<Rightarrow> string list option \<Rightarrow> (string \<Rightarrow> string option) \<Rightarrow> (string \<Rightarrow> string option) \<Rightarrow> bool" where
  "check_changed_adrs status changed base tree =
     (case changed of None \<Rightarrow> True | Some files \<Rightarrow> filter (adr_violation status base tree) files = [])"

text \<open>\<^verbatim>\<open>/docs\/decisions\/ADR-[^/]+\.md$/\<close>\<close>

definition adr_file :: "string \<Rightarrow> bool" where
  "adr_file path = list_ex (\<lambda>t. take 19 t = ''docs/decisions/ADR-''
     \<and> (let r = drop 19 t in 3 < length r \<and> drop (length r - 3) r = ''.md'' \<and> CHR ''/'' \<notin> set r)) (suffixes path)"

definition staged_block ::
  "(string \<Rightarrow> string option) \<Rightarrow> (string \<Rightarrow> string option) \<Rightarrow> (string \<Rightarrow> string option) \<Rightarrow> (string \<Rightarrow> string option)
   \<Rightarrow> string \<Rightarrow> bool" where
  "staged_block status head index tree file =
     (case head file of None \<Rightarrow> False
      | Some headContent \<Rightarrow>
          accepted (status headContent)
          \<and> (case (case index file of Some c \<Rightarrow> Some c | None \<Rightarrow> tree file) of
               None \<Rightarrow> False
             | Some stagedContent \<Rightarrow> status headContent = status stagedContent))"

definition checkStagedADRs ::
  "(string \<Rightarrow> string option) \<Rightarrow> string list option \<Rightarrow> (string \<Rightarrow> string option) \<Rightarrow> (string \<Rightarrow> string option)
   \<Rightarrow> (string \<Rightarrow> string option) \<Rightarrow> bool" where
  "checkStagedADRs status staged head index tree =
     (case staged of None \<Rightarrow> True
      | Some files \<Rightarrow> filter (staged_block status head index tree) (filter adr_file files) = [])"

section \<open>audit-suite\<close>

definition suite_phases :: "(string \<times> string list) list" where
  "suite_phases =
     [(''10.1 Contract integrity'', [''path-canonical.js'', ''section-anchors.js'', ''dead-refs.js'',
        ''agent-name-presence.js'', ''state-contract-section.js'', ''phantom-section-refs.js'']),
      (''10.2 Schema integrity'', [''agent-frontmatter.js'', ''session-state.js'', ''adr-anchors.js'',
        ''rbac-vs-schema.js'', ''audit-rules.js'']),
      (''10.5 Security posture'', [''allowlist-literal.js'', ''pen-test-smoke.js'']),
      (''10.6 Governance'', [''adr-immutability.js'', ''changelog-presence.js'']),
      (''10.7 Documentation truth'', [''orphan-adrs.js'', ''orphan-dirs.js'', ''delivery-paths.js'',
        ''memory-fs-sync.js'', ''fallback-profiles.js'']),
      (''10.8 Semantic integrity'', [''trigger-integrity.js'', ''rgs.js''])]"

text \<open>Every script runs, whatever the former ones answered: the number of those that passed, the number of
  all, and the exit status.\<close>

definition audit_suite :: "(string \<Rightarrow> bool) \<Rightarrow> nat \<times> nat \<times> bool" where
  "audit_suite passes =
     (let scripts = concat (map snd suite_phases); failed = filter (\<lambda>s. \<not> passes s) scripts
      in (length scripts - length failed, length scripts, failed = []))"

end
