(* ===== verification/Token_Session_Theorems.thy ===== *)
theory Token_Session_Theorems
  imports Token_Session Token_Rules_Theorems
begin

text \<open>
  What the recorder of sessions, the estimate, the score and the check of decisions guarantee, and how the
  recorded history decides on promotions.
\<close>

section \<open>Recording\<close>

lemma readHistory_simps [simp]:
  "readHistory [] = []" "readHistory (Some r # lines) = r # readHistory lines"
  "readHistory (None # lines) = readHistory lines"
  by (simp_all add: readHistory_def map_filter_simps)

lemma readHistory_rows [simp]: "readHistory (map Some rows) = rows"
  by (induction rows) simp_all

lemma length_last_rows [simp]: "length (last_rows n xs) = min n (length xs)"
  by (simp add: last_rows_def min_def)

text \<open>The outcomes of a recorder run on the history.\<close>

lemma record_session_Recorded:
  assumes "record_session isoNow dryRun e key tstate det m = (Recorded k t n, m')"
  shows "k = key" "t = de_T_total det" "\<not> dryRun" "MIN_TOKENS \<le> de_T_total det"
    "me_history m' = map Some (readHistory (me_history m) @ [new_row isoNow key det e])"
    "n = min ROLLING_N (Suc (length (readHistory (me_history m))))"
  using assms unfolding record_session_def Let_def
  by (auto simp: recomputeRolling_def Let_def split: if_splits option.splits)

lemma record_session_again:
  assumes "readHistory (me_history m) \<noteq> []" "hr_session_key (last (readHistory (me_history m))) = Some key"
  shows "record_session isoNow dryRun e key tstate det m = (IdempotentSkip key, m)"
  using assms by (simp add: record_session_def)

text \<open>A session that was recorded is recorded once: the same script on the same session, whatever the
  estimates and the clock say then, leaves both files alone.\<close>

theorem session_recorded_once:
  assumes "record_main today isoNow dryRun e sstate tstate m = (Inr (Recorded key t n), m')"
  shows "record_main today later dryRun' e' sstate tstate m' = (Inr (IdempotentSkip key), m')
    \<and> length (readHistory (me_history m')) = Suc (length (readHistory (me_history m)))
    \<and> MIN_TOKENS \<le> t \<and> n \<le> ROLLING_N"
proof -
  obtain ss where ss: "sstate = Some ss"
    using assms by (cases sstate) (simp_all add: record_main_def)
  have r: "record_session isoNow dryRun e (sessionKey today tstate ss) tstate (computeDeterministic ss) m = (Recorded key t n, m')"
    using assms by (simp add: record_main_def ss split: prod.splits)
  note f = record_session_Recorded [OF r]
  have h: "readHistory (me_history m') = readHistory (me_history m) @ [new_row isoNow key (computeDeterministic ss) e]"
    by (simp only: f(1,5) readHistory_rows)
  have k: "sessionKey today tstate ss = key" using f(1) by simp
  have "record_session later dryRun' e' key tstate (computeDeterministic ss) m' = (IdempotentSkip key, m')"
    by (rule record_session_again) (simp_all add: h new_row_def)
  then have "record_main today later dryRun' e' sstate tstate m' = (Inr (IdempotentSkip key), m')"
    by (simp add: record_main_def ss k)
  then show ?thesis using f(2,4,6) h by simp
qed

definition ex_session :: session_state where
  "ex_session = \<lparr>ss_started_at = Some ''2026-05-20T08:00:00Z'',
     ss_observations = [\<lparr>ob_context_tokens = Some 700, ob_outcome = ''ok'', ob_missing_state_update = False\<rparr>],
     ss_agent_outputs = [''planner'']\<rparr>"

definition no_estimates :: estimates where
  "no_estimates = \<lparr>es_T_useful = None, es_IDC = None, es_R_dup = None, es_E_resp = None\<rparr>"

definition ex_metrics :: metrics where
  "ex_metrics = \<lparr>me_history = [], me_rolling = None\<rparr>"

theorem session_recorded_once_witness:
  "fst (record_main ''2026-05-20'' ''B'' False no_estimates (Some ex_session) None
     (snd (record_main ''2026-05-20'' ''A'' False no_estimates (Some ex_session) None ex_metrics)))
   = Inr (IdempotentSkip ''started-2026-05-20T08:00:00Z'')"
proof -
  let ?r = "record_main ''2026-05-20'' ''A'' False no_estimates (Some ex_session) None ex_metrics"
  have "fst ?r = Inr (Recorded ''started-2026-05-20T08:00:00Z'' 700 1)"
    by (simp add: record_main_def record_session_def ex_session_def ex_metrics_def sessionKey_def present_def
        computeDeterministic_def readHistory_def map_filter_simps num_def MIN_TOKENS_def recomputeRolling_def
        last_rows_def ROLLING_N_def Let_def)
  then have "?r = (Inr (Recorded ''started-2026-05-20T08:00:00Z'' 700 1), snd ?r)" by (metis prod.collapse)
  from session_recorded_once [OF this, of "''B''" False no_estimates] show ?thesis by simp
qed

text \<open>A session that is not recorded is counted as skipped each time the script runs for it, and only the
  last row is compared: a session that comes back after another one has a second row.\<close>

lemma skipped_sessions_count_again:
  assumes "record_session isoNow False e key tstate det m = (TrivialSkip k t a, m')"
  shows "\<exists>m''. record_session later False e key tstate det m' = (TrivialSkip k t a, m'')
    \<and> map_option ro_sessions_skipped (me_rolling m'') = map_option (\<lambda>r. ro_sessions_skipped r + 1) (me_rolling m')"
proof -
  let ?rows = "readHistory (me_history m)"
  have c1: "\<not> (?rows \<noteq> [] \<and> hr_session_key (last ?rows) = Some key)"
    by (rule notI) (use assms in \<open>simp add: record_session_def\<close>)
  have c2: "(if de_agents det = 0 \<or> de_T_total det = 0 then inlineSignals tstate else None) = None" (is "?s = None")
  proof (rule ccontr)
    assume "?s \<noteq> None"
    then obtain signals where "?s = Some signals" by blast
    then show False using assms c1 by (simp add: record_session_def Let_def del: de_Morgan_conj)
  qed
  have c3: "de_agents det = 0 \<or> de_T_total det < MIN_TOKENS"
    by (rule ccontr) (use assms c1 c2 in \<open>simp add: record_session_def Let_def\<close>)
  have r: "k = key" "t = de_T_total det" "a = de_agents det" "me_history m' = me_history m" "me_rolling m' \<noteq> None"
    using assms c1 c2 c3 by (auto simp: record_session_def Let_def)
  then obtain ro where "me_rolling m' = Some ro" by blast
  then show ?thesis
    using c1 c2 c3 r(1-4) by (simp add: record_session_def recomputeRolling_def Let_def)
qed

lemma session_may_have_two_rows:
  assumes "me_history m = [Some a, Some b]" "hr_session_key a = Some key" "hr_session_key b \<noteq> Some key"
    and "0 < de_agents det" "MIN_TOKENS \<le> de_T_total det"
  shows "\<exists>m'. record_session isoNow False e key tstate det m = (Recorded key (de_T_total det) 3, m')
    \<and> map hr_session_key (readHistory (me_history m')) = [Some key, hr_session_key b, Some key]"
  using assms
  by (simp add: record_session_def Let_def MIN_TOKENS_def new_row_def recomputeRolling_def ROLLING_N_def)

section \<open>Savings before promotions\<close>

lemma fixed_error: "\<bar>fixed f x - x\<bar> \<le> 1 / (2 * 10 ^ f)"
proof -
  define y where "y = \<bar>x\<bar> * 10 ^ f"
  have "\<bar>of_int (js_round y) - y\<bar> \<le> 1 / 2" using js_round_bounds [of y] unfolding abs_le_iff by linarith
  then have "\<bar>of_int (js_round y) - y\<bar> / 10 ^ f \<le> 1 / 2 / 10 ^ f" by (intro divide_right_mono) simp_all
  moreover have "of_int (js_round y) / 10 ^ f - \<bar>x\<bar> = (of_int (js_round y) - y) / 10 ^ f"
    by (simp add: y_def diff_divide_distrib)
  ultimately have "\<bar>of_int (js_round y) / 10 ^ f - \<bar>x\<bar>\<bar> \<le> 1 / (2 * 10 ^ f)"
    by (simp add: abs_divide)
  then show ?thesis by (cases "x < 0") (simp_all add: fixed_def y_def abs_minus_commute add.commute)
qed

text \<open>The token totals of the window the recorder looks at.\<close>

definition window_totals :: "session_row list \<Rightarrow> number list" where
  "window_totals rows = List.map_filter hr_T_total (last_rows ROLLING_N rows)"

text \<open>A promotion is proposed from the recorded history only when at least two sessions of the last thirty
  have a total and, but for the rounding to two decimals, the last of them took at least 5 percent less than
  the first.\<close>

theorem promotion_needs_savings:
  assumes "rd_promote (computeProposals A Q (rolling_gates (Some (recomputeRolling isoNow rows skipped inl)))) \<noteq> []"
    and "0 < hd (window_totals rows)"
  shows "2 \<le> length (window_totals rows)
    \<and> last (window_totals rows) \<le> 95005 / 100000 * hd (window_totals rows)"
proof -
  let ?xs = "window_totals rows"
  have mf: "List.map_filter (\<lambda>v. v) (map g ys) = List.map_filter g ys" for g :: "session_row \<Rightarrow> number option" and ys
    by (induction ys) (simp_all add: map_filter_simps split: option.splits)
  have "savingsGate (rolling_gates (Some (recomputeRolling isoNow rows skipped inl)))"
    using assms(1) by (auto simp: computeProposals_def filter_empty_conv promotable_def)
  then obtain d where d: "delta_T_trend (map hr_T_total (last_rows ROLLING_N rows)) = Some d" "d \<le> - 5"
    by (auto simp: savingsGate_def rolling_gates_def recomputeRolling_def Let_def PROMOTE_MIN_SAVINGS_PCT_def
        split: option.splits)
  then have len: "2 \<le> length ?xs"
    by (auto simp: delta_T_trend_def mf window_totals_def Let_def split: if_splits)
  define q where "q = (last ?xs - hd ?xs) / hd ?xs"
  have "d = fixed 2 (q * 100)"
    using d(1) assms(2) len by (auto simp: delta_T_trend_def mf window_totals_def q_def Let_def split: if_splits)
  then have "q * 100 \<le> - 5 + 1 / 200"
    using fixed_error [of 2 "q * 100"] d(2) by (simp add: abs_if split: if_splits)
  then have "q \<le> - 4995 / 100000" by linarith
  then have "(last ?xs - hd ?xs) / hd ?xs \<le> - 4995 / 100000" unfolding q_def .
  then have "last ?xs - hd ?xs \<le> - 4995 / 100000 * hd ?xs" using assms(2) by (simp only: pos_divide_le_eq)
  then show ?thesis using len by simp
qed

theorem promotion_needs_savings_witness:
  "last (window_totals [new_row ''t'' ''a'' (computeDeterministic ex_session) no_estimates,
     (new_row ''t'' ''b'' (computeDeterministic ex_session) no_estimates)\<lparr>hr_T_total := Some 600\<rparr>])
   \<le> 95005 / 100000 * 700"
proof -
  let ?rows = "[new_row ''t'' ''a'' (computeDeterministic ex_session) no_estimates,
     (new_row ''t'' ''b'' (computeDeterministic ex_session) no_estimates)\<lparr>hr_T_total := Some 600\<rparr>]"
  have t: "window_totals ?rows = [700, 600]"
    by (simp add: window_totals_def last_rows_def ROLLING_N_def map_filter_simps new_row_def computeDeterministic_def
        ex_session_def num_def)
  have w: "last_rows ROLLING_N ?rows = ?rows" by (simp add: last_rows_def ROLLING_N_def)
  have "delta_T_trend (map hr_T_total ?rows) = Some (fixed 2 (- (100 / 7)))"
    by (simp add: delta_T_trend_def new_row_def map_filter_simps computeDeterministic_def ex_session_def num_def Let_def)
  moreover have "fixed 2 (- (100 / 7)) \<le> - 5" by code_simp
  moreover have "mean (map hr_E_resp ?rows) = None"
    by (simp add: mean_def new_row_def map_filter_simps no_estimates_def)
  ultimately have "promotable (rolling_gates (Some (recomputeRolling ''t'' ?rows 0 0))) (ex_entry ''R-002'')"
    by (simp add: promotable_def rolling_gates_def recomputeRolling_def Let_def w savingsGate_def qualityGate_def
        PROMOTE_MIN_SAVINGS_PCT_def PROMOTE_MIN_PRECISION_def PROMOTE_MIN_SESSIONS_def ex_entry_def blank_entry_def
        num_def del: list.map)
  then have "rd_promote (computeProposals [] [ex_entry ''R-002''] (rolling_gates (Some (recomputeRolling ''t'' ?rows 0 0)))) \<noteq> []"
    by (simp add: computeProposals_def)
  from promotion_needs_savings [OF this] show ?thesis by (simp add: t)
qed

section \<open>The estimate and the score\<close>

text \<open>Between the two divisors the estimate grows with the share of letters beyond ASCII.\<close>

lemma estimateTokens_mono:
  assumes "0 < kC" "kC \<le> kA" "0 \<le> bytes" "0 \<le> r" "r \<le> r'" "r' \<le> 1"
  shows "estimateTokens kA kC bytes r \<le> estimateTokens kA kC bytes r'"
    and "js_round (bytes / kA) \<le> estimateTokens kA kC bytes r" "estimateTokens kA kC bytes r \<le> js_round (bytes / kC)"
proof -
  have k: "kC \<le> kA - (kA - kC) * q" "kA - (kA - kC) * q \<le> kA" if "0 \<le> q" "q \<le> 1" for q
    using that assms(1,2) mult_left_mono [of q 1 "kA - kC"] by simp_all
  have e: "estimateTokens kA kC bytes q = js_round (bytes / (kA - (kA - kC) * q))" if "0 \<le> q" "q \<le> 1" for q
    using that assms(3) by (simp add: estimateTokens_def Let_def max_def min_def)
  have m: "kA - (kA - kC) * r' \<le> kA - (kA - kC) * r" using assms(2,5) by (simp add: mult_left_mono)
  have r: "0 \<le> r'" "r \<le> 1" using assms(4-6) by simp_all
  have pos: "0 < kA - (kA - kC) * r" "0 < kA - (kA - kC) * r'" using k(1) assms(1,4,6) r by (meson less_le_trans)+
  show "estimateTokens kA kC bytes r \<le> estimateTokens kA kC bytes r'"
    using e assms(4,6) r m pos assms(3) by (simp add: js_round_mono divide_left_mono)
  show "js_round (bytes / kA) \<le> estimateTokens kA kC bytes r"
    using e [OF assms(4) r(2)] k(2) [OF assms(4) r(2)] pos(1) assms(1-3)
    by (simp add: js_round_mono divide_left_mono)
  show "estimateTokens kA kC bytes r \<le> js_round (bytes / kC)"
    using e [OF assms(4) r(2)] k(1) [OF assms(4) r(2)] pos(1) assms(1-3)
    by (simp add: js_round_mono divide_left_mono)
qed

lemma share_unit: "0 \<le> (of_nat (length (filter P xs)) / of_nat (length xs) :: number)"
  "xs \<noteq> [] \<Longrightarrow> of_nat (length (filter P xs)) / of_nat (length xs) \<le> (1 :: number)"
  by (simp_all add: divide_le_eq)

lemma computeEC_unit: "0 \<le> computeEC kinds" "computeEC kinds \<le> 1"
  using fixed_unit share_unit by (simp_all add: computeEC_def)

lemma computeCCR_unit: "computeCCR obs = Some c \<Longrightarrow> 0 \<le> c \<and> c \<le> 1"
proof -
  assume a: "computeCCR obs = Some c"
  then have "obs \<noteq> []" and c: "c = fixed 2 (1 - of_nat (length (filter ob_missing_state_update obs)) / of_nat (length obs))"
    by (auto simp: computeCCR_def split: if_splits)
  then have "0 \<le> 1 - (of_nat (length (filter ob_missing_state_update obs)) / of_nat (length obs) :: number)"
    "1 - (of_nat (length (filter ob_missing_state_update obs)) / of_nat (length obs) :: number) \<le> 1"
    using share_unit by simp_all
  then show ?thesis unfolding c by (intro conjI fixed_unit)
qed

lemma computeFC_unit: "computeFC ev obs = Some c \<Longrightarrow> 0 \<le> c \<and> c \<le> 1"
  by (auto simp: computeFC_def split: if_splits)

text \<open>The governance score lies between 0 and 1, whatever is observed.\<close>

lemma governance_unit:
  "case governance kinds ok obs events of Full s \<Rightarrow> 0 \<le> s \<and> s \<le> 1 | Static s \<Rightarrow> 0 \<le> s \<and> s \<le> 1"
proof -
  define ti :: number where "ti = (if ok then 1 else 0)"
  have ti: "0 \<le> ti" "ti \<le> 1" by (simp_all add: ti_def)
  have st: "0 \<le> fixed 2 ((computeEC kinds + ti) / 2) \<and> fixed 2 ((computeEC kinds + ti) / 2) \<le> 1"
    using computeEC_unit [of kinds] ti by (intro conjI fixed_unit) simp_all
  have full: "0 \<le> fixed 2 ((computeEC kinds * (30 / 100) + c * (25 / 100) + f * (20 / 100) + ti * (15 / 100)) / (90 / 100))
      \<and> fixed 2 ((computeEC kinds * (30 / 100) + c * (25 / 100) + f * (20 / 100) + ti * (15 / 100)) / (90 / 100)) \<le> 1"
    if "0 \<le> c \<and> c \<le> 1" "0 \<le> f \<and> f \<le> 1" for c f
    using computeEC_unit [of kinds] ti that by (intro conjI fixed_unit) simp_all
  show ?thesis unfolding governance_def Let_def ti_def [symmetric]
    using st full computeCCR_unit computeFC_unit by (auto split: option.splits)
qed

section \<open>Accepted decisions\<close>

lemma adr_fileI:
  assumes "take 19 p = ''docs/decisions/ADR-''" "3 < length (drop 19 p)"
    "drop (length (drop 19 p) - 3) (drop 19 p) = ''.md''" "CHR ''/'' \<notin> set (drop 19 p)"
  shows "adr_file p"
  unfolding adr_file_def Let_def list_ex_iff using assms by (intro bexI [of _ p]) simp_all

text \<open>The check against the base passes exactly when every accepted decision that is changed has another
  status; a commit that the gate before it lets through passes it against the former commit.\<close>

lemma check_changed_adrs_iff:
  "check_changed_adrs status (Some files) base tree \<longleftrightarrow>
     list_all (\<lambda>f. \<not> adr_violation status base tree f) files"
  by (simp add: check_changed_adrs_def filter_empty_conv list_all_iff)

theorem staged_gate_implies_check:
  assumes "checkStagedADRs status (Some files) head index tree" "list_all adr_file files"
    and "list_all (\<lambda>f. index f = None \<longrightarrow> tree f = None) files"
  shows "check_changed_adrs status (Some files) head index"
  using assms unfolding check_changed_adrs_iff checkStagedADRs_def
  by (auto simp: list_all_iff filter_empty_conv staged_block_def adr_violation_def split: option.splits)

theorem staged_gate_implies_check_witness:
  "check_changed_adrs (\<lambda>c. Some c) (Some [''docs/decisions/ADR-001-a.md'']) (\<lambda>f. Some accepted_word)
     (\<lambda>f. Some (accepted_word @ '' rev 2''))"
proof -
  have "checkStagedADRs (\<lambda>c. Some c) (Some [''docs/decisions/ADR-001-a.md'']) (\<lambda>f. Some accepted_word)
     (\<lambda>f. Some (accepted_word @ '' rev 2'')) (\<lambda>f. Some (accepted_word @ '' rev 2''))"
    by (simp add: checkStagedADRs_def staged_block_def)
  moreover have "list_all adr_file [''docs/decisions/ADR-001-a.md'']"
    by (simp add: adr_fileI)
  ultimately show ?thesis by (rule staged_gate_implies_check) simp
qed

text \<open>Neither mode notices an accepted decision that is deleted.\<close>

theorem deleted_decision_passes:
  assumes "index f = None" "tree f = None"
  shows "check_changed_adrs status (Some [f]) base tree \<and> checkStagedADRs status (Some [f]) base index tree"
  using assms by (simp add: check_changed_adrs_def checkStagedADRs_def adr_violation_def staged_block_def split: option.splits)

section \<open>The suite\<close>

lemma audit_suite_all:
  assumes "audit_suite passes = (p, t, ok)"
  shows "t = 22 \<and> p \<le> t \<and> (ok \<longleftrightarrow> p = t) \<and> (ok \<longrightarrow> passes ''audit-rules.js'' \<and> passes ''adr-immutability.js'')"
proof -
  define scripts where "scripts = concat (map snd suite_phases)"
  have len: "length scripts = 22" unfolding scripts_def by (simp add: suite_phases_def)
  have mem: "''audit-rules.js'' \<in> set scripts" "''adr-immutability.js'' \<in> set scripts"
    unfolding scripts_def by (simp_all add: suite_phases_def)
  note a = assms [unfolded audit_suite_def Let_def prod.inject, folded scripts_def]
  have r: "p = length scripts - length (filter (\<lambda>s. \<not> passes s) scripts)" "t = length scripts"
    "ok = (filter (\<lambda>s. \<not> passes s) scripts = [])"
    using a [THEN conjunct1] a [THEN conjunct2, THEN conjunct1] a [THEN conjunct2, THEN conjunct2] by (simp_all only:)
  have "length (filter (\<lambda>s. \<not> passes s) scripts) \<le> length scripts" by (rule length_filter_le)
  then have "ok \<longleftrightarrow> p = t" using len unfolding r length_0_conv [symmetric] by linarith
  moreover have "ok \<longrightarrow> passes ''audit-rules.js'' \<and> passes ''adr-immutability.js''"
    using mem unfolding r(3) filter_empty_conv by blast
  ultimately show ?thesis using r(1,2) len by simp
qed

end
