(* ===== verification/JS_Regex.thy ===== *)
theory JS_Regex
  imports CCIP_Prelude
begin

text \<open>
  The regular expressions of JavaScript as far as the program uses them: the backtracking matcher with its
  order of preference, captures, word boundaries and look-ahead, \<^verbatim>\<open>exec\<close> with its index, and the searches
  and replacements built on it.  A text is the list of its code units.
\<close>

type_synonym units = "int list"

definition ascii :: "string \<Rightarrow> units" where
  "ascii t = map (\<lambda>c. int (of_char c)) t"

section \<open>Patterns\<close>

text \<open>A class is a list of intervals, possibly negated; \<^verbatim>\<open>RStar True\<close> is greedy, \<^verbatim>\<open>RStar False\<close> lazy; the
  argument of \<^verbatim>\<open>RStart\<close> and \<^verbatim>\<open>REnd\<close> is the flag \<^verbatim>\<open>m\<close>.\<close>

datatype rx =
    REmpty
  | RClass bool "(int \<times> int) list"
  | RSeq rx rx
  | RAlt rx rx
  | RStar bool rx
  | RGroup nat rx
  | RStart bool
  | REnd bool
  | RWord
  | RAhead rx

type_synonym captures = "(nat \<times> nat \<times> nat) list"
type_synonym match_point = "nat \<times> captures"

definition in_class :: "bool \<Rightarrow> (int \<times> int) list \<Rightarrow> int \<Rightarrow> bool" where
  "in_class neg rs c \<longleftrightarrow> list_ex (\<lambda>(a, b). a \<le> c \<and> c \<le> b) rs \<noteq> neg"

definition word_ranges :: "(int \<times> int) list" where
  "word_ranges = [(48, 57), (65, 90), (95, 95), (97, 122)]"

definition word_at :: "units \<Rightarrow> nat \<Rightarrow> bool" where
  "word_at s i \<longleftrightarrow> i < length s \<and> in_class False word_ranges (s ! i)"

definition word_boundary :: "units \<Rightarrow> nat \<Rightarrow> bool" where
  "word_boundary s i \<longleftrightarrow> (0 < i \<and> word_at s (i - 1)) \<noteq> word_at s i"

definition line_end_at :: "units \<Rightarrow> nat \<Rightarrow> bool" where
  "line_end_at s i \<longleftrightarrow> i < length s \<and> s ! i \<in> {10, 13, 0x2028, 0x2029}"

definition at_start :: "bool \<Rightarrow> units \<Rightarrow> nat \<Rightarrow> bool" where
  "at_start m s i \<longleftrightarrow> i = 0 \<or> m \<and> line_end_at s (i - 1)"

definition at_end :: "bool \<Rightarrow> units \<Rightarrow> nat \<Rightarrow> bool" where
  "at_end m s i \<longleftrightarrow> i = length s \<or> m \<and> line_end_at s i"

section \<open>The matcher\<close>

text \<open>All ends of a match from a place, in the order in which backtracking tries them; a round of a
  repetition that takes nothing is given up.\<close>

function star :: "bool \<Rightarrow> nat \<Rightarrow> (match_point \<Rightarrow> match_point list) \<Rightarrow> match_point \<Rightarrow> match_point list" where
  "star greedy n f p =
     (let rounds = concat (map (\<lambda>q. if fst p < fst q \<and> fst q \<le> n then star greedy n f q else []) (f p))
      in if greedy then rounds @ [p] else p # rounds)"
  by pat_completeness auto
termination by (relation "measure (\<lambda>(greedy, n, f, p). n - fst p)") auto

declare star.simps [simp del]

primrec ends :: "rx \<Rightarrow> units \<Rightarrow> match_point \<Rightarrow> match_point list" where
  "ends REmpty s p = [p]"
| "ends (RClass neg rs) s p =
     (if fst p < length s \<and> in_class neg rs (s ! fst p) then [(Suc (fst p), snd p)] else [])"
| "ends (RSeq a b) s p = concat (map (ends b s) (ends a s p))"
| "ends (RAlt a b) s p = ends a s p @ ends b s p"
| "ends (RStar greedy a) s p = star greedy (length s) (ends a s) p"
| "ends (RGroup n a) s p = map (\<lambda>q. (fst q, (n, fst p, fst q) # snd q)) (ends a s p)"
| "ends (RStart m) s p = (if at_start m s (fst p) then [p] else [])"
| "ends (REnd m) s p = (if at_end m s (fst p) then [p] else [])"
| "ends RWord s p = (if word_boundary s (fst p) then [p] else [])"
| "ends (RAhead a) s p = (case ends a s p of [] \<Rightarrow> [] | q # _ \<Rightarrow> [(fst p, snd q)])"

text \<open>What a pattern matches, whatever the order.\<close>

inductive matches :: "units \<Rightarrow> rx \<Rightarrow> nat \<Rightarrow> nat \<Rightarrow> bool" for s where
  empty: "matches s REmpty i i"
| cls: "i < length s \<Longrightarrow> in_class neg rs (s ! i) \<Longrightarrow> matches s (RClass neg rs) i (Suc i)"
| seq: "matches s a i j \<Longrightarrow> matches s b j k \<Longrightarrow> matches s (RSeq a b) i k"
| alt1: "matches s a i j \<Longrightarrow> matches s (RAlt a b) i j"
| alt2: "matches s b i j \<Longrightarrow> matches s (RAlt a b) i j"
| star0: "matches s (RStar g a) i i"
| starS: "matches s a i j \<Longrightarrow> i < j \<Longrightarrow> matches s (RStar g a) j k \<Longrightarrow> matches s (RStar g a) i k"
| grp: "matches s a i j \<Longrightarrow> matches s (RGroup n a) i j"
| start: "at_start m s i \<Longrightarrow> matches s (RStart m) i i"
| end_: "at_end m s i \<Longrightarrow> matches s (REnd m) i i"
| word: "word_boundary s i \<Longrightarrow> matches s RWord i i"
| ahead: "matches s a i j \<Longrightarrow> matches s (RAhead a) i i"

inductive_cases matches_cases:
  "matches s REmpty i j" "matches s (RClass neg rs) i j" "matches s (RSeq a b) i j" "matches s (RAlt a b) i j"
  "matches s (RGroup n a) i j" "matches s (RStart m) i j" "matches s (REnd m) i j"
  "matches s RWord i j" "matches s (RAhead a) i j"

lemma in_star:
  "q \<in> set (star g n f p) \<longleftrightarrow>
     q = p \<or> (\<exists>r \<in> set (f p). fst p < fst r \<and> fst r \<le> n \<and> q \<in> set (star g n f r))"
  by (subst star.simps) (auto simp: Let_def)

lemma star_sound:
  assumes "q \<in> set (star g n f p)" "\<And>p q. q \<in> set (f p) \<Longrightarrow> matches s a (fst p) (fst q)"
  shows "matches s (RStar g a) (fst p) (fst q)"
  using assms
proof (induction g n f p arbitrary: q rule: star.induct)
  case (1 g n f p)
  show ?case
  proof (cases "q = p")
    case True
    then show ?thesis by (simp add: matches.star0)
  next
    case False
    then obtain r where r: "r \<in> set (f p)" "fst p < fst r" "fst r \<le> n" "q \<in> set (star g n f r)"
      using "1.prems"(1) in_star by blast
    have "matches s (RStar g a) (fst r) (fst q)" by (rule "1.IH") (use r "1.prems"(2) in auto)
    then show ?thesis using "1.prems"(2) [OF r(1)] r(2) by (rule matches.starS [rotated 2])
  qed
qed

lemma ends_sound: "q \<in> set (ends r s p) \<Longrightarrow> matches s r (fst p) (fst q)"
proof (induction r arbitrary: p q)
  case (RSeq a b)
  from RSeq.prems obtain k where "k \<in> set (ends a s p)" "q \<in> set (ends b s k)" by auto
  then show ?case using RSeq.IH matches.seq by blast
next
  case (RStar g a)
  then show ?case using star_sound by simp
next
  case (RAhead a)
  then obtain q' qs where q': "ends a s p = q' # qs" by (cases "ends a s p") auto
  then have "q = (fst p, snd q')" using RAhead.prems by simp
  moreover from q' have "matches s a (fst p) (fst q')" using RAhead.IH by simp
  ultimately show ?case by (auto intro: matches.ahead)
qed (auto intro: matches.intros split: if_splits)

lemma matches_mono: "matches s r i j \<Longrightarrow> i \<le> j"
  by (induction rule: matches.induct) auto

lemma matches_bound: "matches s r i j \<Longrightarrow> i \<le> length s \<Longrightarrow> j \<le> length s"
  by (induction rule: matches.induct) auto

lemma star_complete:
  assumes "matches s r i k" "r = RStar g a" "i \<le> length s"
    and "\<And>i j c. matches s a i j \<Longrightarrow> i \<le> length s \<Longrightarrow> \<exists>q \<in> set (ends a s (i, c)). fst q = j"
  shows "\<exists>q \<in> set (star g (length s) (ends a s) (i, c)). fst q = k"
  using assms(1-3)
proof (induction arbitrary: c rule: matches.induct)
  case (star0 g' a' i)
  have "(i, c) \<in> set (star g (length s) (ends a s) (i, c))" by (subst in_star) simp
  then show ?case by force
next
  case (starS a' i j g' k)
  then have a: "matches s a i j" "i < j" "i \<le> length s" by simp_all
  obtain q where q: "q \<in> set (ends a s (i, c))" "fst q = j" using assms(4) a(1,3) by blast
  have j: "j \<le> length s" using matches_bound [OF a(1,3)] .
  obtain p where "p \<in> set (star g (length s) (ends a s) (j, snd q))" "fst p = k"
    using starS.IH(2) [OF starS.prems(1) j] by blast
  moreover have "q = (j, snd q)" using q(2) by (cases q) simp
  ultimately show ?case using q a(2) j in_star [of _ g "length s" "ends a s" "(i, c)"] by (metis fst_conv)
qed simp_all

lemma ends_complete: "matches s r i j \<Longrightarrow> i \<le> length s \<Longrightarrow> \<exists>q \<in> set (ends r s (i, c)). fst q = j"
proof (induction r arbitrary: i j c)
  case (RSeq a b)
  from RSeq.prems(1) obtain k where k: "matches s a i k" "matches s b k j" by (rule matches_cases) auto
  obtain q where q: "q \<in> set (ends a s (i, c))" "fst q = k" using RSeq.IH(1) [OF k(1) RSeq.prems(2)] by blast
  obtain p where "p \<in> set (ends b s (k, snd q))" "fst p = j"
    using RSeq.IH(2) [OF k(2) matches_bound [OF k(1) RSeq.prems(2)]] by blast
  then show ?case using q by (cases q) auto
next
  case (RAlt a b)
  then show ?case by (fastforce elim!: matches_cases)
next
  case (RStar g a)
  then show ?case using star_complete [OF _ refl] by simp
next
  case (RGroup n a)
  then show ?case by (auto elim!: matches_cases)
next
  case (RAhead a)
  from RAhead.prems(1) obtain k where "j = i" "matches s a i k" by (rule matches_cases) auto
  then show ?case using RAhead.IH [of i k c] RAhead.prems(2) by (cases "ends a s (i, c)") auto
qed (auto elim!: matches_cases)

lemma ends_matches:
  "i \<le> length s \<Longrightarrow> (\<exists>q \<in> set (ends r s (i, c)). fst q = j) \<longleftrightarrow> matches s r i j"
  using ends_sound ends_complete by fastforce

lemma ends_bounds:
  assumes "q \<in> set (ends r s (i, c))" "i \<le> length s"
  shows "i \<le> fst q" "fst q \<le> length s"
  using ends_sound [OF assms(1)] matches_mono matches_bound assms(2) by fastforce+

section \<open>Searching\<close>

record rx_match =
  m_from :: nat
  m_to :: nat
  m_groups :: captures

text \<open>\<^verbatim>\<open>exec\<close> from an index: the first place where the pattern matches, and there the preferred match.\<close>

function exec_at :: "rx \<Rightarrow> units \<Rightarrow> nat \<Rightarrow> rx_match option" where
  "exec_at r s k =
     (if length s < k then None
      else case ends r s (k, []) of
             [] \<Rightarrow> exec_at r s (Suc k)
           | q # _ \<Rightarrow> Some \<lparr>m_from = k, m_to = fst q, m_groups = snd q\<rparr>)"
  by pat_completeness auto
termination by (relation "measure (\<lambda>(r, s, k). Suc (length s) - k)") auto

declare exec_at.simps [simp del]

definition test_rx :: "rx \<Rightarrow> units \<Rightarrow> bool" where
  "test_rx r s \<longleftrightarrow> exec_at r s 0 \<noteq> None"

definition span :: "nat \<Rightarrow> nat \<Rightarrow> units \<Rightarrow> units" where
  "span i j s = take (j - i) (drop i s)"

definition matched :: "units \<Rightarrow> rx_match \<Rightarrow> units" where
  "matched s m = span (m_from m) (m_to m) s"

text \<open>The text of a group; one that took no part is the empty text.\<close>

definition group :: "units \<Rightarrow> nat \<Rightarrow> rx_match \<Rightarrow> units" where
  "group s n m = (case map_of (m_groups m) n of None \<Rightarrow> [] | Some (i, j) \<Rightarrow> span i j s)"

lemma exec_at_Some:
  assumes "exec_at r s k = Some m"
  shows "k \<le> m_from m" "m_from m \<le> m_to m" "m_to m \<le> length s" "matches s r (m_from m) (m_to m)"
proof -
  have "k \<le> m_from m \<and> m_from m \<le> m_to m \<and> m_to m \<le> length s \<and> matches s r (m_from m) (m_to m)"
    using assms
  proof (induction r s k rule: exec_at.induct)
    case (1 r s k)
    show ?case
    proof (cases "length s < k")
      case True
      then show ?thesis using "1.prems" by (simp add: exec_at.simps)
    next
      case False
      show ?thesis
      proof (cases "ends r s (k, [])")
        case Nil
        then have "exec_at r s (Suc k) = Some m" using "1.prems" False by (simp add: exec_at.simps [of r s k])
        then show ?thesis using "1.IH" [OF False Nil] by simp
      next
        case (Cons q qs)
        then have "m_from m = k" "m_to m = fst q" using "1.prems" False by (auto simp: exec_at.simps [of r s k])
        moreover have "q \<in> set (ends r s (k, []))" using Cons by simp
        ultimately show ?thesis using ends_bounds [of q r s k "[]"] ends_sound [of q r s "(k, [])"] False by simp
      qed
    qed
  qed
  then show "k \<le> m_from m" "m_from m \<le> m_to m" "m_to m \<le> length s" "matches s r (m_from m) (m_to m)" by simp_all
qed

lemma exec_at_None:
  "exec_at r s k = None \<longleftrightarrow> (\<forall>i j. k \<le> i \<and> i \<le> length s \<longrightarrow> \<not> matches s r i j)"
proof (induction r s k rule: exec_at.induct)
  case (1 r s k)
  show ?case
  proof (cases "length s < k")
    case True
    then show ?thesis by (auto simp: exec_at.simps)
  next
    case False
    have e: "ends r s (k, []) = [] \<longleftrightarrow> (\<forall>j. \<not> matches s r k j)"
      using ends_matches [of k s r "[]"] False by (auto simp: neq_Nil_conv) (metis list.set_intros(1) neq_Nil_conv)
    show ?thesis
    proof (cases "ends r s (k, [])")
      case Nil
      then have "(\<forall>i j. k \<le> i \<and> i \<le> length s \<longrightarrow> \<not> matches s r i j)
          \<longleftrightarrow> (\<forall>i j. Suc k \<le> i \<and> i \<le> length s \<longrightarrow> \<not> matches s r i j)"
        using e by (metis Suc_leD Suc_leI le_neq_implies_less)
      then show ?thesis using "1.IH" [OF False Nil] Nil False by (simp add: exec_at.simps [of r s k])
    next
      case (Cons q qs)
      then show ?thesis using e False by (simp add: exec_at.simps [of r s k]) (metis le_refl linorder_not_less)
    qed
  qed
qed

lemma test_rx_iff: "test_rx r s \<longleftrightarrow> (\<exists>i j. i \<le> length s \<and> matches s r i j)"
  unfolding test_rx_def exec_at_None by auto

text \<open>The loop \<^verbatim>\<open>while ((m = r.exec(s)))\<close> of a global pattern: the index moves to the end of the match, so an
  empty match is found for ever.\<close>

partial_function (option) scan :: "rx \<Rightarrow> units \<Rightarrow> nat \<Rightarrow> rx_match list option" where
  "scan r s k =
     (case exec_at r s k of
        None \<Rightarrow> Some []
      | Some m \<Rightarrow> Option.bind (scan r s (m_to m)) (\<lambda>ms. Some (m # ms)))"

declare scan.simps [code]

text \<open>\<^verbatim>\<open>match\<close>, \<^verbatim>\<open>matchAll\<close> and \<^verbatim>\<open>replace\<close> go on by one unit after an empty match.\<close>

function find_all :: "rx \<Rightarrow> units \<Rightarrow> nat \<Rightarrow> rx_match list" where
  "find_all r s k =
     (case exec_at r s k of
        None \<Rightarrow> []
      | Some m \<Rightarrow> m # find_all r s (if m_to m = m_from m then Suc (m_to m) else m_to m))"
  by pat_completeness auto
termination
proof (relation "measure (\<lambda>(r, s, k). Suc (length s) - k)")
  fix r s k m
  assume "exec_at r s k = Some m"
  then show "((r, s, if m_to m = m_from m then Suc (m_to m) else m_to m), r, s, k)
      \<in> measure (\<lambda>(r, s, k). Suc (length s) - k)"
    using exec_at_Some(1-3) [of r s k m] by auto
qed simp

declare find_all.simps [simp del]

text \<open>A pattern that takes something wherever it matches.\<close>

primrec consumes :: "rx \<Rightarrow> bool" where
  "consumes REmpty = False"
| "consumes (RClass neg rs) = True"
| "consumes (RSeq a b) = (consumes a \<or> consumes b)"
| "consumes (RAlt a b) = (consumes a \<and> consumes b)"
| "consumes (RStar g a) = False"
| "consumes (RGroup n a) = consumes a"
| "consumes (RStart m) = False"
| "consumes (REnd m) = False"
| "consumes RWord = False"
| "consumes (RAhead a) = False"

lemma consumes_less: "matches s r i j \<Longrightarrow> consumes r \<Longrightarrow> i < j"
proof (induction rule: matches.induct)
  case (seq a i j b k)
  then show ?case using matches_mono [OF seq.hyps(1)] matches_mono [OF seq.hyps(2)] by auto
qed auto

text \<open>Such a loop ends, with the matches \<^verbatim>\<open>matchAll\<close> gives; with a pattern that matches the empty text where
  the loop stands it does not.\<close>

lemma scan_ends: "consumes r \<Longrightarrow> scan r s k = Some (find_all r s k)"
proof (induction r s k rule: find_all.induct)
  case (1 r s k)
  show ?case
  proof (cases "exec_at r s k")
    case None
    then show ?thesis by (simp add: scan.simps find_all.simps)
  next
    case (Some m)
    then have "m_from m < m_to m" using exec_at_Some(4) consumes_less "1.prems" by blast
    then have "scan r s (m_to m) = Some (find_all r s (m_to m))" using "1.IH" [OF Some] "1.prems" by simp
    then show ?thesis using Some \<open>m_from m < m_to m\<close> by (simp add: scan.simps [of r s k] find_all.simps [of r s k])
  qed
qed

lemma scan_moves:
  assumes "scan r s k = Some ms"
  shows "\<forall>m. exec_at r s k = Some m \<longrightarrow> m_to m \<noteq> k"
proof (rule scan.raw_induct [of "\<lambda>r s k ms. \<forall>m. exec_at r s k = Some m \<longrightarrow> m_to m \<noteq> k", OF _ assms], intro allI impI notI)
  fix scan' r s k ms m
  assume IH: "\<And>r s k ms. scan' r s k = Some ms \<Longrightarrow> \<forall>m. exec_at r s k = Some m \<longrightarrow> m_to m \<noteq> k"
    and step: "(case exec_at r s k of None \<Rightarrow> Some [] | Some m \<Rightarrow> Option.bind (scan' r s (m_to m)) (\<lambda>ms. Some (m # ms))) = Some ms"
    and m: "exec_at r s k = Some m" "m_to m = k"
  then obtain ms' where "scan' r s k = Some ms'" by (auto simp: bind_eq_Some_conv)
  then show False using IH m by blast
qed

lemma scan_stuck: "exec_at r s k = Some m \<Longrightarrow> m_to m = k \<Longrightarrow> scan r s k = None"
  using scan_moves by (cases "scan r s k") auto

section \<open>Replacing\<close>

primrec rebuild :: "(rx_match \<Rightarrow> units) \<Rightarrow> units \<Rightarrow> rx_match list \<Rightarrow> nat \<Rightarrow> units" where
  "rebuild f s [] k = drop k s"
| "rebuild f s (m # ms) k = span k (m_from m) s @ f m @ rebuild f s ms (m_to m)"

text \<open>\<^verbatim>\<open>replace\<close> with a global pattern, and with one that is not.\<close>

definition replace_all :: "rx \<Rightarrow> (rx_match \<Rightarrow> units) \<Rightarrow> units \<Rightarrow> units" where
  "replace_all r f s = rebuild f s (find_all r s 0) 0"

definition replace_first :: "rx \<Rightarrow> (rx_match \<Rightarrow> units) \<Rightarrow> units \<Rightarrow> units" where
  "replace_first r f s = rebuild f s (case exec_at r s 0 of None \<Rightarrow> [] | Some m \<Rightarrow> [m]) 0"

lemma replace_all_id: "exec_at r s 0 = None \<Longrightarrow> replace_all r f s = s"
  by (simp add: replace_all_def find_all.simps)

section \<open>Building patterns\<close>

definition unit_rx :: "int \<Rightarrow> rx" where
  "unit_rx c = RClass False [(c, c)]"

definition any_unit :: rx where
  "any_unit = RClass True []"

text \<open>\<^verbatim>\<open>.\<close>, \<^verbatim>\<open>\d\<close>, \<^verbatim>\<open>\s\<close>\<close>

definition dot :: rx where
  "dot = RClass True [(10, 10), (13, 13), (0x2028, 0x2029)]"

definition digit_ranges :: "(int \<times> int) list" where
  "digit_ranges = [(48, 57)]"

definition space_ranges :: "(int \<times> int) list" where
  "space_ranges = [(9, 13), (32, 32), (160, 160), (0x1680, 0x1680), (0x2000, 0x200A), (0x2028, 0x2029),
     (0x202F, 0x202F), (0x205F, 0x205F), (0x3000, 0x3000), (0xFEFF, 0xFEFF)]"

definition digit :: rx where "digit = RClass False digit_ranges"
definition space :: rx where "space = RClass False space_ranges"

fun sequence :: "rx list \<Rightarrow> rx" where
  "sequence [] = REmpty"
| "sequence [r] = r"
| "sequence (r # rs) = RSeq r (sequence rs)"

fun choice :: "rx list \<Rightarrow> rx" where
  "choice [] = RClass False []"
| "choice [r] = r"
| "choice (r # rs) = RAlt r (choice rs)"

definition lit :: "units \<Rightarrow> rx" where
  "lit t = sequence (map unit_rx t)"

definition litA :: "string \<Rightarrow> rx" where
  "litA t = lit (ascii t)"

definition star_rx :: "rx \<Rightarrow> rx" where "star_rx r = RStar True r"
definition plus_rx :: "rx \<Rightarrow> rx" where "plus_rx r = RSeq r (RStar True r)"
definition lazy_rx :: "rx \<Rightarrow> rx" where "lazy_rx r = RStar False r"
definition opt_rx :: "rx \<Rightarrow> rx" where "opt_rx r = RAlt r REmpty"

definition times_rx :: "nat \<Rightarrow> rx \<Rightarrow> rx" where
  "times_rx n r = sequence (replicate n r)"

text \<open>The flag \<^verbatim>\<open>i\<close> for the letters of ASCII and the Russian alphabet: an interval of them counts in both cases.\<close>

definition other_case :: "int \<times> int \<Rightarrow> (int \<times> int) list" where
  "other_case = (\<lambda>(a, b).
     (if 65 \<le> a \<and> b \<le> 90 then [(a, b), (a + 32, b + 32)]
      else if 97 \<le> a \<and> b \<le> 122 then [(a, b), (a - 32, b - 32)]
      else if 0x410 \<le> a \<and> b \<le> 0x42F then [(a, b), (a + 32, b + 32)]
      else if 0x430 \<le> a \<and> b \<le> 0x44F then [(a, b), (a - 32, b - 32)] else [(a, b)]))"

primrec nocase :: "rx \<Rightarrow> rx" where
  "nocase REmpty = REmpty"
| "nocase (RClass neg rs) = RClass neg (concat (map other_case rs))"
| "nocase (RSeq a b) = RSeq (nocase a) (nocase b)"
| "nocase (RAlt a b) = RAlt (nocase a) (nocase b)"
| "nocase (RStar g a) = RStar g (nocase a)"
| "nocase (RGroup n a) = RGroup n (nocase a)"
| "nocase (RStart m) = RStart m"
| "nocase (REnd m) = REnd m"
| "nocase RWord = RWord"
| "nocase (RAhead a) = RAhead (nocase a)"

lemma consumes_nocase [simp]: "consumes (nocase r) = consumes r"
  by (induction r) simp_all

text \<open>A word of ASCII with \<^verbatim>\<open>includes\<close>, \<^verbatim>\<open>startsWith\<close> and \<^verbatim>\<open>endsWith\<close>.\<close>

definition starts_with :: "units \<Rightarrow> units \<Rightarrow> bool" where
  "starts_with p t \<longleftrightarrow> take (length p) t = p"

definition ends_with :: "units \<Rightarrow> units \<Rightarrow> bool" where
  "ends_with p t \<longleftrightarrow> length p \<le> length t \<and> drop (length t - length p) t = p"

fun has_text :: "units \<Rightarrow> units \<Rightarrow> bool" where
  "has_text p [] = (p = [])"
| "has_text p (c # t) = (starts_with p (c # t) \<or> has_text p t)"

end
