(* ===== verification/Reference_Checks.thy ===== *)
theory Reference_Checks
  imports JS_Regex
begin

text \<open>
  The scripts of \<^verbatim>\<open>tools/audit\<close> that check references between the documents: to files
  (\<^verbatim>\<open>dead-refs.js\<close>, \<^verbatim>\<open>delivery-paths.js\<close>, \<^verbatim>\<open>memory-fs-sync.js\<close>, \<^verbatim>\<open>fallback-profiles.js\<close>), to sections
  (\<^verbatim>\<open>section-anchors.js\<close>, \<^verbatim>\<open>phantom-section-refs.js\<close>, \<^verbatim>\<open>state-contract-section.js\<close>), and absolute paths
  (\<^verbatim>\<open>path-canonical.js\<close>).

  A document is its path below the root, with slashes, and its text.  Which files version control lists, whether
  a path exists and what a directory holds are arguments.  A check gives what it complains of; its exit status is
  0 just when there is nothing.  The loops over \<^verbatim>\<open>exec\<close> may not end, so such a check is an option.
\<close>

type_synonym document = "units \<times> units"

datatype complaint =
    DeadRef units
  | DeliveryPath units
  | MemoryRef units
  | SectionAnchor units
  | PhantomRef units
  | AbsolutePath string units nat
  | Missing string

section \<open>Listing and stripping\<close>

definition FIXTURE_PREFIX :: units where
  "FIXTURE_PREFIX = ascii ''tools/audit/__fixtures__/''"

definition walk :: "document list \<Rightarrow> document list" where
  "walk listed = filter (\<lambda>d. \<not> starts_with FIXTURE_PREFIX (fst d)) (filter (\<lambda>d. fst d \<noteq> []) listed)"

definition backtick :: int where "backtick = 96"

definition FENCE :: rx where
  "FENCE = sequence [times_rx 3 (unit_rx backtick), lazy_rx any_unit, times_rx 3 (unit_rx backtick)]"

definition INLINE_CODE :: rx where
  "INLINE_CODE = sequence [unit_rx backtick, star_rx (RClass True [(backtick, backtick), (10, 10)]), unit_rx backtick]"

definition strip_fences :: "units \<Rightarrow> units" where
  "strip_fences md = replace_all FENCE (\<lambda>_. []) md"

definition stripCodeBlocks :: "units \<Rightarrow> units" where
  "stripCodeBlocks md = replace_all INLINE_CODE (\<lambda>_. []) (strip_fences md)"

text \<open>The loop over the documents.\<close>

fun check_docs :: "bool \<Rightarrow> units list \<Rightarrow> (units \<Rightarrow> complaint list option) \<Rightarrow> document list
    \<Rightarrow> (units \<times> complaint) list option" where
  "check_docs useAllowlist allow f [] = Some []"
| "check_docs useAllowlist allow f ((rel, body) # ds) =
     (if useAllowlist \<and> rel \<in> set allow then check_docs useAllowlist allow f ds
      else Option.bind (f body) (\<lambda>vs.
           map_option (\<lambda>rest. map (Pair rel) vs @ rest) (check_docs useAllowlist allow f ds)))"

section \<open>dead-refs and delivery-paths\<close>

definition path_ranges :: "(int \<times> int) list" where
  "path_ranges = [(65, 90), (97, 122), (48, 57), (95, 95), (46, 46), (47, 47), (45, 45)]"

definition PATH_PAT :: rx where
  "PATH_PAT = sequence
     [RAlt (RStart False) (RClass False (space_ranges @ [(40, 40), (91, 91), (backtick, backtick), (62, 62)])),
      RGroup 1 (sequence
        [choice (map litA [''.claude'', ''docs'', ''apps'', ''packages'', ''infra'', ''tools'']), litA ''/'',
         plus_rx (RClass False (path_ranges @ [(42, 42)]))])]"

definition AUDIT_DOC_ALLOWLIST :: "units list" where
  "AUDIT_DOC_ALLOWLIST = map ascii
     [''docs/audits/2026-05-07-multi-agent-ecosystem.md'',
      ''docs/plans/archive/2026-05-17-multi-agent-ecosystem-residual-remediation.md'',
      ''docs/plans/archive/2026-06-01-gp-form.md'',
      ''docs/plans/2026-06-05-agent-optimizer-audit-fixes.md'',
      ''docs/plans/archive/2026-06-08-defect-remediation.md'',
      ''docs/plans/archive/2026-06-08-structural-hardening.md'',
      ''docs/plans/archive/2026-05-12-zero-drift-compliance-section10.md'',
      ''docs/plans/archive/2026-05-26-remediation-master-sequencing.md'',
      ''docs/errors/sessions/2026-05-17T20-14-50-549Z-72282cc.md'',
      ''docs/errors/sessions/2026-06-12T06-09-10-761Z-472c55c.md'',
      ''docs/errors/errors_log.md'']"

text \<open>The stop marks at the end of a reference.\<close>

definition TRAILING :: rx where
  "TRAILING = RSeq (plus_rx (RClass False [(46, 46), (44, 44), (59, 59), (58, 58), (41, 41), (93, 93)])) (REnd False)"

definition trim_ref :: "rx \<Rightarrow> units \<Rightarrow> units" where
  "trim_ref r t = replace_first r (\<lambda>_. []) t"

text \<open>\<^verbatim>\<open>path.dirname\<close> and \<^verbatim>\<open>path.basename\<close> of a relative path.\<close>

definition strip_slashes :: "units \<Rightarrow> units" where
  "strip_slashes p = rev (dropWhile (\<lambda>c. c = 47) (rev p))"

definition basename :: "units \<Rightarrow> units" where
  "basename p = rev (takeWhile (\<lambda>c. c \<noteq> 47) (rev (strip_slashes p)))"

definition dirname :: "units \<Rightarrow> units" where
  "dirname p = (let d = strip_slashes (rev (dropWhile (\<lambda>c. c \<noteq> 47) (rev (strip_slashes p)))) in if d = [] then ascii ''.'' else d)"

definition drop_end :: "nat \<Rightarrow> units \<Rightarrow> units" where
  "drop_end n t = take (length t - n) t"

definition refExists :: "(units \<Rightarrow> bool) \<Rightarrow> (units \<Rightarrow> units list) \<Rightarrow> units \<Rightarrow> bool" where
  "refExists exists readdir ref =
     (if ends_with (ascii ''/*'') ref then exists (drop_end 2 ref)
      else if ends_with (ascii ''.*'') ref
      then (let base = drop_end 2 ref; dir = dirname base; prefix = basename base @ ascii ''.''
            in exists dir \<and> list_ex (starts_with prefix) (readdir dir))
      else exists ref)"

definition dead_refs_of :: "(units \<Rightarrow> bool) \<Rightarrow> (units \<Rightarrow> units list) \<Rightarrow> units \<Rightarrow> complaint list option" where
  "dead_refs_of exists readdir body =
     (let content = stripCodeBlocks body in
      map_option (\<lambda>ms. map DeadRef (filter (\<lambda>ref. \<not> refExists exists readdir ref)
          (map (\<lambda>m. trim_ref TRAILING (group content 1 m)) ms)))
        (scan PATH_PAT content 0))"

definition dead_refs ::
  "(units \<Rightarrow> bool) \<Rightarrow> (units \<Rightarrow> units list) \<Rightarrow> document option \<Rightarrow> document list \<Rightarrow> (units \<times> complaint) list option" where
  "dead_refs exists readdir target listed =
     (case target of
        Some d \<Rightarrow> check_docs False AUDIT_DOC_ALLOWLIST (dead_refs_of exists readdir) [d]
      | None \<Rightarrow> check_docs True AUDIT_DOC_ALLOWLIST (dead_refs_of exists readdir) (walk listed))"

definition DELIVERY_PAT :: rx where
  "DELIVERY_PAT = sequence
     [litA ''apps/'', choice (map litA [''api'', ''web'', ''mobile'']), litA ''/src/'', plus_rx (RClass False path_ranges)]"

definition DELIVERY_TRAILING :: rx where
  "DELIVERY_TRAILING = RSeq (plus_rx (RClass False [(46, 46), (44, 44), (59, 59), (41, 41)])) (REnd False)"

definition delivery_paths_of :: "(units \<Rightarrow> bool) \<Rightarrow> units \<Rightarrow> complaint list option" where
  "delivery_paths_of exists body =
     (let c = strip_fences body in
      map_option (\<lambda>ms. map DeliveryPath (filter (\<lambda>ref. \<not> exists ref)
          (map (\<lambda>m. trim_ref DELIVERY_TRAILING (matched c m)) ms)))
        (scan DELIVERY_PAT c 0))"

definition delivery_paths :: "(units \<Rightarrow> bool) \<Rightarrow> document list \<Rightarrow> document list \<Rightarrow> (units \<times> complaint) list option" where
  "delivery_paths exists delivery plan = check_docs False [] (delivery_paths_of exists) (walk delivery @ walk plan)"

section \<open>section-anchors\<close>

definition section_sign :: int where "section_sign = 0xA7"

definition dotted :: rx where
  "dotted = RSeq (plus_rx digit) (star_rx (RSeq (litA ''.'') (plus_rx digit)))"

definition REF_PAT :: rx where
  "REF_PAT = sequence
     [RAlt (RStart False) (RClass True [(46, 46)]), litA ''('', unit_rx section_sign, RGroup 1 dotted, litA '')'']"

definition HEAD_PAT :: rx where
  "HEAD_PAT = sequence
     [RStart True, times_rx 2 (litA ''#''), opt_rx (litA ''#''), opt_rx (litA ''#''), plus_rx space,
      opt_rx (unit_rx section_sign), RGroup 1 dotted,
      RClass False ((46, 46) # space_ranges @ [(section_sign, section_sign)])]"

definition CROSS_DOC_ALLOWLIST :: "units list" where
  "CROSS_DOC_ALLOWLIST = map ascii
     [''docs/plans/archive/2026-05-12-zero-drift-compliance-section10.md'',
      ''docs/team_roles_v1_0.md'',
      ''docs/plans/archive/2026-06-07-runtime-governance-phase3.md'',
      ''docs/decisions/ADR-018-machine-enforced-runtime-governance.md'',
      ''docs/plans/archive/2026-06-11-advanced-enterprise-cross-process-lock.md'']"

text \<open>The members of a \<^verbatim>\<open>Set\<close> in the order of their insertion.\<close>

definition inserted :: "'a list \<Rightarrow> 'a list" where
  "inserted xs = rev (remdups (rev xs))"

definition section_anchors_of :: "units \<Rightarrow> complaint list option" where
  "section_anchors_of body =
     (let content = stripCodeBlocks body in
      Option.bind (scan REF_PAT content 0) (\<lambda>refs.
      map_option (\<lambda>heads. map SectionAnchor
          (filter (\<lambda>ref. ref \<notin> set (map (group content 1) heads)) (inserted (map (group content 1) refs))))
        (scan HEAD_PAT content 0)))"

definition section_anchors :: "document option \<Rightarrow> document list \<Rightarrow> (units \<times> complaint) list option" where
  "section_anchors target listed =
     (case target of
        Some d \<Rightarrow> check_docs False CROSS_DOC_ALLOWLIST section_anchors_of [d]
      | None \<Rightarrow> check_docs True CROSS_DOC_ALLOWLIST section_anchors_of (walk listed))"

section \<open>phantom-section-refs\<close>

definition dot_digits :: "(int \<times> int) list" where
  "dot_digits = (46, 46) # digit_ranges"

definition DECLARED :: rx where
  "DECLARED = sequence
     [RStart True, litA ''##'', plus_rx space, unit_rx section_sign,
      RGroup 1 (RSeq (plus_rx digit) (star_rx (RClass False dot_digits)))]"

definition CLAUDE_REF :: rx where
  "CLAUDE_REF = sequence
     [litA ''CLAUDE.md'', plus_rx space, unit_rx section_sign,
      RGroup 1 (RSeq (plus_rx digit) (plus_rx (RClass False dot_digits)))]"

text \<open>The range has a dash (U+2013) between the two signs.\<close>

definition CLAUDE_RANGE :: rx where
  "CLAUDE_RANGE = sequence
     [litA ''CLAUDE.md'', plus_rx space, unit_rx section_sign, RGroup 1 (plus_rx (RClass False dot_digits)),
      unit_rx 0x2013, unit_rx section_sign, RGroup 2 (plus_rx (RClass False dot_digits))]"

fun lines_of :: "units \<Rightarrow> units list" where
  "lines_of [] = [[]]"
| "lines_of (c # cs) = (if c = 10 then [] # lines_of cs else (case lines_of cs of [] \<Rightarrow> [[c]] | l # ls \<Rightarrow> (c # l) # ls))"

definition declaredSections :: "units \<Rightarrow> units list" where
  "declaredSections claudeMd = map (group claudeMd 1) (find_all DECLARED claudeMd 0)"

definition phantom_refs_of_line :: "units list \<Rightarrow> nat \<Rightarrow> units \<Rightarrow> complaint list" where
  "phantom_refs_of_line declared i line =
     map PhantomRef (filter (\<lambda>ref. ref \<notin> set declared) (map (group line 1) (find_all CLAUDE_REF line 0)))
     @ (if i \<le> 10
        then concat (map (\<lambda>m. map PhantomRef (filter (\<lambda>ref. ref \<notin> set declared) [group line 1 m, group line 2 m]))
               (find_all CLAUDE_RANGE line 0))
        else [])"

definition phantom_section_refs :: "units \<Rightarrow> document list \<Rightarrow> (units \<times> complaint) list" where
  "phantom_section_refs claudeMd agents =
     concat (map (\<lambda>(file, content).
         map (Pair file) (concat (map (\<lambda>(i, line). phantom_refs_of_line (declaredSections claudeMd) i line)
           (enumerate 0 (lines_of content)))))
       (filter (\<lambda>d. ends_with (ascii ''.md'') (fst d)) agents))"

section \<open>state-contract-section\<close>

definition CONTRACT_HEAD :: rx where
  "CONTRACT_HEAD = sequence
     [RStart True, litA ''##'', plus_rx space,
      RAlt (sequence [unit_rx section_sign, litA ''15'', RWord]) (litA ''15.'')]"

text \<open>\<^verbatim>\<open>md.indexOf(t, from)\<close>\<close>

definition position_of :: "units \<Rightarrow> units \<Rightarrow> nat \<Rightarrow> nat option" where
  "position_of t md k = List.find (\<lambda>i. starts_with t (drop i md)) [k ..< Suc (length md)]"

definition contract_section :: "units \<Rightarrow> nat \<Rightarrow> units" where
  "contract_section md sectionStart =
     (case position_of ([10] @ ascii ''## '') md (sectionStart + 1) of
        Some sectionEnd \<Rightarrow> span sectionStart sectionEnd md
      | None \<Rightarrow> drop sectionStart md)"

definition contract_required :: "(rx \<times> string) list" where
  "contract_required =
     [(nocase (litA ''session-state.json''), ''reference to session-state.json''),
      (nocase (sequence [litA ''State'', star_rx space, litA ''Update'']), ''mention of State Update block''),
      (nocase (litA ''session-state.schema.json''), ''reference to session-state.schema.json'')]"

definition state_contract_section :: "units \<Rightarrow> complaint list" where
  "state_contract_section md =
     (case exec_at CONTRACT_HEAD md 0 of
        None \<Rightarrow> [Missing ''State Contract section'']
      | Some m \<Rightarrow> map (\<lambda>r. Missing (snd r))
          (filter (\<lambda>r. \<not> test_rx (fst r) (contract_section md (m_from m))) contract_required))"

section \<open>memory-fs-sync and fallback-profiles\<close>

definition linkPat :: rx where
  "linkPat = sequence
     [litA ''['', plus_rx (RClass True [(93, 93)]), litA ''](''
      , RGroup 1 (RSeq (plus_rx (RClass True [(41, 41)])) (litA ''.md'')), litA '')'']"

text \<open>A file of memory: whether a reference from it exists, and its text, where it exists.\<close>

definition memory_file :: "(units \<Rightarrow> bool) \<times> units \<Rightarrow> complaint list option" where
  "memory_file f =
     map_option (\<lambda>ms. map MemoryRef (filter (\<lambda>ref. \<not> fst f ref) (map (group (snd f) 1) ms))) (scan linkPat (snd f) 0)"

definition memory_fs_sync :: "((units \<Rightarrow> bool) \<times> units) option list \<Rightarrow> complaint list option" where
  "memory_fs_sync candidates =
     map_option concat (those (map memory_file (List.map_filter (\<lambda>f. f) candidates)))"

definition anchor_file :: "units \<Rightarrow> units" where
  "anchor_file anchor = takeWhile (\<lambda>c. c \<noteq> 35) anchor"

text \<open>The first anchor that fails ends the script: \<open>None\<close> is status 0.\<close>

definition fallback_profiles :: "(units \<Rightarrow> bool) \<Rightarrow> (units \<times> units list) list \<Rightarrow> units option" where
  "fallback_profiles exists profiles =
     List.find (\<lambda>anchor. anchor_file anchor = [] \<or> \<not> exists (anchor_file anchor)) (concat (map snd profiles))"

section \<open>path-canonical\<close>

definition repo_dirs :: rx where
  "repo_dirs = choice (map litA [''docs'', ''apps'', ''packages'', ''.claude'', ''infra'', ''tools''])"

definition CCIP_PREFIX :: rx where
  "CCIP_PREFIX = sequence [RWord, litA ''CCIP/'', RGroup 1 repo_dirs, litA ''/'']"

definition backslash :: int where "backslash = 92"

definition FORBIDDEN :: "(rx \<times> string) list" where
  "FORBIDDEN =
     [(litA ''W:/Claude/CCIP/'', ''absolute Windows path''),
      (sequence [litA ''C:'', lit [backslash, backslash], litA ''Users'', lit [backslash, backslash]],
         ''absolute Windows user path''),
      (sequence [litA ''/home/'', plus_rx (RClass False [(97, 122)]), litA ''/''], ''absolute Linux home path''),
      (CCIP_PREFIX, ''CCIP/ prefix; use relative path'')]"

definition fix_paths :: "units \<Rightarrow> units \<Rightarrow> units" where
  "fix_paths rootFwd content =
     replace_all CCIP_PREFIX (\<lambda>m. group (replace_all (RSeq (lit rootFwd) (opt_rx (litA ''/''))) (\<lambda>_. []) content) 1 m @ ascii ''/'')
       (replace_all (RSeq (lit rootFwd) (opt_rx (litA ''/''))) (\<lambda>_. []) content)"

definition PATH_ALLOWLIST :: "units list" where
  "PATH_ALLOWLIST = map ascii
     [''docs/plans/archive/2026-05-12-zero-drift-compliance-section10.md'',
      ''tools/audit/__fixtures__/path-bad.md'',
      ''docs/audits/2026-05-07-multi-agent-ecosystem.md'',
      ''.claude/agents/ccip-session-optimizer.md'',
      ''.claude/agents/consistency-checker.md'',
      ''docs/refactor/session-optimizer-skill-scope.md'',
      ''docs/plans/archive/2026-05-17-multi-agent-ecosystem-residual-remediation.md'']"

definition forbidden_in :: "units \<Rightarrow> complaint list" where
  "forbidden_in content =
     concat (map (\<lambda>(pat, why). (case find_all pat content 0 of [] \<Rightarrow> []
         | m # ms \<Rightarrow> [AbsolutePath why (matched content m) (Suc (length ms))])) FORBIDDEN)"

text \<open>The documents after the script (it writes those it has fixed), and what it complains of.\<close>

definition path_canonical ::
  "units \<Rightarrow> bool \<Rightarrow> document option \<Rightarrow> document list \<Rightarrow> document list \<times> (units \<times> complaint) list" where
  "path_canonical rootFwd doFix target listed =
     (let useAllowlist = (target = None);
          files = (case target of Some d \<Rightarrow> [d] | None \<Rightarrow> walk listed);
          skipped = (\<lambda>d. useAllowlist \<and> fst d \<in> set PATH_ALLOWLIST);
          after = map (\<lambda>d. if \<not> skipped d \<and> doFix then (fst d, fix_paths rootFwd (snd d)) else d) files
      in (after, concat (map (\<lambda>d. if skipped d then [] else map (Pair (fst d)) (forbidden_in (snd d))) after)))"

end
