(* ===== verification/Governance_Checks.thy ===== *)
theory Governance_Checks
  imports Reference_Checks
begin

text \<open>
  The scripts of \<^verbatim>\<open>tools/audit\<close> that check the decisions (\<^verbatim>\<open>adr-id-claim.js\<close>, \<^verbatim>\<open>adr-mention-existence.js\<close>,
  \<^verbatim>\<open>adr-anchors.js\<close>, \<^verbatim>\<open>orphan-adrs.js\<close>), the agents (\<^verbatim>\<open>agent-frontmatter.js\<close>, \<^verbatim>\<open>agent-name-presence.js\<close>,
  \<^verbatim>\<open>hook-agent-resolver.js\<close>, \<^verbatim>\<open>auxiliary-trigger-evidence.js\<close>, \<^verbatim>\<open>intent-taxonomy-consistency.js\<close>,
  \<^verbatim>\<open>trigger-integrity.js\<close>), and the rest (\<^verbatim>\<open>rbac-vs-schema.js\<close>, \<^verbatim>\<open>allowlist-literal.js\<close>,
  \<^verbatim>\<open>pen-test-smoke.js\<close>, \<^verbatim>\<open>changelog-presence.js\<close>, \<^verbatim>\<open>orphan-dirs.js\<close>, \<^verbatim>\<open>session-state.js\<close>).

  The reader of front matter, the validation of a schema, version control and the file system are arguments.
\<close>

section \<open>Decisions\<close>

definition ADR_ID :: rx where
  "ADR_ID = RSeq (litA ''ADR-'') (times_rx 3 digit)"

text \<open>\<^verbatim>\<open>(f.match(/^(ADR-\d{3})/) || [])[1]\<close>, the missing ones filtered out.\<close>

definition id_of_file :: "units \<Rightarrow> units option" where
  "id_of_file f = map_option (group f 1) (exec_at (RSeq (RStart False) (RGroup 1 ADR_ID)) f 0)"

definition parse_digits :: "units \<Rightarrow> int" where
  "parse_digits ds = fold (\<lambda>d n. 10 * n + (d - 48)) ds 0"

definition max_of :: "int list \<Rightarrow> int option" where
  "max_of ns = (case ns of [] \<Rightarrow> None | n # rest \<Rightarrow> Some (fold max rest n))"

definition ADR_RANGE :: rx where
  "ADR_RANGE = sequence
     [RWord, litA ''ADR-'', RGroup 1 (times_rx 3 digit), star_rx space, litA ''..'', star_rx space, litA ''ADR-'',
      RGroup 2 (times_rx 3 digit), RWord]"

definition ADR_SINGLE :: rx where
  "ADR_SINGLE = sequence [RWord, litA ''ADR-'', RGroup 1 (times_rx 3 digit), RWord]"

definition ADR_ALLOWLIST :: "units list" where
  "ADR_ALLOWLIST = map ascii
     [''docs/audits/2026-05-07-multi-agent-ecosystem.md'',
      ''docs/plans/2026-05-17-multi-agent-ecosystem-residual-remediation.md'',
      ''docs/plans/2026-05-20-multi-agent-ecosystem-audit-remediation.md'']"

definition adr_claims_of :: "units list \<Rightarrow> units \<Rightarrow> complaint list option" where
  "adr_claims_of realIds body =
     (let maxReal = max_of (map (\<lambda>i. parse_digits (drop 4 i)) realIds) in
      Option.bind (scan ADR_RANGE body 0) (\<lambda>ranges.
      map_option (\<lambda>singles.
          map (\<lambda>m. PhantomRef (matched body m))
            (filter (\<lambda>m. case maxReal of None \<Rightarrow> False | Some n \<Rightarrow> parse_digits (group body 2 m) < n) ranges)
          @ map PhantomRef (filter (\<lambda>i. i \<notin> set realIds) (map (\<lambda>m. ascii ''ADR-'' @ group body 1 m) singles)))
        (scan ADR_SINGLE body 0)))"

definition adr_id_claim :: "units list \<Rightarrow> document option \<Rightarrow> document list \<Rightarrow> document list \<Rightarrow> (units \<times> complaint) list option" where
  "adr_id_claim decisions target agents claude =
     (let realIds = List.map_filter id_of_file decisions in
      case target of
        Some d \<Rightarrow> check_docs False ADR_ALLOWLIST (adr_claims_of realIds) [d]
      | None \<Rightarrow> check_docs True ADR_ALLOWLIST (adr_claims_of realIds) (walk agents @ walk claude))"

definition ADR_FILE :: rx where
  "ADR_FILE = sequence [RStart False, ADR_ID, litA ''-'', plus_rx dot, litA ''.md'', REnd False]"

definition MENTION :: rx where
  "MENTION = sequence
     [RWord, litA ''ADR-'', RGroup 1 (times_rx 3 digit), litA ''-'', RClass False [(97, 122)],
      star_rx (RClass False [(97, 122), (48, 57), (45, 45)]), litA ''.md'', RWord]"

definition adr_mentions_of :: "units list \<Rightarrow> units \<Rightarrow> complaint list option" where
  "adr_mentions_of realAdrFiles body =
     map_option (\<lambda>ms. map PhantomRef (filter (\<lambda>t. t \<notin> set realAdrFiles) (map (matched body) ms))) (scan MENTION body 0)"

definition adr_mention_existence ::
  "units list \<Rightarrow> document option \<Rightarrow> document list \<Rightarrow> document list \<Rightarrow> document list \<Rightarrow> (units \<times> complaint) list option" where
  "adr_mention_existence decisions target agents docs claude =
     (let real = filter (test_rx ADR_FILE) decisions in
      case target of
        Some d \<Rightarrow> check_docs False ADR_ALLOWLIST (adr_mentions_of real) [d]
      | None \<Rightarrow> check_docs True ADR_ALLOWLIST (adr_mentions_of real) (walk agents @ walk docs @ walk claude))"

text \<open>A decision is what the reader of front matter gives: whether it fits the schema, and its anchors.\<close>

definition adr_anchors :: "(units \<Rightarrow> bool) \<Rightarrow> (units \<Rightarrow> bool \<times> units list) \<Rightarrow> document list \<Rightarrow> (units \<times> complaint) list" where
  "adr_anchors exists matter listed =
     concat (map (\<lambda>(rel, body).
       (case matter body of
          (False, _) \<Rightarrow> [(rel, Missing ''valid front matter'')]
        | (True, anchors) \<Rightarrow> map (\<lambda>a. (rel, DeadRef a))
            (filter (\<lambda>a. \<not> exists (if ends_with (ascii ''/'') a then drop_end 1 a else a)) anchors)))
     (walk listed))"

text \<open>\<^verbatim>\<open>Map.set\<close>: a later file of the same number replaces the earlier one, in its place.\<close>

fun map_set :: "'k \<Rightarrow> 'v \<Rightarrow> ('k \<times> 'v) list \<Rightarrow> ('k \<times> 'v) list" where
  "map_set k v [] = [(k, v)]"
| "map_set k v ((k', v') # m) = (if k' = k then (k, v) # m else (k', v') # map_set k v m)"

definition word_rx :: "units \<Rightarrow> rx" where
  "word_rx t = sequence [RWord, lit t, RWord]"

definition base_md :: "units \<Rightarrow> units" where
  "base_md f = (let b = basename f in if ends_with (ascii ''.md'') b \<and> 3 < length b then drop_end 3 b else b)"

definition orphan_adrs :: "document list \<Rightarrow> document list list \<Rightarrow> units list" where
  "orphan_adrs decisions references =
     (let adrs = fold (\<lambda>d m. case id_of_file (base_md (fst d)) of None \<Rightarrow> m | Some i \<Rightarrow> map_set i (fst d) m) (walk decisions) [];
          contents = fold (\<lambda>d m. map_set (fst d) (snd d) m) (concat (map walk references)) []
      in map fst (filter (\<lambda>(adr, ownFile).
             sum_list (map (\<lambda>(f, body). if f = ownFile then 0 else length (find_all (word_rx adr) body 0)) contents) < 1) adrs))"

section \<open>Agents\<close>

definition agent_frontmatter :: "(units \<Rightarrow> units option \<times> bool) \<Rightarrow> document list \<Rightarrow> (units \<times> complaint) list" where
  "agent_frontmatter matter listed =
     concat (map (\<lambda>(rel, body).
       (case matter body of (name, valid) \<Rightarrow>
          (if name \<noteq> Some (base_md rel) then [(rel, Missing ''name of the file'')] else [])
          @ (if \<not> valid then [(rel, Missing ''valid front matter'')] else [])))
     (walk listed))"

text \<open>Names of agents are letters, digits and dashes.\<close>

definition agent_name_presence :: "units \<Rightarrow> document list \<Rightarrow> units list" where
  "agent_name_presence claudeMd listed =
     filter (\<lambda>name. find_all (word_rx name) claudeMd 0 = []) (map (\<lambda>d. base_md (fst d)) (walk listed))"

definition RESOLVER :: rx where
  "RESOLVER = sequence
     [litA ''match(/'', unit_rx backslash, litA ''b('', RGroup 1 (plus_rx (RClass True [(41, 41)])), litA '')'',
      unit_rx backslash, litA ''b/'']"

text \<open>\<^verbatim>\<open>split\<close> at one unit, and \<^verbatim>\<open>trim\<close>.\<close>

fun split_at :: "int \<Rightarrow> units \<Rightarrow> units list" where
  "split_at d [] = [[]]"
| "split_at d (c # cs) = (if c = d then [] # split_at d cs else (case split_at d cs of [] \<Rightarrow> [[c]] | l # ls \<Rightarrow> (c # l) # ls))"

definition trim_units :: "units \<Rightarrow> units" where
  "trim_units t = rev (dropWhile (in_class False space_ranges) (rev (dropWhile (in_class False space_ranges) t)))"

definition hook_agent_resolver :: "units \<Rightarrow> units list \<Rightarrow> complaint list" where
  "hook_agent_resolver hookSrc agentFiles =
     (let agents = map (drop_end 3) (filter (ends_with (ascii ''.md'')) agentFiles) in
      (case exec_at RESOLVER hookSrc 0 of
         None \<Rightarrow> []
       | Some m \<Rightarrow> map PhantomRef (filter (\<lambda>lit. lit \<notin> set agents)
           (filter (\<lambda>t. \<not> has_text (ascii ''['') t \<and> \<not> has_text (ascii ''+'') t \<and> \<not> has_text [backslash, 119] t)
             (map trim_units (split_at 124 (group hookSrc 1 m))))))
      @ (if has_text (ascii ''.claude/agents'') hookSrc then [] else [Missing ''reference to .claude/agents'']))"

definition AUX_TABLE :: rx where
  "AUX_TABLE = sequence [litA ''## Auxiliary Agents'', lazy_rx any_unit, RAhead (RSeq (unit_rx 10) (litA ''## ''))]"

definition AGENT_HEAD :: rx where
  "AGENT_HEAD = nocase (sequence [RStart False, litA ''Agent'', REnd False])"

definition aux_rows :: "units \<Rightarrow> units list list" where
  "aux_rows claudeMd =
     (let auxTable = (case exec_at AUX_TABLE claudeMd 0 of None \<Rightarrow> [] | Some m \<Rightarrow> matched claudeMd m)
      in filter (\<lambda>r. length r = 2 \<and> \<not> test_rx AGENT_HEAD (r ! 0))
           (map (\<lambda>l. filter (\<lambda>t. t \<noteq> []) (map trim_units (split_at 124 l)))
             (filter (\<lambda>l. starts_with (ascii ''|'') l \<and> \<not> starts_with (ascii ''|--'') l) (lines_of auxTable))))"

text \<open>A block of hooks: its matcher and its commands.\<close>

definition hook_matchers :: "(units \<times> units list) list list \<Rightarrow> units list" where
  "hook_matchers phases =
     inserted (concat (map (\<lambda>(matcher, commands). (if matcher = [] then [] else [matcher]) @ commands) (concat phases)))"

definition ru_raspisan :: units where "ru_raspisan = [0x440, 0x430, 0x441, 0x43F, 0x438, 0x441, 0x430, 0x43D]"
definition ru_posle :: units where "ru_posle = [0x43F, 0x43E, 0x441, 0x43B, 0x435]"
definition ru_izmenen :: units where "ru_izmenen = [0x438, 0x437, 0x43C, 0x435, 0x43D, 0x435, 0x43D]"
definition ru_pravok :: units where "ru_pravok = [0x43F, 0x440, 0x430, 0x432, 0x43E, 0x43A]"
definition ru_izmenenija :: units where "ru_izmenenija = ru_izmenen @ [0x438, 0x44F]"
definition ru_po_zaprosu :: units where
  "ru_po_zaprosu = [0x43F, 0x43E, 0x20, 0x437, 0x430, 0x43F, 0x440, 0x43E, 0x441, 0x443]"
definition ru_vruchnuju :: units where "ru_vruchnuju = [0x432, 0x440, 0x443, 0x447, 0x43D, 0x443, 0x44E]"

definition PROMISES_SCHEDULE :: rx where
  "PROMISES_SCHEDULE = nocase (choice (lit ru_raspisan # map litA [''schedule'', ''cron'', ''daily'', ''periodic'']))"

definition PROMISES_FILECHANGE :: rx where
  "PROMISES_FILECHANGE = nocase (choice
     [sequence [lit ru_posle, star_rx dot, choice [lit ru_izmenen, lit ru_pravok, litA ''edit'']],
      sequence [litA ''after'', star_rx dot, choice (map litA [''edit'', ''change'', ''push''])],
      sequence [lit ru_izmenenija, plus_rx space, litA ''CLAUDE'']])"

definition MANUAL_PREFIX :: rx where
  "MANUAL_PREFIX = nocase (choice
     [lit ru_po_zaprosu, litA ''manual'', lit ru_vruchnuju, litA ''on demand'', litA ''by request'',
      sequence [litA ''PR'', dot, litA ''review'']])"

definition SCHEDULE_HOOK :: rx where
  "SCHEDULE_HOOK = nocase (choice (map litA [''schedule'', ''cron'']))"

definition EDIT_HOOK :: rx where
  "EDIT_HOOK = nocase (choice
     [sequence [litA ''post'', star_rx dot, litA ''edit''], sequence [litA ''post'', star_rx dot, litA ''write''], litA ''file_change''])"

definition auxiliary_trigger_evidence :: "units \<Rightarrow> (units \<times> units list) list list \<Rightarrow> units list" where
  "auxiliary_trigger_evidence claudeMd phases =
     concat (map (\<lambda>r. let agent = r ! 0; trigger = r ! 1 in
        if test_rx MANUAL_PREFIX trigger then []
        else (if test_rx PROMISES_SCHEDULE trigger \<and> \<not> list_ex (test_rx SCHEDULE_HOOK) (hook_matchers phases) then [agent] else [])
             @ (if test_rx PROMISES_FILECHANGE trigger \<and> \<not> list_ex (test_rx EDIT_HOOK) (hook_matchers phases) then [agent] else []))
       (aux_rows claudeMd))"

definition TOKEN :: rx where
  "TOKEN = sequence
     [RWord, RGroup 1 (sequence [RClass False [(65, 90)], times_rx 2 (RClass False [(65, 90), (95, 95)]),
        star_rx (RClass False [(65, 90), (95, 95)])]), RWord]"

definition NOISE :: "units list" where
  "NOISE = map ascii
     [''LOW'', ''MEDIUM'', ''HIGH'', ''INIT'', ''PLAN'', ''INJECT'', ''UPDATE'', ''FLUSH'', ''DEFAULT'',
      ''IF'', ''OR'', ''AND'', ''THEN'', ''NOT'', ''ANY'', ''ALL'', ''NEW'', ''OLD'', ''ETC'', ''SEE'', ''USE'',
      ''NOMINAL'', ''DEGRADED'', ''SUSPENDED'', ''TBD'', ''CLAUDE'', ''PR'', ''CI'', ''OS'',
      ''API'', ''SLA'', ''CCIP'', ''JWT'', ''RBAC'', ''RLS'', ''ADR'', ''DAG'', ''MV'', ''SQL'', ''PG'', ''HTML'', ''JSON'',
      ''CSV'', ''REST'', ''URL'', ''UUID'', ''SMTP'', ''FCM'', ''APNS'', ''AOF'', ''POC'', ''CRUD'', ''TTL'', ''UI'', ''UX'',
      ''TLS'', ''SSL'', ''HTTP'', ''HTTPS'']"

text \<open>Lower case, for the letters of ASCII.\<close>

definition lower_units :: "units \<Rightarrow> units" where
  "lower_units t = map (\<lambda>c. if 65 \<le> c \<and> c \<le> 90 then c + 32 else c) t"

definition INTENT_CONTEXT :: rx where
  "INTENT_CONTEXT = choice (map litA
     [''intent'', ''routing'', ''backup'', ''primary'', ''backend'', ''frontend'', ''schema''])"

definition intents_of :: "units list \<Rightarrow> units \<Rightarrow> complaint list option" where
  "intents_of canonical body =
     map_option (\<lambda>ms. concat (map (\<lambda>m. let tok = group body 1 m in
          if tok \<in> set NOISE then []
          else if 12 < length tok \<or> test_rx digit tok then []
          else if \<not> test_rx INTENT_CONTEXT (lower_units (span (m_from m - 80) (m_from m + 80) body)) then []
          else if tok \<in> set canonical then [] else [PhantomRef tok]) ms))
       (scan TOKEN body 0)"

definition intent_taxonomy :: "units list \<Rightarrow> document list \<Rightarrow> (units \<times> complaint) list option" where
  "intent_taxonomy canonical sources = check_docs False [] (intents_of canonical) sources"

text \<open>An invariant of the manifest; a field that is missing is read as the text \<^verbatim>\<open>undefined\<close> (\<^verbatim>\<open>includes\<close> and
  \<^verbatim>\<open>String\<close> convert it).  The files are those of the runtime directory.\<close>

record manifest_invariant =
  mi_id :: units
  mi_doc_anchor :: "units option"
  mi_enforcement :: "units option"

definition as_text :: "units option \<Rightarrow> units" where
  "as_text t = (case t of None \<Rightarrow> ascii ''undefined'' | Some x \<Rightarrow> x)"

definition enforcement_parts :: "units \<Rightarrow> units \<times> units option" where
  "enforcement_parts e =
     (case split_at 35 e of [] \<Rightarrow> ([], None) | [file] \<Rightarrow> (file, None) | file # marker # _ \<Rightarrow> (file, Some marker))"

definition invariant_holds :: "units \<Rightarrow> (units \<Rightarrow> units option) \<Rightarrow> manifest_invariant \<Rightarrow> bool" where
  "invariant_holds claudeMd runtime iv =
     (has_text (as_text (mi_doc_anchor iv)) claudeMd
      \<and> (case enforcement_parts (as_text (mi_enforcement iv)) of (file, marker) \<Rightarrow>
           (case runtime file of None \<Rightarrow> False | Some content \<Rightarrow> has_text (as_text marker) content)))"

text \<open>The exit status of \<^verbatim>\<open>trigger-integrity.js\<close>; a manifest or document that can not be read fails.\<close>

definition trigger_integrity ::
  "manifest_invariant list option \<Rightarrow> units option \<Rightarrow> (units \<Rightarrow> units option) \<Rightarrow> bool" where
  "trigger_integrity manifest claudeMd runtime =
     (case (manifest, claudeMd) of
        (Some invs, Some md) \<Rightarrow> filter (\<lambda>iv. \<not> invariant_holds md runtime iv) invs = []
      | _ \<Rightarrow> False)"

section \<open>Roles\<close>

definition USER_ROLE :: rx where
  "USER_ROLE = sequence
     [litA ''enum'', plus_rx space, litA ''UserRole'', star_rx space, unit_rx 123, RGroup 1 (plus_rx (RClass True [(125, 125)])), unit_rx 125]"

definition SUSPECTS :: "units list" where
  "SUSPECTS = map ascii [''supervisor'', ''contractor'', ''manager'', ''operator'', ''owner'']"

definition FRONT_MATTER :: rx where
  "FRONT_MATTER = sequence
     [RStart False, litA ''---'', opt_rx (unit_rx 13), unit_rx 10, lazy_rx any_unit, opt_rx (unit_rx 13), unit_rx 10,
      litA ''---'', opt_rx (unit_rx 13), unit_rx 10]"

definition PARTICIPANT_ROLE :: rx where
  "PARTICIPANT_ROLE = sequence [litA ''general'', RClass False [(45, 45), (95, 95)], litA ''contractor'']"

definition roles_of_enum :: "units \<Rightarrow> units list" where
  "roles_of_enum block = filter (\<lambda>t. t \<noteq> [] \<and> \<not> starts_with (ascii ''@@'') t \<and> \<not> starts_with (ascii ''//'') t)
     (map trim_units (lines_of block))"

definition phantom_roles :: "units list \<Rightarrow> document \<Rightarrow> (units \<times> nat) list" where
  "phantom_roles validRoles d =
     (let raw = snd d;
          stripped = (if ends_with (ascii ''.md'') (fst d) then replace_first FRONT_MATTER (\<lambda>_. []) raw else raw);
          c = replace_all PARTICIPANT_ROLE (\<lambda>_. []) stripped
      in List.map_filter (\<lambda>sus. case find_all (word_rx sus) c 0 of [] \<Rightarrow> None | ms \<Rightarrow> Some (sus, length ms))
           (filter (\<lambda>sus. sus \<notin> set validRoles) SUSPECTS))"

text \<open>\<open>None\<close>: the enumeration is not in the schema.\<close>

definition rbac_vs_schema :: "units \<Rightarrow> document list \<Rightarrow> (units \<times> units \<times> nat) list option" where
  "rbac_vs_schema schema listed =
     map_option (\<lambda>m. concat (map (\<lambda>d. map (Pair (fst d)) (phantom_roles (roles_of_enum (group schema 1 m)) d)) (walk listed)))
       (exec_at USER_ROLE schema 0)"

section \<open>Permissions, change log, directories, state\<close>

definition SUFFIX_GLOB :: rx where
  "SUFFIX_GLOB = sequence [space, litA ''*)'', REnd False]"

definition PURE_GLOB :: rx where
  "PURE_GLOB = sequence [RStart False, litA ''Bash(*)'', REnd False]"

text \<open>The exit status; without the file of this machine there is nothing to check.\<close>

definition allowlist_literal :: "bool \<Rightarrow> units list option \<Rightarrow> bool" where
  "allowlist_literal explicit settings =
     (case settings of None \<Rightarrow> \<not> explicit
      | Some allow \<Rightarrow> filter (\<lambda>p. test_rx SUFFIX_GLOB p \<or> test_rx PURE_GLOB p) allow = [])"

definition DANGEROUS :: rx where
  "DANGEROUS = choice
     [sequence [litA ''rm'', plus_rx space, litA ''-rf''], sequence [litA ''chmod'', plus_rx space, litA ''777''],
      sequence [litA ''sudo'', RWord]]"

definition SANITIZE :: rx where
  "SANITIZE = sequence [litA ''sanitizeHandoff'', star_rx space, litA ''('']"

definition pen_test_smoke :: "units list option \<Rightarrow> units \<Rightarrow> bool" where
  "pen_test_smoke settings dag \<longleftrightarrow>
     (case settings of None \<Rightarrow> True | Some allow \<Rightarrow> filter (test_rx DANGEROUS) allow = []) \<and> test_rx SANITIZE dag"

definition CLOSES_RE :: rx where
  "CLOSES_RE = nocase (sequence
     [litA ''closes'', plus_rx space,
      RGroup 1 (sequence [RClass False [(70, 70), (67, 67), (82, 82), (88, 88)], litA ''-'', times_rx 3 digit])])"

definition SEVERITY_RE :: rx where
  "SEVERITY_RE = sequence [RWord, RGroup 1 (choice [litA ''BLOCKER'', litA ''CRITICAL'']), RWord]"

definition UNRELEASED :: rx where
  "UNRELEASED = nocase (sequence [litA ''##'', star_rx space, litA ''[Unreleased]''])"

definition upper_units :: "units \<Rightarrow> units" where
  "upper_units t = map (\<lambda>c. if 97 \<le> c \<and> c \<le> 122 then c - 32 else c) t"

datatype changelog_complaint = NotMentioned units units | NoUnreleased units

definition changelog_of_commit :: "units \<Rightarrow> units \<Rightarrow> changelog_complaint list option" where
  "changelog_of_commit changelog line =
     (let sha = take 40 line; subject = drop 41 line in
      map_option (\<lambda>ms.
          map (NotMentioned (take 7 sha)) (filter (\<lambda>i. \<not> has_text i changelog) (map (\<lambda>m. upper_units (group subject 1 m)) ms))
          @ (if test_rx SEVERITY_RE subject \<and> \<not> test_rx UNRELEASED changelog then [NoUnreleased (take 7 sha)] else []))
        (scan CLOSES_RE subject 0))"

text \<open>Without a base the check is skipped; without a change log its text is empty.\<close>

definition changelog_presence :: "units list option \<Rightarrow> units option \<Rightarrow> changelog_complaint list option" where
  "changelog_presence commits changelog =
     (case commits of None \<Rightarrow> Some []
      | Some ls \<Rightarrow> map_option concat (those (map (changelog_of_commit (case changelog of None \<Rightarrow> [] | Some t \<Rightarrow> t))
          (filter (\<lambda>l. l \<noteq> []) ls))))"

definition ORPHANS :: "units list" where
  "ORPHANS = map ascii [''frontend'', ''the roles of subagents'', ''.agents'']"

definition orphan_dirs :: "(units \<Rightarrow> bool) \<Rightarrow> units list" where
  "orphan_dirs exists = filter exists ORPHANS"

text \<open>\<open>validate\<close> is the compiled schema; the state is \<open>None\<close> when it is missing or no JSON.\<close>

definition session_state_check :: "('j \<Rightarrow> bool) \<Rightarrow> 'j option \<Rightarrow> 'j \<Rightarrow> 'j \<Rightarrow> bool" where
  "session_state_check validate state good bad =
     (case state of None \<Rightarrow> False | Some st \<Rightarrow> validate st \<and> validate good \<and> \<not> validate bad)"

end
