(* ===== verification/JS_Regex_Props.thy ===== *)
theory JS_Regex_Props
  imports JS_Regex
begin

text \<open>What patterns match: literals, sequences and groups, and patterns that take something.\<close>

section \<open>Literals and sequences\<close>

lemma consumes_sequence [simp]: "consumes (sequence rs) = list_ex consumes rs"
  by (induction rs rule: sequence.induct) auto

lemma consumes_choice [simp]: "consumes (choice rs) = list_all consumes rs"
  by (induction rs rule: choice.induct) auto

lemma consumes_unit [simp]: "consumes (unit_rx c)" "consumes digit" "consumes space" "consumes any_unit" "consumes dot"
  by (simp_all add: unit_rx_def digit_def space_def any_unit_def dot_def)

lemma consumes_lit [simp]: "consumes (lit t) \<longleftrightarrow> t \<noteq> []"
  by (cases t) (simp_all add: lit_def)

lemma consumes_litA [simp]: "consumes (litA t) \<longleftrightarrow> t \<noteq> []"
  by (simp add: litA_def ascii_def)

lemma consumes_quantified [simp]:
  "consumes (plus_rx r) = consumes r" "\<not> consumes (star_rx r)" "\<not> consumes (lazy_rx r)" "\<not> consumes (opt_rx r)"
  "consumes (times_rx n r) \<longleftrightarrow> 0 < n \<and> consumes r"
  by (auto simp: plus_rx_def star_rx_def lazy_rx_def opt_rx_def times_rx_def list_ex_iff)

lemma matches_seq [simp]: "matches s (RSeq a b) i k \<longleftrightarrow> (\<exists>j. matches s a i j \<and> matches s b j k)"
  by (auto elim: matches_cases intro: matches.seq)

lemma matches_empty [simp]: "matches s REmpty i j \<longleftrightarrow> i = j"
  by (auto elim: matches_cases intro: matches.empty)

lemma matches_class [simp]: "matches s (RClass neg rs) i j \<longleftrightarrow> i < length s \<and> in_class neg rs (s ! i) \<and> j = Suc i"
  by (auto elim: matches_cases intro: matches.cls)

lemma matches_group [simp]: "matches s (RGroup n a) i j \<longleftrightarrow> matches s a i j"
  by (auto elim: matches_cases intro: matches.grp)

lemma matches_anchors [simp]:
  "matches s (RStart m) i j \<longleftrightarrow> i = j \<and> at_start m s i" "matches s (REnd m) i j \<longleftrightarrow> i = j \<and> at_end m s i"
  "matches s RWord i j \<longleftrightarrow> i = j \<and> word_boundary s i"
  by (auto elim: matches_cases intro: matches.intros)

lemma matches_sequence_Cons [simp]:
  "rs \<noteq> [] \<Longrightarrow> matches s (sequence (r # rs)) i k \<longleftrightarrow> (\<exists>j. matches s r i j \<and> matches s (sequence rs) j k)"
  by (cases rs) simp_all

lemma matches_lit: "matches s (lit t) i j \<longleftrightarrow> j = i + length t \<and> (\<forall>k < length t. i + k < length s \<and> s ! (i + k) = t ! k)"
proof (induction t arbitrary: i)
  case Nil
  then show ?case by (auto simp: lit_def)
next
  case (Cons c t)
  have c: "matches s (unit_rx c) i k \<longleftrightarrow> i < length s \<and> s ! i = c \<and> k = Suc i" for k
    by (auto simp: unit_rx_def in_class_def)
  have "matches s (lit (c # t)) i j \<longleftrightarrow> (\<exists>k. matches s (unit_rx c) i k \<and> matches s (lit t) k j)"
    by (cases t) (auto simp: lit_def)
  also have "\<dots> \<longleftrightarrow> i < length s \<and> s ! i = c \<and> matches s (lit t) (Suc i) j" by (auto simp: c)
  also have "\<dots> \<longleftrightarrow> j = i + length (c # t)
      \<and> (\<forall>k < length (c # t). i + k < length s \<and> s ! (i + k) = (c # t) ! k)"
    unfolding Cons.IH by (auto simp: less_Suc_eq_0_disj)
  finally show ?case .
qed

section \<open>Captures\<close>

text \<open>What a group has taken is what its pattern matches.\<close>

primrec groups_of :: "rx \<Rightarrow> (nat \<times> rx) list" where
  "groups_of REmpty = []"
| "groups_of (RClass neg rs) = []"
| "groups_of (RSeq a b) = groups_of a @ groups_of b"
| "groups_of (RAlt a b) = groups_of a @ groups_of b"
| "groups_of (RStar g a) = groups_of a"
| "groups_of (RGroup n a) = (n, a) # groups_of a"
| "groups_of (RStart m) = []"
| "groups_of (REnd m) = []"
| "groups_of RWord = []"
| "groups_of (RAhead a) = groups_of a"

definition captured_by :: "units \<Rightarrow> (nat \<times> rx) list \<Rightarrow> captures \<Rightarrow> bool" where
  "captured_by s gs c \<longleftrightarrow> (\<forall>(n, i, j) \<in> set c. \<exists>r. (n, r) \<in> set gs \<and> matches s r i j)"

lemma captured_mono: "captured_by s gs c \<Longrightarrow> set gs \<subseteq> set hs \<Longrightarrow> captured_by s hs c"
  by (fastforce simp: captured_by_def)

lemma star_captures:
  assumes "q \<in> set (star g n f p)" "captured_by s gs (snd p)"
    and "\<And>p q. q \<in> set (f p) \<Longrightarrow> captured_by s gs (snd p) \<Longrightarrow> captured_by s gs (snd q)"
  shows "captured_by s gs (snd q)"
  using assms
proof (induction g n f p arbitrary: q rule: star.induct)
  case (1 g n f p)
  show ?case
  proof (cases "q = p")
    case False
    then obtain r where r: "r \<in> set (f p)" "fst p < fst r" "fst r \<le> n" "q \<in> set (star g n f r)"
      using "1.prems"(1) in_star by blast
    have "fst p < fst r \<and> fst r \<le> n" using r(2,3) by simp
    from "1.IH" [OF r(1) this r(4) "1.prems"(3) [OF r(1) "1.prems"(2)] "1.prems"(3)] show ?thesis .
  qed (use "1.prems"(2) in simp)
qed

lemma ends_captures:
  assumes "q \<in> set (ends r s p)" "captured_by s gs (snd p)" "set (groups_of r) \<subseteq> set gs"
  shows "captured_by s gs (snd q)"
  using assms
proof (induction r arbitrary: p q)
  case (RSeq a b)
  then obtain k where "k \<in> set (ends a s p)" "q \<in> set (ends b s k)" by auto
  moreover have "set (groups_of a) \<subseteq> set gs" "set (groups_of b) \<subseteq> set gs" using RSeq.prems(3) by simp_all
  ultimately show ?case using RSeq.IH RSeq.prems(2) by blast
next
  case (RStar g a)
  then show ?case using star_captures [of q g "length s" "ends a s" p s gs] by simp
next
  case (RGroup n a)
  then obtain k where k: "k \<in> set (ends a s p)" "q = (fst k, (n, fst p, fst k) # snd k)" by auto
  then have "captured_by s gs (snd k)" using RGroup by simp
  then show ?case using k ends_sound [OF k(1)] RGroup.prems(3) by (auto simp: captured_by_def)
next
  case (RAhead a)
  then obtain k ks where k: "ends a s p = k # ks" by (cases "ends a s p") auto
  then have "q = (fst p, snd k)" using RAhead.prems(1) by simp
  then show ?case using k RAhead.IH [of k p] RAhead.prems by simp
qed (auto split: if_splits)

lemma exec_at_captures:
  assumes "exec_at r s k = Some m"
  shows "captured_by s (groups_of r) (m_groups m)"
  using assms
proof (induction r s k rule: exec_at.induct)
  case (1 r s k)
  show ?case
  proof (cases "length s < k \<or> ends r s (k, []) = []")
    case True
    then show ?thesis using 1 by (auto simp: exec_at.simps [of r s k] split: if_splits)
  next
    case False
    then obtain q qs where q: "ends r s (k, []) = q # qs" by (cases "ends r s (k, [])") auto
    then have "m_groups m = snd q" using "1.prems" False by (auto simp: exec_at.simps [of r s k])
    then show ?thesis using ends_captures [of q r s "(k, [])" "groups_of r"] q by (simp add: captured_by_def)
  qed
qed

lemma find_all_exec: "m \<in> set (find_all r s k) \<Longrightarrow> \<exists>k'. exec_at r s k' = Some m"
proof (induction r s k rule: find_all.induct)
  case (1 r s k)
  show ?case
  proof (cases "exec_at r s k")
    case None
    then show ?thesis using "1.prems" by (simp add: find_all.simps)
  next
    case (Some m')
    then have "m = m' \<or> m \<in> set (find_all r s (if m_to m' = m_from m' then Suc (m_to m') else m_to m'))"
      using "1.prems" by (simp add: find_all.simps [of r s k])
    then show ?thesis using Some "1.IH" [OF Some] by blast
  qed
qed

lemma group_span:
  assumes "m \<in> set (find_all r s k)" "group s n m \<noteq> []"
  shows "\<exists>a i j. (n, a) \<in> set (groups_of r) \<and> matches s a i j \<and> group s n m = span i j s"
proof -
  obtain i j where g: "map_of (m_groups m) n = Some (i, j)" "group s n m = span i j s"
    using assms(2) by (auto simp: group_def split: option.splits)
  have "captured_by s (groups_of r) (m_groups m)" using find_all_exec [OF assms(1)] exec_at_captures by blast
  then obtain a where "(n, a) \<in> set (groups_of r)" "matches s a i j"
    using map_of_SomeD [OF g(1)] by (auto simp: captured_by_def)
  then show ?thesis using g(2) by blast
qed

end
