(* ===== verification/Doc_Theorems.thy ===== *)
theory Doc_Theorems
  imports Governance_Checks JS_Regex_Props
begin

text \<open>
  What the checks of the documents guarantee: their loops end, they report exactly what does not hold, and
  what some of them never see.
\<close>

section \<open>The loops end\<close>

lemma patterns_consume:
  "consumes PATH_PAT" "consumes DELIVERY_PAT" "consumes REF_PAT" "consumes HEAD_PAT" "consumes linkPat"
  "consumes ADR_RANGE" "consumes ADR_SINGLE" "consumes MENTION" "consumes TOKEN" "consumes CLOSES_RE"
  by (simp_all add: PATH_PAT_def DELIVERY_PAT_def REF_PAT_def HEAD_PAT_def linkPat_def ADR_RANGE_def ADR_SINGLE_def
      MENTION_def TOKEN_def CLOSES_RE_def)

lemmas scans_end = patterns_consume [THEN scan_ends]

lemma check_docs_total:
  "(\<And>body. f body = Some (g body)) \<Longrightarrow> check_docs u allow f ds =
    Some (concat (map (\<lambda>(rel, body). map (Pair rel) (g body)) (filter (\<lambda>d. \<not> (u \<and> fst d \<in> set allow)) ds)))"
  by (induction u allow f ds rule: check_docs.induct) auto

lemma total_function: "(\<And>x. f x \<noteq> None) \<Longrightarrow> f = (\<lambda>x. Some (the (f x)))"
  by auto

lemma check_docs_ends: "(\<And>body. f body \<noteq> None) \<Longrightarrow> check_docs u allow f ds \<noteq> None"
  by (simp add: check_docs_total [of f "\<lambda>b. the (f b)"])

lemma those_Some: "those (map (\<lambda>x. Some (g x)) xs) = Some (map g xs)"
  by (induction xs) auto

lemma those_ends: "(\<And>x. f x \<noteq> None) \<Longrightarrow> those (map f xs) \<noteq> None"
  using those_Some [of "\<lambda>x. the (f x)" xs] by simp

lemma documents_end:
  "dead_refs_of ex rd body \<noteq> None" "delivery_paths_of ex body \<noteq> None" "section_anchors_of body \<noteq> None"
  "memory_file f \<noteq> None" "adr_claims_of ids body \<noteq> None" "adr_mentions_of files body \<noteq> None"
  "intents_of canonical body \<noteq> None" "changelog_of_commit clog line \<noteq> None"
  by (simp_all add: dead_refs_of_def delivery_paths_of_def section_anchors_of_def memory_file_def adr_claims_of_def
      adr_mentions_of_def intents_of_def changelog_of_commit_def scans_end Let_def)

text \<open>C40. Every check that loops over \<^verbatim>\<open>exec\<close> comes to an end, on every document: a global pattern that could match
  the empty text would find it for ever (\<^verbatim>\<open>scan_stuck\<close>), and none of theirs can.\<close>

theorem document_checks_end:
  "dead_refs ex rd target listed \<noteq> None \<and> delivery_paths ex delivery plan \<noteq> None
   \<and> section_anchors target listed \<noteq> None \<and> memory_fs_sync candidates \<noteq> None
   \<and> adr_id_claim decisions target agents claude \<noteq> None
   \<and> adr_mention_existence decisions target agents listed claude \<noteq> None
   \<and> intent_taxonomy canonical listed \<noteq> None \<and> changelog_presence commits changelog \<noteq> None"
proof -
  have "memory_fs_sync candidates \<noteq> None" "changelog_presence commits changelog \<noteq> None"
    by (auto simp add: memory_fs_sync_def changelog_presence_def those_ends documents_end simp del: not_None_eq
        split: option.split)
  then show ?thesis
    using check_docs_ends documents_end
    by (simp add: dead_refs_def delivery_paths_def section_anchors_def adr_id_claim_def adr_mention_existence_def
        intent_taxonomy_def Let_def split: option.split)
qed

section \<open>What a check reports\<close>

text \<open>The references of a document that \<^verbatim>\<open>dead-refs.js\<close> looks for.\<close>

definition path_refs :: "units \<Rightarrow> units list" where
  "path_refs body = (let content = stripCodeBlocks body in
     map (\<lambda>m. trim_ref TRAILING (group content 1 m)) (find_all PATH_PAT content 0))"

lemma dead_refs_of_eq:
  "dead_refs_of ex rd body = Some (map DeadRef (filter (\<lambda>ref. \<not> refExists ex rd ref) (path_refs body)))"
  by (simp add: dead_refs_of_def path_refs_def scans_end Let_def)

text \<open>\<^verbatim>\<open>dead-refs.js\<close> passes exactly when every reference of every listed document that is neither a fixture nor
  excepted leads to something that exists.\<close>

theorem dead_refs_passes_iff:
  "dead_refs ex rd None listed = Some [] \<longleftrightarrow>
     list_all (\<lambda>d. starts_with FIXTURE_PREFIX (fst d) \<or> fst d = [] \<or> fst d \<in> set AUDIT_DOC_ALLOWLIST
        \<or> list_all (refExists ex rd) (path_refs (snd d))) listed"
proof -
  have "dead_refs ex rd None listed =
      Some (concat (map (\<lambda>(rel, body). map (Pair rel) (map DeadRef (filter (\<lambda>ref. \<not> refExists ex rd ref) (path_refs body))))
        (filter (\<lambda>d. \<not> (True \<and> fst d \<in> set AUDIT_DOC_ALLOWLIST)) (walk listed))))"
    using check_docs_total [OF dead_refs_of_eq] by (simp add: dead_refs_def)
  then show ?thesis
    by (auto simp: walk_def list_all_iff filter_empty_conv)
qed

text \<open>\<^verbatim>\<open>trigger-integrity.js\<close> passes exactly when each invariant has its anchor in the document and its mark in a
  file that is there.\<close>

lemma trigger_integrity_iff:
  "trigger_integrity (Some invs) (Some md) runtime \<longleftrightarrow> list_all (invariant_holds md runtime) invs"
  by (auto simp: trigger_integrity_def filter_empty_conv list_all_iff)

section \<open>What the checks never see\<close>

text \<open>Two section references side by side: the first takes the bracket the second needs before it.\<close>

theorem adjacent_section_refs_missed:
  "section_anchors_of (ascii ''x('' @ [section_sign] @ ascii ''1)('' @ [section_sign] @ ascii ''2)'')
     = Some [SectionAnchor (ascii ''1'')]"
  by code_simp

text \<open>A reference to a section with one digit is never reported below the first eleven lines, whatever
  sections there are: the pattern wants at least two signs.\<close>

lemma matches_plus_ge: "matches s (plus_rx (RClass neg rs)) i j \<Longrightarrow> i < j"
  by (erule consumes_less) simp

theorem one_digit_sections_unchecked:
  assumes "10 < i" "PhantomRef ref \<in> set (phantom_refs_of_line declared i line)" "ref \<noteq> []"
  shows "2 \<le> length ref"
proof -
  obtain m where m: "m \<in> set (find_all CLAUDE_REF line 0)" "ref = group line 1 m"
    using assms(1,2) by (auto simp: phantom_refs_of_line_def)
  obtain a p q where a: "(1, a) \<in> set (groups_of CLAUDE_REF)" "matches line a p q" "ref = span p q line"
    using group_span [of m CLAUDE_REF line 0 1] m assms(3) by blast
  have "groups_of CLAUDE_REF = [(1, RSeq (plus_rx digit) (plus_rx (RClass False dot_digits)))]"
    by code_simp
  then obtain k where "matches line (plus_rx digit) p k" "matches line (plus_rx (RClass False dot_digits)) k q"
    using a(1,2) by auto
  then have "p < k" "k < q" by (auto simp: digit_def dest: matches_plus_ge)
  moreover have "p < length line" using assms(3) a(3) by (cases "p < length line") (simp_all add: span_def)
  then have "q \<le> length line" using matches_bound [OF a(2)] by simp
  ultimately show ?thesis using a(3) by (simp add: span_def)
qed

theorem one_digit_sections_unchecked_witness:
  "phantom_refs_of_line [] 11 (ascii ''CLAUDE.md '' @ [section_sign] @ ascii ''42 '') = [PhantomRef (ascii ''42'')]
   \<and> 2 \<le> length (ascii ''42'')"
proof -
  have p: "phantom_refs_of_line [] 11 (ascii ''CLAUDE.md '' @ [section_sign] @ ascii ''42 '') = [PhantomRef (ascii ''42'')]"
    by code_simp
  then show ?thesis
    using one_digit_sections_unchecked [of 11 "ascii ''42''" "[]" "ascii ''CLAUDE.md '' @ [section_sign] @ ascii ''42 ''"]
    by (simp add: ascii_def)
qed

lemma one_digit_section_passes:
  "phantom_refs_of_line [] 11 (ascii ''CLAUDE.md '' @ [section_sign] @ ascii ''7 '') = []"
  by code_simp

text \<open>A reference at the end of a sentence takes the full stop along, and is then not found.\<close>

lemma section_with_full_stop_reported:
  "phantom_refs_of_line [ascii ''15''] 11 (ascii ''see CLAUDE.md '' @ [section_sign] @ ascii ''15.'') = [PhantomRef (ascii ''15.'')]"
  by code_simp

text \<open>A Windows path of a user is looked for with doubled backslashes only.\<close>

lemma windows_user_path_missed:
  "forbidden_in (ascii ''C:'' @ [backslash] @ ascii ''Users'' @ [backslash] @ ascii ''me'') = []"
  "forbidden_in (ascii ''C:'' @ [backslash, backslash] @ ascii ''Users'' @ [backslash, backslash] @ ascii ''me'')
     = [AbsolutePath ''absolute Windows user path'' (ascii ''C:'' @ [backslash, backslash] @ ascii ''Users'' @ [backslash, backslash]) 1]"
  by code_simp+

text \<open>One run of \<^verbatim>\<open>--fix\<close> may leave a prefix that the check forbids; a second run removes it.\<close>

lemma fix_may_need_two_runs:
  "fix_paths (ascii ''/r'') (ascii ''CCIP/CCIP/docs/a'') = ascii ''CCIP/docs/a''"
  "fix_paths (ascii ''/r'') (ascii ''CCIP/docs/a'') = ascii ''docs/a''"
  by code_simp+

text \<open>A permission that ends in \<^verbatim>\<open>:*)\<close> is never taken for a wildcard.\<close>

theorem colon_wildcards_allowed:
  "allowlist_literal explicit (Some [p @ ascii '':*)''])"
proof -
  let ?s = "p @ ascii '':*)''"
  have colon: "?s ! length p = 58" "length ?s = length p + 3" by (simp_all add: ascii_def)
  have "\<not> matches ?s SUFFIX_GLOB i j" for i j
  proof
    assume m: "matches ?s SUFFIX_GLOB i j"
    have l: "ascii ''*)'' = [42, 41]" by (simp add: ascii_def)
    from m have "in_class False space_ranges (?s ! i)" "Suc i + 2 = length ?s"
      by (auto simp: SUFFIX_GLOB_def space_def litA_def matches_lit l at_end_def)
    moreover from this(2) colon(2) have "i = length p" by simp
    ultimately show False using colon(1) by (simp add: in_class_def space_ranges_def)
  qed
  moreover have "\<not> matches ?s PURE_GLOB i j" for i j
  proof
    assume m: "matches ?s PURE_GLOB i j"
    have l: "ascii ''Bash(*)'' = [66, 97, 115, 104, 40, 42, 41]" by (simp add: ascii_def)
    from m have "i = 0" "length ?s = 7" "\<forall>k < 7. ?s ! k = [66, 97, 115, 104, 40, 42, 41] ! k"
      by (auto simp: PURE_GLOB_def litA_def matches_lit l at_end_def at_start_def)
    moreover from this(2) colon(2) have "length p = 4" by simp
    ultimately have "?s ! length p = [66, 97, 115, 104, 40, 42, 41] ! 4" by simp
    then show False using colon(1) by simp
  qed
  ultimately show ?thesis by (simp add: allowlist_literal_def test_rx_iff)
qed

lemma blank_wildcards_refused: "\<not> allowlist_literal explicit (Some [ascii ''Bash(git add *)''])"
  by code_simp

text \<open>An invariant of the manifest without a mark is accepted when the file has the word \<^verbatim>\<open>undefined\<close>.\<close>

lemma enforcement_without_mark:
  "invariant_holds (ascii ''anchor'') (\<lambda>f. Some (ascii ''if (x === undefined)''))
     \<lparr>mi_id = ascii ''I1'', mi_doc_anchor = Some (ascii ''anchor''), mi_enforcement = Some (ascii ''hook.js'')\<rparr>"
  by code_simp

end
