(* ===== verification/Atomic_Write.thy ===== *)
theory Atomic_Write
  imports CCIP_Prelude
begin

text \<open>
  How the scripts of \<^verbatim>\<open>tools/audit\<close> replace a file (\<^verbatim>\<open>atomicWrite\<close> of \<^verbatim>\<open>_lib/rules-io.js\<close>,
  \<^verbatim>\<open>token-session-record.js\<close> and \<^verbatim>\<open>token-rules-propose.js\<close>, \<^verbatim>\<open>atomicWriteJson\<close> of \<^verbatim>\<open>_lib/atomic-fs.js\<close>): a file of
  its own for each process is opened, written, brought to the disk and renamed.

  A name leads to an inode, an inode holds a text; both have a state that processes see and one that survives
  a crash, and the system may save the names, or the text of an inode, at any time.  A write is one call that
  writes everything.
\<close>

datatype file_name = Target | Tmp nat

datatype write_pc = Opening | Writing | Syncing | Closing | Renaming | Done

record disk =
  names :: "file_name \<Rightarrow> nat option"
  saved_names :: "file_name \<Rightarrow> nat option"
  contents :: "nat \<Rightarrow> string"
  saved_contents :: "nat \<Rightarrow> string"
  next_inode :: nat
  write_pc :: "nat \<Rightarrow> write_pc"
  inode_of :: "nat \<Rightarrow> nat"

text \<open>One call of process \<open>p\<close> that writes \<open>t\<close>.\<close>

definition open_tmp :: "nat \<Rightarrow> disk \<Rightarrow> disk" where
  "open_tmp p d =
     (case names d (Tmp p) of
        Some i \<Rightarrow> d\<lparr>contents := (contents d)(i := []), inode_of := (inode_of d)(p := i)\<rparr>
      | None \<Rightarrow> d\<lparr>names := (names d)(Tmp p \<mapsto> next_inode d), contents := (contents d)(next_inode d := []),
             saved_contents := (saved_contents d)(next_inode d := []), inode_of := (inode_of d)(p := next_inode d),
             next_inode := Suc (next_inode d)\<rparr>)"

definition rename_tmp :: "nat \<Rightarrow> disk \<Rightarrow> disk" where
  "rename_tmp p d = d\<lparr>names := (names d)(Target := names d (Tmp p), Tmp p := None)\<rparr>"

definition proceed :: "nat \<Rightarrow> write_pc \<Rightarrow> disk \<Rightarrow> disk" where
  "proceed p c d = d\<lparr>write_pc := (write_pc d)(p := c)\<rparr>"

fun atomic_write_call :: "nat \<Rightarrow> string \<Rightarrow> disk \<Rightarrow> disk" where
  "atomic_write_call p t d =
     (case write_pc d p of
        Opening \<Rightarrow> proceed p Writing (open_tmp p d)
      | Writing \<Rightarrow> proceed p Syncing (d\<lparr>contents := (contents d)(inode_of d p := contents d (inode_of d p) @ t)\<rparr>)
      | Syncing \<Rightarrow> proceed p Closing (d\<lparr>saved_contents := (saved_contents d)(inode_of d p := contents d (inode_of d p))\<rparr>)
      | Closing \<Rightarrow> proceed p Renaming d
      | Renaming \<Rightarrow> proceed p Done (rename_tmp p d)
      | Done \<Rightarrow> d)"

declare atomic_write_call.simps [simp del]

text \<open>Any number of processes at work, with the system saving in between; process \<open>p\<close> writes \<open>text p\<close>.\<close>

inductive disk_step :: "(nat \<Rightarrow> string) \<Rightarrow> disk \<Rightarrow> disk \<Rightarrow> bool" for new where
  call: "disk_step new d (atomic_write_call p (new p) d)"
| save_names: "disk_step new d (d\<lparr>saved_names := names d\<rparr>)"
| save_contents: "disk_step new d (d\<lparr>saved_contents := (saved_contents d)(i := contents d i)\<rparr>)"

definition disk_steps :: "(nat \<Rightarrow> string) \<Rightarrow> disk \<Rightarrow> disk \<Rightarrow> bool" where
  "disk_steps new = (disk_step new)\<^sup>*\<^sup>*"

text \<open>The file as it was: one text, saved, and nobody has begun to write.\<close>

definition old_disk :: "string \<Rightarrow> disk" where
  "old_disk old = \<lparr>names = [Target \<mapsto> 0], saved_names = [Target \<mapsto> 0], contents = (\<lambda>_. old), saved_contents = (\<lambda>_. old),
     next_inode = 1, write_pc = (\<lambda>_. Opening), inode_of = (\<lambda>_. 0)\<rparr>"

definition seen :: "disk \<Rightarrow> string option" where
  "seen d = map_option (contents d) (names d Target)"

definition survives :: "disk \<Rightarrow> string option" where
  "survives d = map_option (saved_contents d) (saved_names d Target)"

section \<open>The invariant\<close>

definition busy :: "write_pc \<Rightarrow> bool" where
  "busy c \<longleftrightarrow> c \<noteq> Opening \<and> c \<noteq> Done"

definition good :: "(nat \<Rightarrow> string) \<Rightarrow> string \<Rightarrow> string \<Rightarrow> bool" where
  "good new old t \<longleftrightarrow> t = old \<or> t \<in> range new"

definition writer_ok :: "(nat \<Rightarrow> string) \<Rightarrow> disk \<Rightarrow> nat \<Rightarrow> bool" where
  "writer_ok new d p \<longleftrightarrow>
     (if busy (write_pc d p)
      then names d (Tmp p) = Some (inode_of d p) \<and> inode_of d p < next_inode d
           \<and> names d Target \<noteq> Some (inode_of d p) \<and> saved_names d Target \<noteq> Some (inode_of d p)
           \<and> (write_pc d p = Writing \<longrightarrow> contents d (inode_of d p) = [])
           \<and> (write_pc d p \<noteq> Writing \<longrightarrow> contents d (inode_of d p) = new p)
           \<and> (write_pc d p \<in> {Closing, Renaming} \<longrightarrow> saved_contents d (inode_of d p) = new p)
      else names d (Tmp p) = None)"

definition target_ok :: "(nat \<Rightarrow> string) \<Rightarrow> string \<Rightarrow> disk \<Rightarrow> bool" where
  "target_ok new old d \<longleftrightarrow>
     (\<exists>i < next_inode d. names d Target = Some i \<and> good new old (contents d i) \<and> good new old (saved_contents d i))
     \<and> (\<exists>i < next_inode d. saved_names d Target = Some i \<and> good new old (contents d i) \<and> good new old (saved_contents d i))"

definition apart :: "disk \<Rightarrow> bool" where
  "apart d \<longleftrightarrow> (\<forall>p q. busy (write_pc d p) \<longrightarrow> busy (write_pc d q) \<longrightarrow> inode_of d p = inode_of d q \<longrightarrow> p = q)"

definition disk_ok :: "(nat \<Rightarrow> string) \<Rightarrow> string \<Rightarrow> disk \<Rightarrow> bool" where
  "disk_ok new old d \<longleftrightarrow> (\<forall>p. writer_ok new d p) \<and> target_ok new old d \<and> apart d"

lemma old_disk_ok: "disk_ok new old (old_disk old)"
  by (simp add: disk_ok_def writer_ok_def target_ok_def apart_def old_disk_def busy_def good_def)

lemma good_txt [simp]: "good new old (new p)"
  by (simp add: good_def)

lemma save_names_ok: "disk_ok new old d \<Longrightarrow> disk_ok new old (d\<lparr>saved_names := names d\<rparr>)"
  by (auto simp: disk_ok_def writer_ok_def target_ok_def apart_def)

lemma save_contents_ok:
  "disk_ok new old d \<Longrightarrow> disk_ok new old (d\<lparr>saved_contents := (saved_contents d)(i := contents d i)\<rparr>)"
  by (auto simp: disk_ok_def writer_ok_def target_ok_def apart_def)

lemma disk_okD:
  assumes "disk_ok new old d"
  shows "writer_ok new d q" "target_ok new old d" "apart d"
  using assms by (simp_all add: disk_ok_def)

lemma busy_pc [simp]:
  "\<not> busy Opening" "busy Writing" "busy Syncing" "busy Closing" "busy Renaming" "\<not> busy Done"
  by (simp_all add: busy_def)

lemma other_inode:
  "disk_ok new old d \<Longrightarrow> busy (write_pc d p) \<Longrightarrow> busy (write_pc d q) \<Longrightarrow> q \<noteq> p \<Longrightarrow> inode_of d q \<noteq> inode_of d p"
  by (auto simp: disk_ok_def apart_def)

lemma open_ok:
  assumes "disk_ok new old d" "write_pc d p = Opening"
  shows "disk_ok new old (proceed p Writing (open_tmp p d))"
proof -
  have n: "names d (Tmp p) = None" using disk_okD(1) [OF assms(1), of p] assms(2) by (simp add: writer_ok_def)
  note ok = assms(1)
  have "writer_ok new (proceed p Writing (open_tmp p d)) q" for q
    using disk_okD(1) [OF ok, of q] disk_okD(2) [OF ok] n
    by (cases "q = p") (auto simp: writer_ok_def target_ok_def open_tmp_def proceed_def)
  moreover have "target_ok new old (proceed p Writing (open_tmp p d))"
  proof -
    obtain i j where "names d Target = Some i" "i < next_inode d" "saved_names d Target = Some j" "j < next_inode d"
      "good new old (contents d i)" "good new old (saved_contents d i)"
      "good new old (contents d j)" "good new old (saved_contents d j)"
      using disk_okD(2) [OF ok] by (auto simp: target_ok_def)
    then show ?thesis using n
      by (auto simp: target_ok_def open_tmp_def proceed_def intro!: exI [of _ i] exI [of _ j])
  qed
  moreover have "apart (proceed p Writing (open_tmp p d))"
    unfolding apart_def
  proof (intro allI impI)
    fix q r
    have lt: "busy (write_pc d x) \<Longrightarrow> inode_of d x < next_inode d" for x
      using disk_okD(1) [OF ok, of x] by (simp add: writer_ok_def)
    assume "busy (write_pc (proceed p Writing (open_tmp p d)) q)" "busy (write_pc (proceed p Writing (open_tmp p d)) r)"
      "inode_of (proceed p Writing (open_tmp p d)) q = inode_of (proceed p Writing (open_tmp p d)) r"
    then show "q = r"
      using lt [of q] lt [of r] disk_okD(3) [OF ok] n
      by (auto simp: apart_def open_tmp_def proceed_def split: if_splits)
  qed
  ultimately show ?thesis by (simp add: disk_ok_def)
qed

text \<open>A step that changes only the text, seen or saved, of the inode of a busy process, and where it stands.\<close>

lemma inode_ok:
  assumes ok: "disk_ok new old d" and p: "busy (write_pc d p)" "busy c"
    and pc: "c = Writing \<longrightarrow> t = []" "c \<noteq> Writing \<longrightarrow> t = new p" "c \<in> {Closing, Renaming} \<longrightarrow> u = new p"
  shows "disk_ok new old (proceed p c (d\<lparr>contents := (contents d)(inode_of d p := t),
    saved_contents := (saved_contents d)(inode_of d p := u)\<rparr>))" (is "disk_ok new old ?d")
proof -
  have wp: "names d (Tmp p) = Some (inode_of d p)" "inode_of d p < next_inode d"
      "names d Target \<noteq> Some (inode_of d p)" "saved_names d Target \<noteq> Some (inode_of d p)"
    using disk_okD(1) [OF ok, of p] p(1) by (simp_all add: writer_ok_def)
  have "writer_ok new ?d q" for q
    using disk_okD(1) [OF ok, of q] other_inode [OF ok p(1), of q] wp p(2) pc
    by (cases "q = p") (auto simp: writer_ok_def proceed_def)
  moreover have "target_ok new old ?d"
    using disk_okD(2) [OF ok] wp by (auto simp: target_ok_def proceed_def)
  moreover have "apart ?d"
    using disk_okD(3) [OF ok] p by (auto simp: apart_def proceed_def)
  ultimately show ?thesis by (simp add: disk_ok_def)
qed

lemma rename_ok:
  assumes ok: "disk_ok new old d" and pc: "write_pc d p = Renaming"
  shows "disk_ok new old (proceed p Done (rename_tmp p d))" (is "disk_ok new old ?d")
proof -
  have wp: "names d (Tmp p) = Some (inode_of d p)" "inode_of d p < next_inode d"
      "contents d (inode_of d p) = new p" "saved_contents d (inode_of d p) = new p"
    using disk_okD(1) [OF ok, of p] pc by (simp_all add: writer_ok_def)
  have "writer_ok new ?d q" for q
    using disk_okD(1) [OF ok, of q] other_inode [OF ok _ , of p q] pc wp
    by (cases "q = p") (auto simp: writer_ok_def proceed_def rename_tmp_def)
  moreover have "target_ok new old ?d"
    using disk_okD(2) [OF ok] wp by (auto simp: target_ok_def proceed_def rename_tmp_def)
  moreover have "apart ?d"
    using disk_okD(3) [OF ok] by (auto simp: apart_def proceed_def rename_tmp_def)
  ultimately show ?thesis by (simp add: disk_ok_def)
qed

lemma call_ok:
  assumes ok: "disk_ok new old d"
  shows "disk_ok new old (atomic_write_call p (new p) d)"
proof (cases "write_pc d p")
  case Opening
  then show ?thesis using open_ok [OF ok] by (simp add: atomic_write_call.simps)
next
  case Writing
  then have "contents d (inode_of d p) = []" using disk_okD(1) [OF ok, of p] by (simp add: writer_ok_def)
  then show ?thesis
    using inode_ok [OF ok, of p Syncing "new p" "saved_contents d (inode_of d p)"] Writing
    by (simp add: atomic_write_call.simps)
next
  case Syncing
  then have "contents d (inode_of d p) = new p" using disk_okD(1) [OF ok, of p] by (simp add: writer_ok_def)
  then show ?thesis
    using inode_ok [OF ok, of p Closing "new p" "new p"] Syncing fun_upd_triv [of "contents d" "inode_of d p"]
    by (simp add: atomic_write_call.simps)
next
  case Closing
  then have "contents d (inode_of d p) = new p" "saved_contents d (inode_of d p) = new p"
    using disk_okD(1) [OF ok, of p] by (simp_all add: writer_ok_def)
  then show ?thesis
    using inode_ok [OF ok, of p Renaming "new p" "new p"] Closing fun_upd_triv [of "contents d" "inode_of d p"]
      fun_upd_triv [of "saved_contents d" "inode_of d p"]
    by (simp add: atomic_write_call.simps)
next
  case Renaming
  then show ?thesis using rename_ok [OF ok] by (simp add: atomic_write_call.simps)
next
  case Done
  then show ?thesis using ok by (simp add: atomic_write_call.simps)
qed

lemma disk_steps_ok: "disk_steps new d d' \<Longrightarrow> disk_ok new old d \<Longrightarrow> disk_ok new old d'"
  unfolding disk_steps_def
proof (induction rule: rtranclp_induct)
  case (step d' d'')
  from step.hyps(2) show ?case
    using step.IH [OF step.prems] by cases (auto intro: call_ok save_names_ok save_contents_ok)
qed simp

section \<open>Nothing torn\<close>

text \<open>C39. Whatever processes write at the same time, in whatever order their calls run, and wherever a crash comes:
  the file is there and has the text it had, or the whole text of one of the processes.\<close>

theorem atomic_write_never_torn:
  assumes "disk_steps new (old_disk old) d"
  shows "(\<exists>t. seen d = Some t \<and> t \<in> insert old (range new)) \<and> (\<exists>t. survives d = Some t \<and> t \<in> insert old (range new))"
  using disk_okD(2) [OF disk_steps_ok [OF assms old_disk_ok]]
  by (auto simp: target_ok_def seen_def survives_def good_def)

text \<open>A process alone that runs to the end has replaced the file.\<close>

definition write_alone :: "nat \<Rightarrow> string \<Rightarrow> disk \<Rightarrow> disk" where
  "write_alone p t d = (atomic_write_call p t ^^ 5) d"

lemma calls_steps: "disk_steps (\<lambda>_. t) d ((atomic_write_call p t ^^ n) d)"
proof (induction n)
  case (Suc n)
  have "disk_step (\<lambda>_. t) ((atomic_write_call p t ^^ n) d) (atomic_write_call p t ((atomic_write_call p t ^^ n) d))"
    by (rule disk_step.call)
  then show ?case using Suc by (simp add: disk_steps_def)
qed (simp add: disk_steps_def)

lemma write_alone_done: "seen (write_alone p t (old_disk old)) = Some t"
  by (simp add: write_alone_def eval_nat_numeral atomic_write_call.simps proceed_def open_tmp_def rename_tmp_def
      old_disk_def seen_def)

theorem atomic_write_never_torn_witness:
  "\<exists>t. survives (write_alone 7 ''new'' (old_disk ''old'')) = Some t \<and> t \<in> {''old'', ''new''}"
  using atomic_write_never_torn [OF calls_steps [where t = "''new''" and d = "old_disk ''old''" and p = 7 and n = 5]] by (auto simp: write_alone_def)

text \<open>Without \<^verbatim>\<open>fsync\<close> a crash after the renaming may leave an empty file.\<close>

definition write_unsynced :: "nat \<Rightarrow> string \<Rightarrow> disk \<Rightarrow> disk" where
  "write_unsynced p t d = atomic_write_call p t (proceed p Renaming (atomic_write_call p t (atomic_write_call p t d)))"

lemma unsynced_write_torn:
  "survives (write_unsynced p t (old_disk old)\<lparr>saved_names := names (write_unsynced p t (old_disk old))\<rparr>) = Some []"
  by (simp add: write_unsynced_def atomic_write_call.simps proceed_def open_tmp_def rename_tmp_def old_disk_def survives_def)

end
