(* ===== verification/Spec2Isabelle.thy ===== *)
theory Spec2Isabelle
  imports Period_Theorems Zero_Lifecycle Zero_Theorems Dispute_Theorems Sync_Theorems
    Catalog_Theorems System_Theorems Seed_Theorems Web_Theorems Shared_Types
    Serial_Guard Token_Rules_Theorems Token_Session_Theorems
    Doc_Theorems Atomic_Write
begin

text \<open>
  A model of CCIP, a platform for the control of construction works, and of what makes it correct: its server
  (\<^verbatim>\<open>src/apps/api/src\<close>, a NestJS application over a PostgreSQL data base), its web client
  (\<^verbatim>\<open>src/apps/web/src\<close>, a React application), the script that fills a new data base, and the scripts of
  \<^verbatim>\<open>tools/audit\<close> that govern the work on the repository.

  \<^bold>\<open>The program.\<close>  A construction object has a BoQ (its positions with planned volumes and contract
  values), a zero report (the volumes done before the platform), and reporting periods: the stroycontrol
  opens a period, the general contractor submits volumes under a token, the stroycontrol measures them,
  disputes are settled under deadlines, and the period is closed with a snapshot of the readiness.
  Devices work offline and synchronize batches of operations.  The pages of the client show the portfolio, an
  object and a period to the staff, and to the contractor the form behind a link.

  \<^bold>\<open>How it is modelled.\<close>  A service method is a function from the store to an outcome (an exception or a
  value) and the store it leaves: the type \<^verbatim>\<open>prog\<close> of \<open>CCIP_Prelude\<close>, with weakest preconditions
  (\<^verbatim>\<open>wp_simps\<close>) and the locale \<^verbatim>\<open>step_rel\<close>, the contract between a method and a relation its writes respect.
  The store \<open>db\<close> (\<open>Schema\<close>) has a list of records per table.  \<open>Store\<close> and \<open>Catalog_Store\<close> model the
  single-row writes of the Prisma client with the unique indexes, CHECK constraints and triggers of the
  migrations; \<open>Store_Invariant\<close> and \<open>Catalog_Invariant\<close> hold the invariants \<^verbatim>\<open>db_ok\<close> and \<^verbatim>\<open>catalog_ok\<close> and prove
  that every write keeps them.  A transaction that throws restores all tables but the audit log and the
  sequences, since the audit service writes on a connection of its own.

  \<^bold>\<open>The theories.\<close>
  \<^item> \<open>Period_Service\<close>, \<open>Work_Pace\<close>: \<^verbatim>\<open>modules/period/period.service.ts\<close> and \<^verbatim>\<open>modules/analytics/work-pace.service.ts\<close>;
    their properties in \<open>Period_Props\<close>, \<open>Period_Lifecycle\<close> (the state machine of a period) and \<open>Period_Theorems\<close>.
  \<^item> \<open>Zero_Report\<close>, \<open>Zero_Props\<close>, \<open>Zero_Lifecycle\<close>, \<open>Zero_Theorems\<close>: \<^verbatim>\<open>modules/zero-report\<close>.
  \<^item> \<open>Dispute_Sla\<close>, \<open>Dispute\<close>, \<open>Dispute_Props\<close>, \<open>Dispute_Theorems\<close>: \<^verbatim>\<open>modules/dispute-sla\<close> and
    \<^verbatim>\<open>modules/dispute\<close>, with the jobs of the queue and their delays.
  \<^item> \<open>Sync\<close>, \<open>Sync_Props\<close>, \<open>Sync_Theorems\<close>: \<^verbatim>\<open>modules/sync\<close>, with the archival.
  \<^item> \<open>Boq_Service\<close>, \<open>Boq_Props\<close>: \<^verbatim>\<open>modules/boq\<close>, \<^verbatim>\<open>modules/baseline\<close>.  \<open>Dashboard\<close>: the dashboard, its
    staleness and refresh, the configuration.  \<open>Objects\<close>: objects, participants, documents.  \<open>Auth\<close>:
    sessions, the guard of the contractor's token, the tenant filter.  Their properties are in
    \<open>Catalog_Props\<close> and \<open>Catalog_Theorems\<close>.
  \<^item> \<open>JS_Text\<close>: the string functions of JavaScript.  \<open>Sample_Store\<close>: the input of the witnesses.
  \<^item> \<open>Api\<close>: the controllers with their roles, the validation of bodies, the global guards, and \<^verbatim>\<open>handle\<close>,
    what a request does.
  \<^item> \<open>Period_Cycle\<close>: the abstract machine of the reporting cycle and the simulation lemmas.  \<open>System\<close>: the
    steps of the whole (requests, timers, archival, restarts, time) and the relation \<^verbatim>\<open>advances\<close> they all
    respect.  \<open>System_Theorems\<close>: what holds in every reachable state.
  \<^item> \<open>Health\<close>: the two probes.  \<open>Seed\<close>, \<open>Seed_Theorems\<close>: \<^verbatim>\<open>packages/database/prisma/seed.ts\<close>.  \<open>Shared_Types\<close>:
    the enumerations of \<^verbatim>\<open>packages/shared\<close>.
  \<^item> \<open>Web_Client\<close>: the storage of the browser, the API client and the keys of the cache
    (\<^verbatim>\<open>store/auth.ts\<close>, \<^verbatim>\<open>services/api.ts\<close>, \<^verbatim>\<open>hooks\<close>); a call is a request that \<^verbatim>\<open>handle\<close> answers.
    \<open>Gp_Form_Page\<close>, \<open>Period_Page\<close>, \<open>Object_Pages\<close>: the pages (\<^verbatim>\<open>pages\<close>), each with its state, its events and what
    it shows as a value.  \<open>Web_Routes\<close>: \<^verbatim>\<open>main.tsx\<close> and the frame.  \<open>Web_Props\<close>, \<open>Web_Period_Props\<close>,
    \<open>Web_Theorems\<close>: the pages against the server.  \<open>Client_Types\<close>: the types that \<^verbatim>\<open>services/api.ts\<close> declares and
    the answers of the server as JSON.
  \<^item> \<open>Serial_Guard\<close>: the lock between the test processes of \<^verbatim>\<open>tools/audit\<close>.
  \<^item> \<open>Token_Rules\<close>, \<open>Token_Rules_Props\<close>, \<open>Token_Rules_Theorems\<close>: the rules of the token auditor, how they are
    validated, counted, proposed and applied (\<^verbatim>\<open>audit-rules.js\<close>, \<^verbatim>\<open>token-rules-*.js\<close>, \<^verbatim>\<open>_lib/rules-io.js\<close>).
  \<^item> \<open>Token_Session\<close>, \<open>Token_Session_Theorems\<close>: \<^verbatim>\<open>token-session-record.js\<close>, \<^verbatim>\<open>_lib/token-estimate.js\<close>,
    \<^verbatim>\<open>rgs.js\<close>, \<^verbatim>\<open>adr-immutability.js\<close> and \<^verbatim>\<open>audit-suite.js\<close>.
  \<^item> \<open>JS_Regex\<close>, \<open>JS_Regex_Props\<close>: the regular expressions of JavaScript on code units: a matcher that backtracks in the
    order of the standard, shown to agree with an inductive relation, and the loop over \<^verbatim>\<open>exec\<close>.  \<open>Reference_Checks\<close>,
    \<open>Governance_Checks\<close>: the scripts of \<^verbatim>\<open>tools/audit\<close> that search the documents for references to files and sections
    and absolute paths, and those that check decisions, agents, roles, permissions and the change log; their
    properties are in \<open>Doc_Theorems\<close>.
  \<^item> \<open>Atomic_Write\<close>: how these scripts replace a file, with concurrent processes and crashes.

  \<^bold>\<open>What the theorems show.\<close>  For each method that writes, on every branch: what it requires, what it
  changes, that it changes nothing else, and what it leaves when it throws.  For the whole: the invariant
  of the store in every reachable state, the refinement of the reporting cycle, that history is kept,
  that readiness is a percentage, that nothing happens without authority.  For the client with its server:
  that the contractor's form sends what was typed and that it is recorded, that the button which closes a
  period is right about the server, that answers have the types the client declares, that navigation ends.
  For the seed script: what it leaves, and that it may be run again.  For the rules of the token auditor: the audit
  accepts exactly the partitions of the baseline, a delta is applied as a whole or not at all, what is proposed
  can be applied, and a promotion follows recorded savings.  For the checks of the documents: their loops end, and what
  they report; a file that is replaced is never torn.  Some theorems state that the
  code does not do what it means to: a baseline request can not be approved, the dashboard can not be
  read, a change of the contractor or a conflict of synchronization ends in an error, two overlapping
  writers or renewals of a session both succeed, a missed deadline blocks an object, and the contractor can not
  use the link.

  \<^bold>\<open>What is assumed.\<close>  Numbers are exact rationals where the code has doubles and the data base decimals;
  the clock does not move within one request; foreign keys to the authenticated user hold; requests run
  one after the other (the theorems on overlapping requests split a method at its transaction or
  statement).  Locks, random identifiers, dates written as text, cryptography, the collation and the
  object store are arguments of the definitions.  Of the client, Russian texts are constructors and dates stay
  dates; a field of numbers holds decimal texts; a query ends as its last attempt does.  The services use no fuel: their
  loops are over finite lists.  The loops over \<^verbatim>\<open>exec\<close> are partial functions, shown to end.  The flag \<^verbatim>\<open>i\<close> of a regular
  expression and changes of case concern the letters of ASCII and the Russian ones; names of agents are letters, digits
  and dashes.  Redirections of the router are followed by a terminating function, and two are
  shown to be enough.

  \<^bold>\<open>Not modelled.\<close>  Rate limits and the registration of jobs (calls of libraries), the wiring of the modules, the
  cache of the client, its styles and fixed texts, the generated Prisma client, and test code.  What the scripts of
  \<^verbatim>\<open>tools/audit\<close> print is left out but for what they complain of.
\<close>

end
